(* ===== verification/Prelude.thy ===== *)
theory Prelude imports Complex_Main "HOL-Library.Word" "HOL-Library.Product_Lexorder" begin

text \<open>
  Shared vocabulary of the development: Go error values, the result of a fallible call, Go's
  truncating integer division, and the facts on lists, sorting and options that several
  components use.
  Collections: \<open>tx_simps\<close> unfolds a database transaction statement by statement,
  \<open>row_simps\<close> holds the frame facts of table updates, \<open>status_simps\<close> the facts
  on the public status.
\<close>

named_theorems tx_simps
named_theorems row_simps
named_theorems status_simps

section \<open>Go errors and results\<close>

text \<open>
  An \<open>error\<close> of the Go code. \<open>Fault\<close> is a failure of the environment (a lost
  connection, a refused statement) with its text, \<open>Wrap\<close> is \<open>fmt.Errorf\<close> with
  \<open>%w\<close>, \<open>Msg\<close> an error made by the code itself, the rest are the conditions that
  PostgreSQL, pgx and the context package report.
\<close>

datatype err =
    Fault string
  | Canceled
  | NoRows
  | TxAborted
  | ForeignKey
  | Unique
  | CheckFailed
  | BadInput
  | OutOfRange
  | ScanNull
  | Msg string
  | Wrap string err

type_synonym 'a res = "err + 'a"

text \<open>\<open>errors.Is(err, context.Canceled)\<close> looks through the wrapping.\<close>

fun is_canceled :: "err \<Rightarrow> bool" where
  "is_canceled Canceled = True"
| "is_canceled (Wrap m e) = is_canceled e"
| "is_canceled _ = False"

definition wrap_err :: "string \<Rightarrow> 'a res \<Rightarrow> 'a res" where
  "wrap_err m r = (case r of Inl e \<Rightarrow> Inl (Wrap m e) | Inr x \<Rightarrow> Inr x)"

lemma wrap_err_simps [simp]:
  "wrap_err m (Inr x) = Inr x"
  "wrap_err m (Inl e) = Inl (Wrap m e)"
  "wrap_err m r = Inr x \<longleftrightarrow> r = Inr x"
  by (simp_all add: wrap_err_def split: sum.splits)

text \<open>
  \<open>err.Error()\<close>, for the errors whose text the program shows or stores; those of
  PostgreSQL only reach its log.
\<close>

fun err_text :: "err \<Rightarrow> string" where
  "err_text (Fault s) = s"
| "err_text (Msg s) = s"
| "err_text (Wrap s e) = s @ err_text e"
| "err_text Canceled = ''context canceled''"
| "err_text _ = []"

section \<open>Integers as Go has them\<close>

text \<open>Integer division that truncates towards zero.\<close>

definition go_quot :: "int \<Rightarrow> int \<Rightarrow> int" where
  "go_quot a b = sgn a * sgn b * (\<bar>a\<bar> div \<bar>b\<bar>)"

lemma go_quot_nonneg: "0 \<le> a \<Longrightarrow> 0 < b \<Longrightarrow> go_quot a b = a div b"
  by (cases "a = 0") (auto simp: go_quot_def)

text \<open>The range of a PostgreSQL \<open>integer\<close> column.\<close>

definition int4 :: "int \<Rightarrow> bool" where
  "int4 n \<longleftrightarrow> - (2 ^ 31) \<le> n \<and> n < 2 ^ 31"

section \<open>Lists\<close>

lemma sort_key_snoc_least:
  fixes f :: "'a \<Rightarrow> 'b::linorder"
  assumes "\<And>y. y \<in> set xs \<Longrightarrow> f x < f y"
  shows "sort_key f (xs @ [x]) = x # sort_key f xs"
  using assms
proof (induction xs)
  case Nil
  then show ?case by simp
next
  case (Cons a xs)
  then have "f x < f a" and "sort_key f (xs @ [x]) = x # sort_key f xs" by simp_all
  then show ?case by (auto dest: leD)
qed

lemma take_sort_key_subset: "set (take n (sort_key f xs)) \<subseteq> set xs"
  using set_take_subset [of n "sort_key f xs"] by simp

lemma length_filter_eq_all:
  "length (filter P xs) = length xs \<longleftrightarrow> (\<forall>x \<in> set xs. P x)"
  by (metis filter_id_conv filter_True length_filter_less less_irrefl)

lemma length_filter_take_all:
  assumes "length (filter P (take n xs)) = n"
  shows "n \<le> length xs \<and> (\<forall>x \<in> set (take n xs). P x)"
proof -
  have "length (filter P (take n xs)) \<le> length (take n xs)" by (rule length_filter_le)
  moreover have "length (take n xs) \<le> n" by simp
  ultimately have "length (take n xs) = n" using assms by linarith
  then have n: "n \<le> length xs" by simp
  from \<open>length (take n xs) = n\<close> assms have "length (filter P (take n xs)) = length (take n xs)" by simp
  then have "\<forall>x \<in> set (take n xs). P x" by (simp only: length_filter_eq_all)
  with n show ?thesis by simp
qed

lemma map_idem_outside: "x \<in> set xs \<Longrightarrow> \<not> P x \<Longrightarrow> x \<in> set (map (\<lambda>y. if P y then g y else y) xs)"
  by (auto simp: image_iff intro!: bexI [of _ x])

lemma find_append: "find P (xs @ ys) = (case find P xs of None \<Rightarrow> find P ys | Some x \<Rightarrow> Some x)"
  by (induction xs) auto

lemma distinct_map_eq_imp_eq:
  "distinct (map f xs) \<Longrightarrow> x \<in> set xs \<Longrightarrow> y \<in> set xs \<Longrightarrow> f x = f y \<Longrightarrow> x = y"
  by (auto simp: distinct_map dest: inj_onD)

lemma find_distinct:
  assumes "distinct (map f xs)" and "x \<in> set xs"
  shows "find (\<lambda>y. f y = f x) xs = Some x"
  using assms by (induction xs) (auto simp: image_iff)

end
