(* ===== verification/Domain.thy ===== *)
theory Domain imports Prelude begin

text \<open>
  The shared data of \<open>internal/domain/types.go\<close>: public statuses, probe outcomes, check
  results, servers, imported listings, incidents and player reports. Go's string-typed enums
  are datatypes with the texts the database and the pages use. An instant is the number of
  microseconds since 2000-01-01 00:00:00 UTC, which is how PostgreSQL stores a
  \<open>timestamptz\<close>; a \<open>time.Duration\<close> is its number of nanoseconds.
\<close>

type_synonym instant = int
type_synonym duration = int
type_synonym uuid = string

datatype PublicStatus = Operational | Degraded | Outage | Maintenance | Unknown

fun status_text :: "PublicStatus \<Rightarrow> string" where
  "status_text Operational = ''OPERATIONAL''"
| "status_text Degraded = ''DEGRADED''"
| "status_text Outage = ''OUTAGE''"
| "status_text Maintenance = ''MAINTENANCE''"
| "status_text Unknown = ''UNKNOWN''"

datatype Outcome =
    Success
  | DNSFailure
  | ConnectionRefused
  | ConnectTimeout
  | StatusTimeout
  | ConnectionReset
  | InvalidStatusResponse
  | ProbeError

fun outcome_text :: "Outcome \<Rightarrow> string" where
  "outcome_text Success = ''SUCCESS''"
| "outcome_text DNSFailure = ''DNS_FAILURE''"
| "outcome_text ConnectionRefused = ''CONNECTION_REFUSED''"
| "outcome_text ConnectTimeout = ''CONNECT_TIMEOUT''"
| "outcome_text StatusTimeout = ''STATUS_TIMEOUT''"
| "outcome_text ConnectionReset = ''CONNECTION_RESET''"
| "outcome_text InvalidStatusResponse = ''INVALID_STATUS_RESPONSE''"
| "outcome_text ProbeError = ''PROBE_ERROR''"

text \<open>
  A service-facing failure: neither \<open>SUCCESS\<close> nor \<open>PROBE_ERROR\<close>, as the
  queries write it.
\<close>

definition is_failure :: "Outcome \<Rightarrow> bool" where
  "is_failure x \<longleftrightarrow> x \<noteq> Success \<and> x \<noteq> ProbeError"

lemma is_failure_simps [simp]:
  "\<not> is_failure Success" "\<not> is_failure ProbeError"
  by (simp_all add: is_failure_def)

record CheckResult =
  cr_Outcome :: Outcome
  cr_Latency :: duration
  cr_PlayersOnline :: int
  cr_PlayersMax :: int
  cr_Detail :: string
  cr_At :: instant

record Server =
  srv_ID :: uuid
  srv_Name :: string
  srv_Hostname :: string
  srv_Port :: int
  srv_Status :: PublicStatus
  srv_Transport :: string
  srv_Enabled :: bool

record ServerMember =
  mem_DiscordUserID :: string
  mem_Role :: string

record ImportedServer =
  imp_ExternalID :: string
  imp_Name :: string
  imp_Hostname :: string
  imp_Port :: int
  imp_Transport :: string
  imp_Members :: "ServerMember list"

text \<open>
  \<open>ServerSnapshot\<close>: the zero time, the empty outcome and the zero latency of Go, which
  stand for "no check yet", are \<open>None\<close>.
\<close>

record ServerSnapshot =
  snap_Server :: Server
  snap_LastCheckedAt :: "instant option"
  snap_LastOutcome :: "Outcome option"
  snap_Latency :: "duration option"

record Incident =
  inc_ID :: uuid
  inc_ServerID :: uuid
  inc_State :: string
  inc_Reason :: Outcome
  inc_StartedAt :: instant
  inc_ConfirmedAt :: instant
  inc_ResolvedAt :: "instant option"

text \<open>
  A report's type is text that a player sent: \<open>report_types\<close> are the five constants.
\<close>

type_synonym UserReportType = string

definition report_types :: "UserReportType list" where
  "report_types = [''CONNECTION'', ''LOGIN'', ''TIMEOUT'', ''LAG'', ''OTHER'']"

record UserReport =
  rep_ServerID :: string
  rep_ReporterHash :: string
  rep_Detail :: string
  rep_Type :: UserReportType
  rep_At :: instant

record CrowdSignal =
  sig_Reports :: int
  sig_Baseline :: int
  sig_Threshold :: int
  sig_Anomalous :: bool

record PendingStateNotification =
  pn_ID :: nat
  pn_Server :: Server
  pn_State :: PublicStatus
  pn_Result :: CheckResult

record RetentionStats =
  RawDeleted :: nat
  FifteenMinuteDeleted :: nat
  HourlyDeleted :: nat

lemma status_text_inj [simp]: "status_text a = status_text b \<longleftrightarrow> a = b"
  by (cases a; cases b) simp_all

lemma outcome_text_inj [simp]: "outcome_text a = outcome_text b \<longleftrightarrow> a = b"
  by (cases a; cases b) simp_all

end
