(* ===== verification/Policy.thy ===== *)
theory Policy imports Domain begin

text \<open>
  The v1 state policy, twice. \<open>v1_next\<close> is the contract of
  \<open>docs/v1-requirements.md\<close> as a function of the current public status and the
  history of outcomes (latest first): three failures in a row open an outage, two successes in
  a row close it, a probe error makes the status unknown. The locale \<open>v1_policy\<close> is the
  interface of a component that keeps a public status and takes one observation at a time; its
  law is a simulation by \<open>v1_next\<close>, and what follows from the contract is proved in it
  once. \<open>Machine\<close> and \<open>Apply\<close> translate \<open>internal/incident/machine.go\<close>
  and interpret the locale; \<open>Checks\<close> interprets it again on the database.
\<close>

section \<open>The contract\<close>

definition last_all :: "nat \<Rightarrow> ('a \<Rightarrow> bool) \<Rightarrow> 'a list \<Rightarrow> bool" where
  "last_all n P h \<longleftrightarrow> length (filter P (take n h)) = n"

definition v1_next :: "PublicStatus \<Rightarrow> Outcome list \<Rightarrow> PublicStatus" where
  "v1_next q h = (case h of
       [] \<Rightarrow> q
     | x # _ \<Rightarrow>
         if x = ProbeError then Unknown
         else if x = Success then
           (if q = Outage then (if last_all 2 (\<lambda>y. y = Success) h then Operational else Outage)
            else Operational)
         else if q = Outage then Outage
         else if last_all 3 is_failure h then Outage
         else q)"

fun v1_run :: "PublicStatus \<Rightarrow> Outcome list \<Rightarrow> Outcome list \<Rightarrow> PublicStatus \<times> bool list" where
  "v1_run q h [] = (q, [])"
| "v1_run q h (x # xs) =
     (let q' = v1_next q (x # h); (q'', cs) = v1_run q' (x # h) xs in (q'', (q' \<noteq> q) # cs))"

fun observe_all :: "('r \<Rightarrow> 's \<Rightarrow> bool \<times> 's) \<Rightarrow> 'r list \<Rightarrow> 's \<Rightarrow> bool list \<times> 's" where
  "observe_all f [] s = ([], s)"
| "observe_all f (r # rs) s =
     (let (c, s') = f r s; (cs, s'') = observe_all f rs s' in (c # cs, s''))"

fun all_ok :: "('r \<Rightarrow> 's \<Rightarrow> bool) \<Rightarrow> ('r \<Rightarrow> 's \<Rightarrow> bool \<times> 's) \<Rightarrow> 'r list \<Rightarrow> 's \<Rightarrow> bool" where
  "all_ok ok f [] s = True"
| "all_ok ok f (r # rs) s = (ok r s \<and> all_ok ok f rs (snd (f r s)))"

lemma all_ok_conj:
  "all_ok (\<lambda>r s. P r \<and> Q r s) f rs s \<longleftrightarrow> list_all P rs \<and> all_ok Q f rs s"
  by (induction rs arbitrary: s) auto

lemma last_all_takeWhile: "last_all n P h \<longleftrightarrow> n \<le> length (takeWhile P h)"
  unfolding last_all_def
proof (induction n arbitrary: h)
  case 0
  then show ?case by simp
next
  case (Suc n)
  show ?case
  proof (cases h)
    case Nil
    then show ?thesis by simp
  next
    case (Cons x xs)
    have "length (filter P (take n xs)) \<le> n"
      using length_filter_le [of P "take n xs"] by simp
    then show ?thesis using Suc [of xs] Cons by auto
  qed
qed

lemma last_all_hd: "last_all (Suc n) P (x # h) \<Longrightarrow> P x"
  by (auto simp: last_all_takeWhile split: if_splits)

lemma v1_next_simps [status_simps]:
  "v1_next q [] = q"
  "v1_next q (ProbeError # h) = Unknown"
  "q \<noteq> Outage \<Longrightarrow> v1_next q (Success # h) = Operational"
  "v1_next Outage (Success # h) =
     (if last_all 2 (\<lambda>y. y = Success) (Success # h) then Operational else Outage)"
  "is_failure x \<Longrightarrow> v1_next Outage (x # h) = Outage"
  "is_failure x \<Longrightarrow> v1_next q (x # h) = (if q = Outage \<or> last_all 3 is_failure (x # h) then Outage else q)"
  by (auto simp: v1_next_def is_failure_def)

lemma v1_next_Outage:
  "v1_next q h = Outage \<Longrightarrow> q \<noteq> Outage \<Longrightarrow> last_all 3 is_failure h"
  by (auto simp: v1_next_def split: list.splits if_splits)

lemma v1_next_leaves_Outage:
  "v1_next Outage h \<noteq> Outage \<Longrightarrow>
     (v1_next Outage h = Unknown \<and> hd h = ProbeError) \<or>
     (v1_next Outage h = Operational \<and> last_all 2 (\<lambda>y. y = Success) h)"
  by (auto simp: v1_next_def split: list.splits if_splits)

section \<open>The interface of a status keeper\<close>

text \<open>
  \<open>observe r s\<close> takes an observation and tells whether the public status changed;
  \<open>R s q h\<close> relates the keeper's state to the status \<open>q\<close> and the history
  \<open>h\<close> it stands for; \<open>ok r s\<close> is what the keeper needs of an observation.
\<close>

locale v1_policy =
  fixes observe :: "'r \<Rightarrow> 's \<Rightarrow> bool \<times> 's"
    and outcome :: "'r \<Rightarrow> Outcome"
    and view :: "'s \<Rightarrow> PublicStatus"
    and R :: "'s \<Rightarrow> PublicStatus \<Rightarrow> Outcome list \<Rightarrow> bool"
    and ok :: "'r \<Rightarrow> 's \<Rightarrow> bool"
  assumes view_R: "R s q h \<Longrightarrow> view s = q"
    and sim_state: "R s q h \<Longrightarrow> ok r s \<Longrightarrow>
      R (snd (observe r s)) (v1_next q (outcome r # h)) (outcome r # h)"
    and sim_changed: "R s q h \<Longrightarrow> ok r s \<Longrightarrow>
      fst (observe r s) \<longleftrightarrow> v1_next q (outcome r # h) \<noteq> q"
begin

lemma view_step: "R s q h \<Longrightarrow> ok r s \<Longrightarrow> view (snd (observe r s)) = v1_next q (outcome r # h)"
  by (rule view_R, rule sim_state)

lemma run_sim:
  "R s q h \<Longrightarrow> all_ok ok observe rs s \<Longrightarrow>
     fst (observe_all observe rs s) = snd (v1_run q h (map outcome rs)) \<and>
     view (snd (observe_all observe rs s)) = fst (v1_run q h (map outcome rs))"
proof (induction rs arbitrary: s q h)
  case Nil
  then show ?case by (simp add: view_R)
next
  case (Cons r rs)
  then have ok: "ok r s" by simp
  note st = sim_state [OF Cons.prems(1) ok] and ch = sim_changed [OF Cons.prems(1) ok]
  from Cons.IH [OF st] Cons.prems(2) show ?case
    by (auto simp: ch [symmetric] Let_def split: prod.splits)
qed

lemma run_related:
  "R s q h \<Longrightarrow> all_ok ok observe rs s \<Longrightarrow>
     R (snd (observe_all observe rs s)) (fst (v1_run q h (map outcome rs))) (rev (map outcome rs) @ h)"
proof (induction rs arbitrary: s q h)
  case Nil
  then show ?case by simp
next
  case (Cons r rs)
  then have ok: "ok r s" by simp
  from Cons.IH [OF sim_state [OF Cons.prems(1) ok]] Cons.prems(2) show ?case
    by (auto simp: Let_def split: prod.splits)
qed

lemma outage_confirmed:
  assumes "R s q h" and "ok r s" and "view s \<noteq> Outage" and "view (snd (observe r s)) = Outage"
  shows "fst (observe r s) \<and> last_all 3 is_failure (outcome r # h)"
proof -
  from assms have "q \<noteq> Outage" and "v1_next q (outcome r # h) = Outage"
    using view_R view_step by auto
  then show ?thesis
    using sim_changed [OF assms(1,2)] v1_next_Outage by auto
qed

lemma recovery_confirmed:
  assumes "R s q h" and "ok r s" and "view s = Outage" and "view (snd (observe r s)) = Operational"
  shows "fst (observe r s) \<and> last_all 2 (\<lambda>y. y = Success) (outcome r # h)"
proof -
  from assms have "q = Outage" and "v1_next q (outcome r # h) = Operational"
    using view_R view_step by auto
  then show ?thesis
    using sim_changed [OF assms(1,2)] v1_next_leaves_Outage [of "outcome r # h"] by auto
qed

lemma changed_iff:
  "R s q h \<Longrightarrow> ok r s \<Longrightarrow> fst (observe r s) \<longleftrightarrow> view (snd (observe r s)) \<noteq> view s"
  using sim_changed view_step view_R by auto

end

section \<open>The counting machine of internal/incident\<close>

record Machine =
  failures :: nat
  successes :: nat
  state :: PublicStatus

definition New :: "PublicStatus \<Rightarrow> Machine" where
  "New s = \<lparr>failures = 0, successes = 0, state = s\<rparr>"

definition State :: "Machine \<Rightarrow> PublicStatus" where
  "State m = state m"

definition Apply :: "Machine \<Rightarrow> CheckResult \<Rightarrow> PublicStatus \<times> bool \<times> Machine" where
  "Apply m r =
     (if cr_Outcome r = ProbeError then
        (Unknown, state m \<noteq> Unknown, m\<lparr>state := Unknown, failures := 0, successes := 0\<rparr>)
      else if cr_Outcome r = Success then
        (let m = m\<lparr>failures := 0\<rparr> in
         if state m = Outage then
           (let m = m\<lparr>successes := successes m + 1\<rparr> in
            if successes m < 2 then (state m, False, m)
            else (Operational, True, m\<lparr>state := Operational, successes := 0\<rparr>))
         else
           (let m = m\<lparr>successes := 0\<rparr> in
            if state m \<noteq> Operational then (Operational, True, m\<lparr>state := Operational\<rparr>)
            else (state m, False, m)))
      else
        (let m = m\<lparr>successes := 0, failures := failures m + 1\<rparr> in
         if 3 \<le> failures m \<and> state m \<noteq> Outage then (Outage, True, m\<lparr>state := Outage\<rparr>)
         else (state m, False, m)))"

definition machine_observe :: "CheckResult \<Rightarrow> Machine \<Rightarrow> bool \<times> Machine" where
  "machine_observe r m = snd (Apply m r)"

definition machine_R :: "Machine \<Rightarrow> PublicStatus \<Rightarrow> Outcome list \<Rightarrow> bool" where
  "machine_R m q h \<longleftrightarrow> state m = q
     \<and> failures m = length (takeWhile is_failure h)
     \<and> successes m = (if q = Outage then length (takeWhile (\<lambda>y. y = Success) h) else 0)"

lemma machine_R_New: "machine_R (New q) q []"
  by (simp add: machine_R_def New_def)

lemma Apply_state: "fst (Apply m r) = State (snd (snd (Apply m r)))"
  by (simp add: Apply_def State_def Let_def)

lemma machine_step:
  assumes "machine_R m q h"
  shows "machine_R (snd (machine_observe r m)) (v1_next q (cr_Outcome r # h)) (cr_Outcome r # h)
    \<and> (fst (machine_observe r m) \<longleftrightarrow> v1_next q (cr_Outcome r # h) \<noteq> q)"
proof -
  consider "cr_Outcome r = ProbeError" | "cr_Outcome r = Success" | "is_failure (cr_Outcome r)"
    by (auto simp: is_failure_def)
  then show ?thesis
  proof cases
    case 1
    with assms show ?thesis
      by (auto simp: machine_R_def machine_observe_def Apply_def v1_next_def)
  next
    case 2
    with assms show ?thesis
      by (cases "takeWhile (\<lambda>y. y = Success) h")
        (auto simp: machine_R_def machine_observe_def Apply_def v1_next_def last_all_takeWhile Let_def)
  next
    case 3
    with assms show ?thesis
      by (auto simp: machine_R_def machine_observe_def Apply_def v1_next_def last_all_takeWhile
          is_failure_def Let_def)
  qed
qed

interpretation machine: v1_policy machine_observe cr_Outcome State machine_R "\<lambda>r m. True"
proof unfold_locales
  fix s q h
  show "machine_R s q h \<Longrightarrow> State s = q" by (simp add: machine_R_def State_def)
qed (simp_all add: machine_step)

end
