(* ===== verification/Instants.thy ===== *)
theory Instants imports Domain begin

text \<open>
  The date arithmetic that the queries of \<open>internal/store/postgres.go\<close> use, on instants
  in microseconds since 2000-01-01 00:00:00 UTC and with the session time zone UTC (the image's
  default, which no file of the deployment changes): \<open>date_bin\<close> with its 2000-01-01
  origin, \<open>date_trunc\<close>, the cast to \<open>date\<close> and \<open>extract\<close>.
\<close>

definition second_us :: int where "second_us = 1000000"
definition minute_us :: int where "minute_us = 60000000"
definition quarter_us :: int where "quarter_us = 900000000"
definition hour_us :: int where "hour_us = 3600000000"
definition day_us :: int where "day_us = 86400000000"

lemmas us_defs = second_us_def minute_us_def quarter_us_def hour_us_def day_us_def

definition bin :: "int \<Rightarrow> instant \<Rightarrow> instant" where
  "bin w t = t - t mod w"

definition date_bin15 :: "instant \<Rightarrow> instant" where
  "date_bin15 t = bin quarter_us t"

definition trunc_hour :: "instant \<Rightarrow> instant" where
  "trunc_hour t = bin hour_us t"

definition trunc_day :: "instant \<Rightarrow> instant" where
  "trunc_day t = bin day_us t"

text \<open>\<open>t::date\<close>, as the number of days since 2000-01-01.\<close>

definition date_of :: "instant \<Rightarrow> int" where
  "date_of t = t div day_us"

text \<open>2000-01-01 was a Saturday, which \<open>extract(dow)\<close> numbers 6.\<close>

definition extract_dow :: "instant \<Rightarrow> int" where
  "extract_dow t = (t div day_us + 6) mod 7"

definition extract_hour :: "instant \<Rightarrow> int" where
  "extract_hour t = (t mod day_us) div hour_us"

definition extract_minute :: "instant \<Rightarrow> int" where
  "extract_minute t = (t mod hour_us) div minute_us"

lemma bin_le: "0 < w \<Longrightarrow> bin w t \<le> t"
  by (simp add: bin_def)

lemma bin_gt: "0 < w \<Longrightarrow> t < bin w t + w"
  using pos_mod_bound [of w t] by (simp add: bin_def)

lemma bin_idem [simp]: "bin w (bin w t) = bin w t"
  by (simp add: bin_def mod_diff_right_eq)

lemma bin_dvd: "w dvd bin w t"
  by (simp add: bin_def dvd_minus_mod)

lemma bin_eq_iff:
  assumes "0 < w" and "w dvd b"
  shows "bin w t = b \<longleftrightarrow> b \<le> t \<and> t < b + w"
proof
  assume "bin w t = b"
  then show "b \<le> t \<and> t < b + w" using bin_le bin_gt assms(1) by metis
next
  assume r: "b \<le> t \<and> t < b + w"
  from assms(2) obtain k where k: "b = w * k" by (rule dvdE)
  have "(t - b) mod w = t mod w" using k mod_mult_self2 [of t w "- k"] by simp
  moreover have "(t - b) mod w = t - b" using r by simp
  ultimately show "bin w t = b" by (simp add: bin_def)
qed

lemma bin_aligned: "w dvd t \<Longrightarrow> bin w t = t"
  by (simp add: bin_def)

lemma bin_mono_strict: "0 < w \<Longrightarrow> w dvd c \<Longrightarrow> t < c \<longleftrightarrow> bin w t < c"
proof
  assume "0 < w" and "w dvd c" and "t < c"
  then show "bin w t < c" using bin_le le_less_trans by blast
next
  assume w: "0 < w" and c: "w dvd c" and b: "bin w t < c"
  from bin_dvd [of w t] c have "w dvd c - bin w t" by simp
  with b have "w \<le> c - bin w t" by (simp add: zdvd_imp_le)
  with bin_gt [OF w, of t] show "t < c" by linarith
qed

end
