(* ===== verification/Crowd.thy ===== *)
theory Crowd imports Instants begin

text \<open>
  The crowd signal of \<open>internal/crowd/crowd.go\<close>. The baseline is the average of at most
  four daily counts (the query of \<open>crowdSignal\<close>, see the theory \<open>Signals\<close>), so
  it is a fraction with a denominator of at most 4; the \<open>float64\<close> product with 3 and the
  ceiling are exact on such fractions up to \<open>2^50\<close> and the model computes them in the
  rationals.
\<close>

record Signal =
  Reports :: int
  Baseline :: int
  Threshold :: int
  Anomalous :: bool

text \<open>\<open>math.Round\<close> rounds half away from zero.\<close>

definition go_round :: "rat \<Rightarrow> int" where
  "go_round x = (if 0 \<le> x then \<lfloor>x + 1 / 2\<rfloor> else - \<lfloor>1 / 2 - x\<rfloor>)"

definition Evaluate :: "int \<Rightarrow> rat \<Rightarrow> Signal" where
  "Evaluate reports baseline =
     (let threshold = \<lceil>baseline * 3\<rceil> + 2;
          threshold = (if threshold < 3 then 3 else threshold)
      in \<lparr>Reports = reports, Baseline = go_round baseline, Threshold = threshold,
          Anomalous = (threshold \<le> reports)\<rparr>)"

lemma Evaluate_simps [simp]:
  "Reports (Evaluate n b) = n"
  "Baseline (Evaluate n b) = go_round b"
  "Threshold (Evaluate n b) = max 3 (\<lceil>b * 3\<rceil> + 2)"
  "Anomalous (Evaluate n b) \<longleftrightarrow> max 3 (\<lceil>b * 3\<rceil> + 2) \<le> n"
  by (auto simp: Evaluate_def Let_def max_def)

lemma Evaluate_needs_three: "Anomalous (Evaluate n b) \<Longrightarrow> 3 \<le> n"
  by simp

lemma Evaluate_margin: "Anomalous (Evaluate n b) \<Longrightarrow> b * 3 + 2 \<le> of_int n"
proof -
  assume "Anomalous (Evaluate n b)"
  then have "\<lceil>b * 3\<rceil> \<le> n - 2" by simp
  then have "b * 3 \<le> of_int (n - 2)" by (simp add: ceiling_le_iff)
  then show ?thesis by simp
qed

text \<open>
  The documented rule (three reports, three times the baseline, a margin of two reports) and
  the computed threshold are the same condition.
\<close>

lemma Evaluate_iff: "Anomalous (Evaluate n b) \<longleftrightarrow> 3 \<le> n \<and> b * 3 + 2 \<le> of_int n"
proof
  assume "3 \<le> n \<and> b * 3 + 2 \<le> of_int n"
  then have "b * 3 \<le> of_int (n - 2)" by simp
  then have "\<lceil>b * 3\<rceil> \<le> n - 2" by (simp only: ceiling_le_iff)
  with \<open>3 \<le> n \<and> _\<close> show "Anomalous (Evaluate n b)" by simp
qed (use Evaluate_needs_three Evaluate_margin in blast)

lemma Evaluate_mono:
  "Anomalous (Evaluate n b) \<Longrightarrow> n \<le> n' \<Longrightarrow> b' \<le> b \<Longrightarrow> Anomalous (Evaluate n' b')"
proof -
  assume a: "Anomalous (Evaluate n b)" and n: "n \<le> n'" and b: "b' \<le> b"
  from a have "3 \<le> n" and m: "b * 3 + 2 \<le> of_int n" by (simp_all only: Evaluate_iff)
  moreover have "(of_int n :: rat) \<le> of_int n'" using n by simp
  ultimately show ?thesis using n b by (simp only: Evaluate_iff) linarith
qed

end
