(* ===== verification/Database.thy ===== *)
theory Database imports Instants begin

text \<open>
  Monitor's PostgreSQL state, from \<open>migrations/*.sql\<close>: one record type per table, the
  database as the lists of their rows in insertion order, and the constraints the schema
  declares. Then transactions as \<open>internal/store/postgres.go\<close> uses them: a statement
  works on the transaction's copy of the database, a failed one aborts it, and
  \<open>transact\<close> keeps the copy on a commit and drops it on every error.
  The environment of a call (\<open>pgenv\<close>) is what PostgreSQL brings: the transaction's time,
  the parser of \<open>uuid\<close> texts, a generated uuid, the collation of texts (an order of
  the countable set of texts, so a key in the rationals), and which of its statements fail; a
  text that PostgreSQL refuses (invalid UTF-8, a NUL byte) is such a failure. The values that a
  sequence skips on a rollback or a conflict are not modelled.
\<close>

section \<open>Tables\<close>

record server_row =
  sv_id :: uuid
  sv_source :: string
  sv_extid :: string
  sv_name :: string
  sv_hostname :: string
  sv_port :: int
  sv_transport :: string
  sv_status :: PublicStatus
  sv_enabled :: bool
  sv_changed_at :: instant
  sv_created_at :: instant
  sv_updated_at :: instant

record check_row =
  ck_id :: nat
  ck_server :: uuid
  ck_at :: instant
  ck_outcome :: Outcome
  ck_latency :: "int option"
  ck_online :: int
  ck_max :: int
  ck_detail :: "string option"

datatype incident_state = OPEN | RESOLVED

record incident_row =
  in_id :: uuid
  in_server :: uuid
  in_state :: incident_state
  in_reason :: Outcome
  in_started :: instant
  in_confirmed :: instant
  in_recovery :: "instant option"
  in_resolved :: "instant option"

record member_row =
  mb_server :: uuid
  mb_user :: string
  mb_role :: string
  mb_source :: string

record channel_row =
  ch_server :: uuid
  ch_channel :: string
  ch_enabled :: bool

record window_row =
  mw_id :: uuid
  mw_server :: uuid
  mw_starts :: instant
  mw_ends :: instant
  mw_by :: string

record agg_row =
  ag_server :: uuid
  ag_start :: instant
  ag_total :: int
  ag_successful :: int
  ag_excluded :: int
  ag_latency_avg :: "int option"
  ag_latency_max :: "int option"

record daily_row =
  dy_server :: uuid
  dy_day :: int
  dy_total :: int
  dy_successful :: int
  dy_excluded :: int
  dy_uptime :: "rat option"

record report_row =
  ur_id :: nat
  ur_server :: uuid
  ur_at :: instant
  ur_day :: int
  ur_type :: UserReportType
  ur_hash :: string
  ur_detail :: string

record report_agg_row =
  ra_server :: uuid
  ra_start :: instant
  ra_total :: int
  ra_connection :: int
  ra_login :: int
  ra_timeout :: int
  ra_lag :: int
  ra_other :: int

record note_row =
  nt_id :: nat
  nt_server :: uuid
  nt_state :: PublicStatus
  nt_outcome :: Outcome
  nt_created :: instant
  nt_delivered :: "instant option"

record db =
  servers :: "server_row list"
  checks :: "check_row list"
  incidents :: "incident_row list"
  members :: "member_row list"
  channels :: "channel_row list"
  windows :: "window_row list"
  aggs15 :: "agg_row list"
  aggsH :: "agg_row list"
  dailies :: "daily_row list"
  reports :: "report_row list"
  report_aggs :: "report_agg_row list"
  notifs :: "note_row list"
  next_check :: nat
  next_report :: nat
  next_note :: nat

definition empty_db :: db where
  "empty_db = \<lparr>servers = [], checks = [], incidents = [], members = [], channels = [],
     windows = [], aggs15 = [], aggsH = [], dailies = [], reports = [], report_aggs = [],
     notifs = [], next_check = 1, next_report = 1, next_note = 1\<rparr>"

definition transport_kinds :: "string list" where
  "transport_kinds = [''DIRECT'', ''CLOUDFLARE_TUNNEL'', ''CLOUDFLARE_SPECTRUM'']"

definition member_roles :: "string list" where
  "member_roles = [''owner'', ''manager'', ''viewer'']"

definition has_server :: "db \<Rightarrow> uuid \<Rightarrow> bool" where
  "has_server d u \<longleftrightarrow> u \<in> set (map sv_id (servers d))"

text \<open>The primary keys, unique keys, foreign keys and checks of the schema.\<close>

definition servers_ok :: "db \<Rightarrow> bool" where
  "servers_ok d \<longleftrightarrow>
     distinct (map sv_id (servers d)) \<and>
     distinct (map (\<lambda>s. (sv_source s, sv_extid s)) (servers d)) \<and>
     list_all (\<lambda>s. 1 \<le> sv_port s \<and> sv_port s \<le> 65535 \<and> sv_transport s \<in> set transport_kinds) (servers d)"

definition checks_ok :: "db \<Rightarrow> bool" where
  "checks_ok d \<longleftrightarrow>
     distinct (map ck_id (checks d)) \<and>
     list_all (\<lambda>c. has_server d (ck_server c) \<and> ck_id c < next_check d) (checks d)"

definition incidents_ok :: "db \<Rightarrow> bool" where
  "incidents_ok d \<longleftrightarrow>
     distinct (map in_id (incidents d)) \<and>
     list_all (\<lambda>i. has_server d (in_server i)) (incidents d)"

definition members_ok :: "db \<Rightarrow> bool" where
  "members_ok d \<longleftrightarrow>
     distinct (map (\<lambda>m. (mb_server m, mb_user m)) (members d)) \<and>
     list_all (\<lambda>m. has_server d (mb_server m) \<and> mb_role m \<in> set member_roles) (members d)"

definition channels_ok :: "db \<Rightarrow> bool" where
  "channels_ok d \<longleftrightarrow>
     distinct (map ch_server (channels d)) \<and> distinct (map ch_channel (channels d)) \<and>
     list_all (\<lambda>c. has_server d (ch_server c)) (channels d)"

definition windows_ok :: "db \<Rightarrow> bool" where
  "windows_ok d \<longleftrightarrow>
     distinct (map mw_id (windows d)) \<and>
     list_all (\<lambda>w. has_server d (mw_server w) \<and> mw_starts w < mw_ends w) (windows d)"

definition reports_ok :: "db \<Rightarrow> bool" where
  "reports_ok d \<longleftrightarrow>
     distinct (map ur_id (reports d)) \<and>
     distinct (map (\<lambda>r. (ur_server r, ur_hash r, ur_day r)) (reports d)) \<and>
     list_all (\<lambda>r. has_server d (ur_server r) \<and> ur_id r < next_report d \<and>
       ur_type r \<in> set report_types \<and> ur_day r = date_of (ur_at r)) (reports d)"

definition notifs_ok :: "db \<Rightarrow> bool" where
  "notifs_ok d \<longleftrightarrow>
     distinct (map nt_id (notifs d)) \<and>
     list_all (\<lambda>n. has_server d (nt_server n) \<and> nt_id n < next_note d) (notifs d)"

definition db_ok :: "db \<Rightarrow> bool" where
  "db_ok d \<longleftrightarrow> servers_ok d \<and> checks_ok d \<and> incidents_ok d \<and> members_ok d \<and> channels_ok d
     \<and> windows_ok d \<and> reports_ok d \<and> notifs_ok d"

lemmas table_ok_defs = servers_ok_def checks_ok_def incidents_ok_def members_ok_def
  channels_ok_def windows_ok_def reports_ok_def notifs_ok_def

lemma empty_db_ok: "db_ok empty_db"
  by (simp add: db_ok_def table_ok_defs empty_db_def)

text \<open>Every check of the schema only asks for servers to be there: \<open>has_server\<close> is a frame.\<close>

lemma has_server_cong:
  "map sv_id (servers d') = map sv_id (servers d) \<Longrightarrow> has_server d' u = has_server d u"
  by (simp add: has_server_def)

section \<open>Transactions\<close>

record pgenv =
  pg_now :: instant
  pg_uuid_in :: "string \<Rightarrow> uuid option"
  pg_fresh :: uuid
  pg_rank :: "string \<Rightarrow> rat"
  pg_fault :: "nat \<Rightarrow> err option"

record txs =
  tx_db :: db
  tx_aborted :: bool

type_synonym 'a tx = "txs \<Rightarrow> 'a res \<times> txs"

definition tx_return :: "'a \<Rightarrow> 'a tx" where
  "tx_return x s = (Inr x, s)"

definition tx_fail :: "err \<Rightarrow> 'a tx" where
  "tx_fail e s = (Inl e, s)"

definition tx_bind :: "'a tx \<Rightarrow> ('a \<Rightarrow> 'b tx) \<Rightarrow> 'b tx" where
  "tx_bind m f s = (case m s of (Inl e, s') \<Rightarrow> (Inl e, s') | (Inr x, s') \<Rightarrow> f x s')"

definition tx_wrap :: "string \<Rightarrow> 'a tx \<Rightarrow> 'a tx" where
  "tx_wrap t m s = (case m s of (r, s') \<Rightarrow> (wrap_err t r, s'))"

text \<open>
  Statement \<open>k\<close> of a call: refused when the transaction is aborted, failed by the
  environment, failed by a constraint or a cast (\<open>q\<close> returns \<open>Inl\<close>), or run.
  Either failure aborts the transaction.
\<close>

definition statement :: "pgenv \<Rightarrow> nat \<Rightarrow> (db \<Rightarrow> ('a \<times> db) res) \<Rightarrow> 'a tx" where
  "statement e k q s =
     (if tx_aborted s then (Inl TxAborted, s)
      else case pg_fault e k of
        Some x \<Rightarrow> (Inl x, s\<lparr>tx_aborted := True\<rparr>)
      | None \<Rightarrow> (case q (tx_db s) of
          Inl x \<Rightarrow> (Inl x, s\<lparr>tx_aborted := True\<rparr>)
        | Inr (x, d) \<Rightarrow> (Inr x, s\<lparr>tx_db := d\<rparr>)))"

definition select :: "pgenv \<Rightarrow> nat \<Rightarrow> (db \<Rightarrow> 'a res) \<Rightarrow> 'a tx" where
  "select e k q = statement e k (\<lambda>d. case q d of Inl x \<Rightarrow> Inl x | Inr x \<Rightarrow> Inr (x, d))"

text \<open>
  \<open>pool.Begin\<close> (statement 0), the body, \<open>tx.Commit\<close> (statement \<open>k\<close>), with
  \<open>defer tx.Rollback\<close>: whatever fails, the database is the one before.
\<close>

definition transact :: "pgenv \<Rightarrow> nat \<Rightarrow> 'a tx \<Rightarrow> db \<Rightarrow> 'a res \<times> db" where
  "transact e k m d =
     (case pg_fault e 0 of
        Some x \<Rightarrow> (Inl x, d)
      | None \<Rightarrow> (case m \<lparr>tx_db = d, tx_aborted = False\<rparr> of
          (Inl x, s) \<Rightarrow> (Inl x, d)
        | (Inr v, s) \<Rightarrow>
            (if tx_aborted s then (Inl TxAborted, d)
             else case pg_fault e k of
               Some x \<Rightarrow> (Inl x, d)
             | None \<Rightarrow> (Inr v, tx_db s))))"

text \<open>One statement on the pool, in a transaction of its own.\<close>

definition exec_pool :: "pgenv \<Rightarrow> (db \<Rightarrow> ('a \<times> db) res) \<Rightarrow> db \<Rightarrow> 'a res \<times> db" where
  "exec_pool e q d =
     (case pg_fault e 0 of
        Some x \<Rightarrow> (Inl x, d)
      | None \<Rightarrow> (case q d of Inl x \<Rightarrow> (Inl x, d) | Inr (v, d') \<Rightarrow> (Inr v, d')))"

definition query_pool :: "pgenv \<Rightarrow> (db \<Rightarrow> 'a res) \<Rightarrow> db \<Rightarrow> 'a res" where
  "query_pool e q d = (case pg_fault e 0 of Some x \<Rightarrow> Inl x | None \<Rightarrow> q d)"

text \<open>The cast \<open>$n::uuid\<close>.\<close>

definition uuid_arg :: "pgenv \<Rightarrow> string \<Rightarrow> (uuid \<Rightarrow> 'a res) \<Rightarrow> 'a res" where
  "uuid_arg e t q = (case pg_uuid_in e t of None \<Rightarrow> Inl BadInput | Some u \<Rightarrow> q u)"

text \<open>An environment in which nothing fails and the stored ids read back as themselves.\<close>

definition quiet :: "pgenv \<Rightarrow> bool" where
  "quiet e \<longleftrightarrow> pg_fault e = (\<lambda>_. None)"

definition reads_ids :: "pgenv \<Rightarrow> db \<Rightarrow> bool" where
  "reads_ids e d \<longleftrightarrow> list_all (\<lambda>s. pg_uuid_in e (sv_id s) = Some (sv_id s)) (servers d)"

lemma reads_idsD: "reads_ids e d \<Longrightarrow> has_server d u \<Longrightarrow> pg_uuid_in e u = Some u"
  by (auto simp: reads_ids_def has_server_def list_all_iff)

lemma quiet_fault [tx_simps]: "quiet e \<Longrightarrow> pg_fault e k = None"
  by (simp add: quiet_def)

lemma tx_return_apply [tx_simps]: "tx_return x s = (Inr x, s)"
  by (simp add: tx_return_def)

lemma tx_fail_apply [tx_simps]: "tx_fail x s = (Inl x, s)"
  by (simp add: tx_fail_def)

lemma tx_bind_Inr [tx_simps]: "m s = (Inr x, s') \<Longrightarrow> tx_bind m f s = f x s'"
  by (simp add: tx_bind_def)

lemma tx_bind_Inl [tx_simps]: "m s = (Inl x, s') \<Longrightarrow> tx_bind m f s = (Inl x, s')"
  by (simp add: tx_bind_def)

lemma tx_bind_return [tx_simps]: "tx_bind (tx_return x) f s = f x s"
  by (simp add: tx_bind_def tx_return_def)

lemma tx_wrap_Inr [tx_simps]: "m s = (Inr x, s') \<Longrightarrow> tx_wrap t m s = (Inr x, s')"
  by (simp add: tx_wrap_def)

lemma statement_Inr [tx_simps]:
  "quiet e \<Longrightarrow> \<not> tx_aborted s \<Longrightarrow> q (tx_db s) = Inr (x, d) \<Longrightarrow>
     statement e k q s = (Inr x, s\<lparr>tx_db := d\<rparr>)"
  by (simp add: statement_def quiet_def)

lemma select_Inr [tx_simps]:
  "quiet e \<Longrightarrow> \<not> tx_aborted s \<Longrightarrow> q (tx_db s) = Inr x \<Longrightarrow> select e k q s = (Inr x, s)"
  by (simp add: select_def statement_def quiet_def)

lemma uuid_arg_Some [tx_simps]: "pg_uuid_in e t = Some u \<Longrightarrow> uuid_arg e t q = q u"
  by (simp add: uuid_arg_def)

text \<open>All or nothing.\<close>

lemma transact_error: "fst (transact e k m d) = Inl x \<Longrightarrow> snd (transact e k m d) = d"
  by (auto simp: transact_def split: option.splits prod.splits sum.splits if_splits)

lemma transact_ok:
  "transact e k m d = (Inr v, d') \<Longrightarrow>
     \<exists>s. m \<lparr>tx_db = d, tx_aborted = False\<rparr> = (Inr v, s) \<and> tx_db s = d' \<and> \<not> tx_aborted s"
  by (auto simp: transact_def split: option.splits prod.splits sum.splits if_splits)

lemma transact_quiet:
  "quiet e \<Longrightarrow> m \<lparr>tx_db = d, tx_aborted = False\<rparr> = (Inr v, s) \<Longrightarrow> \<not> tx_aborted s \<Longrightarrow>
     transact e k m d = (Inr v, tx_db s)"
  by (simp add: transact_def quiet_def)

lemma exec_pool_error: "fst (exec_pool e q d) = Inl x \<Longrightarrow> snd (exec_pool e q d) = d"
  by (auto simp: exec_pool_def split: option.splits sum.splits prod.splits)

section \<open>Predicates kept by a transaction\<close>

text \<open>
  \<open>tx_keeps P m\<close>: whatever \<open>m\<close> returns, the transaction's database satisfies
  \<open>P\<close> if it did before. The rules follow the monad, so that an invariant of an
  operation is an invariant of its statements.
\<close>

definition tx_keeps :: "(db \<Rightarrow> bool) \<Rightarrow> 'a tx \<Rightarrow> bool" where
  "tx_keeps P m \<longleftrightarrow> (\<forall>s. P (tx_db s) \<longrightarrow> P (tx_db (snd (m s))))"

named_theorems keeps_intros

lemma tx_keeps_return [keeps_intros]: "tx_keeps P (tx_return x)"
  by (simp add: tx_keeps_def tx_return_def)

lemma tx_keeps_fail [keeps_intros]: "tx_keeps P (tx_fail x)"
  by (simp add: tx_keeps_def tx_fail_def)

lemma tx_keeps_bind [keeps_intros]:
  "tx_keeps P m \<Longrightarrow> (\<And>x. tx_keeps P (f x)) \<Longrightarrow> tx_keeps P (tx_bind m f)"
  unfolding tx_keeps_def tx_bind_def
  by (auto split: prod.splits sum.splits)

lemma tx_keeps_wrap [keeps_intros]: "tx_keeps P m \<Longrightarrow> tx_keeps P (tx_wrap t m)"
  unfolding tx_keeps_def tx_wrap_def by (auto split: prod.splits)

lemma tx_keeps_statement [keeps_intros]:
  "(\<And>d x d'. P d \<Longrightarrow> q d = Inr (x, d') \<Longrightarrow> P d') \<Longrightarrow> tx_keeps P (statement e k q)"
  unfolding tx_keeps_def statement_def by (auto split: option.splits sum.splits)

lemma tx_keeps_select [keeps_intros]: "tx_keeps P (select e k q)"
  unfolding select_def by (rule tx_keeps_statement) (auto split: sum.splits)

lemma tx_keeps_if [keeps_intros]:
  "tx_keeps P m \<Longrightarrow> tx_keeps P m' \<Longrightarrow> tx_keeps P (if b then m else m')"
  by simp

lemma tx_keeps_case_prod [keeps_intros]:
  "(\<And>a b. tx_keeps P (f a b)) \<Longrightarrow> tx_keeps P (case x of (a, b) \<Rightarrow> f a b)"
  by (cases x) simp

lemma tx_keeps_case_option [keeps_intros]:
  "tx_keeps P m \<Longrightarrow> (\<And>a. tx_keeps P (f a)) \<Longrightarrow> tx_keeps P (case x of None \<Rightarrow> m | Some a \<Rightarrow> f a)"
  by (cases x) simp_all

lemma transact_keeps:
  assumes "tx_keeps P m" and "P d"
  shows "P (snd (transact e k m d))"
proof (cases "m \<lparr>tx_db = d, tx_aborted = False\<rparr>")
  case (Pair r s)
  have "P (tx_db (snd (m \<lparr>tx_db = d, tx_aborted = False\<rparr>)))"
    using assms(1) assms(2) unfolding tx_keeps_def by (metis txs.select_convs(1))
  then have "P (tx_db s)" using Pair by simp
  with assms(2) Pair show ?thesis
    by (auto simp: transact_def split: option.splits sum.splits)
qed

lemma tx_keepsD: "tx_keeps P m \<Longrightarrow> m s = (r, s') \<Longrightarrow> P (tx_db s) \<Longrightarrow> P (tx_db s')"
  unfolding tx_keeps_def by (metis snd_conv)

lemma tx_bind_InrE:
  fixes s t :: txs
  assumes "tx_bind m f s = (Inr y, t)"
  obtains x s' where "m s = (Inr x, s')" and "f x s' = (Inr y, t)"
  using assms by (auto simp: tx_bind_def split: prod.splits sum.splits)

lemma tx_wrap_InrE: "tx_wrap t m s = (Inr x, s') \<Longrightarrow> m s = (Inr x, s')"
  by (auto simp: tx_wrap_def split: prod.splits)

lemma statement_InrE:
  assumes "statement e k q s = (Inr x, s')"
  obtains d where "q (tx_db s) = Inr (x, d)" and "s' = s\<lparr>tx_db := d\<rparr>"
  using assms by (auto simp: statement_def split: if_splits option.splits sum.splits)

text \<open>\<open>tx_returns Q m\<close>: every value that \<open>m\<close> returns satisfies \<open>Q\<close>.\<close>

definition tx_returns :: "('a \<Rightarrow> bool) \<Rightarrow> 'a tx \<Rightarrow> bool" where
  "tx_returns Q m \<longleftrightarrow> (\<forall>s x s'. m s = (Inr x, s') \<longrightarrow> Q x)"

lemma tx_returns_return: "Q x \<Longrightarrow> tx_returns Q (tx_return x)"
  by (simp add: tx_returns_def tx_return_def)

lemma tx_returns_bind:
  "tx_returns Q m \<Longrightarrow> (\<And>x. Q x \<Longrightarrow> tx_returns Q' (f x)) \<Longrightarrow> tx_returns Q' (tx_bind m f)"
  unfolding tx_returns_def by (blast elim: tx_bind_InrE)

lemma tx_returns_any: "tx_returns (\<lambda>_. True) m"
  by (simp add: tx_returns_def)

lemma tx_keeps_bind_returns:
  assumes "tx_keeps P m" and "tx_returns Q m" and "\<And>x. Q x \<Longrightarrow> tx_keeps P (f x)"
  shows "tx_keeps P (tx_bind m f)"
  unfolding tx_keeps_def
proof (intro allI impI)
  fix s :: txs assume s: "P (tx_db s)"
  obtain r s' where m: "m s = (r, s')" by (cases "m s")
  have P: "P (tx_db s')" by (rule tx_keepsD [OF assms(1) m s])
  show "P (tx_db (snd (tx_bind m f s)))"
  proof (cases r)
    case Inl
    with m P show ?thesis by (simp add: tx_bind_def)
  next
    case (Inr x)
    with m assms(2) have "Q x" by (auto simp: tx_returns_def)
    from assms(3) [OF this] P m Inr show ?thesis by (auto simp: tx_bind_def tx_keeps_def)
  qed
qed

end
