(* ===== verification/Signals.thy ===== *)
theory Signals imports Crowd Database begin

text \<open>
  \<open>crowdSignal\<close> of \<open>internal/store/postgres.go\<close>: the number of reports in the current
  15-minute bucket, and the average, over the days of the preceding 28 on which it had any, of
  the number of reports in the same weekday, hour and quarter of an hour.
\<close>

definition current_count :: "uuid \<Rightarrow> instant \<Rightarrow> db \<Rightarrow> int" where
  "current_count u ts d =
     (let start = date_bin15 ts in
      int (length (filter (\<lambda>r. ur_server r = u \<and> start \<le> ur_at r \<and> ur_at r < start + quarter_us)
        (reports d))))"

definition historical_rows :: "uuid \<Rightarrow> instant \<Rightarrow> db \<Rightarrow> report_row list" where
  "historical_rows u ts d =
     (let start = date_bin15 ts in
      filter (\<lambda>r. ur_server r = u \<and> ts - 28 * day_us \<le> ur_at r \<and> ur_at r < start
          \<and> extract_dow (ur_at r) = extract_dow start
          \<and> extract_hour (ur_at r) = extract_hour start
          \<and> extract_minute (ur_at r) div 15 = extract_minute start div 15)
        (reports d))"

text \<open>One count per \<open>date_trunc('day', reported_at)\<close> group.\<close>

definition historical_days :: "uuid \<Rightarrow> instant \<Rightarrow> db \<Rightarrow> instant list" where
  "historical_days u ts d = remdups (map (\<lambda>r. trunc_day (ur_at r)) (historical_rows u ts d))"

definition historical_counts :: "uuid \<Rightarrow> instant \<Rightarrow> db \<Rightarrow> int list" where
  "historical_counts u ts d =
     map (\<lambda>g. int (length (filter (\<lambda>r. trunc_day (ur_at r) = g) (historical_rows u ts d))))
       (historical_days u ts d)"

definition baseline_of :: "int list \<Rightarrow> rat" where
  "baseline_of xs = (if xs = [] then 0 else of_int (sum_list xs) / of_nat (length xs))"

definition crowd_query :: "uuid \<Rightarrow> instant \<Rightarrow> db \<Rightarrow> int \<times> rat" where
  "crowd_query u ts d = (current_count u ts d, baseline_of (historical_counts u ts d))"

definition to_CrowdSignal :: "Signal \<Rightarrow> CrowdSignal" where
  "to_CrowdSignal v = \<lparr>sig_Reports = Reports v, sig_Baseline = Baseline v,
     sig_Threshold = Threshold v, sig_Anomalous = Anomalous v\<rparr>"

definition signal_of :: "uuid \<Rightarrow> instant \<Rightarrow> db \<Rightarrow> CrowdSignal" where
  "signal_of u ts d = (case crowd_query u ts d of (n, b) \<Rightarrow> to_CrowdSignal (Evaluate n b))"

definition crowdSignal :: "pgenv \<Rightarrow> nat \<Rightarrow> string \<Rightarrow> instant \<Rightarrow> CrowdSignal tx" where
  "crowdSignal e k serverID ts =
     tx_bind (tx_wrap ''read crowd signal: ''
       (select e k (\<lambda>d. uuid_arg e serverID (\<lambda>u. Inr (crowd_query u ts d)))))
     (\<lambda>(n, b). tx_return (to_CrowdSignal (Evaluate n b)))"

text \<open>\<open>Postgres.CrowdSignal\<close>: the same query on the pool, at the time of the call.\<close>

definition CrowdSignal_op :: "pgenv \<Rightarrow> string \<Rightarrow> instant \<Rightarrow> db \<Rightarrow> CrowdSignal res" where
  "CrowdSignal_op e serverID now d =
     wrap_err ''read crowd signal: ''
       (query_pool e (\<lambda>d. uuid_arg e serverID (\<lambda>u. Inr (signal_of u now d))) d)"

section \<open>Facts\<close>

lemma crowdSignal_quiet [tx_simps]:
  "quiet e \<Longrightarrow> pg_uuid_in e sid = Some u \<Longrightarrow> \<not> tx_aborted s \<Longrightarrow>
     crowdSignal e k sid ts s = (Inr (signal_of u ts (tx_db s)), s)"
  by (simp add: crowdSignal_def signal_of_def tx_bind_def tx_wrap_def select_def statement_def
      uuid_arg_def quiet_def tx_return_def split: prod.splits)

lemma crowdSignal_keeps [keeps_intros]: "tx_keeps P (crowdSignal e k sid ts)"
  unfolding crowdSignal_def by (intro keeps_intros)

lemma signal_of_cong:
  "reports d = reports d' \<Longrightarrow> signal_of u ts d = signal_of u ts d'"
  by (simp add: signal_of_def crowd_query_def current_count_def historical_counts_def
      historical_days_def historical_rows_def)

lemma signal_anomalous_iff:
  "sig_Anomalous (signal_of u ts d) \<longleftrightarrow>
     3 \<le> current_count u ts d \<and>
     baseline_of (historical_counts u ts d) * 3 + 2 \<le> of_int (current_count u ts d)"
  unfolding signal_of_def crowd_query_def to_CrowdSignal_def
  by (simp del: Evaluate_simps add: Evaluate_iff)

lemma no_reports_not_anomalous:
  "(\<And>r. r \<in> set (reports d) \<Longrightarrow> ur_server r \<noteq> u) \<Longrightarrow> \<not> sig_Anomalous (signal_of u ts d)"
proof -
  assume "\<And>r. r \<in> set (reports d) \<Longrightarrow> ur_server r \<noteq> u"
  then have "filter (\<lambda>r. ur_server r = u \<and> P r) (reports d) = []" for P
    by (auto simp: filter_empty_conv)
  then have "current_count u ts d = 0" by (simp add: current_count_def Let_def)
  then show ?thesis by (simp add: signal_anomalous_iff)
qed

text \<open>
  The groups of the baseline: at most the four days 7, 14, 21 and 28 days before the current
  bucket, so the average is a fraction with a denominator of at most 4.
\<close>

lemma same_slot:
  assumes "extract_hour t = extract_hour s" and "extract_minute t div 15 = extract_minute s div 15"
  shows "(t mod day_us) div quarter_us = (s mod day_us) div quarter_us"
proof -
  have split: "(x mod day_us) div quarter_us = 4 * extract_hour x + extract_minute x div 15" for x
  proof -
    have "x mod hour_us = (x mod day_us) mod hour_us"
      by (simp add: mod_mod_cancel us_defs)
    then have m: "extract_minute x div 15 = ((x mod day_us) mod hour_us) div quarter_us"
      by (simp add: extract_minute_def us_defs zdiv_zmult2_eq [symmetric])
    define y where "y = x mod day_us"
    have "y = quarter_us * (4 * (y div hour_us)) + y mod hour_us"
      using mult_div_mod_eq [of hour_us y] by (simp add: us_defs)
    then have "y div quarter_us = (quarter_us * (4 * (y div hour_us)) + y mod hour_us) div quarter_us"
      by (rule arg_cong)
    also have "\<dots> = 4 * (y div hour_us) + (y mod hour_us) div quarter_us"
      by (rule div_mult_self4) (simp add: us_defs)
    finally show ?thesis by (simp add: m extract_hour_def y_def)
  qed
  show ?thesis by (simp only: split assms)
qed

lemma historical_day:
  assumes "r \<in> set (historical_rows u ts d)"
  shows "date_of (ur_at r) \<in> {date_of (date_bin15 ts) - 28, date_of (date_bin15 ts) - 21,
    date_of (date_bin15 ts) - 14, date_of (date_bin15 ts) - 7}"
proof -
  define s where "s = date_bin15 ts"
  define t where "t = ur_at r"
  have le: "s \<le> ts" by (simp add: s_def date_bin15_def bin_le us_defs)
  from assms have lo: "ts - 28 * day_us \<le> t" and hi: "t < s" and dow: "extract_dow t = extract_dow s"
    and slot: "(t mod day_us) div quarter_us = (s mod day_us) div quarter_us"
    by (auto simp: historical_rows_def Let_def s_def t_def intro: same_slot)
  have al: "s mod quarter_us = 0"
    using bin_dvd [of quarter_us ts] by (simp add: s_def date_bin15_def mod_eq_0_iff_dvd)
  have sm: "s mod day_us = quarter_us * ((t mod day_us) div quarter_us)"
  proof -
    have "(s mod day_us) mod quarter_us = 0" using al by (simp add: mod_mod_cancel us_defs)
    then have "s mod day_us = quarter_us * ((s mod day_us) div quarter_us)"
      by (simp add: minus_mod_eq_mult_div [symmetric])
    then show ?thesis by (simp only: slot)
  qed
  have tm: "quarter_us * ((t mod day_us) div quarter_us) \<le> t mod day_us"
    "t mod day_us < quarter_us * ((t mod day_us) div quarter_us) + quarter_us"
    using div_mult_mod_eq [of "t mod day_us" quarter_us]
      pos_mod_bound [of quarter_us "t mod day_us"] pos_mod_sign [of quarter_us "t mod day_us"]
    by (simp_all add: us_defs)
  define m n where "m = t div day_us" and "n = s div day_us"
  have t: "t = day_us * m + t mod day_us" and s: "s = day_us * n + s mod day_us"
    by (simp_all add: m_def n_def)
  have "m < n"
  proof (rule ccontr)
    assume "\<not> m < n"
    then have "day_us * n \<le> day_us * m" by (simp add: us_defs)
    then show False using t s hi tm(1) sm by linarith
  qed
  moreover have "n - 28 \<le> m"
  proof (rule ccontr)
    assume "\<not> n - 28 \<le> m"
    then have "m + 1 \<le> n - 28" by simp
    then have "day_us * (m + 1) \<le> day_us * (n - 28)" by (simp add: us_defs)
    then have "day_us * m + day_us \<le> day_us * n - 28 * day_us" by (simp add: algebra_simps)
    moreover have "quarter_us < day_us" by (simp add: us_defs)
    ultimately show False using t s lo le tm(2) sm by linarith
  qed
  moreover have "(m + 6) mod 7 = (n + 6) mod 7" using dow by (simp add: extract_dow_def m_def n_def)
  then obtain k where "n + 6 - (m + 6) = 7 * k" by (metis mod_eq_dvd_iff dvdE)
  moreover from calculation have "k = 1 \<or> k = 2 \<or> k = 3 \<or> k = 4" by linarith
  ultimately have "m \<in> {n - 28, n - 21, n - 14, n - 7}" by auto
  then show ?thesis by (simp add: date_of_def m_def n_def s_def t_def)
qed

lemma historical_counts_le4: "length (historical_counts u ts d) \<le> 4"
proof -
  let ?N = "date_of (date_bin15 ts)"
  let ?D = "{?N - 28, ?N - 21, ?N - 14, ?N - 7}"
  have "set (historical_days u ts d) \<subseteq> (\<lambda>k. day_us * k) ` ?D"
  proof
    fix g assume "g \<in> set (historical_days u ts d)"
    then obtain r where r: "r \<in> set (historical_rows u ts d)" and g: "g = trunc_day (ur_at r)"
      by (auto simp: historical_days_def)
    have "g = day_us * date_of (ur_at r)"
      by (simp add: g trunc_day_def bin_def date_of_def minus_mod_eq_mult_div)
    with historical_day [OF r] show "g \<in> (\<lambda>k. day_us * k) ` ?D" by blast
  qed
  then have "card (set (historical_days u ts d)) \<le> card ((\<lambda>k. day_us * k) ` ?D)"
    by (intro card_mono) simp_all
  also have "\<dots> \<le> card ?D" by (rule card_image_le) simp
  also have "\<dots> \<le> 4" by (simp add: card_insert_if)
  finally have "card (set (historical_days u ts d)) \<le> 4" .
  then show ?thesis
    by (simp add: historical_counts_def historical_days_def length_remdups_card_conv)
qed

end
