(* ===== verification/Listing.thy ===== *)
theory Listing imports Database begin

text \<open>
  The queries of \<open>internal/store/postgres.go\<close> that read servers: the public status with
  the maintenance window in force, the enabled servers in the order of their import, the
  notification channels of a server, the imported listings.
\<close>

definition in_maintenance :: "db \<Rightarrow> instant \<Rightarrow> uuid \<Rightarrow> bool" where
  "in_maintenance d now u \<longleftrightarrow>
     list_ex (\<lambda>w. mw_server w = u \<and> mw_starts w \<le> now \<and> now < mw_ends w) (windows d)"

text \<open>\<open>CASE WHEN EXISTS (... maintenance_windows ...) THEN 'MAINTENANCE' ELSE s.status END\<close>.\<close>

definition effective_status :: "db \<Rightarrow> instant \<Rightarrow> server_row \<Rightarrow> PublicStatus" where
  "effective_status d now s = (if in_maintenance d now (sv_id s) then Maintenance else sv_status s)"

definition to_Server :: "PublicStatus \<Rightarrow> server_row \<Rightarrow> Server" where
  "to_Server st s = \<lparr>srv_ID = sv_id s, srv_Name = sv_name s, srv_Hostname = sv_hostname s,
     srv_Port = sv_port s, srv_Status = st, srv_Transport = sv_transport s,
     srv_Enabled = sv_enabled s\<rparr>"

definition read_server :: "db \<Rightarrow> instant \<Rightarrow> server_row \<Rightarrow> Server" where
  "read_server d now s = to_Server (effective_status d now s) s"

definition EnabledServers :: "pgenv \<Rightarrow> db \<Rightarrow> Server list res" where
  "EnabledServers e d =
     wrap_err ''list enabled servers: ''
       (query_pool e (\<lambda>d. Inr (map (read_server d (pg_now e))
         (sort_key sv_created_at (filter sv_enabled (servers d))))) d)"

definition NotificationChannelIDs :: "pgenv \<Rightarrow> string \<Rightarrow> db \<Rightarrow> string list res" where
  "NotificationChannelIDs e serverID d =
     query_pool e (\<lambda>d. uuid_arg e serverID (\<lambda>u.
       Inr (map ch_channel (filter (\<lambda>c. ch_server c = u \<and> ch_enabled c) (channels d))))) d"

definition find_server :: "db \<Rightarrow> uuid \<Rightarrow> server_row option" where
  "find_server d u = find (\<lambda>s. sv_id s = u) (servers d)"

definition status_of :: "db \<Rightarrow> uuid \<Rightarrow> PublicStatus option" where
  "status_of d u = map_option sv_status (find_server d u)"

lemma find_server_Some: "find_server d u = Some s \<Longrightarrow> sv_id s = u \<and> s \<in> set (servers d)"
  by (auto simp: find_server_def find_Some_iff)

lemma has_server_find: "has_server d u \<longleftrightarrow> (\<exists>s. find_server d u = Some s)"
proof
  assume "has_server d u"
  then obtain s where "s \<in> set (servers d)" "sv_id s = u" by (auto simp: has_server_def)
  then have "find_server d u \<noteq> None" by (auto simp: find_server_def find_None_iff)
  then show "\<exists>s. find_server d u = Some s" by blast
qed (auto simp: has_server_def dest: find_server_Some)

lemma find_server_in:
  "servers_ok d \<Longrightarrow> s \<in> set (servers d) \<Longrightarrow> find_server d (sv_id s) = Some s"
  by (simp add: find_server_def servers_ok_def find_distinct)

lemma read_server_simps [simp]:
  "srv_ID (read_server d now s) = sv_id s"
  "srv_Status (read_server d now s) = effective_status d now s"
  "srv_ID (to_Server q s) = sv_id s"
  "srv_Status (to_Server q s) = q"
  by (simp_all add: read_server_def to_Server_def)

lemma EnabledServers_sound:
  assumes "EnabledServers e d = Inr ss" and "s \<in> set ss"
  shows "\<exists>r \<in> set (servers d). sv_enabled r \<and> s = read_server d (pg_now e) r"
  using assms by (auto simp: EnabledServers_def query_pool_def split: option.splits)

lemma EnabledServers_complete:
  "quiet e \<Longrightarrow> r \<in> set (servers d) \<Longrightarrow> sv_enabled r \<Longrightarrow>
     \<exists>ss. EnabledServers e d = Inr ss \<and> read_server d (pg_now e) r \<in> set ss"
  by (simp add: EnabledServers_def query_pool_def quiet_def)

end
