(* ===== verification/Checks.thy ===== *)
theory Checks imports Policy Signals Listing begin

text \<open>
  \<open>RecordCheck\<close> of \<open>internal/store/postgres.go\<close> and its helpers: the observation is
  appended to \<open>checks\<close>, \<open>stateAfter\<close> decides on the last outcomes, the crowd signal
  may turn a healthy result into \<open>DEGRADED\<close>, and a change updates the server and opens or
  resolves an incident. The status it starts from is the one of the \<open>domain.Server\<close> it is
  given, which need not be the stored one. At the end the store, read afresh before every
  observation, interprets the interface \<open>v1_policy\<close>.
\<close>

section \<open>The latest checks\<close>

text \<open>\<open>ORDER BY checked_at DESC, id DESC\<close>, as an order: smaller is more recent.\<close>

datatype recency = Recency instant nat

instantiation recency :: linorder
begin

fun less_eq_recency :: "recency \<Rightarrow> recency \<Rightarrow> bool" where
  "less_eq_recency (Recency a i) (Recency b j) \<longleftrightarrow> b < a \<or> (b = a \<and> j \<le> i)"

fun less_recency :: "recency \<Rightarrow> recency \<Rightarrow> bool" where
  "less_recency (Recency a i) (Recency b j) \<longleftrightarrow> b < a \<or> (b = a \<and> j < i)"

instance
proof
  fix x y z :: recency
  show "x < y \<longleftrightarrow> x \<le> y \<and> \<not> y \<le> x" by (cases x; cases y) auto
  show "x \<le> x" by (cases x) simp
  show "x \<le> y \<Longrightarrow> y \<le> z \<Longrightarrow> x \<le> z" by (cases x; cases y; cases z) auto
  show "x \<le> y \<Longrightarrow> y \<le> x \<Longrightarrow> x = y" by (cases x; cases y) auto
  show "x \<le> y \<or> y \<le> x" by (cases x; cases y) auto
qed

end

definition recency_of :: "check_row \<Rightarrow> recency" where
  "recency_of c = Recency (ck_at c) (ck_id c)"

definition latest_checks :: "db \<Rightarrow> uuid \<Rightarrow> check_row list" where
  "latest_checks d u = sort_key recency_of (filter (\<lambda>c. ck_server c = u) (checks d))"

definition latest_failures :: "db \<Rightarrow> uuid \<Rightarrow> check_row list" where
  "latest_failures d u =
     sort_key recency_of (filter (\<lambda>c. ck_server c = u \<and> is_failure (ck_outcome c)) (checks d))"

definition latest_successes :: "db \<Rightarrow> uuid \<Rightarrow> check_row list" where
  "latest_successes d u =
     sort_key recency_of (filter (\<lambda>c. ck_server c = u \<and> ck_outcome c = Success) (checks d))"

text \<open>SQL's \<open>min\<close>: \<open>NULL\<close> on no rows.\<close>

fun sql_min :: "int list \<Rightarrow> int option" where
  "sql_min [] = None"
| "sql_min (x # xs) = Some (fold min xs x)"

definition recentMatchingCount :: "pgenv \<Rightarrow> nat \<Rightarrow> string \<Rightarrow> nat \<Rightarrow> Outcome \<Rightarrow> nat tx" where
  "recentMatchingCount e k serverID limit target =
     select e k (\<lambda>d. uuid_arg e serverID (\<lambda>u.
       Inr (length (filter (\<lambda>c. ck_outcome c = target) (take limit (latest_checks d u))))))"

definition recentFailures :: "pgenv \<Rightarrow> nat \<Rightarrow> string \<Rightarrow> nat \<Rightarrow> nat tx" where
  "recentFailures e k serverID limit =
     select e k (\<lambda>d. uuid_arg e serverID (\<lambda>u.
       Inr (length (filter (\<lambda>c. is_failure (ck_outcome c)) (take limit (latest_checks d u))))))"

text \<open>Scanning \<open>NULL\<close> into a \<open>time.Time\<close> is an error of pgx, not of the transaction.\<close>

definition earliestRecentFailure :: "pgenv \<Rightarrow> nat \<Rightarrow> string \<Rightarrow> instant tx" where
  "earliestRecentFailure e k serverID =
     tx_bind (select e k (\<lambda>d. uuid_arg e serverID (\<lambda>u.
       Inr (sql_min (map ck_at (take 3 (latest_failures d u)))))))
     (\<lambda>m. case m of None \<Rightarrow> tx_fail ScanNull | Some t \<Rightarrow> tx_return t)"

definition firstRecentSuccess :: "pgenv \<Rightarrow> nat \<Rightarrow> instant \<Rightarrow> string \<Rightarrow> instant tx" where
  "firstRecentSuccess e k fallback serverID s =
     (case select e k (\<lambda>d. uuid_arg e serverID (\<lambda>u.
          Inr (sql_min (map ck_at (take 2 (latest_successes d u)))))) s of
        (Inr (Some t), s') \<Rightarrow> (Inr t, s')
      | (Inr None, s') \<Rightarrow> (Inr fallback, s')
      | (Inl _, s') \<Rightarrow> (Inr fallback, s'))"

section \<open>The policy on the stored checks\<close>

definition stateAfter :: "pgenv \<Rightarrow> Server \<Rightarrow> CheckResult \<Rightarrow> (PublicStatus \<times> bool) tx" where
  "stateAfter e server result =
     (if cr_Outcome result = ProbeError then
        tx_return (Unknown, srv_Status server \<noteq> Unknown)
      else if cr_Outcome result = Success then
        (if srv_Status server = Outage then
           tx_bind (recentMatchingCount e 2 (srv_ID server) 2 Success)
             (\<lambda>count. tx_return (Operational, count = 2))
         else tx_return (Operational, srv_Status server \<noteq> Operational))
      else if srv_Status server = Outage then tx_return (Outage, False)
      else tx_bind (recentFailures e 2 (srv_ID server) 3)
             (\<lambda>count. tx_return (Outage, count = 3)))"

section \<open>Writes\<close>

definition check_latency :: "CheckResult \<Rightarrow> int option" where
  "check_latency r = (if cr_Outcome r = Success then Some (go_quot (cr_Latency r) 1000000) else None)"

definition check_row_of :: "nat \<Rightarrow> uuid \<Rightarrow> CheckResult \<Rightarrow> check_row" where
  "check_row_of i u r = \<lparr>ck_id = i, ck_server = u, ck_at = cr_At r, ck_outcome = cr_Outcome r,
     ck_latency = check_latency r, ck_online = cr_PlayersOnline r, ck_max = cr_PlayersMax r,
     ck_detail = (if cr_Detail r = [] then None else Some (cr_Detail r))\<rparr>"

definition add_check :: "uuid \<Rightarrow> CheckResult \<Rightarrow> db \<Rightarrow> db" where
  "add_check u r d = d\<lparr>checks := checks d @ [check_row_of (next_check d) u r],
     next_check := next_check d + 1\<rparr>"

text \<open>The columns \<open>latency_ms\<close>, \<open>players_online\<close>, \<open>players_max\<close> are \<open>integer\<close>.\<close>

definition fits :: "CheckResult \<Rightarrow> bool" where
  "fits r \<longleftrightarrow> int4 (cr_PlayersOnline r) \<and> int4 (cr_PlayersMax r)
     \<and> (case check_latency r of None \<Rightarrow> True | Some n \<Rightarrow> int4 n)"

definition insert_check :: "pgenv \<Rightarrow> string \<Rightarrow> CheckResult \<Rightarrow> db \<Rightarrow> (unit \<times> db) res" where
  "insert_check e serverID r d =
     (if \<not> fits r then Inl OutOfRange
      else uuid_arg e serverID (\<lambda>u.
        if \<not> has_server d u then Inl ForeignKey else Inr ((), add_check u r d)))"

definition set_status :: "uuid \<Rightarrow> PublicStatus \<Rightarrow> instant \<Rightarrow> instant \<Rightarrow> db \<Rightarrow> db" where
  "set_status u q changed now d = d\<lparr>servers := map (\<lambda>s. if sv_id s = u
     then s\<lparr>sv_status := q, sv_changed_at := changed, sv_updated_at := now\<rparr> else s) (servers d)\<rparr>"

definition open_incident :: "uuid \<Rightarrow> uuid \<Rightarrow> Outcome \<Rightarrow> instant \<Rightarrow> instant \<Rightarrow> db \<Rightarrow> db" where
  "open_incident i u reason started confirmed d = d\<lparr>incidents := incidents d @
     [\<lparr>in_id = i, in_server = u, in_state = OPEN, in_reason = reason, in_started = started,
       in_confirmed = confirmed, in_recovery = None, in_resolved = None\<rparr>]\<rparr>"

definition insert_incident ::
  "pgenv \<Rightarrow> string \<Rightarrow> Outcome \<Rightarrow> instant \<Rightarrow> instant \<Rightarrow> db \<Rightarrow> (unit \<times> db) res" where
  "insert_incident e serverID reason started confirmed d =
     uuid_arg e serverID (\<lambda>u.
       if pg_fresh e \<in> set (map in_id (incidents d)) then Inl Unique
       else if \<not> has_server d u then Inl ForeignKey
       else Inr ((), open_incident (pg_fresh e) u reason started confirmed d))"

text \<open>
  \<open>(SELECT id FROM incidents WHERE server_id = $1 AND state = 'OPEN' ORDER BY started_at DESC
  LIMIT 1)\<close>; of incidents with the same start, the one inserted first.
\<close>

definition latest_open :: "db \<Rightarrow> uuid \<Rightarrow> uuid option" where
  "latest_open d u =
     (case sort_key (\<lambda>i. - in_started i)
         (filter (\<lambda>i. in_server i = u \<and> in_state i = OPEN) (incidents d)) of
        [] \<Rightarrow> None
      | i # _ \<Rightarrow> Some (in_id i))"

definition resolve_incident :: "uuid \<Rightarrow> instant \<Rightarrow> instant \<Rightarrow> db \<Rightarrow> db" where
  "resolve_incident u recovery resolved d = d\<lparr>incidents :=
     map (\<lambda>i. if Some (in_id i) = latest_open d u
       then i\<lparr>in_state := RESOLVED, in_recovery := Some recovery, in_resolved := Some resolved\<rparr>
       else i) (incidents d)\<rparr>"

definition record_change :: "pgenv \<Rightarrow> Server \<Rightarrow> CheckResult \<Rightarrow> PublicStatus \<Rightarrow> unit tx" where
  "record_change e server result newState =
     tx_bind (tx_wrap ''update public state: '' (statement e 4 (\<lambda>d. uuid_arg e (srv_ID server)
       (\<lambda>u. Inr ((), set_status u newState (cr_At result) (pg_now e) d)))))
     (\<lambda>_. tx_bind
       (if newState = Outage then
          tx_bind (earliestRecentFailure e 5 (srv_ID server)) (\<lambda>startedAt.
            tx_wrap ''open incident: '' (statement e 6
              (insert_incident e (srv_ID server) (cr_Outcome result) startedAt (cr_At result))))
        else tx_return ())
       (\<lambda>_. if srv_Status server = Outage \<and> newState = Operational then
          tx_bind (firstRecentSuccess e 7 (cr_At result) (srv_ID server)) (\<lambda>recovery.
            tx_wrap ''resolve incident: '' (statement e 8 (\<lambda>d. uuid_arg e (srv_ID server)
              (\<lambda>u. Inr ((), resolve_incident u recovery (cr_At result) d)))))
        else tx_return ()))"

definition crowd_adjust ::
  "pgenv \<Rightarrow> Server \<Rightarrow> CheckResult \<Rightarrow> PublicStatus \<times> bool \<Rightarrow> (PublicStatus \<times> bool) tx" where
  "crowd_adjust e server result qc =
     (case qc of (newState, changed) \<Rightarrow>
        if cr_Outcome result = Success \<and> newState = Operational then
          tx_bind (crowdSignal e 3 (srv_ID server) (cr_At result)) (\<lambda>signal.
            if sig_Anomalous signal then tx_return (Degraded, srv_Status server \<noteq> Degraded)
            else tx_return (newState, changed))
        else tx_return (newState, changed))"

definition RecordCheck_tx :: "pgenv \<Rightarrow> Server \<Rightarrow> CheckResult \<Rightarrow> (bool \<times> PublicStatus) tx" where
  "RecordCheck_tx e server result =
     tx_bind (tx_wrap ''insert check: '' (statement e 1 (insert_check e (srv_ID server) result)))
     (\<lambda>_. if srv_Status server = Maintenance then tx_return (False, srv_Status server)
      else tx_bind (tx_bind (stateAfter e server result) (crowd_adjust e server result))
        (\<lambda>(newState, changed).
          tx_bind (if changed then record_change e server result newState else tx_return ())
            (\<lambda>_. tx_return (changed, newState))))"

definition RecordCheck ::
  "pgenv \<Rightarrow> Server \<Rightarrow> CheckResult \<Rightarrow> db \<Rightarrow> (bool \<times> PublicStatus) res \<times> db" where
  "RecordCheck e server result d = transact e 9 (RecordCheck_tx e server result) d"

end
