(* ===== verification/CheckFacts.thy ===== *)
theory CheckFacts imports Checks begin

text \<open>
  What \<open>RecordCheck\<close> does: its equation when no statement fails, what it keeps whatever
  fails, and the interpretation of the status-keeper interface by the store.
\<close>

section \<open>The history of a server\<close>

definition history :: "db \<Rightarrow> uuid \<Rightarrow> Outcome list" where
  "history d u = map ck_outcome (latest_checks d u)"

definition newest :: "db \<Rightarrow> uuid \<Rightarrow> instant \<Rightarrow> bool" where
  "newest d u t \<longleftrightarrow> list_all (\<lambda>c. ck_server c = u \<longrightarrow> ck_at c \<le> t) (checks d)"

definition ids_below :: "db \<Rightarrow> bool" where
  "ids_below d \<longleftrightarrow> list_all (\<lambda>c. ck_id c < next_check d) (checks d)"

lemma checks_ok_ids_below: "checks_ok d \<Longrightarrow> ids_below d"
  by (simp add: checks_ok_def ids_below_def list_all_iff)

lemma latest_checks_add:
  assumes "newest d u (cr_At r)" and "ids_below d"
  shows "latest_checks (add_check u r d) u = check_row_of (next_check d) u r # latest_checks d u"
proof -
  let ?x = "check_row_of (next_check d) u r"
  let ?xs = "filter (\<lambda>c. ck_server c = u) (checks d)"
  have "sort_key recency_of (?xs @ [?x]) = ?x # sort_key recency_of ?xs"
  proof (rule sort_key_snoc_least)
    fix c assume "c \<in> set ?xs"
    with assms have "ck_at c \<le> cr_At r" and "ck_id c < next_check d"
      by (auto simp: newest_def ids_below_def list_all_iff)
    then show "recency_of ?x < recency_of c"
      by (auto simp: recency_of_def check_row_of_def)
  qed
  then show ?thesis by (simp add: latest_checks_def add_check_def check_row_of_def)
qed

lemma history_add:
  "newest d u (cr_At r) \<Longrightarrow> ids_below d \<Longrightarrow>
     history (add_check u r d) u = cr_Outcome r # history d u"
  by (simp add: history_def latest_checks_add check_row_of_def)

lemma latest_checks_add_other: "v \<noteq> u \<Longrightarrow> latest_checks (add_check u r d) v = latest_checks d v"
  by (simp add: latest_checks_def add_check_def check_row_of_def)

lemma latest_failures_filter:
  "latest_failures d u = filter (\<lambda>c. is_failure (ck_outcome c)) (latest_checks d u)"
  by (simp add: latest_failures_def latest_checks_def filter_sort conj_commute)

lemma latest_successes_filter:
  "latest_successes d u = filter (\<lambda>c. ck_outcome c = Success) (latest_checks d u)"
  by (simp add: latest_successes_def latest_checks_def filter_sort conj_commute)

lemma latest_cong:
  "checks d' = checks d \<Longrightarrow> latest_checks d' u = latest_checks d u"
  "checks d' = checks d \<Longrightarrow> latest_failures d' u = latest_failures d u"
  "checks d' = checks d \<Longrightarrow> latest_successes d' u = latest_successes d u"
  by (simp_all add: latest_checks_def latest_failures_def latest_successes_def)

lemma count_history:
  "length (filter (\<lambda>c. P (ck_outcome c)) (take n (latest_checks d u)))
     = length (filter P (take n (history d u)))"
  by (simp add: history_def take_map filter_map o_def)

section \<open>The equation of RecordCheck when no statement fails\<close>

definition policy_after :: "PublicStatus \<Rightarrow> Outcome \<Rightarrow> Outcome list \<Rightarrow> PublicStatus \<times> bool" where
  "policy_after st x h =
     (if x = ProbeError then (Unknown, st \<noteq> Unknown)
      else if x = Success then
        (Operational, if st = Outage then last_all 2 (\<lambda>y. y = Success) h else st \<noteq> Operational)
      else (Outage, st \<noteq> Outage \<and> last_all 3 is_failure h))"

definition decide :: "PublicStatus \<Rightarrow> uuid \<Rightarrow> CheckResult \<Rightarrow> db \<Rightarrow> PublicStatus \<times> bool" where
  "decide st u r d =
     (if cr_Outcome r = Success \<and> sig_Anomalous (signal_of u (cr_At r) d)
      then (Degraded, st \<noteq> Degraded)
      else policy_after st (cr_Outcome r) (history d u))"

definition first_failure :: "db \<Rightarrow> uuid \<Rightarrow> instant \<Rightarrow> instant" where
  "first_failure d u t = (case sql_min (map ck_at (take 3 (latest_failures d u))) of
     None \<Rightarrow> t | Some t' \<Rightarrow> t')"

definition first_success :: "db \<Rightarrow> uuid \<Rightarrow> instant \<Rightarrow> instant" where
  "first_success d u t = (case sql_min (map ck_at (take 2 (latest_successes d u))) of
     None \<Rightarrow> t | Some t' \<Rightarrow> t')"

definition change_db ::
  "pgenv \<Rightarrow> PublicStatus \<Rightarrow> uuid \<Rightarrow> CheckResult \<Rightarrow> PublicStatus \<Rightarrow> db \<Rightarrow> db" where
  "change_db e st u r q d =
     (let d1 = set_status u q (cr_At r) (pg_now e) d in
      if q = Outage then
        open_incident (pg_fresh e) u (cr_Outcome r) (first_failure d u (cr_At r)) (cr_At r) d1
      else if st = Outage \<and> q = Operational then
        resolve_incident u (first_success d u (cr_At r)) (cr_At r) d1
      else d1)"

text \<open>What a call needs to be served: no failing statement, a readable id of a stored server.\<close>

definition serves :: "pgenv \<Rightarrow> Server \<Rightarrow> uuid \<Rightarrow> CheckResult \<Rightarrow> db \<Rightarrow> bool" where
  "serves e sv u r d \<longleftrightarrow> quiet e \<and> pg_uuid_in e (srv_ID sv) = Some u \<and> has_server d u \<and> fits r
     \<and> pg_fresh e \<notin> set (map in_id (incidents d))"

lemma write_frames [row_simps]:
  "checks (set_status u q t n d) = checks d"
  "incidents (set_status u q t n d) = incidents d"
  "map sv_id (servers (set_status u q t n d)) = map sv_id (servers d)"
  "servers (open_incident i u x a b d) = servers d"
  "checks (open_incident i u x a b d) = checks d"
  "servers (resolve_incident u a b d) = servers d"
  "checks (resolve_incident u a b d) = checks d"
  "servers (add_check u r d) = servers d"
  "incidents (add_check u r d) = incidents d"
  "reports (add_check u r d) = reports d"
  "windows (add_check u r d) = windows d"
  "map in_id (incidents (resolve_incident u a b d)) = map in_id (incidents d)"
  by (simp_all add: set_status_def open_incident_def resolve_incident_def add_check_def o_def if_distrib
      cong: if_cong)

lemma has_server_writes [row_simps]:
  "has_server (set_status u q t n d) v = has_server d v"
  "has_server (open_incident i u x a b d) v = has_server d v"
  "has_server (resolve_incident u a b d) v = has_server d v"
  "has_server (add_check u r d) v = has_server d v"
  by (rule has_server_cong, simp add: row_simps)+

lemma latest_writes [row_simps]:
  "latest_checks (set_status u q t n d) v = latest_checks d v"
  "latest_failures (set_status u q t n d) v = latest_failures d v"
  "latest_successes (set_status u q t n d) v = latest_successes d v"
  "latest_checks (open_incident i u x a b d) v = latest_checks d v"
  "latest_checks (resolve_incident u a b d) v = latest_checks d v"
  by (rule latest_cong, simp add: row_simps)+

lemma stateAfter_quiet:
  assumes "quiet e" and "pg_uuid_in e (srv_ID sv) = Some u" and "\<not> tx_aborted s"
  shows "stateAfter e sv r s =
    (Inr (policy_after (srv_Status sv) (cr_Outcome r) (history (tx_db s) u)), s)"
  using assms
  by (simp add: stateAfter_def policy_after_def recentMatchingCount_def recentFailures_def
      tx_simps last_all_def count_history [where P = "\<lambda>y. y = Success"]
      count_history [where P = is_failure])

lemma crowd_adjust_quiet:
  assumes "quiet e" and "pg_uuid_in e (srv_ID sv) = Some u" and "\<not> tx_aborted s"
  shows "tx_bind (stateAfter e sv r) (crowd_adjust e sv r) s =
    (Inr (decide (srv_Status sv) u r (tx_db s)), s)"
  using assms
  by (simp add: tx_bind_def stateAfter_quiet crowd_adjust_def decide_def policy_after_def
      crowdSignal_quiet tx_return_def)

lemma record_change_quiet:
  assumes "quiet e" and u: "pg_uuid_in e (srv_ID sv) = Some u" and "\<not> tx_aborted s"
    and "has_server (tx_db s) u" and "pg_fresh e \<notin> set (map in_id (incidents (tx_db s)))"
    and "q = Outage \<Longrightarrow> latest_failures (tx_db s) u \<noteq> []"
  shows "record_change e sv r q s =
    (Inr (), s\<lparr>tx_db := change_db e (srv_Status sv) u r q (tx_db s)\<rparr>)"
proof -
  let ?d = "tx_db s"
  let ?d1 = "set_status u q (cr_At r) (pg_now e) ?d"
  have s1: "tx_wrap t (statement e 4 (\<lambda>d. uuid_arg e (srv_ID sv)
      (\<lambda>u. Inr ((), set_status u q (cr_At r) (pg_now e) d)))) s = (Inr (), s\<lparr>tx_db := ?d1\<rparr>)" for t
    using assms by (simp add: tx_simps)
  show ?thesis
  proof (cases "q = Outage")
    case True
    with assms obtain c cs where "latest_failures ?d u = c # cs" by (cases "latest_failures ?d u") auto
    then obtain f where f: "sql_min (map ck_at (take 3 (latest_failures ?d1 u))) = Some f"
      by (simp add: row_simps)
    then have ff: "first_failure ?d u (cr_At r) = f" by (simp add: first_failure_def row_simps)
    have h: "has_server ?d1 u" using assms by (simp add: row_simps)
    show ?thesis
      using assms True f ff h
      by (simp add: record_change_def tx_simps s1 earliestRecentFailure_def insert_incident_def
          row_simps change_db_def Let_def)
  next
    case False
    have fs: "firstRecentSuccess e 7 (cr_At r) (srv_ID sv) (s\<lparr>tx_db := ?d1\<rparr>)
        = (Inr (first_success ?d u (cr_At r)), s\<lparr>tx_db := ?d1\<rparr>)"
      using assms
      by (simp add: firstRecentSuccess_def tx_simps row_simps first_success_def split: option.splits)
    show ?thesis
    proof (cases "srv_Status sv = Outage \<and> q = Operational")
      case True
      then show ?thesis
        using assms fs
        by (simp add: record_change_def tx_simps s1 change_db_def Let_def)
    next
      case F: False
      then show ?thesis
        using assms False
        by (auto simp add: record_change_def tx_simps s1 change_db_def Let_def)
    qed
  qed
qed

lemma add_check_has_failure:
  "is_failure (cr_Outcome r) \<Longrightarrow> latest_failures (add_check u r d) u \<noteq> []"
proof -
  assume "is_failure (cr_Outcome r)"
  then have "check_row_of (next_check d) u r \<in> set (latest_failures (add_check u r d) u)"
    by (simp add: latest_failures_def add_check_def check_row_of_def)
  then show ?thesis by auto
qed

theorem RecordCheck_maintenance_quiet:
  assumes "serves e sv u r d" and "srv_Status sv = Maintenance"
  shows "RecordCheck e sv r d = (Inr (False, Maintenance), add_check u r d)"
  using assms
  by (simp add: serves_def RecordCheck_def RecordCheck_tx_def transact_def tx_simps insert_check_def)

theorem RecordCheck_quiet:
  assumes "serves e sv u r d" and "srv_Status sv \<noteq> Maintenance"
    and d1: "d1 = add_check u r d" and dc: "decide (srv_Status sv) u r d1 = (q, c)"
  shows "RecordCheck e sv r d =
    (Inr (c, q), if c then change_db e (srv_Status sv) u r q d1 else d1)"
proof -
  let ?s = "\<lparr>tx_db = d1, tx_aborted = False\<rparr>"
  from assms have e: "quiet e" "pg_uuid_in e (srv_ID sv) = Some u" by (simp_all add: serves_def)
  have ins: "tx_wrap t (statement e 1 (insert_check e (srv_ID sv) r)) \<lparr>tx_db = d, tx_aborted = False\<rparr>
      = (Inr (), ?s)" for t
    using assms by (simp add: serves_def tx_simps insert_check_def)
  have ca: "tx_bind (stateAfter e sv r) (crowd_adjust e sv r) ?s = (Inr (q, c), ?s)"
    using crowd_adjust_quiet [OF e, of ?s r] dc by simp
  have rc: "record_change e sv r q ?s = (Inr (), ?s\<lparr>tx_db := change_db e (srv_Status sv) u r q d1\<rparr>)"
  proof -
    have "q = Outage \<Longrightarrow> latest_failures d1 u \<noteq> []"
    proof -
    assume "q = Outage"
    with dc have "is_failure (cr_Outcome r)"
      by (auto simp: decide_def policy_after_def is_failure_def split: if_splits)
    then show ?thesis unfolding d1 by (rule add_check_has_failure)
    qed
    then show ?thesis
      using record_change_quiet [OF e, of ?s q r] assms by (auto simp: serves_def d1 row_simps)
  qed
  show ?thesis
    unfolding RecordCheck_def RecordCheck_tx_def
    using assms(2) e(1) rc by (simp add: transact_def tx_simps ins ca del: One_nat_def)
qed

section \<open>What every call keeps, whatever fails\<close>

lemma add_check_db_ok: "has_server d u \<Longrightarrow> db_ok d \<Longrightarrow> db_ok (add_check u r d)"
  by (fastforce simp: db_ok_def table_ok_defs add_check_def check_row_of_def has_server_def list_all_iff)

lemma set_status_db_ok: "db_ok d \<Longrightarrow> db_ok (set_status u q t n d)"
proof -
  assume ok: "db_ok d"
  let ?d = "set_status u q t n d"
  have f: "map sv_id (servers ?d) = map sv_id (servers d)"
    "map (\<lambda>s. (sv_source s, sv_extid s)) (servers ?d) = map (\<lambda>s. (sv_source s, sv_extid s)) (servers d)"
    by (auto simp: set_status_def)
  have p: "list_all (\<lambda>s. 1 \<le> sv_port s \<and> sv_port s \<le> 65535 \<and> sv_transport s \<in> set transport_kinds) (servers ?d)"
    using ok by (auto simp: db_ok_def servers_ok_def set_status_def list_all_iff)
  show ?thesis
    using ok f p has_server_cong [OF f(1)]
    by (simp add: db_ok_def table_ok_defs) (simp add: set_status_def)
qed

lemma open_incident_db_ok:
  "i \<notin> set (map in_id (incidents d)) \<Longrightarrow> has_server d u \<Longrightarrow> db_ok d \<Longrightarrow> db_ok (open_incident i u x a b d)"
  by (auto simp: db_ok_def table_ok_defs open_incident_def has_server_def list_all_iff)

lemma resolve_incident_db_ok: "db_ok d \<Longrightarrow> db_ok (resolve_incident u a b d)"
proof -
  assume ok: "db_ok d"
  let ?d = "resolve_incident u a b d"
  have f: "map in_id (incidents ?d) = map in_id (incidents d)" by (simp add: row_simps)
  have h: "list_all (\<lambda>i. has_server d (in_server i)) (incidents ?d)"
    using ok by (auto simp: db_ok_def incidents_ok_def resolve_incident_def list_all_iff)
  have g: "has_server ?d = has_server d" by (rule ext) (simp add: row_simps)
  show ?thesis
    using ok f h g by (simp add: db_ok_def table_ok_defs) (simp add: resolve_incident_def)
qed

lemma insert_check_InrE:
  assumes "insert_check e sid r d = Inr (x, d')"
  obtains u where "pg_uuid_in e sid = Some u" "has_server d u" "fits r" "d' = add_check u r d"
  using assms by (auto simp: insert_check_def uuid_arg_def split: if_splits option.splits)

lemma insert_incident_InrE:
  assumes "insert_incident e sid x a b d = Inr (y, d')"
  obtains u where "pg_uuid_in e sid = Some u" "has_server d u"
    "pg_fresh e \<notin> set (map in_id (incidents d))" "d' = open_incident (pg_fresh e) u x a b d"
  using assms by (auto simp: insert_incident_def uuid_arg_def split: if_splits option.splits)

lemma stateAfter_keeps [keeps_intros]: "tx_keeps P (stateAfter e sv r)"
  unfolding stateAfter_def recentMatchingCount_def recentFailures_def by (intro keeps_intros)

lemma crowd_adjust_keeps [keeps_intros]: "tx_keeps P (crowd_adjust e sv r qc)"
  unfolding crowd_adjust_def by (intro keeps_intros)

lemma earliestRecentFailure_keeps [keeps_intros]: "tx_keeps P (earliestRecentFailure e k sid)"
  unfolding earliestRecentFailure_def by (intro keeps_intros)

lemma firstRecentSuccess_keeps [keeps_intros]: "tx_keeps P (firstRecentSuccess e k t sid)"
proof -
  have s: "tx_keeps P (select e k (\<lambda>d. uuid_arg e sid (\<lambda>u.
      Inr (sql_min (map ck_at (take 2 (latest_successes d u)))))))"
    by (rule keeps_intros)
  show ?thesis
    unfolding tx_keeps_def firstRecentSuccess_def
    by (auto split: prod.splits sum.splits option.splits dest: tx_keepsD [OF s])
qed

text \<open>
  The rule behind every invariant of \<open>RecordCheck\<close>: a predicate kept by its four writes.
\<close>

lemma record_change_keeps:
  assumes status: "\<And>d u. P d \<Longrightarrow> pg_uuid_in e (srv_ID sv) = Some u \<Longrightarrow>
        P (set_status u q (cr_At r) (pg_now e) d)"
    and opens: "\<And>d u a. P d \<Longrightarrow> pg_uuid_in e (srv_ID sv) = Some u \<Longrightarrow> has_server d u \<Longrightarrow>
        pg_fresh e \<notin> set (map in_id (incidents d)) \<Longrightarrow>
        P (open_incident (pg_fresh e) u (cr_Outcome r) a (cr_At r) d)"
    and resolves: "\<And>d u a. P d \<Longrightarrow> pg_uuid_in e (srv_ID sv) = Some u \<Longrightarrow>
        P (resolve_incident u a (cr_At r) d)"
  shows "tx_keeps P (record_change e sv r q)"
  unfolding record_change_def
proof (intro keeps_intros)
  fix d x d' assume "P d" and "uuid_arg e (srv_ID sv) (\<lambda>u. Inr ((), set_status u q (cr_At r) (pg_now e) d)) = Inr (x, d')"
  then show "P d'" using status by (auto simp: uuid_arg_def split: option.splits)
next
  fix a d x d' assume "P d" and "insert_incident e (srv_ID sv) (cr_Outcome r) a (cr_At r) d = Inr (x, d')"
  then show "P d'" using opens by (auto elim!: insert_incident_InrE)
next
  fix a d x d' assume "P d" and "uuid_arg e (srv_ID sv) (\<lambda>u. Inr ((), resolve_incident u a (cr_At r) d)) = Inr (x, d')"
  then show "P d'" using resolves by (auto simp: uuid_arg_def split: option.splits)
qed

text \<open>The statuses a check can lead to.\<close>

lemma stateAfter_returns: "tx_returns (\<lambda>qc. fst qc \<in> {Operational, Outage, Unknown}) (stateAfter e sv r)"
  unfolding stateAfter_def
  by (auto intro!: tx_returns_return tx_returns_bind [OF tx_returns_any])

lemma decided_returns:
  "tx_returns (\<lambda>qc. fst qc \<noteq> Maintenance) (tx_bind (stateAfter e sv r) (crowd_adjust e sv r))"
  by (rule tx_returns_bind [OF stateAfter_returns])
    (auto simp: crowd_adjust_def intro!: tx_returns_return tx_returns_bind [OF tx_returns_any])

lemma RecordCheck_keeps:
  assumes inserts: "\<And>d u. P d \<Longrightarrow> pg_uuid_in e (srv_ID sv) = Some u \<Longrightarrow> has_server d u \<Longrightarrow> fits r \<Longrightarrow>
        P (add_check u r d)"
    and changes: "\<And>q. q \<noteq> Maintenance \<Longrightarrow> tx_keeps P (record_change e sv r q)"
    and "P d"
  shows "P (snd (RecordCheck e sv r d))"
  unfolding RecordCheck_def
proof (rule transact_keeps [where P = P, OF _ \<open>P d\<close>])
  have b: "tx_keeps P (tx_bind (tx_bind (stateAfter e sv r) (crowd_adjust e sv r))
     (\<lambda>(newState, changed). tx_bind (if changed then record_change e sv r newState else tx_return ())
        (\<lambda>_. tx_return (changed, newState))))"
    by (rule tx_keeps_bind_returns [OF _ decided_returns]) (auto intro!: keeps_intros changes)
  have a: "tx_keeps P (tx_wrap t (statement e 1 (insert_check e (srv_ID sv) r)))" for t
    by (intro keeps_intros) (auto elim!: insert_check_InrE intro: inserts)
  show "tx_keeps P (RecordCheck_tx e sv r)"
    unfolding RecordCheck_tx_def
    by (rule tx_keeps_bind [OF a tx_keeps_if [OF tx_keeps_return b]])
qed

lemma RecordCheck_db_ok: "db_ok d \<Longrightarrow> db_ok (snd (RecordCheck e sv r d))"
  by (rule RecordCheck_keeps)
    (auto intro: add_check_db_ok record_change_keeps set_status_db_ok open_incident_db_ok resolve_incident_db_ok)

text \<open>Open incidents have no resolution and resolved ones have both of its times.\<close>

definition incident_shape :: "incident_row \<Rightarrow> bool" where
  "incident_shape i \<longleftrightarrow> (case in_state i of
       OPEN \<Rightarrow> in_resolved i = None \<and> in_recovery i = None
     | RESOLVED \<Rightarrow> in_resolved i \<noteq> None \<and> in_recovery i \<noteq> None)"

definition statuses_stored :: "db \<Rightarrow> bool" where
  "statuses_stored d \<longleftrightarrow> list_all (\<lambda>s. sv_status s \<noteq> Maintenance) (servers d)"

definition store_inv :: "db \<Rightarrow> bool" where
  "store_inv d \<longleftrightarrow> db_ok d \<and> list_all incident_shape (incidents d) \<and> statuses_stored d"

lemma store_inv_db_ok: "store_inv d \<Longrightarrow> db_ok d"
  by (simp add: store_inv_def)

lemma set_status_store_inv: "store_inv d \<Longrightarrow> q \<noteq> Maintenance \<Longrightarrow> store_inv (set_status u q t n d)"
  by (auto simp: store_inv_def set_status_db_ok row_simps)
    (auto simp: statuses_stored_def set_status_def list_all_iff)

lemma RecordCheck_store_inv: "store_inv d \<Longrightarrow> store_inv (snd (RecordCheck e sv r d))"
proof (rule RecordCheck_keeps)
  fix d u assume "store_inv d" and "has_server d u"
  then show "store_inv (add_check u r d)"
    by (simp add: store_inv_def add_check_db_ok row_simps statuses_stored_def)
next
  fix q assume q: "q \<noteq> Maintenance"
  show "tx_keeps store_inv (record_change e sv r q)"
  proof (rule record_change_keeps)
    fix d u assume "store_inv d"
    then show "store_inv (set_status u q (cr_At r) (pg_now e) d)" using q by (rule set_status_store_inv)
  next
    fix d u a assume "store_inv d" and "has_server d u" and "pg_fresh e \<notin> set (map in_id (incidents d))"
    then show "store_inv (open_incident (pg_fresh e) u (cr_Outcome r) a (cr_At r) d)"
      by (auto simp: store_inv_def open_incident_db_ok statuses_stored_def row_simps)
        (simp add: open_incident_def incident_shape_def)
  next
    fix d u a assume "store_inv d"
    then show "store_inv (resolve_incident u a (cr_At r) d)"
      by (auto simp: store_inv_def resolve_incident_db_ok statuses_stored_def row_simps)
        (auto simp: resolve_incident_def incident_shape_def list_all_iff)
  qed
qed simp_all

section \<open>One check row per successful call\<close>

lemma record_change_checks: "tx_keeps (\<lambda>d. checks d = cs) (record_change e sv r q)"
  by (rule record_change_keeps) (simp_all add: row_simps)

lemma RecordCheck_ok_checks:
  assumes "RecordCheck e sv r d = (Inr v, d')"
  shows "\<exists>u. pg_uuid_in e (srv_ID sv) = Some u \<and> has_server d u \<and>
    checks d' = checks d @ [check_row_of (next_check d) u r]"
proof -
  from assms obtain s where s: "RecordCheck_tx e sv r \<lparr>tx_db = d, tx_aborted = False\<rparr> = (Inr v, s)"
    and d': "tx_db s = d'"
    unfolding RecordCheck_def by (blast dest: transact_ok)
  obtain s1 where ins: "statement e 1 (insert_check e (srv_ID sv) r) \<lparr>tx_db = d, tx_aborted = False\<rparr> = (Inr (), s1)"
    and rest: "(if srv_Status sv = Maintenance then tx_return (False, srv_Status sv)
      else tx_bind (tx_bind (stateAfter e sv r) (crowd_adjust e sv r))
        (\<lambda>(newState, changed). tx_bind (if changed then record_change e sv r newState else tx_return ())
            (\<lambda>_. tx_return (changed, newState)))) s1 = (Inr v, s)"
    using s unfolding RecordCheck_tx_def by (auto elim!: tx_bind_InrE dest!: tx_wrap_InrE)
  from ins obtain u where u: "pg_uuid_in e (srv_ID sv) = Some u" "has_server d u"
    and s1: "tx_db s1 = add_check u r d"
    by (auto elim!: statement_InrE insert_check_InrE)
  let ?P = "\<lambda>d'. checks d' = checks d @ [check_row_of (next_check d) u r]"
  have "tx_keeps ?P (if srv_Status sv = Maintenance then tx_return (False, srv_Status sv)
      else tx_bind (tx_bind (stateAfter e sv r) (crowd_adjust e sv r))
        (\<lambda>(newState, changed). tx_bind (if changed then record_change e sv r newState else tx_return ())
            (\<lambda>_. tx_return (changed, newState))))"
    by (intro keeps_intros record_change_checks)
  from tx_keepsD [OF this rest] have "?P (tx_db s)" by (simp add: s1 add_check_def)
  with u d' show ?thesis by blast
qed

lemma RecordCheck_error: "fst (RecordCheck e sv r d) = Inl x \<Longrightarrow> snd (RecordCheck e sv r d) = d"
  unfolding RecordCheck_def by (rule transact_error)

section \<open>The store keeps a public status as the contract asks\<close>

text \<open>
  An observation of the store is a check of the server as it is stored at that moment, in an
  environment that serves it.
\<close>

definition store_observe :: "uuid \<Rightarrow> pgenv \<times> CheckResult \<Rightarrow> db \<Rightarrow> bool \<times> db" where
  "store_observe u er d =
     (case find_server d u of
        None \<Rightarrow> (False, d)
      | Some s \<Rightarrow>
          (case RecordCheck (fst er) (read_server d (pg_now (fst er)) s) (snd er) d of
             (Inl _, d') \<Rightarrow> (False, d')
           | (Inr (c, _), d') \<Rightarrow> (c, d')))"

definition store_view :: "uuid \<Rightarrow> db \<Rightarrow> PublicStatus" where
  "store_view u d = (case status_of d u of None \<Rightarrow> Unknown | Some q \<Rightarrow> q)"

definition store_R :: "uuid \<Rightarrow> db \<Rightarrow> PublicStatus \<Rightarrow> Outcome list \<Rightarrow> bool" where
  "store_R u d q h \<longleftrightarrow> status_of d u = Some q \<and> history d u = h \<and> ids_below d \<and> q \<noteq> Maintenance"

definition store_ok :: "uuid \<Rightarrow> pgenv \<times> CheckResult \<Rightarrow> db \<Rightarrow> bool" where
  "store_ok u er d \<longleftrightarrow> quiet (fst er) \<and> pg_uuid_in (fst er) u = Some u \<and> fits (snd er)
     \<and> pg_fresh (fst er) \<notin> set (map in_id (incidents d))
     \<and> newest d u (cr_At (snd er)) \<and> \<not> in_maintenance d (pg_now (fst er)) u
     \<and> \<not> sig_Anomalous (signal_of u (cr_At (snd er)) d)"

lemma find_server_set_status [row_simps]:
  "find_server (set_status u q t n d) v = map_option (\<lambda>s. if v = u
     then s\<lparr>sv_status := q, sv_changed_at := t, sv_updated_at := n\<rparr> else s) (find_server d v)"
proof -
  have "find (\<lambda>s. sv_id s = v) (map (\<lambda>s. if sv_id s = u
      then s\<lparr>sv_status := q, sv_changed_at := t, sv_updated_at := n\<rparr> else s) xs)
    = map_option (\<lambda>s. if v = u then s\<lparr>sv_status := q, sv_changed_at := t, sv_updated_at := n\<rparr> else s)
      (find (\<lambda>s. sv_id s = v) xs)" for xs
    by (induction xs) auto
  then show ?thesis by (simp add: find_server_def set_status_def)
qed

lemma status_of_writes [row_simps]:
  "status_of (set_status u q t n d) v = (if v = u \<and> has_server d u then Some q else status_of d v)"
  "status_of (open_incident i u x a b d) v = status_of d v"
  "status_of (resolve_incident u a b d) v = status_of d v"
  "status_of (add_check u r d) v = status_of d v"
  by (cases "v = u"; auto simp: status_of_def row_simps has_server_find option.map_ident)
    (simp_all add: status_of_def find_server_def row_simps)

lemma change_db_status:
  "has_server d u \<Longrightarrow> status_of (change_db e st u r q d) v = (if v = u then Some q else status_of d v)"
  by (simp add: change_db_def Let_def row_simps)

lemma change_db_frame [row_simps]:
  "checks (change_db e st u r q d) = checks d"
  "latest_checks (change_db e st u r q d) v = latest_checks d v"
  "next_check (change_db e st u r q d) = next_check d"
  by (simp_all add: change_db_def Let_def row_simps latest_checks_def)
    (simp add: set_status_def open_incident_def resolve_incident_def)

lemma policy_after_v1_next:
  assumes "st \<noteq> Maintenance"
  shows "snd (policy_after st x (x # h)) \<longleftrightarrow> v1_next st (x # h) \<noteq> st"
    and "snd (policy_after st x (x # h)) \<Longrightarrow> fst (policy_after st x (x # h)) = v1_next st (x # h)"
  by (auto simp: policy_after_def v1_next_def split: if_splits)

lemma v1_next_not_Maintenance: "q \<noteq> Maintenance \<Longrightarrow> v1_next q h \<noteq> Maintenance"
  by (auto simp: v1_next_def split: list.splits)

lemma store_step:
  assumes R: "store_R u d q h" and ok: "store_ok u er d"
  shows "store_R u (snd (store_observe u er d)) (v1_next q (cr_Outcome (snd er) # h)) (cr_Outcome (snd er) # h)
    \<and> (fst (store_observe u er d) \<longleftrightarrow> v1_next q (cr_Outcome (snd er) # h) \<noteq> q)"
proof -
  obtain e r where er: "er = (e, r)" by (cases er)
  let ?h = "cr_Outcome r # h"
  from R obtain s where s: "find_server d u = Some s" and st: "sv_status s = q"
    by (auto simp: store_R_def status_of_def)
  define sv where "sv = read_server d (pg_now e) s"
  from s have id: "sv_id s = u" by (simp add: find_server_Some)
  have sv: "srv_ID sv = u" "srv_Status sv = q"
    using ok id st by (simp_all add: sv_def effective_status_def store_ok_def er)
  have srv: "serves e sv u r d" and q: "q \<noteq> Maintenance" and hs: "has_server d u"
    using R ok s sv by (auto simp: serves_def store_ok_def store_R_def er has_server_find)
  let ?d1 = "add_check u r d"
  have hist: "history ?d1 u = ?h"
    using R ok by (simp add: history_add store_R_def store_ok_def er)
  have sig: "\<not> sig_Anomalous (signal_of u (cr_At r) ?d1)"
    using ok signal_of_cong [of d ?d1 u "cr_At r"] by (simp add: store_ok_def er row_simps)
  let ?p = "policy_after q (cr_Outcome r) ?h"
  have dec: "decide (srv_Status sv) u r ?d1 = (fst ?p, snd ?p)"
    by (simp add: decide_def sig hist sv)
  have rc: "RecordCheck e sv r d = (Inr (snd ?p, fst ?p), if snd ?p then change_db e q u r (fst ?p) ?d1 else ?d1)"
    using RecordCheck_quiet [OF srv _ refl dec] q sv by simp
  have obs: "store_observe u er d = (snd ?p, if snd ?p then change_db e q u r (fst ?p) ?d1 else ?d1)"
    using rc by (simp add: store_observe_def s er sv_def [symmetric])
  have ids: "ids_below ?d1" using R by (auto simp: store_R_def ids_below_def add_check_def check_row_of_def list_all_iff)
  have new: "if snd ?p then fst ?p = v1_next q ?h else v1_next q ?h = q"
    using policy_after_v1_next [OF q, of "cr_Outcome r" h] by auto
  have "store_R u (snd (store_observe u er d)) (v1_next q ?h) ?h"
  proof (cases "snd ?p")
    case True
    then show ?thesis
      using obs new hs hist ids v1_next_not_Maintenance [OF q, of ?h]
      by (simp add: store_R_def change_db_status row_simps history_def ids_below_def)
  next
    case False
    then show ?thesis
      using obs new hist ids R by (simp add: store_R_def row_simps)
  qed
  moreover have "fst (store_observe u er d) \<longleftrightarrow> v1_next q ?h \<noteq> q"
    using obs policy_after_v1_next(1) [OF q] by simp
  ultimately show ?thesis by (simp add: er)
qed

interpretation store: v1_policy "store_observe u" "\<lambda>er. cr_Outcome (snd er)" "store_view u"
  "store_R u" "store_ok u" for u
proof unfold_locales
  fix d q h
  show "store_R u d q h \<Longrightarrow> store_view u d = q" by (simp add: store_R_def store_view_def)
qed (simp_all add: store_step)

end
