(* ===== verification/GoText.thy ===== *)
theory GoText imports Domain begin

text \<open>
  The functions of Go's \<open>strings\<close>, \<open>strconv\<close>, \<open>fmt\<close> and \<open>net\<close>
  packages that the program calls on texts, on lists of bytes (\<open>char\<close>): decimal numbers,
  splitting and joining, prefixes and suffixes, trimming, host and port.
\<close>

section \<open>Decimal numbers\<close>

definition digit_char :: "nat \<Rightarrow> char" where
  "digit_char k = char_of (48 + k)"

fun dec :: "nat \<Rightarrow> string" where
  "dec n = (if n < 10 then [digit_char n] else dec (n div 10) @ [digit_char (n mod 10)])"

declare dec.simps [simp del]

text \<open>\<open>fmt.Sprint\<close> of an integer.\<close>

definition itoa :: "int \<Rightarrow> string" where
  "itoa z = (if z < 0 then CHR ''-'' # dec (nat (- z)) else dec (nat z))"

definition is_digit :: "char \<Rightarrow> bool" where
  "is_digit c \<longleftrightarrow> 48 \<le> (of_char c :: nat) \<and> (of_char c :: nat) \<le> 57"

definition digit_val :: "char \<Rightarrow> nat" where
  "digit_val c = of_char c - 48"

definition undec :: "string \<Rightarrow> nat" where
  "undec s = foldl (\<lambda>n c. 10 * n + digit_val c) 0 s"

lemma digit_char_simps [simp]:
  "k < 10 \<Longrightarrow> is_digit (digit_char k)"
  "k < 10 \<Longrightarrow> digit_val (digit_char k) = k"
  by (simp_all add: is_digit_def digit_val_def digit_char_def)

lemma dec_digits: "list_all is_digit (dec n)"
proof (induction n rule: dec.induct)
  case (1 n)
  then show ?case by (subst dec.simps) auto
qed

lemma dec_nonempty: "dec n \<noteq> []"
  by (subst dec.simps) simp

lemma undec_dec [simp]: "undec (dec n) = n"
proof (induction n rule: dec.induct)
  case (1 n)
  show ?case
  proof (cases "n < 10")
    case True
    then show ?thesis by (subst dec.simps) (simp add: undec_def)
  next
    case False
    then have "dec n = dec (n div 10) @ [digit_char (n mod 10)]" by (subst dec.simps) simp
    then have "undec (dec n) = 10 * undec (dec (n div 10)) + n mod 10" by (simp add: undec_def)
    with "1.IH" [OF False] show ?thesis by simp
  qed
qed

section \<open>Splitting, joining, prefixes\<close>

text \<open>\<open>strings.Split\<close> with a one-byte separator: never empty.\<close>

fun split_on :: "char \<Rightarrow> string \<Rightarrow> string list" where
  "split_on c [] = [[]]"
| "split_on c (x # xs) =
     (if x = c then [] # split_on c xs
      else case split_on c xs of [] \<Rightarrow> [[x]] | p # ps \<Rightarrow> (x # p) # ps)"

text \<open>\<open>strings.Join\<close>.\<close>

fun join :: "string \<Rightarrow> string list \<Rightarrow> string" where
  "join s [] = []"
| "join s [x] = x"
| "join s (x # xs) = x @ s @ join s xs"

definition has_prefix :: "string \<Rightarrow> string \<Rightarrow> bool" where
  "has_prefix p s \<longleftrightarrow> take (length p) s = p"

definition trim_prefix :: "string \<Rightarrow> string \<Rightarrow> string" where
  "trim_prefix p s = (if has_prefix p s then drop (length p) s else s)"

definition has_suffix :: "string \<Rightarrow> string \<Rightarrow> bool" where
  "has_suffix p s \<longleftrightarrow> length p \<le> length s \<and> drop (length s - length p) s = p"

text \<open>\<open>strings.TrimRight(s, "c")\<close> for a single character.\<close>

definition trim_right :: "char \<Rightarrow> string \<Rightarrow> string" where
  "trim_right c s = rev (dropWhile (\<lambda>x. x = c) (rev s))"

lemma split_on_nonempty [simp]: "split_on c s \<noteq> []"
  by (induction s) (auto split: list.splits)

lemma split_on_join: "join [c] (split_on c s) = s"
proof (induction s)
  case (Cons x xs)
  obtain p ps where sp: "split_on c xs = p # ps" by (cases "split_on c xs") auto
  with Cons show ?case by (cases ps) (auto simp: sp)
qed simp

lemma split_on_no_sep: "c \<notin> set s \<Longrightarrow> split_on c s = [s]"
  by (induction s) auto

lemma split_on_parts: "p \<in> set (split_on c s) \<Longrightarrow> c \<notin> set p"
proof (induction s arbitrary: p)
  case (Cons x xs)
  obtain q qs where sp: "split_on c xs = q # qs" by (cases "split_on c xs") auto
  with Cons show ?case by (auto simp: sp split: if_splits)
qed simp

lemma split_on_append_sep: "c \<notin> set a \<Longrightarrow> split_on c (a @ c # b) = a # split_on c b"
  by (induction a) auto

lemma trim_prefix_append [simp]: "trim_prefix p (p @ s) = s"
  by (simp add: trim_prefix_def has_prefix_def)

lemma has_prefix_append: "has_prefix p s \<longleftrightarrow> (\<exists>t. s = p @ t)"
  by (metis append_eq_conv_conj append_take_drop_id has_prefix_def)

section \<open>Addresses\<close>

text \<open>\<open>net.JoinHostPort\<close>: a host with a colon is an IPv6 literal and gets brackets.\<close>

definition join_host_port :: "string \<Rightarrow> string \<Rightarrow> string" where
  "join_host_port host port =
     (if CHR '':'' \<in> set host then ''['' @ host @ '']:'' @ port else host @ '':'' @ port)"

section \<open>UTF-8\<close>

text \<open>
  The number of characters of a UTF-8 text (PostgreSQL's \<open>char_length\<close>, Go's
  \<open>utf8.RuneCountInString\<close> on valid text): the bytes that do not continue a character.
\<close>

definition rune_count :: "string \<Rightarrow> nat" where
  "rune_count s = length (filter (\<lambda>c. (of_char c :: nat) div 64 \<noteq> 2) s)"

lemma rune_count_le: "rune_count s \<le> length s"
  by (simp add: rune_count_def)

section \<open>White space\<close>

text \<open>The characters of \<open>unicode.IsSpace\<close>, in UTF-8.\<close>

definition spaces :: "string list" where
  "spaces = map (\<lambda>c. [c]) [CHR 0x09, CHR 0x0A, CHR 0x0B, CHR 0x0C, CHR 0x0D, CHR 0x20]
     @ [[CHR 0xC2, CHR 0x85], [CHR 0xC2, CHR 0xA0], [CHR 0xE1, CHR 0x9A, CHR 0x80]]
     @ map (\<lambda>c. [CHR 0xE2, CHR 0x80, c])
        [CHR 0x80, CHR 0x81, CHR 0x82, CHR 0x83, CHR 0x84, CHR 0x85, CHR 0x86, CHR 0x87, CHR 0x88,
         CHR 0x89, CHR 0x8A, CHR 0xA8, CHR 0xA9, CHR 0xAF]
     @ [[CHR 0xE2, CHR 0x81, CHR 0x9F], [CHR 0xE3, CHR 0x80, CHR 0x80]]"

function trim_with :: "string list \<Rightarrow> string \<Rightarrow> string" where
  "trim_with ps s = (case s of [] \<Rightarrow> []
     | c # s' \<Rightarrow> (case find (\<lambda>p. has_prefix p s) ps of
         None \<Rightarrow> s
       | Some p \<Rightarrow> trim_with ps (drop (length p - 1) s')))"
  by pat_completeness auto
termination
  by (relation "measure (\<lambda>(ps, s). length s)") auto

declare trim_with.simps [simp del]

definition trim_left_space :: "string \<Rightarrow> string" where
  "trim_left_space s = trim_with spaces s"

definition TrimSpace :: "string \<Rightarrow> string" where
  "TrimSpace s = rev (trim_with (map rev spaces) (rev (trim_left_space s)))"

lemma trim_with_length: "length (trim_with ps s) \<le> length s"
proof (induction ps s rule: trim_with.induct)
  case (1 ps s)
  show ?case
  proof (cases s)
    case Nil
    then show ?thesis by (simp add: trim_with.simps)
  next
    case (Cons c s')
    show ?thesis
    proof (cases "find (\<lambda>p. has_prefix p s) ps")
      case None
      with Cons show ?thesis by (simp add: trim_with.simps)
    next
      case (Some p)
      from 1 [OF Cons Some] Some Cons show ?thesis by (subst trim_with.simps) simp
    qed
  qed
qed

lemma TrimSpace_length: "length (TrimSpace s) \<le> length s"
proof -
  have "length (TrimSpace s) \<le> length (rev (trim_left_space s))"
    using trim_with_length [of "map rev spaces" "rev (trim_left_space s)"] by (simp add: TrimSpace_def)
  also have "\<dots> \<le> length s" by (simp add: trim_left_space_def trim_with_length)
  finally show ?thesis .
qed

section \<open>Reading a number\<close>

text \<open>
  \<open>fmt.Sscan\<close> into an integer: white space, a sign, a base prefix, the digits, and
  whatever follows is left. Digits grouped by underscores are outside the model, and so is the
  text of a range error.
\<close>

definition base_digit :: "nat \<Rightarrow> char \<Rightarrow> nat option" where
  "base_digit b c =
     (let n = of_char c;
          v = (if is_digit c then n - 48 else if 97 \<le> n \<and> n \<le> 102 then n - 87
               else if 65 \<le> n \<and> n \<le> 70 then n - 55 else 16)
      in if v < b then Some v else None)"

definition base_value :: "nat \<Rightarrow> string \<Rightarrow> nat" where
  "base_value b s = foldl (\<lambda>n c. b * n + (case base_digit b c of None \<Rightarrow> 0 | Some v \<Rightarrow> v)) 0
     (takeWhile (\<lambda>c. base_digit b c \<noteq> None) s)"

definition starts_number :: "nat \<Rightarrow> string \<Rightarrow> bool" where
  "starts_number b s \<longleftrightarrow> (case s of [] \<Rightarrow> False | c # _ \<Rightarrow> base_digit b c \<noteq> None)"

definition scan_based :: "nat \<Rightarrow> string \<Rightarrow> nat option" where
  "scan_based b s = (if starts_number b s then Some (base_value b s) else None)"

definition scan_number :: "string \<Rightarrow> nat option" where
  "scan_number s =
     (if hd s = CHR ''0'' then
        (case tl s of
           [] \<Rightarrow> Some 0
         | p # s' \<Rightarrow>
             if p \<in> set ''bB'' then scan_based 2 s'
             else if p \<in> set ''oO'' then scan_based 8 s'
             else if p \<in> set ''xX'' then scan_based 16 s'
             else Some (base_value 8 (p # s')))
      else scan_based 10 s)"

definition sscan_int :: "string \<Rightarrow> int res" where
  "sscan_int s =
     (let s = trim_left_space s; neg = (take 1 s = ''-'');
          t = (if take 1 s = ''-'' \<or> take 1 s = ''+'' then drop 1 s else s)
      in if t = [] then Inl (Fault ''unexpected EOF'')
         else case scan_number t of
           None \<Rightarrow> Inl (Msg ''expected integer'')
         | Some n \<Rightarrow>
             let z = (if neg then - int n else int n) in
             if - (2 ^ 63) \<le> z \<and> z < 2 ^ 63 then Inr z else Inl (Fault ''value out of range''))"

text \<open>What \<open>fmt.Sprint\<close> prints of an integer, \<open>fmt.Sscan\<close> reads back.\<close>

lemma base_digit_10: "is_digit c \<Longrightarrow> base_digit 10 c = Some (digit_val c)"
  by (auto simp: base_digit_def Let_def is_digit_def digit_val_def)

lemma base_value_10: "list_all is_digit s \<Longrightarrow> base_value 10 s = undec s"
proof -
  assume s: "list_all is_digit s"
  then have "takeWhile (\<lambda>c. base_digit 10 c \<noteq> None) s = s"
    by (auto simp: takeWhile_eq_all_conv list_all_iff base_digit_10)
  moreover have "foldl (\<lambda>n c. 10 * n + (case base_digit 10 c of None \<Rightarrow> 0 | Some v \<Rightarrow> v)) k s
      = foldl (\<lambda>n c. 10 * n + digit_val c) k s" for k
    using s by (induction s arbitrary: k) (simp_all add: base_digit_10)
  ultimately show ?thesis unfolding base_value_def undec_def by (simp only:)
qed

lemma digit_char_0: "digit_char 0 = CHR ''0''"
  by code_simp

lemma hd_dec: "hd (dec n) = CHR ''0'' \<longleftrightarrow> n = 0"
proof (induction n rule: dec.induct)
  case (1 n)
  show ?case
  proof (cases "n < 10")
    case True
    then have "hd (dec n) = digit_char n" by (simp add: dec.simps)
    moreover have "digit_char n = CHR ''0'' \<longleftrightarrow> n = 0"
    proof
      assume "digit_char n = CHR ''0''"
      then have "(of_char (digit_char n) :: nat) = of_char (CHR ''0'')" by simp
      then show "n = 0" using True by (simp add: digit_char_def)
    qed (simp add: digit_char_0)
    ultimately show ?thesis by simp
  next
    case False
    then have "hd (dec n) = hd (dec (n div 10))" by (subst dec.simps) (simp add: dec_nonempty)
    with 1 [OF False] False show ?thesis by simp
  qed
qed

lemma trim_left_plain:
  assumes "list_all (\<lambda>p. p \<noteq> [] \<and> hd p \<noteq> c) ps"
  shows "trim_with ps (c # s) = c # s"
proof -
  have "find (\<lambda>p. has_prefix p (c # s)) ps = None"
    using assms by (auto simp: find_None_iff list_all_iff has_prefix_def neq_Nil_conv)
  then show ?thesis by (simp add: trim_with.simps)
qed

lemma spaces_heads: "is_digit c \<or> c = CHR ''-'' \<Longrightarrow> list_all (\<lambda>p. p \<noteq> [] \<and> hd p \<noteq> c) spaces"
  by (auto simp: spaces_def is_digit_def)

lemma sscan_dec: "scan_number (dec n) = Some n"
proof -
  obtain c s where d: "dec n = c # s" using dec_nonempty [of n] by (cases "dec n") auto
  show ?thesis
  proof (cases "n = 0")
    case True
    then show ?thesis by (simp add: dec.simps digit_char_0 scan_number_def)
  next
    case False
    then have c: "c \<noteq> CHR ''0''" using hd_dec [of n] d by simp
    have dg: "list_all is_digit (dec n)" by (rule dec_digits)
    then have "base_digit 10 c \<noteq> None" using d by (simp add: base_digit_10)
    with c dg d show ?thesis
      using base_value_10 [OF dg] undec_dec [of n]
      by (simp add: scan_number_def scan_based_def starts_number_def)
  qed
qed

theorem sscan_itoa:
  assumes "- (2 ^ 63) \<le> z" and "z < 2 ^ 63"
  shows "sscan_int (itoa z) = Inr z"
proof (cases "z < 0")
  case False
  obtain c s where d: "dec (nat z) = c # s" using dec_nonempty [of "nat z"] by (cases "dec (nat z)") auto
  have c: "is_digit c" using dec_digits [of "nat z"] d by simp
  then have ns: "c \<noteq> CHR ''-''" "c \<noteq> CHR ''+''" by (auto simp: is_digit_def)
  have "trim_left_space (c # s) = c # s"
    unfolding trim_left_space_def using c by (intro trim_left_plain spaces_heads) simp
  moreover have "scan_number (c # s) = Some (nat z)"
    using sscan_dec [of "nat z"] d by simp
  ultimately show ?thesis using False assms d ns by (simp add: sscan_int_def itoa_def)
next
  case True
  have "trim_left_space (CHR ''-'' # dec (nat (- z))) = CHR ''-'' # dec (nat (- z))"
    unfolding trim_left_space_def by (intro trim_left_plain spaces_heads) simp
  then show ?thesis
    using True assms sscan_dec [of "nat (- z)"] by (simp add: sscan_int_def itoa_def dec_nonempty)
qed

text \<open>\<open>net.SplitHostPort\<close>, all of whose errors are \<open>None\<close>.\<close>

definition last_index :: "char \<Rightarrow> string \<Rightarrow> nat option" where
  "last_index c s = (case filter (\<lambda>i. s ! i = c) (rev [0..<length s]) of [] \<Rightarrow> None | i # _ \<Rightarrow> Some i)"

definition first_index :: "char \<Rightarrow> string \<Rightarrow> nat option" where
  "first_index c s = (case filter (\<lambda>i. s ! i = c) [0..<length s] of [] \<Rightarrow> None | i # _ \<Rightarrow> Some i)"

definition SplitHostPort :: "string \<Rightarrow> (string \<times> string) option" where
  "SplitHostPort hp =
     (case last_index (CHR '':'') hp of
        None \<Rightarrow> None
      | Some i \<Rightarrow>
          if take 1 hp = ''['' then
            (case first_index (CHR '']'') hp of
               None \<Rightarrow> None
             | Some end_ \<Rightarrow>
                 if end_ + 1 \<noteq> i then None
                 else if CHR ''['' \<in> set (drop 1 hp) \<or> CHR '']'' \<in> set (drop (end_ + 1) hp) then None
                 else Some (drop 1 (take end_ hp), drop (i + 1) hp))
          else
            let host = take i hp in
            if CHR '':'' \<in> set host then None
            else if CHR ''['' \<in> set hp \<or> CHR '']'' \<in> set hp then None
            else Some (host, drop (i + 1) hp))"

end
