(* ===== verification/Reports.thy ===== *)
theory Reports imports Signals Listing GoText begin

text \<open>
  The passive-report side of \<open>internal/store/postgres.go\<close>: \<open>RecordUserReport\<close> with
  its one-report-a-day rule, the queue of pending notifications and their delivery mark.
\<close>

section \<open>Recording a report\<close>

text \<open>
  \<open>reporter_hash char(64)\<close>: a shorter text is padded, a longer one refused unless only
  blanks are cut.
\<close>

definition bpchar64 :: "string \<Rightarrow> string option" where
  "bpchar64 s =
     (if length s \<le> 64 then Some (s @ replicate (64 - length s) (CHR '' ''))
      else if list_all (\<lambda>c. c = CHR '' '') (drop 64 s) then Some (take 64 s)
      else None)"

definition report_known :: "uuid \<Rightarrow> string \<Rightarrow> int \<Rightarrow> db \<Rightarrow> bool" where
  "report_known u h day d \<longleftrightarrow>
     list_ex (\<lambda>r. ur_server r = u \<and> ur_hash r = h \<and> ur_day r = day) (reports d)"

definition add_report :: "uuid \<Rightarrow> string \<Rightarrow> UserReport \<Rightarrow> db \<Rightarrow> db" where
  "add_report u h rep d = d\<lparr>reports := reports d @
     [\<lparr>ur_id = next_report d, ur_server = u, ur_at = rep_At rep, ur_day = date_of (rep_At rep),
       ur_type = rep_Type rep, ur_hash = h, ur_detail = rep_Detail rep\<rparr>],
     next_report := next_report d + 1\<rparr>"

text \<open>
  \<open>INSERT INTO user_reports ... ON CONFLICT DO NOTHING\<close>: the casts, the check of the
  detail's length, the conflict, and last the foreign key.
\<close>

definition insert_report :: "pgenv \<Rightarrow> UserReport \<Rightarrow> db \<Rightarrow> (unit \<times> db) res" where
  "insert_report e rep d = uuid_arg e (rep_ServerID rep) (\<lambda>u.
     if rep_Type rep \<notin> set report_types then Inl BadInput
     else case bpchar64 (rep_ReporterHash rep) of
       None \<Rightarrow> Inl BadInput
     | Some h \<Rightarrow>
         if 280 < rune_count (rep_Detail rep) then Inl CheckFailed
         else if report_known u h (date_of (rep_At rep)) d then Inr ((), d)
         else if \<not> has_server d u then Inl ForeignKey
         else Inr ((), add_report u h rep d))"

text \<open>\<open>UPDATE ... SET status = 'DEGRADED' ... WHERE id = $1 AND status = 'OPERATIONAL'\<close>.\<close>

definition degrades :: "uuid \<Rightarrow> server_row \<Rightarrow> bool" where
  "degrades u s \<longleftrightarrow> sv_id s = u \<and> sv_status s = Operational"

definition degrade :: "uuid \<Rightarrow> instant \<Rightarrow> instant \<Rightarrow> db \<Rightarrow> nat \<times> db" where
  "degrade u ts now d = (length (filter (degrades u) (servers d)),
     d\<lparr>servers := map (\<lambda>s. if degrades u s
       then s\<lparr>sv_status := Degraded, sv_changed_at := ts, sv_updated_at := now\<rparr> else s) (servers d)\<rparr>)"

definition queue_note :: "uuid \<Rightarrow> PublicStatus \<Rightarrow> Outcome \<Rightarrow> instant \<Rightarrow> db \<Rightarrow> db" where
  "queue_note u q x ts d = d\<lparr>notifs := notifs d @
     [\<lparr>nt_id = next_note d, nt_server = u, nt_state = q, nt_outcome = x, nt_created = ts,
       nt_delivered = None\<rparr>], next_note := next_note d + 1\<rparr>"

definition RecordUserReport_tx :: "pgenv \<Rightarrow> UserReport \<Rightarrow> CrowdSignal tx" where
  "RecordUserReport_tx e rep =
     tx_bind (tx_wrap ''insert user report: '' (statement e 1 (insert_report e rep)))
     (\<lambda>_. tx_bind (crowdSignal e 2 (rep_ServerID rep) (rep_At rep))
     (\<lambda>signal. tx_bind
       (if sig_Anomalous signal then
          tx_bind (statement e 3 (\<lambda>d. uuid_arg e (rep_ServerID rep) (\<lambda>u.
            Inr (degrade u (rep_At rep) (pg_now e) d))))
          (\<lambda>affected. if affected = 1 then
             tx_wrap ''queue crowd notification: '' (statement e 4 (\<lambda>d.
               uuid_arg e (rep_ServerID rep) (\<lambda>u.
                 if \<not> has_server d u then Inl ForeignKey
                 else Inr ((), queue_note u Degraded Success (rep_At rep) d))))
           else tx_return ())
        else tx_return ())
     (\<lambda>_. tx_return signal)))"

definition RecordUserReport :: "pgenv \<Rightarrow> UserReport \<Rightarrow> db \<Rightarrow> CrowdSignal res \<times> db" where
  "RecordUserReport e rep d = transact e 5 (RecordUserReport_tx e rep) d"

section \<open>The queue of pending notifications\<close>

definition to_pending :: "server_row \<Rightarrow> note_row \<Rightarrow> PendingStateNotification" where
  "to_pending s n = \<lparr>pn_ID = nt_id n, pn_Server = to_Server (sv_status s) s,
     pn_State = nt_state n,
     pn_Result = \<lparr>cr_Outcome = nt_outcome n, cr_Latency = 0, cr_PlayersOnline = 0,
       cr_PlayersMax = 0, cr_Detail = [], cr_At = nt_created n\<rparr>\<rparr>"

definition pending_rows :: "db \<Rightarrow> note_row list" where
  "pending_rows d = sort_key nt_id (filter (\<lambda>n. nt_delivered n = None) (notifs d))"

definition PendingStateNotifications ::
  "pgenv \<Rightarrow> nat \<Rightarrow> db \<Rightarrow> PendingStateNotification list res" where
  "PendingStateNotifications e limit d =
     query_pool e (\<lambda>d. Inr (take limit (concat (map
       (\<lambda>n. map (\<lambda>s. to_pending s n) (filter (\<lambda>s. sv_id s = nt_server n) (servers d)))
       (pending_rows d))))) d"

definition mark_delivered :: "nat \<Rightarrow> instant \<Rightarrow> db \<Rightarrow> db" where
  "mark_delivered i now d = d\<lparr>notifs := map (\<lambda>n. if nt_id n = i \<and> nt_delivered n = None
     then n\<lparr>nt_delivered := Some now\<rparr> else n) (notifs d)\<rparr>"

definition MarkStateNotificationDelivered :: "pgenv \<Rightarrow> nat \<Rightarrow> db \<Rightarrow> unit res \<times> db" where
  "MarkStateNotificationDelivered e i d =
     exec_pool e (\<lambda>d. Inr ((), mark_delivered i (pg_now e) d)) d"

end
