(* ===== verification/ReportFacts.thy ===== *)
theory ReportFacts imports CheckFacts Reports begin

text \<open>
  What the reports do: the invariant of the store is kept, the equation of
  \<open>RecordUserReport\<close> when no statement fails, and the only change of a public status a
  report can make. The order in which notifications are offered and what marking one removes.
\<close>

section \<open>Frames\<close>

lemma degrade_simps [row_simps]:
  "map sv_id (servers (snd (degrade u t n d))) = map sv_id (servers d)"
  "checks (snd (degrade u t n d)) = checks d"
  "incidents (snd (degrade u t n d)) = incidents d"
  "notifs (snd (degrade u t n d)) = notifs d"
  "reports (snd (degrade u t n d)) = reports d"
  by (simp_all add: degrade_def o_def if_distrib cong: if_cong)

lemma report_write_frames [row_simps]:
  "servers (add_report u h rep d) = servers d"
  "checks (add_report u h rep d) = checks d"
  "incidents (add_report u h rep d) = incidents d"
  "notifs (add_report u h rep d) = notifs d"
  "servers (queue_note u q x t d) = servers d"
  "checks (queue_note u q x t d) = checks d"
  "incidents (queue_note u q x t d) = incidents d"
  "reports (queue_note u q x t d) = reports d"
  "servers (mark_delivered i n d) = servers d"
  "checks (mark_delivered i n d) = checks d"
  "incidents (mark_delivered i n d) = incidents d"
  by (simp_all add: add_report_def queue_note_def mark_delivered_def)

lemma insert_report_InrE:
  assumes "insert_report e rep d = Inr (x, d')"
  obtains u h where "pg_uuid_in e (rep_ServerID rep) = Some u" and "bpchar64 (rep_ReporterHash rep) = Some h"
    and "rep_Type rep \<in> set report_types"
    and "if report_known u h (date_of (rep_At rep)) d then d' = d
         else has_server d u \<and> d' = add_report u h rep d"
  using assms by (auto simp: insert_report_def uuid_arg_def split: if_splits option.splits)

section \<open>The invariant of the store\<close>

lemma add_report_store_inv:
  assumes "store_inv d" and "has_server d u" and "\<not> report_known u h (date_of (rep_At rep)) d"
    and "rep_Type rep \<in> set report_types"
  shows "store_inv (add_report u h rep d)"
proof -
  from assms have "reports_ok (add_report u h rep d)"
    by (fastforce simp: store_inv_def db_ok_def reports_ok_def add_report_def has_server_def
        report_known_def list_all_iff list_ex_iff)
  with assms show ?thesis
    by (auto simp: store_inv_def db_ok_def table_ok_defs add_report_def has_server_def
        statuses_stored_def list_all_iff)
qed

lemma degrade_rows:
  "s \<in> set (servers (snd (degrade u t n d))) \<Longrightarrow> \<exists>s' \<in> set (servers d).
     sv_id s = sv_id s' \<and> sv_source s = sv_source s' \<and> sv_extid s = sv_extid s'
     \<and> sv_port s = sv_port s' \<and> sv_transport s = sv_transport s'
     \<and> (sv_status s = sv_status s' \<or> sv_status s = Degraded)"
  by (auto simp: degrade_def split: if_splits)

lemma degrade_store_inv: "store_inv d \<Longrightarrow> store_inv (snd (degrade u t n d))"
proof -
  assume inv: "store_inv d"
  let ?d = "snd (degrade u t n d)"
  have f: "map sv_id (servers ?d) = map sv_id (servers d)"
    "map (\<lambda>s. (sv_source s, sv_extid s)) (servers ?d) = map (\<lambda>s. (sv_source s, sv_extid s)) (servers d)"
    by (auto simp: degrade_def)
  have p: "list_all (\<lambda>s. 1 \<le> sv_port s \<and> sv_port s \<le> 65535 \<and> sv_transport s \<in> set transport_kinds) (servers ?d)"
    using inv degrade_rows [of _ u t n d]
    by (fastforce simp: store_inv_def db_ok_def servers_ok_def list_all_iff)
  have q: "statuses_stored ?d"
    using inv degrade_rows [of _ u t n d] by (fastforce simp: store_inv_def statuses_stored_def list_all_iff)
  show ?thesis
    using inv f p q has_server_cong [OF f(1)]
    by (simp add: store_inv_def db_ok_def table_ok_defs row_simps) (simp add: degrade_def)
qed

lemma queue_note_store_inv: "store_inv d \<Longrightarrow> has_server d u \<Longrightarrow> store_inv (queue_note u q x t d)"
  by (fastforce simp: store_inv_def db_ok_def table_ok_defs queue_note_def has_server_def
      statuses_stored_def list_all_iff)

lemma mark_delivered_store_inv: "store_inv d \<Longrightarrow> store_inv (mark_delivered i n d)"
proof -
  assume inv: "store_inv d"
  have f: "map nt_id (notifs (mark_delivered i n d)) = map nt_id (notifs d)"
    by (simp add: mark_delivered_def o_def if_distrib cong: if_cong)
  have g: "list_all (\<lambda>n. has_server d (nt_server n) \<and> nt_id n < next_note d) (notifs (mark_delivered i n d))"
    using inv by (auto simp: store_inv_def db_ok_def notifs_ok_def mark_delivered_def list_all_iff)
  have h: "has_server (mark_delivered i n d) = has_server d"
    by (rule ext) (simp add: has_server_def row_simps)
  show ?thesis
    using inv f g h
    by (simp add: store_inv_def db_ok_def table_ok_defs statuses_stored_def) (simp add: mark_delivered_def)
qed

lemma RecordUserReport_keeps:
  assumes inserts: "\<And>d u h. P d \<Longrightarrow> has_server d u \<Longrightarrow>
        \<not> report_known u h (date_of (rep_At rep)) d \<Longrightarrow> rep_Type rep \<in> set report_types \<Longrightarrow>
        P (add_report u h rep d)"
    and degrades: "\<And>d u. P d \<Longrightarrow> P (snd (degrade u (rep_At rep) (pg_now e) d))"
    and queues: "\<And>d u. P d \<Longrightarrow> has_server d u \<Longrightarrow> P (queue_note u Degraded Success (rep_At rep) d)"
    and "P d"
  shows "P (snd (RecordUserReport e rep d))"
  unfolding RecordUserReport_def
proof (rule transact_keeps [where P = P, OF _ \<open>P d\<close>])
  show "tx_keeps P (RecordUserReport_tx e rep)"
    unfolding RecordUserReport_tx_def
  proof (intro keeps_intros)
    fix d x d' assume "P d" and "insert_report e rep d = Inr (x, d')"
    then show "P d'" using inserts by (auto elim!: insert_report_InrE split: if_splits)
  next
    fix d x d' assume "P d" and "uuid_arg e (rep_ServerID rep) (\<lambda>u.
            Inr (degrade u (rep_At rep) (pg_now e) d)) = Inr (x, d')"
    then show "P d'" using degrades by (auto simp: uuid_arg_def split: option.splits) (metis snd_conv)
  next
    fix d x d' assume "P d" and "uuid_arg e (rep_ServerID rep) (\<lambda>u. if \<not> has_server d u then Inl ForeignKey
      else Inr ((), queue_note u Degraded Success (rep_At rep) d)) = Inr (x, d')"
    then show "P d'" using queues by (auto simp: uuid_arg_def split: option.splits if_splits)
  qed
qed

lemma RecordUserReport_store_inv: "store_inv d \<Longrightarrow> store_inv (snd (RecordUserReport e rep d))"
  by (rule RecordUserReport_keeps)
    (simp_all add: add_report_store_inv degrade_store_inv queue_note_store_inv)

lemma MarkStateNotificationDelivered_store_inv:
  "store_inv d \<Longrightarrow> store_inv (snd (MarkStateNotificationDelivered e i d))"
  by (simp add: MarkStateNotificationDelivered_def exec_pool_def mark_delivered_store_inv
      split: option.splits)

lemma RecordUserReport_error:
  "fst (RecordUserReport e rep d) = Inl x \<Longrightarrow> snd (RecordUserReport e rep d) = d"
  unfolding RecordUserReport_def by (rule transact_error)

section \<open>The equation when no statement fails\<close>

definition after_insert :: "uuid \<Rightarrow> string \<Rightarrow> UserReport \<Rightarrow> db \<Rightarrow> db" where
  "after_insert u h rep d =
     (if report_known u h (date_of (rep_At rep)) d then d else add_report u h rep d)"

definition after_signal :: "pgenv \<Rightarrow> uuid \<Rightarrow> UserReport \<Rightarrow> db \<Rightarrow> db" where
  "after_signal e u rep d =
     (if sig_Anomalous (signal_of u (rep_At rep) d) \<and> status_of d u = Some Operational
      then queue_note u Degraded Success (rep_At rep) (snd (degrade u (rep_At rep) (pg_now e) d))
      else d)"

lemma degrades_count:
  assumes "servers_ok d"
  shows "length (filter (degrades u) (servers d)) = (if status_of d u = Some Operational then 1 else 0)"
proof -
  have "distinct (map sv_id xs) \<Longrightarrow> length (filter (degrades u) xs) =
      (if map_option sv_status (find (\<lambda>s. sv_id s = u) xs) = Some Operational then 1 else 0)" for xs
  proof (induction xs)
    case (Cons s xs)
    show ?case
    proof (cases "sv_id s = u")
      case True
      then have "filter (degrades u) xs = []"
        using Cons.prems by (auto simp: filter_empty_conv degrades_def image_iff)
      moreover have "degrades u s \<longleftrightarrow> sv_status s = Operational" using True by (simp add: degrades_def)
      ultimately show ?thesis using True by simp
    next
      case False
      then have "\<not> degrades u s" by (simp add: degrades_def)
      with False Cons show ?thesis by simp
    qed
  qed simp
  with assms show ?thesis by (simp add: status_of_def find_server_def servers_ok_def)
qed

lemma degrade_none: "status_of d u \<noteq> Some Operational \<Longrightarrow> servers_ok d \<Longrightarrow> snd (degrade u t n d) = d"
proof -
  assume "status_of d u \<noteq> Some Operational" and "servers_ok d"
  then have "filter (degrades u) (servers d) = []" using degrades_count [of d u] by simp
  then have "\<And>s. s \<in> set (servers d) \<Longrightarrow> \<not> degrades u s" by (auto simp: filter_empty_conv)
  then have "map (\<lambda>s. if degrades u s then s\<lparr>sv_status := Degraded, sv_changed_at := t, sv_updated_at := n\<rparr>
      else s) (servers d) = servers d" by (simp add: map_idI)
  then show ?thesis by (simp add: degrade_def)
qed

lemma after_insert_servers_ok: "servers_ok d \<Longrightarrow> servers_ok (after_insert u h rep d)"
  by (simp add: after_insert_def servers_ok_def row_simps)

theorem RecordUserReport_quiet:
  assumes e: "quiet e" and u: "pg_uuid_in e (rep_ServerID rep) = Some u" and hs: "has_server d u"
    and h: "bpchar64 (rep_ReporterHash rep) = Some h" and t: "rep_Type rep \<in> set report_types"
    and l: "rune_count (rep_Detail rep) \<le> 280" and ok: "servers_ok d"
  shows "RecordUserReport e rep d =
    (let d1 = after_insert u h rep d in (Inr (signal_of u (rep_At rep) d1), after_signal e u rep d1))"
proof -
  define d1 where "d1 = after_insert u h rep d"
  define d2 where "d2 = snd (degrade u (rep_At rep) (pg_now e) d1)"
  let ?s = "\<lparr>tx_db = d1, tx_aborted = False\<rparr>"
  have ins: "tx_wrap x (statement e 1 (insert_report e rep)) \<lparr>tx_db = d, tx_aborted = False\<rparr> = (Inr (), ?s)" for x
  proof -
    have "insert_report e rep d = Inr ((), d1)"
      using assms by (simp add: insert_report_def uuid_arg_def d1_def after_insert_def not_less [symmetric])
    then show ?thesis using e by (simp add: tx_simps)
  qed
  have sok: "servers_ok d1" using ok by (simp add: d1_def after_insert_servers_ok)
  have h1: "has_server d1 u" using hs by (simp add: d1_def after_insert_def has_server_def row_simps)
  have h2: "has_server d2 u" using h1 by (simp add: d2_def has_server_def row_simps)
  have n: "fst (degrade u (rep_At rep) (pg_now e) d1) = (if status_of d1 u = Some Operational then 1 else 0)"
    using degrades_count [OF sok] by (simp add: degrade_def)
  have dg: "degrade u (rep_At rep) (pg_now e) d1 = (if status_of d1 u = Some Operational then 1 else 0, d2)"
    using n by (simp add: d2_def prod_eq_iff)
  have d2: "status_of d1 u \<noteq> Some Operational \<Longrightarrow> d2 = d1"
    using degrade_none [OF _ sok] by (simp add: d2_def)
  have st: "statement e 3 (\<lambda>d. uuid_arg e (rep_ServerID rep) (\<lambda>u. Inr (degrade u (rep_At rep) (pg_now e) d))) ?s
      = (Inr (if status_of d1 u = Some Operational then 1 else 0), \<lparr>tx_db = d2, tx_aborted = False\<rparr>)"
    using e u dg by (simp add: statement_def uuid_arg_def quiet_def)
  have nt: "tx_wrap x (statement e 4 (\<lambda>d. uuid_arg e (rep_ServerID rep) (\<lambda>u.
        if \<not> has_server d u then Inl ForeignKey else Inr ((), queue_note u Degraded Success (rep_At rep) d))))
        \<lparr>tx_db = d2, tx_aborted = False\<rparr>
      = (Inr (), \<lparr>tx_db = queue_note u Degraded Success (rep_At rep) d2, tx_aborted = False\<rparr>)" for x
    using e u h2 by (simp add: tx_simps)
  have cs: "crowdSignal e 2 (rep_ServerID rep) (rep_At rep) ?s = (Inr (signal_of u (rep_At rep) d1), ?s)"
    using e u by (simp add: crowdSignal_quiet)
  have body: "(if sig_Anomalous (signal_of u (rep_At rep) d1) then
          tx_bind (statement e 3 (\<lambda>d. uuid_arg e (rep_ServerID rep) (\<lambda>u.
            Inr (degrade u (rep_At rep) (pg_now e) d))))
          (\<lambda>affected. if affected = 1 then
             tx_wrap ''queue crowd notification: '' (statement e 4 (\<lambda>d.
               uuid_arg e (rep_ServerID rep) (\<lambda>u.
                 if \<not> has_server d u then Inl ForeignKey
                 else Inr ((), queue_note u Degraded Success (rep_At rep) d))))
           else tx_return ())
        else tx_return ()) ?s = (Inr (), \<lparr>tx_db = after_signal e u rep d1, tx_aborted = False\<rparr>)"
    using d2 by (auto simp: tx_bind_def st nt tx_return_def after_signal_def d2_def [symmetric]
        simp del: One_nat_def)
  show ?thesis
    unfolding RecordUserReport_def RecordUserReport_tx_def Let_def d1_def [symmetric]
    using e by (simp add: transact_def quiet_def tx_bind_def ins cs body tx_return_def del: One_nat_def)
qed

section \<open>The only status change of a report\<close>

lemma status_of_degrade:
  "status_of (snd (degrade u t n d)) v =
     (if v = u \<and> status_of d u = Some Operational then Some Degraded else status_of d v)"
proof -
  have m: "map_option sv_status (find (\<lambda>s. sv_id s = v) (map (\<lambda>s. if degrades u s
      then s\<lparr>sv_status := Degraded, sv_changed_at := t, sv_updated_at := n\<rparr> else s) xs)) =
    (if v = u \<and> map_option sv_status (find (\<lambda>s. sv_id s = u) xs) = Some Operational then Some Degraded
     else map_option sv_status (find (\<lambda>s. sv_id s = v) xs))" for xs
    by (induction xs) (auto simp: degrades_def)
  have r: "servers (snd (degrade u t n d)) = map (\<lambda>s. if degrades u s
      then s\<lparr>sv_status := Degraded, sv_changed_at := t, sv_updated_at := n\<rparr> else s) (servers d)"
    by (simp add: degrade_def)
  show ?thesis unfolding status_of_def find_server_def r m ..
qed

lemma crowdSignal_InrE:
  assumes "crowdSignal e k sid ts s = (Inr v, s')"
  obtains u where "pg_uuid_in e sid = Some u" and "v = signal_of u ts (tx_db s)" and "s' = s"
  using assms
  by (auto simp: crowdSignal_def tx_bind_def tx_wrap_def select_def statement_def uuid_arg_def
      tx_return_def signal_of_def split: prod.splits sum.splits if_splits option.splits)

lemma RecordUserReport_cases:
  assumes "RecordUserReport e rep d = (Inr v, d')" and ok: "servers_ok d"
  obtains u h where "pg_uuid_in e (rep_ServerID rep) = Some u" and "bpchar64 (rep_ReporterHash rep) = Some h"
    and "v = signal_of u (rep_At rep) (after_insert u h rep d)"
    and "d' = after_signal e u rep (after_insert u h rep d)"
proof -
  from assms(1) obtain s where s: "RecordUserReport_tx e rep \<lparr>tx_db = d, tx_aborted = False\<rparr> = (Inr v, s)"
    and d': "tx_db s = d'"
    unfolding RecordUserReport_def by (blast dest: transact_ok)
  from s obtain s1 s2 where
    ins: "statement e 1 (insert_report e rep) \<lparr>tx_db = d, tx_aborted = False\<rparr> = (Inr (), s1)"
    and cs: "crowdSignal e 2 (rep_ServerID rep) (rep_At rep) s1 = (Inr v, s2)"
    and rest: "(if sig_Anomalous v then
          tx_bind (statement e 3 (\<lambda>d. uuid_arg e (rep_ServerID rep) (\<lambda>u.
            Inr (degrade u (rep_At rep) (pg_now e) d))))
          (\<lambda>affected. if affected = 1 then
             tx_wrap ''queue crowd notification: '' (statement e 4 (\<lambda>d.
               uuid_arg e (rep_ServerID rep) (\<lambda>u.
                 if \<not> has_server d u then Inl ForeignKey
                 else Inr ((), queue_note u Degraded Success (rep_At rep) d))))
           else tx_return ())
        else tx_return ()) s2 = (Inr (), s)"
    unfolding RecordUserReport_tx_def
    by (auto elim!: tx_bind_InrE dest!: tx_wrap_InrE simp: tx_return_def)
  from ins obtain u h where u: "pg_uuid_in e (rep_ServerID rep) = Some u"
    and h: "bpchar64 (rep_ReporterHash rep) = Some h" and s1: "tx_db s1 = after_insert u h rep d"
    by (auto elim!: statement_InrE insert_report_InrE simp: after_insert_def split: if_splits)
  from cs u s1 have v: "v = signal_of u (rep_At rep) (after_insert u h rep d)" and s2: "s2 = s1"
    by (auto elim: crowdSignal_InrE)
  let ?d1 = "after_insert u h rep d"
  have n: "length (filter (degrades u) (servers ?d1)) = (if status_of ?d1 u = Some Operational then 1 else 0)"
    using degrades_count [OF after_insert_servers_ok [OF ok]] .
  have "tx_db s = after_signal e u rep ?d1"
  proof (cases "sig_Anomalous v")
    case False
    with rest s2 s1 v show ?thesis by (simp add: after_signal_def tx_return_def)
  next
    case True
    have no: "status_of ?d1 u \<noteq> Some Operational \<Longrightarrow> snd (degrade u t n ?d1) = ?d1" for t n
      using degrade_none [OF _ after_insert_servers_ok [OF ok]] .
    have fd: "fst (degrade u t n ?d1) = (if status_of ?d1 u = Some Operational then 1 else 0)" for t n
      using degrades_count [OF after_insert_servers_ok [OF ok]] by (simp add: degrade_def)
    from True rest s2 obtain k s3 where
      s3: "statement e 3 (\<lambda>d. uuid_arg e (rep_ServerID rep) (\<lambda>u.
            Inr (degrade u (rep_At rep) (pg_now e) d))) s1 = (Inr k, s3)"
      and s4: "(if k = 1 then
             tx_wrap ''queue crowd notification: '' (statement e 4 (\<lambda>d.
               uuid_arg e (rep_ServerID rep) (\<lambda>u.
                 if \<not> has_server d u then Inl ForeignKey
                 else Inr ((), queue_note u Degraded Success (rep_At rep) d))))
           else tx_return ()) s3 = (Inr (), s)"
      by (auto elim!: tx_bind_InrE simp del: One_nat_def)
    from s3 u s1 have k: "k = fst (degrade u (rep_At rep) (pg_now e) ?d1)"
      and db3: "tx_db s3 = snd (degrade u (rep_At rep) (pg_now e) ?d1)"
      by (auto elim!: statement_InrE simp: uuid_arg_def)
    show ?thesis
    proof (cases "status_of ?d1 u = Some Operational")
      case op: True
      with k fd have "k = 1" by simp
      with s4 u db3 op True v show ?thesis
        by (auto elim!: statement_InrE dest!: tx_wrap_InrE
            simp: uuid_arg_def after_signal_def split: if_splits)
    next
      case False
      with k fd have "k = 0" by simp
      with s4 db3 no [OF False] False show ?thesis by (simp add: tx_return_def after_signal_def)
    qed
  qed
  with that u h v d' show ?thesis by blast
qed

definition status_kept :: "db \<Rightarrow> db \<Rightarrow> bool" where
  "status_kept d d' \<longleftrightarrow> (\<forall>v. status_of d' v = status_of d v) \<and> notifs d' = notifs d"

text \<open>One server went from operational to degraded, and one notification of it was queued.\<close>

definition degraded_once :: "uuid \<Rightarrow> instant \<Rightarrow> db \<Rightarrow> db \<Rightarrow> bool" where
  "degraded_once u ts d d' \<longleftrightarrow>
     status_of d u = Some Operational \<and>
     (\<forall>v. status_of d' v = (if v = u then Some Degraded else status_of d v)) \<and>
     (\<exists>i. notifs d' = notifs d @ [\<lparr>nt_id = i, nt_server = u, nt_state = Degraded,
        nt_outcome = Success, nt_created = ts, nt_delivered = None\<rparr>])"

lemma after_insert_frame [row_simps]:
  "servers (after_insert u h rep d) = servers d"
  "notifs (after_insert u h rep d) = notifs d"
  "status_of (after_insert u h rep d) v = status_of d v"
  by (simp_all add: after_insert_def row_simps status_of_def find_server_def)

lemma status_of_queue_note [row_simps]: "status_of (queue_note u q x t d) v = status_of d v"
  by (simp add: status_of_def find_server_def row_simps)

lemma after_signal_effect:
  "status_kept d (after_signal e u rep (after_insert u h rep d)) \<or>
   degraded_once u (rep_At rep) d (after_signal e u rep (after_insert u h rep d))"
proof (cases "sig_Anomalous (signal_of u (rep_At rep) (after_insert u h rep d)) \<and>
    status_of (after_insert u h rep d) u = Some Operational")
  case True
  then have "degraded_once u (rep_At rep) d (after_signal e u rep (after_insert u h rep d))"
    unfolding degraded_once_def after_signal_def
    by (simp add: row_simps status_of_degrade) (simp add: queue_note_def row_simps)
  then show ?thesis by simp
next
  case False
  then show ?thesis by (auto simp: status_kept_def after_signal_def row_simps)
qed

lemma RecordUserReport_effect:
  assumes "servers_ok d"
  shows "status_kept d (snd (RecordUserReport e rep d)) \<or>
    (\<exists>u. degraded_once u (rep_At rep) d (snd (RecordUserReport e rep d)))"
proof (cases "fst (RecordUserReport e rep d)")
  case Inl
  then show ?thesis using RecordUserReport_error [OF Inl] by (simp add: status_kept_def)
next
  case (Inr v)
  then have "RecordUserReport e rep d = (Inr v, snd (RecordUserReport e rep d))" by (simp add: prod_eq_iff)
  then show ?thesis
    using assms
  proof (rule RecordUserReport_cases)
    fix u h assume "snd (RecordUserReport e rep d) = after_signal e u rep (after_insert u h rep d)"
    then show ?thesis using after_signal_effect [of d e u rep h] by auto
  qed
qed

text \<open>A second report of the same sender on the same day is not counted.\<close>

lemma after_signal_reports [row_simps]: "reports (after_signal e u rep d) = reports d"
  by (simp add: after_signal_def row_simps)

lemma duplicate_report_ignored:
  assumes "RecordUserReport e rep d = (Inr v, d')" and "servers_ok d"
    and "pg_uuid_in e (rep_ServerID rep) = Some u" and "bpchar64 (rep_ReporterHash rep) = Some h"
    and "report_known u h (date_of (rep_At rep)) d"
  shows "reports d' = reports d"
  using assms by (elim RecordUserReport_cases) (auto simp: row_simps after_insert_def)

section \<open>Pending notifications\<close>

lemma sort_key_nt_id_sorted: "sorted (map nt_id (pending_rows d))"
  by (simp add: pending_rows_def)

lemma pending_single:
  assumes "servers_ok d" and "s \<in> set (servers d)"
  shows "filter (\<lambda>x. sv_id x = sv_id s) (servers d) = [s]"
proof -
  have "distinct (map sv_id xs) \<Longrightarrow> s \<in> set xs \<Longrightarrow> filter (\<lambda>x. sv_id x = sv_id s) xs = [s]" for xs
    by (induction xs) (auto simp: filter_empty_conv image_iff)
  with assms show ?thesis by (simp add: servers_ok_def)
qed

lemma pending_ids:
  assumes "db_ok d"
  shows "map pn_ID (concat (map (\<lambda>n. map (\<lambda>s. to_pending s n)
      (filter (\<lambda>s. sv_id s = nt_server n) (servers d))) (pending_rows d))) = map nt_id (pending_rows d)"
proof -
  have one: "map pn_ID (map (\<lambda>s. to_pending s n) (filter (\<lambda>s. sv_id s = nt_server n) (servers d))) = [nt_id n]"
    if n: "n \<in> set (pending_rows d)" for n
  proof -
    from n assms have "has_server d (nt_server n)"
      by (auto simp: pending_rows_def db_ok_def notifs_ok_def list_all_iff)
    then obtain s where "s \<in> set (servers d)" "sv_id s = nt_server n" by (auto simp: has_server_def)
    with pending_single [of d s] assms show ?thesis by (simp add: db_ok_def to_pending_def)
  qed
  have "concat (map (\<lambda>n. map pn_ID (map (\<lambda>s. to_pending s n)
      (filter (\<lambda>s. sv_id s = nt_server n) (servers d)))) (pending_rows d))
    = concat (map (\<lambda>n. [nt_id n]) (pending_rows d))"
    by (rule arg_cong [of _ _ concat]) (simp add: one del: map_map)
  then show ?thesis by (simp add: map_concat o_def)
qed

text \<open>The oldest \<open>limit\<close> undelivered notifications, each once.\<close>

lemma PendingStateNotifications_ids:
  "db_ok d \<Longrightarrow> quiet e \<Longrightarrow> \<exists>xs. PendingStateNotifications e n d = Inr xs \<and>
     map pn_ID xs = take n (map nt_id (pending_rows d))"
  by (simp add: PendingStateNotifications_def query_pool_def quiet_def pending_ids
      take_map [symmetric] del: map_map)

lemma mark_delivered_pending:
  "map nt_id (pending_rows (mark_delivered i now d)) = filter (\<lambda>j. j \<noteq> i) (map nt_id (pending_rows d))"
proof -
  have f: "filter (\<lambda>n. nt_delivered n = None) (notifs (mark_delivered i now d))
      = filter (\<lambda>n. nt_id n \<noteq> i) (filter (\<lambda>n. nt_delivered n = None) (notifs d))"
  proof -
    have "filter (\<lambda>n. nt_delivered n = None) (map (\<lambda>n. if nt_id n = i \<and> nt_delivered n = None
        then n\<lparr>nt_delivered := Some now\<rparr> else n) xs)
      = filter (\<lambda>n. nt_id n \<noteq> i) (filter (\<lambda>n. nt_delivered n = None) xs)" for xs
      by (induction xs) auto
    then show ?thesis by (simp add: mark_delivered_def)
  qed
  have "pending_rows (mark_delivered i now d) = filter (\<lambda>n. nt_id n \<noteq> i) (pending_rows d)"
    unfolding pending_rows_def f filter_sort by simp
  then show ?thesis by (simp add: filter_map o_def)
qed

end
