(* ===== verification/Calendar.thy ===== *)
theory Calendar imports Instants GoText "HOL-Library.Monad_Syntax" begin

text \<open>
  The proleptic Gregorian calendar on day numbers (days since 2000-01-01, the first day of a
  400-year cycle): the subtraction of PostgreSQL's \<open>interval '1 year'\<close>, the dates that
  \<open>time.Format\<close> prints and \<open>time.ParseInLocation\<close> reads for the layouts of the
  program.
\<close>

section \<open>Years\<close>

definition leap :: "int \<Rightarrow> bool" where
  "leap y \<longleftrightarrow> y mod 4 = 0 \<and> (y mod 100 \<noteq> 0 \<or> y mod 400 = 0)"

text \<open>The days before the \<open>k\<close>-th year of a cycle.\<close>

definition cycle_days :: "int \<Rightarrow> int" where
  "cycle_days k = 365 * k + (k + 3) div 4 - (k + 99) div 100 + (k + 399) div 400"

definition year_start :: "int \<Rightarrow> int" where
  "year_start y = 146097 * ((y - 2000) div 400) + cycle_days ((y - 2000) mod 400)"

definition year_of :: "int \<Rightarrow> int" where
  "year_of n =
     (let r = n mod 146097; k = r div 366 in
      2000 + 400 * (n div 146097) +
        (if cycle_days (k + 1) \<le> r then k + 1 else k))"

lemma ceil_step:
  fixes k m :: int
  assumes m: "0 < m" and c: "c = m - 1"
  shows "(k + 1 + c) div m = (k + c) div m + (if k mod m = 0 then 1 else 0)"
proof -
  define q r where "q = k div m" and "r = k mod m"
  have k: "k = m * q + r" by (simp add: q_def r_def)
  have r: "0 \<le> r" "r < m" using m by (simp_all add: r_def)
  have a: "(k + 1 + c) div m = q + 1" using m c by (simp add: q_def)
  have e: "k + c = (r + m - 1) + m * q" using k c by simp
  have b: "(k + c) div m = q + (r + m - 1) div m"
    unfolding e using m by (subst div_mult_self2) simp_all
  have "r = 0 \<Longrightarrow> (r + m - 1) div m = 0" using m by simp
  moreover have "0 < r \<Longrightarrow> (r + m - 1) div m = 1"
    using m r div_pos_geq [of m "r + m - 1"] by simp
  ultimately show ?thesis using a b r by (auto simp: r_def [symmetric])
qed

lemma cycle_days_step: "cycle_days (k + 1) = cycle_days k + (if leap k then 366 else 365)"
proof -
  have s4: "(k + 1 + 3) div 4 = (k + 3) div 4 + (if k mod 4 = 0 then 1 else 0)"
    by (rule ceil_step) simp_all
  have s100: "(k + 1 + 99) div 100 = (k + 99) div 100 + (if k mod 100 = 0 then 1 else 0)"
    by (rule ceil_step) simp_all
  have s400: "(k + 1 + 399) div 400 = (k + 399) div 400 + (if k mod 400 = 0 then 1 else 0)"
    by (rule ceil_step) simp_all
  have d1: "k mod 400 = 0 \<Longrightarrow> k mod 100 = 0"
    unfolding mod_eq_0_iff_dvd by (rule dvd_trans [of 100 400]) simp_all
  have d2: "k mod 100 = 0 \<Longrightarrow> k mod 4 = 0"
    unfolding mod_eq_0_iff_dvd by (rule dvd_trans [of 4 100]) simp_all
  show ?thesis
    unfolding cycle_days_def leap_def s4 s100 s400 using d1 d2
    by (cases "k mod 400 = 0"; cases "k mod 100 = 0"; cases "k mod 4 = 0") simp_all
qed

text \<open>The three quotients of \<open>cycle_days\<close>, squeezed.\<close>

lemma quotient_bounds: "0 < m \<Longrightarrow> k \<le> m * ((k + m - 1) div m) \<and> m * ((k + m - 1) div m) \<le> k + m - 1" for k m :: int
proof -
  assume m: "0 < m"
  define q r where "q = (k + m - 1) div m" and "r = (k + m - 1) mod m"
  have "k + m - 1 = m * q + r" and "0 \<le> r" and "r < m" using m by (simp_all add: q_def r_def)
  then show ?thesis unfolding q_def [symmetric] by linarith
qed

lemma cycle_days_quotients:
  obtains a b c where "cycle_days k = 365 * k + a - b + c"
    and "k \<le> 4 * a" "4 * a \<le> k + 3" "k \<le> 100 * b" "100 * b \<le> k + 99" "k \<le> 400 * c" "400 * c \<le> k + 399"
  using quotient_bounds [of 4 k] quotient_bounds [of 100 k] quotient_bounds [of 400 k]
  by (simp add: cycle_days_def)

lemma cycle_days_bounds: "0 \<le> k \<Longrightarrow> k \<le> 400 \<Longrightarrow> 365 * k \<le> cycle_days k \<and> cycle_days k \<le> 366 * k"
proof -
  assume k: "0 \<le> k" "k \<le> 400"
  obtain a b c where d: "cycle_days k = 365 * k + a - b + c"
    and q: "k \<le> 4 * a" "4 * a \<le> k + 3" "k \<le> 100 * b" "100 * b \<le> k + 99" "k \<le> 400 * c" "400 * c \<le> k + 399"
    by (rule cycle_days_quotients)
  have c: "0 < k \<Longrightarrow> c = 1" "k = 0 \<Longrightarrow> c = 0" using q k by linarith+
  have lo: "b \<le> a + c" using q k c by (cases "k = 0") linarith+
  have "a + c \<le> k + b" using q k c by (cases "k = 0"; cases "k \<le> 2") linarith+
  with lo d show ?thesis by simp
qed

lemma leap_cycle: "leap ((y - 2000) mod 400) = leap y"
proof -
  have "((y - 2000) mod 400) mod m = y mod m" if "m dvd 400" "m dvd 2000" for m :: int
    using that by (simp add: mod_mod_cancel) (metis mod_diff_right_eq diff_zero dvd_imp_mod_0)
  from this [of 4] this [of 100] this [of 400] show ?thesis by (simp add: leap_def)
qed

lemma year_start_step: "year_start (y + 1) = year_start y + (if leap y then 366 else 365)"
proof -
  define q k where "q = (y - 2000) div 400" and "k = (y - 2000) mod 400"
  have y: "y - 2000 = 400 * q + k" by (simp add: q_def k_def)
  have k: "0 \<le> k" "k < 400" by (simp_all add: k_def)
  have s: "cycle_days (k + 1) = cycle_days k + (if leap y then 366 else 365)"
    using cycle_days_step [of k] leap_cycle [of y] by (simp add: k_def)
  show ?thesis
  proof (cases "k = 399")
    case True
    with y have "y + 1 - 2000 = 400 * (q + 1) + 0" by simp
    then have "(y + 1 - 2000) div 400 = q + 1 \<and> (y + 1 - 2000) mod 400 = 0" by simp
    moreover have "cycle_days 400 = 146097" "cycle_days 0 = 0" by (simp_all add: cycle_days_def)
    ultimately show ?thesis using s True
      by (simp add: year_start_def q_def [symmetric] k_def [symmetric])
  next
    case False
    with k have "k + 1 < 400" by simp
    moreover from y have e: "y + 1 - 2000 = (k + 1) + 400 * q" by simp
    ultimately have "(y + 1 - 2000) div 400 = q \<and> (y + 1 - 2000) mod 400 = k + 1"
      using k unfolding e by (simp only: div_mult_self2 mod_mult_self2) simp
    then show ?thesis using s by (simp add: year_start_def q_def [symmetric] k_def [symmetric])
  qed
qed

lemma year_of_bounds: "year_start (year_of n) \<le> n \<and> n < year_start (year_of n + 1)"
proof -
  define q r k where "q = n div 146097" and "r = n mod 146097" and "k = r div 366"
  have n: "n = 146097 * q + r" by (simp add: q_def r_def)
  have r: "0 \<le> r" "r < 146097" by (simp_all add: r_def)
  have k: "0 \<le> k" "k \<le> 399" "366 * k \<le> r" "r < 366 * k + 366"
    using r by (auto simp: k_def)
  define j where "j = (if cycle_days (k + 1) \<le> r then k + 1 else k)"
  have ck: "cycle_days k \<le> r" using cycle_days_bounds [of k] k by linarith
  have c2: "r < cycle_days (k + 2)"
  proof -
    obtain a b c where d: "cycle_days (k + 2) = 365 * (k + 2) + a - b + c"
      and q: "k + 2 \<le> 4 * a" "100 * b \<le> k + 2 + 99" "k + 2 \<le> 400 * c"
      by (rule cycle_days_quotients)
    have "1 \<le> c" using q k by linarith
    have "k \<le> 4 * a - 2" "100 * b \<le> k + 101" using q by simp_all
    then have "k - 365 \<le> a - b" using k by linarith
    then show ?thesis using d k \<open>1 \<le> c\<close> by (simp add: d)
  qed
  have j: "cycle_days j \<le> r \<and> r < cycle_days (j + 1)"
    using ck c2 by (auto simp: j_def add.assoc)
  have j400: "0 \<le> j" "j \<le> 400" using k by (auto simp: j_def)
  have j399: "j \<le> 399"
  proof (rule ccontr)
    assume "\<not> j \<le> 399"
    with j400 have "j = 400" by simp
    with j r show False by (simp add: cycle_days_def)
  qed
  have y: "year_of n = 2000 + 400 * q + j"
    by (simp add: year_of_def Let_def q_def r_def k_def j_def)
  have e: "year_of n - 2000 = j + 400 * q" by (simp add: y)
  have "(year_of n - 2000) div 400 = q \<and> (year_of n - 2000) mod 400 = j"
    unfolding e using j399 j400 by (simp only: div_mult_self2 mod_mult_self2) simp
  then have ys: "year_start (year_of n) = 146097 * q + cycle_days j" by (simp add: year_start_def)
  have "leap (year_of n) = leap j" using leap_cycle [of "year_of n"]
      \<open>(year_of n - 2000) div 400 = q \<and> (year_of n - 2000) mod 400 = j\<close> by simp
  then have "year_start (year_of n + 1) = 146097 * q + cycle_days (j + 1)"
    using year_start_step [of "year_of n"] cycle_days_step [of j] ys by simp
  with ys j n show ?thesis by simp
qed

lemma year_start_less: "y < y' \<Longrightarrow> year_start y < year_start y'"
proof (induction "nat (y' - y)" arbitrary: y')
  case (Suc n)
  have "year_start (y' - 1) < year_start y'" using year_start_step [of "y' - 1"] by (simp split: if_splits)
  moreover have "y < y' - 1 \<Longrightarrow> year_start y < year_start (y' - 1)" using Suc by simp
  ultimately show ?case using Suc.prems by (cases "y = y' - 1") auto
qed simp

lemma year_of_eq: "year_start y \<le> n \<Longrightarrow> n < year_start (y + 1) \<Longrightarrow> year_of n = y"
proof (rule ccontr)
  assume n: "year_start y \<le> n" "n < year_start (y + 1)" and "year_of n \<noteq> y"
  then consider "year_of n + 1 \<le> y" | "y + 1 \<le> year_of n" by linarith
  then show False
  proof cases
    case 1
    then have "year_start (year_of n + 1) \<le> year_start y"
      using year_start_less [of "year_of n + 1" y] by (cases "year_of n + 1 = y") auto
    with n year_of_bounds [of n] show False by simp
  next
    case 2
    then have "year_start (y + 1) \<le> year_start (year_of n)"
      using year_start_less [of "y + 1" "year_of n"] by (cases "y + 1 = year_of n") auto
    with n year_of_bounds [of n] show False by simp
  qed
qed

section \<open>One year earlier\<close>

text \<open>
  \<open>t - interval '1 year'\<close>: the same day of the month, the 28th for a 29th of February.
\<close>

definition minus_year :: "instant \<Rightarrow> instant" where
  "minus_year t =
     (let n = date_of t; y = year_of n; doy = n - year_start y;
          doy' = (if leap y \<and> 59 \<le> doy then doy - 1
                  else if leap (y - 1) \<and> 59 \<le> doy then doy + 1 else doy)
      in day_us * (year_start (y - 1) + doy') + t mod day_us)"

lemma not_leap_twice: "leap y \<Longrightarrow> \<not> leap (y - 1)"
  unfolding leap_def by presburger

lemma minus_year_bounds: "t - 366 * day_us \<le> minus_year t \<and> minus_year t \<le> t - 365 * day_us"
proof -
  define n y where "n = date_of t" and "y = year_of n"
  have t: "t = day_us * n + t mod day_us" by (simp add: n_def date_of_def)
  have st: "year_start y = year_start (y - 1) + (if leap (y - 1) then 366 else 365)"
    using year_start_step [of "y - 1"] by simp
  define k where "k = (let doy = n - year_start y in
     year_start (y - 1) + (if leap y \<and> 59 \<le> doy then doy - 1
                  else if leap (y - 1) \<and> 59 \<le> doy then doy + 1 else doy))"
  have "n - 366 \<le> k" and "k \<le> n - 365"
    using st not_leap_twice [of y] by (auto simp: k_def Let_def split: if_splits)
  then have "day_us * (n - 366) \<le> day_us * k" and "day_us * k \<le> day_us * (n - 365)"
    by (simp_all add: us_defs)
  moreover have "minus_year t = day_us * k + t mod day_us"
    by (simp add: minus_year_def Let_def k_def n_def y_def)
  ultimately show ?thesis using t by (simp add: algebra_simps)
qed

section \<open>Months and days\<close>

definition month_lengths :: "int \<Rightarrow> int list" where
  "month_lengths y = [31, if leap y then 29 else 28, 31, 30, 31, 30, 31, 31, 30, 31, 30, 31]"

fun month_day :: "int \<Rightarrow> int list \<Rightarrow> int \<Rightarrow> int \<times> int" where
  "month_day m [] r = (m, r + 1)"
| "month_day m (l # ls) r = (if r < l then (m, r + 1) else month_day (m + 1) ls (r - l))"

definition civil :: "int \<Rightarrow> int \<times> int \<times> int" where
  "civil n = (let y = year_of n in (y, month_day 1 (month_lengths y) (n - year_start y)))"

definition days_from_civil :: "int \<Rightarrow> int \<Rightarrow> int \<Rightarrow> int" where
  "days_from_civil y m d = year_start y + sum_list (take (nat (m - 1)) (month_lengths y)) + d - 1"

definition valid_civil :: "int \<Rightarrow> int \<Rightarrow> int \<Rightarrow> bool" where
  "valid_civil y m d \<longleftrightarrow> 1 \<le> m \<and> m \<le> 12 \<and> 1 \<le> d \<and> d \<le> month_lengths y ! nat (m - 1)"

lemma month_day_take:
  "k < length ls \<Longrightarrow> 0 \<le> r \<Longrightarrow> r < ls ! k \<Longrightarrow> list_all (\<lambda>l. 0 \<le> l) ls \<Longrightarrow>
     month_day m ls (sum_list (take k ls) + r) = (m + int k, r + 1)"
proof (induction ls arbitrary: k m)
  case (Cons l ls)
  show ?case
  proof (cases k)
    case (Suc j)
    have "0 \<le> sum_list (take j ls)"
      using Cons.prems(4) by (intro sum_list_nonneg) (auto simp: list_all_iff dest: in_set_takeD)
    then show ?thesis using Suc Cons by simp
  qed (use Cons in simp)
qed simp

lemma month_lengths_sum: "sum_list (month_lengths y) = (if leap y then 366 else 365)"
  by (simp add: month_lengths_def)

lemma month_lengths_nonneg: "list_all (\<lambda>l. 0 \<le> l) (month_lengths y)"
  by (simp add: month_lengths_def)

lemma sum_take_bound:
  "k < length ls \<Longrightarrow> list_all (\<lambda>l. 0 \<le> l) ls \<Longrightarrow> sum_list (take k ls) + ls ! k \<le> sum_list (ls :: int list)"
proof (induction ls arbitrary: k)
  case (Cons l ls)
  then have "0 \<le> sum_list ls" by (intro sum_list_nonneg) (auto simp: list_all_iff)
  then show ?case using Cons by (cases k) auto
qed simp

theorem civil_days_from_civil: "valid_civil y m d \<Longrightarrow> civil (days_from_civil y m d) = (y, m, d)"
proof -
  assume v: "valid_civil y m d"
  define k where "k = nat (m - 1)"
  let ?ls = "month_lengths y"
  have k: "k < length ?ls" and m: "m = 1 + int k" and d: "1 \<le> d" "d \<le> ?ls ! k"
    using v by (auto simp: valid_civil_def k_def month_lengths_def)
  define r where "r = sum_list (take k ?ls) + (d - 1)"
  have n: "days_from_civil y m d = year_start y + r" by (simp add: days_from_civil_def r_def k_def)
  have "0 \<le> sum_list (take k ?ls)"
    by (intro sum_list_nonneg) (auto simp: month_lengths_def dest!: in_set_takeD split: if_splits)
  moreover have "sum_list (take k ?ls) + ?ls ! k \<le> sum_list ?ls"
    by (rule sum_take_bound [OF k month_lengths_nonneg])
  ultimately have "0 \<le> r" and "year_start y + r < year_start (y + 1)"
    using d year_start_step [of y] month_lengths_sum [of y] by (auto simp: r_def)
  then have y: "year_of (year_start y + r) = y" by (intro year_of_eq) simp_all
  have "month_day 1 ?ls r = (1 + int k, d)"
    using month_day_take [OF k _ _ month_lengths_nonneg, of "d - 1" 1] d by (simp add: r_def)
  then show ?thesis unfolding civil_def Let_def n y by (simp add: m)
qed

section \<open>Layouts\<close>

text \<open>\<open>appendInt\<close> with a width, for the years from 0 on.\<close>

definition pad :: "nat \<Rightarrow> int \<Rightarrow> string" where
  "pad w z = (let s = dec (nat z) in replicate (w - length s) (CHR ''0'') @ s)"

text \<open>\<open>2006-01-02\<close> and \<open>2006-01-02 15:04 MST\<close>, of a time in UTC.\<close>

definition format_date :: "instant \<Rightarrow> string" where
  "format_date t = (case civil (date_of t) of (y, m, d) \<Rightarrow>
     pad 4 y @ ''-'' @ pad 2 m @ ''-'' @ pad 2 d)"

definition format_minute :: "instant \<Rightarrow> string" where
  "format_minute t = format_date t @ '' '' @ pad 2 (extract_hour t) @ '':'' @
     pad 2 (extract_minute t) @ '' UTC''"

text \<open>
  \<open>time.ParseInLocation("2006-01-02T15:04", s, ...)\<close>, in UTC: the year, month, day and
  minute have a fixed width, the hour may be one digit.
\<close>

fun digits2 :: "string \<Rightarrow> (int \<times> string) option" where
  "digits2 (a # b # s) = (if is_digit a \<and> is_digit b then Some (int (undec [a, b]), s) else None)"
| "digits2 _ = None"

fun digits12 :: "string \<Rightarrow> (int \<times> string) option" where
  "digits12 (a # s) = (if \<not> is_digit a then None
     else case s of
       b # s' \<Rightarrow> if is_digit b then Some (int (undec [a, b]), s') else Some (int (undec [a]), s)
     | [] \<Rightarrow> Some (int (undec [a]), s))"
| "digits12 [] = None"

fun digits4 :: "string \<Rightarrow> (int \<times> string) option" where
  "digits4 (a # b # c # d # s) = (if list_all is_digit [a, b, c, d]
     then Some (int (undec [a, b, c, d]), s) else None)"
| "digits4 _ = None"

definition literal :: "char \<Rightarrow> string \<Rightarrow> string option" where
  "literal c s = (case s of [] \<Rightarrow> None | a # s' \<Rightarrow> if a = c then Some s' else None)"

definition parse_minute :: "string \<Rightarrow> instant option" where
  "parse_minute s = do {
     (y, s) \<leftarrow> digits4 s; s \<leftarrow> literal (CHR ''-'') s;
     (m, s) \<leftarrow> digits2 s; s \<leftarrow> literal (CHR ''-'') s;
     (d, s) \<leftarrow> digits2 s; s \<leftarrow> literal (CHR ''T'') s;
     (h, s) \<leftarrow> digits12 s; s \<leftarrow> literal (CHR '':'') s;
     (mi, s) \<leftarrow> digits2 s;
     if valid_civil y m d \<and> h < 24 \<and> mi < 60 \<and> s = []
     then Some (day_us * days_from_civil y m d + h * hour_us + mi * minute_us) else None }"

end
