(* ===== verification/Rollup.thy ===== *)
theory Rollup imports Prelude begin

text \<open>
  \<open>INSERT INTO t SELECT ... GROUP BY k ON CONFLICT (k) DO UPDATE SET c = EXCLUDED.c\<close>, the
  shape of the four roll-ups of \<open>RunRetention\<close>: group the source rows by a key, build one
  row per group, replace the table's row of that key or append one. The locale
  \<open>rollup_law\<close> is the contract (a built row has the key of its group) and gives the
  content of the table after the statement, its key's uniqueness and the statement's idempotence.
\<close>

definition group_by :: "('r \<Rightarrow> 'k) \<Rightarrow> 'r list \<Rightarrow> ('k \<times> 'r list) list" where
  "group_by rkey rows = map (\<lambda>k. (k, filter (\<lambda>r. rkey r = k) rows)) (remdups (map rkey rows))"

definition upsert1 :: "('a \<Rightarrow> 'k) \<Rightarrow> 'a \<Rightarrow> 'a list \<Rightarrow> 'a list" where
  "upsert1 akey x xs =
     (if list_ex (\<lambda>y. akey y = akey x) xs then map (\<lambda>y. if akey y = akey x then x else y) xs
      else xs @ [x])"

definition upsert_all :: "('a \<Rightarrow> 'k) \<Rightarrow> 'a list \<Rightarrow> 'a list \<Rightarrow> 'a list" where
  "upsert_all akey new old = fold (upsert1 akey) new old"

definition built :: "('r \<Rightarrow> 'k) \<Rightarrow> ('k \<Rightarrow> 'r list \<Rightarrow> 'a) \<Rightarrow> 'r list \<Rightarrow> 'a list" where
  "built rkey build rows = map (\<lambda>(k, rs). build k rs) (group_by rkey rows)"

definition lookup_key :: "('a \<Rightarrow> 'k) \<Rightarrow> 'k \<Rightarrow> 'a list \<Rightarrow> 'a option" where
  "lookup_key akey k xs = find (\<lambda>x. akey x = k) xs"

text \<open>A value that does not fit its column fails the statement.\<close>

definition rollup ::
  "('r \<Rightarrow> 'k) \<Rightarrow> ('k \<Rightarrow> 'r list \<Rightarrow> 'a) \<Rightarrow> ('a \<Rightarrow> 'k) \<Rightarrow> ('a \<Rightarrow> bool) \<Rightarrow> 'r list \<Rightarrow> 'a list \<Rightarrow> 'a list res" where
  "rollup rkey build akey fit rows old =
     (if list_all fit (built rkey build rows) then Inr (upsert_all akey (built rkey build rows) old)
      else Inl OutOfRange)"

lemma lookup_key_upsert1:
  "lookup_key akey k (upsert1 akey x xs) = (if akey x = k then Some x else lookup_key akey k xs)"
proof -
  have "lookup_key akey k (map (\<lambda>y. if akey y = akey x then x else y) xs) =
      (if akey x = k then (if list_ex (\<lambda>y. akey y = akey x) xs then Some x else None)
       else lookup_key akey k xs)"
    by (induction xs) (auto simp: lookup_key_def)
  moreover have "\<not> list_ex (\<lambda>y. akey y = akey x) xs \<Longrightarrow> lookup_key akey (akey x) xs = None"
    by (induction xs) (auto simp: lookup_key_def)
  ultimately show ?thesis
    by (auto simp: upsert1_def lookup_key_def find_append split: option.splits)
qed

lemma lookup_key_upsert_all:
  "distinct (map akey new) \<Longrightarrow> lookup_key akey k (upsert_all akey new old) =
     (case lookup_key akey k new of None \<Rightarrow> lookup_key akey k old | Some x \<Rightarrow> Some x)"
proof (induction new arbitrary: old)
  case (Cons x xs)
  have "akey x = k \<Longrightarrow> lookup_key akey k xs = None"
    using Cons.prems by (auto simp: lookup_key_def find_None_iff image_iff)
  with Cons show ?case
    by (simp add: upsert_all_def lookup_key_upsert1 split: option.splits) (auto simp: lookup_key_def)
qed (simp add: upsert_all_def lookup_key_def)

lemma upsert1_keys:
  "map akey (upsert1 akey x xs) = (if akey x \<in> set (map akey xs) then map akey xs else map akey xs @ [akey x])"
  by (auto simp: upsert1_def list_ex_iff image_iff) metis

lemma upsert_all_distinct: "distinct (map akey old) \<Longrightarrow> distinct (map akey (upsert_all akey new old))"
proof (induction new arbitrary: old)
  case (Cons x xs)
  have "distinct (map akey (upsert1 akey x old))" using Cons.prems by (simp only: upsert1_keys) simp
  from Cons.IH [OF this] show ?case by (simp add: upsert_all_def)
qed (simp add: upsert_all_def)

text \<open>Rows that are already there are replaced by themselves.\<close>

lemma upsert1_same:
  assumes "distinct (map akey xs)" and "x \<in> set xs"
  shows "upsert1 akey x xs = xs"
proof -
  have "map (\<lambda>y. if akey y = akey x then x else y) xs = xs"
    by (rule map_idI) (use assms distinct_map_eq_imp_eq in fastforce)
  with assms(2) show ?thesis by (auto simp: upsert1_def list_ex_iff)
qed

lemma upsert_all_same:
  "distinct (map akey old) \<Longrightarrow> set new \<subseteq> set old \<Longrightarrow> upsert_all akey new old = old"
  by (induction new) (auto simp: upsert_all_def upsert1_same)

lemma lookup_key_in: "distinct (map akey xs) \<Longrightarrow> x \<in> set xs \<Longrightarrow> lookup_key akey (akey x) xs = Some x"
  unfolding lookup_key_def by (rule find_distinct)

lemma lookup_key_Some: "lookup_key akey k xs = Some x \<Longrightarrow> x \<in> set xs \<and> akey x = k"
  by (auto simp: lookup_key_def find_Some_iff)

lemma upsert_all_subset:
  assumes "distinct (map akey new)"
  shows "set new \<subseteq> set (upsert_all akey new old)"
proof
  fix x assume "x \<in> set new"
  then have "lookup_key akey (akey x) (upsert_all akey new old) = Some x"
    by (simp add: lookup_key_upsert_all assms lookup_key_in)
  then show "x \<in> set (upsert_all akey new old)" by (rule lookup_key_Some [THEN conjunct1])
qed

locale rollup_law =
  fixes rkey :: "'r \<Rightarrow> 'k" and build :: "'k \<Rightarrow> 'r list \<Rightarrow> 'a" and akey :: "'a \<Rightarrow> 'k" and fit :: "'a \<Rightarrow> bool"
  assumes key_build: "akey (build k rs) = k"
begin

lemma built_keys: "map akey (built rkey build rows) = remdups (map rkey rows)"
  by (simp add: built_def group_by_def key_build o_def)

lemma built_distinct: "distinct (map akey (built rkey build rows))"
  by (simp add: built_keys)

lemma lookup_built:
  "lookup_key akey k (built rkey build rows) =
     (if \<exists>r \<in> set rows. rkey r = k then Some (build k (filter (\<lambda>r. rkey r = k) rows)) else None)"
proof (cases "\<exists>r \<in> set rows. rkey r = k")
  case True
  then have "build k (filter (\<lambda>r. rkey r = k) rows) \<in> set (built rkey build rows)"
    by (auto simp: built_def group_by_def)
  from lookup_key_in [OF built_distinct this] True show ?thesis by (simp add: key_build)
next
  case False
  then have "k \<notin> set (map akey (built rkey build rows))" unfolding built_keys by auto
  with False show ?thesis by (auto simp: lookup_key_def find_None_iff)
qed

text \<open>The table after the statement.\<close>

lemma lookup_rollup:
  "rollup rkey build akey fit rows old = Inr t \<Longrightarrow> lookup_key akey k t =
     (if \<exists>r \<in> set rows. rkey r = k then Some (build k (filter (\<lambda>r. rkey r = k) rows))
      else lookup_key akey k old)"
  by (auto simp: rollup_def lookup_key_upsert_all built_distinct lookup_built split: if_splits)

lemma distinct_rollup:
  "rollup rkey build akey fit rows old = Inr t \<Longrightarrow> distinct (map akey old) \<Longrightarrow> distinct (map akey t)"
  by (auto simp: rollup_def upsert_all_distinct split: if_splits)

lemma rollup_idem:
  "rollup rkey build akey fit rows old = Inr t \<Longrightarrow> distinct (map akey old) \<Longrightarrow>
     rollup rkey build akey fit rows t = Inr t"
  using upsert_all_subset [OF built_distinct]
  by (auto simp: rollup_def upsert_all_same upsert_all_distinct split: if_splits)

end

end
