(* ===== verification/Retention.thy ===== *)
theory Retention imports Rollup Calendar Crowd Checks begin

text \<open>
  \<open>RunRetention\<close> of \<open>internal/store/postgres.go\<close>: checks into 15-minute rows, those
  into hourly rows, player reports into 15-minute rows, hourly rows into daily uptime; then the
  rows older than 30 days, 90 days and a year are deleted.
  \<open>round(x)::integer\<close> and \<open>round(x, 2)\<close> work on PostgreSQL's \<open>numeric\<close>; the
  quotients here have denominators far below its 16 digits, so rounding the exact fraction gives
  the same number.
\<close>

section \<open>Aggregate functions\<close>

definition count_if :: "('a \<Rightarrow> bool) \<Rightarrow> 'a list \<Rightarrow> int" where
  "count_if P xs = int (length (filter P xs))"

definition sql_max :: "int list \<Rightarrow> int option" where
  "sql_max xs = (case xs of [] \<Rightarrow> None | y # ys \<Rightarrow> Some (fold max ys y))"

definition not_null :: "'a option list \<Rightarrow> 'a list" where
  "not_null xs = concat (map (\<lambda>x. case x of None \<Rightarrow> [] | Some y \<Rightarrow> [y]) xs)"

definition ratio_round :: "int \<Rightarrow> int \<Rightarrow> int option" where
  "ratio_round n k = (if k = 0 then None else Some (go_round (of_int n / of_int k)))"

definition round2 :: "rat \<Rightarrow> rat" where
  "round2 x = of_int (go_round (x * 100)) / 100"

definition excluded :: "db \<Rightarrow> check_row \<Rightarrow> bool" where
  "excluded d c \<longleftrightarrow> in_maintenance d (ck_at c) (ck_server c)"

section \<open>The roll-ups\<close>

definition check_key :: "check_row \<Rightarrow> uuid \<times> instant" where
  "check_key c = (ck_server c, date_bin15 (ck_at c))"

definition agg_key :: "agg_row \<Rightarrow> uuid \<times> instant" where
  "agg_key a = (ag_server a, ag_start a)"

definition build15 :: "db \<Rightarrow> uuid \<times> instant \<Rightarrow> check_row list \<Rightarrow> agg_row" where
  "build15 d k cs =
     (let ls = not_null (map ck_latency (filter (\<lambda>c. ck_outcome c = Success) cs)) in
      \<lparr>ag_server = fst k, ag_start = snd k, ag_total = int (length cs),
       ag_successful = count_if (\<lambda>c. ck_outcome c = Success) cs,
       ag_excluded = count_if (excluded d) cs,
       ag_latency_avg = ratio_round (sum_list ls) (int (length ls)),
       ag_latency_max = sql_max ls\<rparr>)"

definition int4_null :: "int option \<Rightarrow> bool" where
  "int4_null x = (case x of None \<Rightarrow> True | Some n \<Rightarrow> int4 n)"

definition agg_fits :: "agg_row \<Rightarrow> bool" where
  "agg_fits a \<longleftrightarrow> int4 (ag_total a) \<and> int4 (ag_successful a) \<and> int4 (ag_excluded a)
     \<and> int4_null (ag_latency_avg a) \<and> int4_null (ag_latency_max a)"

definition roll15 :: "instant \<Rightarrow> db \<Rightarrow> (unit \<times> db) res" where
  "roll15 now d = (case rollup check_key (build15 d) agg_key agg_fits
       (filter (\<lambda>c. ck_at c < trunc_hour now) (checks d)) (aggs15 d) of
     Inl x \<Rightarrow> Inl x | Inr t \<Rightarrow> Inr ((), d\<lparr>aggs15 := t\<rparr>))"

definition hour_key :: "agg_row \<Rightarrow> uuid \<times> instant" where
  "hour_key a = (ag_server a, trunc_hour (ag_start a))"

definition weighted :: "agg_row \<Rightarrow> int" where
  "weighted a = (case ag_latency_avg a of None \<Rightarrow> 0 | Some n \<Rightarrow> n) * ag_successful a"

definition buildH :: "uuid \<times> instant \<Rightarrow> agg_row list \<Rightarrow> agg_row" where
  "buildH k rs = \<lparr>ag_server = fst k, ag_start = snd k, ag_total = sum_list (map ag_total rs),
     ag_successful = sum_list (map ag_successful rs), ag_excluded = sum_list (map ag_excluded rs),
     ag_latency_avg = ratio_round (sum_list (map weighted rs)) (sum_list (map ag_successful rs)),
     ag_latency_max = sql_max (not_null (map ag_latency_max rs))\<rparr>"

text \<open>The product of two \<open>integer\<close> columns is computed as an \<open>integer\<close>.\<close>

definition rollH :: "instant \<Rightarrow> db \<Rightarrow> (unit \<times> db) res" where
  "rollH now d =
     (let rows = filter (\<lambda>a. ag_start a < trunc_hour now) (aggs15 d) in
      if \<not> list_all (\<lambda>a. int4 (weighted a)) rows then Inl OutOfRange
      else case rollup hour_key buildH agg_key agg_fits rows (aggsH d) of
        Inl x \<Rightarrow> Inl x | Inr t \<Rightarrow> Inr ((), d\<lparr>aggsH := t\<rparr>))"

definition report_key :: "report_row \<Rightarrow> uuid \<times> instant" where
  "report_key r = (ur_server r, date_bin15 (ur_at r))"

definition report_agg_key :: "report_agg_row \<Rightarrow> uuid \<times> instant" where
  "report_agg_key a = (ra_server a, ra_start a)"

definition count_type :: "string \<Rightarrow> report_row list \<Rightarrow> int" where
  "count_type t rs = count_if (\<lambda>r. ur_type r = t) rs"

definition buildR :: "uuid \<times> instant \<Rightarrow> report_row list \<Rightarrow> report_agg_row" where
  "buildR k rs = \<lparr>ra_server = fst k, ra_start = snd k, ra_total = int (length rs),
     ra_connection = count_type ''CONNECTION'' rs, ra_login = count_type ''LOGIN'' rs,
     ra_timeout = count_type ''TIMEOUT'' rs, ra_lag = count_type ''LAG'' rs,
     ra_other = count_type ''OTHER'' rs\<rparr>"

definition report_agg_fits :: "report_agg_row \<Rightarrow> bool" where
  "report_agg_fits a \<longleftrightarrow> int4 (ra_total a) \<and> int4 (ra_connection a) \<and> int4 (ra_login a)
     \<and> int4 (ra_timeout a) \<and> int4 (ra_lag a) \<and> int4 (ra_other a)"

definition rollR :: "instant \<Rightarrow> db \<Rightarrow> (unit \<times> db) res" where
  "rollR now d = (case rollup report_key buildR report_agg_key report_agg_fits
       (filter (\<lambda>r. ur_at r < trunc_hour now) (reports d)) (report_aggs d) of
     Inl x \<Rightarrow> Inl x | Inr t \<Rightarrow> Inr ((), d\<lparr>report_aggs := t\<rparr>))"

definition day_key :: "agg_row \<Rightarrow> uuid \<times> int" where
  "day_key a = (ag_server a, date_of (ag_start a))"

definition daily_key :: "daily_row \<Rightarrow> uuid \<times> int" where
  "daily_key a = (dy_server a, dy_day a)"

definition buildD :: "uuid \<times> int \<Rightarrow> agg_row list \<Rightarrow> daily_row" where
  "buildD k rs =
     (let total = sum_list (map ag_total rs); good = sum_list (map ag_successful rs);
          excl = sum_list (map ag_excluded rs)
      in \<lparr>dy_server = fst k, dy_day = snd k, dy_total = total, dy_successful = good,
          dy_excluded = excl,
          dy_uptime = (if total - excl = 0 then None
            else Some (round2 (100 * of_int good / of_int (total - excl))))\<rparr>)"

text \<open>\<open>uptime_percent numeric(5,2)\<close> holds three digits before the point.\<close>

definition daily_fits :: "daily_row \<Rightarrow> bool" where
  "daily_fits a \<longleftrightarrow> int4 (dy_total a) \<and> int4 (dy_successful a) \<and> int4 (dy_excluded a)
     \<and> (case dy_uptime a of None \<Rightarrow> True | Some p \<Rightarrow> \<bar>p\<bar> < 1000)"

definition rollD :: "instant \<Rightarrow> db \<Rightarrow> (unit \<times> db) res" where
  "rollD now d = (case rollup day_key buildD daily_key daily_fits
       (filter (\<lambda>a. ag_start a < trunc_day now) (aggsH d)) (dailies d) of
     Inl x \<Rightarrow> Inl x | Inr t \<Rightarrow> Inr ((), d\<lparr>dailies := t\<rparr>))"

section \<open>The deletions\<close>

definition purge :: "('a \<Rightarrow> instant) \<Rightarrow> instant \<Rightarrow> 'a list \<Rightarrow> nat \<times> 'a list" where
  "purge f limit xs =
     (length (filter (\<lambda>x. f x < limit) xs), filter (\<lambda>x. \<not> f x < limit) xs)"

definition drop_checks :: "instant \<Rightarrow> db \<Rightarrow> nat \<times> db" where
  "drop_checks now d = (case purge ck_at (now - 30 * day_us) (checks d) of
     (n, t) \<Rightarrow> (n, d\<lparr>checks := t\<rparr>))"

definition drop_aggs15 :: "instant \<Rightarrow> db \<Rightarrow> nat \<times> db" where
  "drop_aggs15 now d = (case purge ag_start (now - 90 * day_us) (aggs15 d) of
     (n, t) \<Rightarrow> (n, d\<lparr>aggs15 := t\<rparr>))"

definition drop_aggsH :: "instant \<Rightarrow> db \<Rightarrow> nat \<times> db" where
  "drop_aggsH now d = (case purge ag_start (minus_year now) (aggsH d) of
     (n, t) \<Rightarrow> (n, d\<lparr>aggsH := t\<rparr>))"

definition drop_reports :: "instant \<Rightarrow> db \<Rightarrow> nat \<times> db" where
  "drop_reports now d = (case purge ur_at (now - 30 * day_us) (reports d) of
     (n, t) \<Rightarrow> (n, d\<lparr>reports := t\<rparr>))"

definition drop_report_aggs :: "instant \<Rightarrow> db \<Rightarrow> nat \<times> db" where
  "drop_report_aggs now d = (case purge ra_start (now - 90 * day_us) (report_aggs d) of
     (n, t) \<Rightarrow> (n, d\<lparr>report_aggs := t\<rparr>))"

definition RunRetention_tx :: "pgenv \<Rightarrow> RetentionStats tx" where
  "RunRetention_tx e =
     tx_bind (tx_wrap ''roll up 15-minute checks: '' (statement e 1 (roll15 (pg_now e)))) (\<lambda>_.
     tx_bind (tx_wrap ''roll up hourly checks: '' (statement e 2 (rollH (pg_now e)))) (\<lambda>_.
     tx_bind (tx_wrap ''roll up user reports: '' (statement e 3 (rollR (pg_now e)))) (\<lambda>_.
     tx_bind (tx_wrap ''roll up daily uptime: '' (statement e 4 (rollD (pg_now e)))) (\<lambda>_.
     tx_bind (statement e 5 (\<lambda>d. Inr (drop_checks (pg_now e) d))) (\<lambda>raw.
     tx_bind (statement e 6 (\<lambda>d. Inr (drop_aggs15 (pg_now e) d))) (\<lambda>fifteen.
     tx_bind (statement e 7 (\<lambda>d. Inr (drop_aggsH (pg_now e) d))) (\<lambda>hourly.
     tx_bind (statement e 8 (\<lambda>d. Inr (drop_reports (pg_now e) d))) (\<lambda>_.
     tx_bind (statement e 9 (\<lambda>d. Inr (drop_report_aggs (pg_now e) d))) (\<lambda>_.
     tx_return \<lparr>RawDeleted = raw, FifteenMinuteDeleted = fifteen, HourlyDeleted = hourly\<rparr>)))))))))"

definition RunRetention :: "pgenv \<Rightarrow> db \<Rightarrow> RetentionStats res \<times> db" where
  "RunRetention e d = transact e 10 (RunRetention_tx e) d"

section \<open>The four roll-ups keep the contract of a roll-up\<close>

interpretation fifteen: rollup_law check_key "build15 d" agg_key agg_fits for d
  by unfold_locales (simp add: build15_def agg_key_def Let_def)

interpretation hourly: rollup_law hour_key buildH agg_key agg_fits
  by unfold_locales (simp add: buildH_def agg_key_def)

interpretation report_rollup: rollup_law report_key buildR report_agg_key report_agg_fits
  by unfold_locales (simp add: buildR_def report_agg_key_def)

interpretation daily: rollup_law day_key buildD daily_key daily_fits
  by unfold_locales (simp add: buildD_def daily_key_def Let_def)

end
