(* ===== verification/RetentionFacts.thy ===== *)
theory RetentionFacts imports Retention CheckFacts begin

text \<open>
  What a retention run does: all of it or nothing, only rows past their age are deleted, the
  public data is untouched, and every check that is deleted is counted in the 15-minute row of
  its bucket as long as that row is kept.
\<close>

section \<open>Shape of a run\<close>

definition purged :: "instant \<Rightarrow> db \<Rightarrow> db" where
  "purged now d = snd (drop_report_aggs now (snd (drop_reports now (snd (drop_aggsH now
     (snd (drop_aggs15 now (snd (drop_checks now d)))))))))"

lemma purged_simps [row_simps]:
  "checks (purged now d) = filter (\<lambda>c. \<not> ck_at c < now - 30 * day_us) (checks d)"
  "aggs15 (purged now d) = filter (\<lambda>a. \<not> ag_start a < now - 90 * day_us) (aggs15 d)"
  "aggsH (purged now d) = filter (\<lambda>a. \<not> ag_start a < minus_year now) (aggsH d)"
  "reports (purged now d) = filter (\<lambda>r. \<not> ur_at r < now - 30 * day_us) (reports d)"
  "report_aggs (purged now d) = filter (\<lambda>a. \<not> ra_start a < now - 90 * day_us) (report_aggs d)"
  "dailies (purged now d) = dailies d"
  "servers (purged now d) = servers d"
  "incidents (purged now d) = incidents d"
  "members (purged now d) = members d"
  "channels (purged now d) = channels d"
  "windows (purged now d) = windows d"
  "notifs (purged now d) = notifs d"
  "next_check (purged now d) = next_check d"
  "next_report (purged now d) = next_report d"
  "next_note (purged now d) = next_note d"
  by (simp_all add: purged_def drop_checks_def drop_aggs15_def drop_aggsH_def drop_reports_def
      drop_report_aggs_def purge_def)

lemma roll15_InrE:
  assumes "roll15 now d = Inr (x, d')"
  obtains t where "rollup check_key (build15 d) agg_key agg_fits
      (filter (\<lambda>c. ck_at c < trunc_hour now) (checks d)) (aggs15 d) = Inr t" and "d' = d\<lparr>aggs15 := t\<rparr>"
  using assms by (auto simp: roll15_def split: sum.splits)

lemma rollH_InrE:
  assumes "rollH now d = Inr (x, d')"
  obtains t where "rollup hour_key buildH agg_key agg_fits
      (filter (\<lambda>a. ag_start a < trunc_hour now) (aggs15 d)) (aggsH d) = Inr t" and "d' = d\<lparr>aggsH := t\<rparr>"
  using assms by (auto simp: rollH_def Let_def split: sum.splits if_splits)

lemma rollR_InrE:
  assumes "rollR now d = Inr (x, d')"
  obtains t where "rollup report_key buildR report_agg_key report_agg_fits
      (filter (\<lambda>r. ur_at r < trunc_hour now) (reports d)) (report_aggs d) = Inr t"
    and "d' = d\<lparr>report_aggs := t\<rparr>"
  using assms by (auto simp: rollR_def split: sum.splits)

lemma rollD_InrE:
  assumes "rollD now d = Inr (x, d')"
  obtains t where "rollup day_key buildD daily_key daily_fits
      (filter (\<lambda>a. ag_start a < trunc_day now) (aggsH d)) (dailies d) = Inr t" and "d' = d\<lparr>dailies := t\<rparr>"
  using assms by (auto simp: rollD_def split: sum.splits)

lemma RunRetention_InrE:
  assumes "RunRetention e d = (Inr st, d')"
  obtains d1 d2 d3 d4 where "roll15 (pg_now e) d = Inr ((), d1)" and "rollH (pg_now e) d1 = Inr ((), d2)"
    and "rollR (pg_now e) d2 = Inr ((), d3)" and "rollD (pg_now e) d3 = Inr ((), d4)"
    and "d' = purged (pg_now e) d4"
    and "RawDeleted st = length (filter (\<lambda>c. ck_at c < pg_now e - 30 * day_us) (checks d4))"
proof -
  from assms obtain s where s: "RunRetention_tx e \<lparr>tx_db = d, tx_aborted = False\<rparr> = (Inr st, s)"
    and d': "tx_db s = d'"
    unfolding RunRetention_def by (blast dest: transact_ok)
  from s d' show ?thesis
    unfolding RunRetention_tx_def
    by (elim tx_bind_InrE) (auto dest!: tx_wrap_InrE elim!: statement_InrE
        simp: tx_return_def drop_checks_def drop_aggs15_def drop_aggsH_def drop_reports_def
          drop_report_aggs_def purge_def purged_def intro!: that)
qed

lemma RunRetention_error: "fst (RunRetention e d) = Inl x \<Longrightarrow> snd (RunRetention e d) = d"
  unfolding RunRetention_def by (rule transact_error)

text \<open>The tables a run may change, and what it keeps of the checks and reports.\<close>

definition retained :: "instant \<Rightarrow> db \<Rightarrow> db \<Rightarrow> bool" where
  "retained now d d' \<longleftrightarrow>
     servers d' = servers d \<and> incidents d' = incidents d \<and> members d' = members d
     \<and> channels d' = channels d \<and> windows d' = windows d \<and> notifs d' = notifs d
     \<and> next_check d' = next_check d \<and> next_report d' = next_report d \<and> next_note d' = next_note d
     \<and> checks d' = filter (\<lambda>c. \<not> ck_at c < now - 30 * day_us) (checks d)
     \<and> reports d' = filter (\<lambda>r. \<not> ur_at r < now - 30 * day_us) (reports d)"

lemma RunRetention_retained:
  assumes "RunRetention e d = (Inr st, d')"
  shows "retained (pg_now e) d d' \<and> RawDeleted st + length (checks d') = length (checks d)"
  using assms
proof (rule RunRetention_InrE)
  fix d1 d2 d3 d4
  assume r: "roll15 (pg_now e) d = Inr ((), d1)" "rollH (pg_now e) d1 = Inr ((), d2)"
    "rollR (pg_now e) d2 = Inr ((), d3)" "rollD (pg_now e) d3 = Inr ((), d4)"
    and d': "d' = purged (pg_now e) d4"
    and st: "RawDeleted st = length (filter (\<lambda>c. ck_at c < pg_now e - 30 * day_us) (checks d4))"
  have "retained (pg_now e) d d'"
    using r d' by (auto simp: retained_def row_simps elim!: roll15_InrE rollH_InrE rollR_InrE rollD_InrE)
  moreover have "checks d4 = checks d"
    using r by (auto elim!: roll15_InrE rollH_InrE rollR_InrE rollD_InrE)
  ultimately show ?thesis
    using st sum_length_filter_compl [of "\<lambda>c. ck_at c < pg_now e - 30 * day_us" "checks d"]
    by (simp add: retained_def)
qed

lemma distinct_map_filter_key: "distinct (map f xs) \<Longrightarrow> distinct (map f (filter P xs))"
  by (simp add: distinct_map_filter)

lemma retained_store_inv:
  assumes "store_inv d" and "retained now d d'"
  shows "store_inv d'"
proof -
  have h: "has_server d' = has_server d" by (rule ext) (use assms in \<open>simp add: has_server_def retained_def\<close>)
  have "checks_ok d'" "reports_ok d'"
    using assms h
    by (auto simp: store_inv_def db_ok_def checks_ok_def reports_ok_def retained_def list_all_iff
        intro!: distinct_map_filter_key)
  with assms h show ?thesis
    by (simp add: store_inv_def db_ok_def servers_ok_def incidents_ok_def members_ok_def
        channels_ok_def windows_ok_def notifs_ok_def retained_def statuses_stored_def)
qed

lemma RunRetention_store_inv:
  assumes "store_inv d" shows "store_inv (snd (RunRetention e d))"
proof (cases "fst (RunRetention e d)")
  case Inl
  then show ?thesis using RunRetention_error [OF Inl] assms by simp
next
  case (Inr st)
  then have "RunRetention e d = (Inr st, snd (RunRetention e d))" by (simp add: prod_eq_iff)
  from RunRetention_retained [OF this] assms show ?thesis by (blast intro: retained_store_inv)
qed

section \<open>The 15-minute rows after a run\<close>

lemma lookup_purged:
  "lookup_key agg_key (u, b) (filter (\<lambda>a. \<not> ag_start a < k) t) =
     (if b < k then None else lookup_key agg_key (u, b) t)"
  unfolding lookup_key_def agg_key_def by (induction t) auto

lemma bucket_before_hour: "date_bin15 t < trunc_hour now \<longleftrightarrow> t < trunc_hour now"
proof -
  have "quarter_us dvd trunc_hour now"
  proof -
    have "quarter_us dvd hour_us" by (simp add: us_defs)
    then show ?thesis unfolding trunc_hour_def by (rule dvd_trans [OF _ bin_dvd])
  qed
  then show ?thesis
    using bin_mono_strict [of quarter_us "trunc_hour now" t] by (simp add: date_bin15_def us_defs)
qed

text \<open>A bucket is rolled up as a whole: all its checks are before the hour or none is.\<close>

lemma bucket_whole:
  assumes "b < trunc_hour now"
  shows "filter (\<lambda>c. check_key c = (u, b)) (filter (\<lambda>c. ck_at c < trunc_hour now) cs)
    = filter (\<lambda>c. check_key c = (u, b)) cs"
proof -
  have "check_key c = (u, b) \<Longrightarrow> ck_at c < trunc_hour now" for c
    using assms bucket_before_hour [of "ck_at c" now] by (simp add: check_key_def)
  then show ?thesis by (auto intro: filter_cong)
qed

theorem RunRetention_fifteen:
  assumes run: "RunRetention e d = (Inr st, d')"
    and c: "c \<in> set (checks d)" and old: "ck_at c < trunc_hour (pg_now e)"
    and kept: "pg_now e - 90 * day_us \<le> date_bin15 (ck_at c)"
  shows "lookup_key agg_key (check_key c) (aggs15 d') =
    Some (build15 d (check_key c) (filter (\<lambda>c'. check_key c' = check_key c) (checks d)))"
  using run
proof (rule RunRetention_InrE)
  fix d1 d2 d3 d4
  assume r1: "roll15 (pg_now e) d = Inr ((), d1)" and r: "rollH (pg_now e) d1 = Inr ((), d2)"
    "rollR (pg_now e) d2 = Inr ((), d3)" "rollD (pg_now e) d3 = Inr ((), d4)"
    and d': "d' = purged (pg_now e) d4"
  let ?rows = "filter (\<lambda>c. ck_at c < trunc_hour (pg_now e)) (checks d)"
  have "aggs15 d4 = aggs15 d1" using r by (auto elim!: rollH_InrE rollR_InrE rollD_InrE)
  then have l: "lookup_key agg_key (check_key c) (aggs15 d') = lookup_key agg_key (check_key c) (aggs15 d1)"
    using kept by (simp add: d' row_simps check_key_def lookup_purged)
  from r1 obtain t where t: "rollup check_key (build15 d) agg_key agg_fits ?rows (aggs15 d) = Inr t"
    and d1: "d1 = d\<lparr>aggs15 := t\<rparr>"
    by (rule roll15_InrE)
  have "\<exists>c' \<in> set ?rows. check_key c' = check_key c" using c old by auto
  then have "lookup_key agg_key (check_key c) t
      = Some (build15 d (check_key c) (filter (\<lambda>c'. check_key c' = check_key c) ?rows))"
    using fifteen.lookup_rollup [OF t] by simp
  moreover have "filter (\<lambda>c'. check_key c' = check_key c) ?rows = filter (\<lambda>c'. check_key c' = check_key c) (checks d)"
    using bucket_whole [of "date_bin15 (ck_at c)" "pg_now e" "ck_server c" "checks d"]
      bucket_before_hour [of "ck_at c" "pg_now e"] old by (simp add: check_key_def)
  ultimately show ?thesis using l d1 by simp
qed

end
