(* ===== verification/Servers.thy ===== *)
theory Servers imports Retention begin

text \<open>
  The rest of \<open>internal/store/postgres.go\<close>: importing a listing with its members, the
  imported ids, the snapshots, uptime and incidents that the pages and the bot show, and the
  three settings a manager of a server can change.
\<close>

section \<open>Importing a listing\<close>

definition is_listing :: "string \<Rightarrow> server_row \<Rightarrow> bool" where
  "is_listing x s \<longleftrightarrow> sv_source s = ''voxellink'' \<and> sv_extid s = x"

definition new_server :: "pgenv \<Rightarrow> ImportedServer \<Rightarrow> server_row" where
  "new_server e i = \<lparr>sv_id = pg_fresh e, sv_source = ''voxellink'', sv_extid = imp_ExternalID i,
     sv_name = imp_Name i, sv_hostname = imp_Hostname i, sv_port = imp_Port i,
     sv_transport = imp_Transport i, sv_status = Unknown, sv_enabled = True,
     sv_changed_at = pg_now e, sv_created_at = pg_now e, sv_updated_at = pg_now e\<rparr>"

definition relist :: "pgenv \<Rightarrow> ImportedServer \<Rightarrow> server_row \<Rightarrow> server_row" where
  "relist e i s = s\<lparr>sv_name := imp_Name i, sv_hostname := imp_Hostname i, sv_port := imp_Port i,
     sv_transport := imp_Transport i, sv_updated_at := pg_now e\<rparr>"

text \<open>\<open>INSERT ... ON CONFLICT (external_source, external_server_id) DO UPDATE ... RETURNING\<close>.\<close>

definition upsert_server :: "pgenv \<Rightarrow> ImportedServer \<Rightarrow> db \<Rightarrow> (Server \<times> db) res" where
  "upsert_server e i d =
     (if imp_Transport i \<notin> set transport_kinds then Inl BadInput
      else if \<not> int4 (imp_Port i) then Inl OutOfRange
      else if \<not> (1 \<le> imp_Port i \<and> imp_Port i \<le> 65535) then Inl CheckFailed
      else case find (is_listing (imp_ExternalID i)) (servers d) of
        Some s \<Rightarrow> Inr (to_Server (sv_status s) (relist e i s), d\<lparr>servers :=
          map (\<lambda>s. if is_listing (imp_ExternalID i) s then relist e i s else s) (servers d)\<rparr>)
      | None \<Rightarrow> if has_server d (pg_fresh e) then Inl Unique
          else Inr (to_Server Unknown (new_server e i), d\<lparr>servers := servers d @ [new_server e i]\<rparr>))"

definition clear_members :: "uuid \<Rightarrow> db \<Rightarrow> db" where
  "clear_members u d = d\<lparr>members :=
     filter (\<lambda>m. \<not> (mb_server m = u \<and> mb_source m = ''voxellink'')) (members d)\<rparr>"

definition insert_member :: "uuid \<Rightarrow> ServerMember \<Rightarrow> db \<Rightarrow> (unit \<times> db) res" where
  "insert_member u m d =
     (if mem_Role m \<notin> set member_roles then Inl CheckFailed
      else if list_ex (\<lambda>r. mb_server r = u \<and> mb_user r = mem_DiscordUserID m) (members d) then Inl Unique
      else if \<not> has_server d u then Inl ForeignKey
      else Inr ((), d\<lparr>members := members d @ [\<lparr>mb_server = u, mb_user = mem_DiscordUserID m,
        mb_role = mem_Role m, mb_source = ''voxellink''\<rparr>]\<rparr>))"

fun insert_members :: "pgenv \<Rightarrow> nat \<Rightarrow> string \<Rightarrow> ServerMember list \<Rightarrow> unit tx" where
  "insert_members e k serverID [] = tx_return ()"
| "insert_members e k serverID (m # ms) =
     tx_bind (tx_wrap ''store VoxelLink member: '' (statement e k (\<lambda>d.
       uuid_arg e serverID (\<lambda>u. insert_member u m d))))
     (\<lambda>_. insert_members e (k + 1) serverID ms)"

definition UpsertVoxelLinkServer_tx :: "pgenv \<Rightarrow> ImportedServer \<Rightarrow> Server tx" where
  "UpsertVoxelLinkServer_tx e i =
     tx_bind (tx_wrap ''upsert VoxelLink server: '' (statement e 1 (upsert_server e i)))
     (\<lambda>server. tx_bind (statement e 2 (\<lambda>d. uuid_arg e (srv_ID server) (\<lambda>u. Inr ((), clear_members u d))))
     (\<lambda>_. tx_bind (insert_members e 3 (srv_ID server) (imp_Members i))
     (\<lambda>_. tx_return server)))"

definition UpsertVoxelLinkServer :: "pgenv \<Rightarrow> ImportedServer \<Rightarrow> db \<Rightarrow> Server res \<times> db" where
  "UpsertVoxelLinkServer e i d =
     transact e (3 + length (imp_Members i)) (UpsertVoxelLinkServer_tx e i) d"

definition VoxelLinkExternalServerIDs :: "pgenv \<Rightarrow> db \<Rightarrow> string list res" where
  "VoxelLinkExternalServerIDs e d =
     query_pool e (\<lambda>d. Inr (sort_key (pg_rank e) (map sv_extid
       (filter (\<lambda>s. sv_source s = ''voxellink'') (servers d))))) d"

section \<open>Snapshots\<close>

definition latest_check :: "db \<Rightarrow> uuid \<Rightarrow> check_row option" where
  "latest_check d u = (case latest_checks d u of [] \<Rightarrow> None | c # _ \<Rightarrow> Some c)"

definition snapshot_of :: "pgenv \<Rightarrow> db \<Rightarrow> server_row \<Rightarrow> ServerSnapshot" where
  "snapshot_of e d s =
     (let c = latest_check d (sv_id s) in
      \<lparr>snap_Server = read_server d (pg_now e) s,
       snap_LastCheckedAt = map_option ck_at c,
       snap_LastOutcome = map_option ck_outcome c,
       snap_Latency = (case c of None \<Rightarrow> None
         | Some c \<Rightarrow> map_option (\<lambda>ms. ms * 1000000) (ck_latency c))\<rparr>)"

definition snapshot :: "pgenv \<Rightarrow> (db \<Rightarrow> server_row list res) \<Rightarrow> db \<Rightarrow> ServerSnapshot res" where
  "snapshot e clause d = query_pool e (\<lambda>d. case clause d of
       Inl x \<Rightarrow> Inl x
     | Inr [] \<Rightarrow> Inl NoRows
     | Inr (s # _) \<Rightarrow> Inr (snapshot_of e d s)) d"

definition SnapshotByExternalID :: "pgenv \<Rightarrow> string \<Rightarrow> db \<Rightarrow> ServerSnapshot res" where
  "SnapshotByExternalID e externalID =
     snapshot e (\<lambda>d. Inr (filter (is_listing externalID) (servers d)))"

definition SnapshotByID :: "pgenv \<Rightarrow> string \<Rightarrow> db \<Rightarrow> ServerSnapshot res" where
  "SnapshotByID e serverID =
     snapshot e (\<lambda>d. uuid_arg e serverID (\<lambda>u. Inr (filter (\<lambda>s. sv_id s = u) (servers d))))"

definition SnapshotByDiscordChannel :: "pgenv \<Rightarrow> string \<Rightarrow> db \<Rightarrow> ServerSnapshot res" where
  "SnapshotByDiscordChannel e channelID =
     snapshot e (\<lambda>d. Inr (concat (map (\<lambda>s. map (\<lambda>c. s)
       (filter (\<lambda>c. ch_server c = sv_id s \<and> ch_channel c = channelID \<and> ch_enabled c) (channels d)))
       (servers d))))"

definition PublicSnapshots :: "pgenv \<Rightarrow> db \<Rightarrow> ServerSnapshot list res" where
  "PublicSnapshots e d = query_pool e (\<lambda>d. Inr (map (snapshot_of e d)
     (sort_key (\<lambda>s. pg_rank e (sv_name s)) (filter sv_enabled (servers d))))) d"

text \<open>\<open>100.0 * good / NULLIF(counted, 0)\<close>; \<open>NULL\<close> reads as 0.\<close>

definition recent_counted :: "db \<Rightarrow> uuid \<Rightarrow> instant \<Rightarrow> check_row list" where
  "recent_counted d u now = filter (\<lambda>c. ck_server c = u \<and> now - 24 * hour_us \<le> ck_at c
     \<and> ck_outcome c \<noteq> ProbeError \<and> \<not> excluded d c) (checks d)"

definition recent_good :: "db \<Rightarrow> uuid \<Rightarrow> instant \<Rightarrow> check_row list" where
  "recent_good d u now = filter (\<lambda>c. ck_server c = u \<and> now - 24 * hour_us \<le> ck_at c
     \<and> ck_outcome c = Success \<and> \<not> excluded d c) (checks d)"

definition Uptime24h :: "pgenv \<Rightarrow> string \<Rightarrow> db \<Rightarrow> rat res" where
  "Uptime24h e serverID d = query_pool e (\<lambda>d. uuid_arg e serverID (\<lambda>u.
     let counted = length (recent_counted d u (pg_now e)); good = length (recent_good d u (pg_now e))
     in Inr (if counted = 0 then 0 else 100 * of_nat good / of_nat counted))) d"

definition to_Incident :: "incident_row \<Rightarrow> Incident" where
  "to_Incident i = \<lparr>inc_ID = in_id i, inc_ServerID = in_server i,
     inc_State = (case in_state i of OPEN \<Rightarrow> ''OPEN'' | RESOLVED \<Rightarrow> ''RESOLVED''),
     inc_Reason = in_reason i, inc_StartedAt = in_started i, inc_ConfirmedAt = in_confirmed i,
     inc_ResolvedAt = in_resolved i\<rparr>"

definition RecentIncidents :: "pgenv \<Rightarrow> string \<Rightarrow> nat \<Rightarrow> db \<Rightarrow> Incident list res" where
  "RecentIncidents e serverID limit d = query_pool e (\<lambda>d. uuid_arg e serverID (\<lambda>u.
     Inr (map to_Incident (take limit (sort_key (\<lambda>i. - in_started i)
       (filter (\<lambda>i. in_server i = u) (incidents d))))))) d"

section \<open>Settings of a member\<close>

definition manager_roles :: "string list" where
  "manager_roles = [''owner'', ''manager'']"

definition manages :: "string \<Rightarrow> uuid \<Rightarrow> member_row \<Rightarrow> bool" where
  "manages user u m \<longleftrightarrow> mb_server m = u \<and> mb_user m = user \<and> mb_role m \<in> set manager_roles"

definition may_manage :: "db \<Rightarrow> string \<Rightarrow> uuid \<Rightarrow> bool" where
  "may_manage d user u \<longleftrightarrow> list_ex (manages user u) (members d)"

definition ServersForDiscordMember :: "pgenv \<Rightarrow> string \<Rightarrow> db \<Rightarrow> Server list res" where
  "ServersForDiscordMember e discordUserID d = query_pool e (\<lambda>d. Inr (map (read_server d (pg_now e))
     (sort_key (\<lambda>s. pg_rank e (sv_name s)) (concat (map (\<lambda>s. map (\<lambda>m. s)
       (filter (manages discordUserID (sv_id s)) (members d))) (servers d)))))) d"

text \<open>A statement that did not affect one row is \<open>pgx.ErrNoRows\<close>.\<close>

definition one_row :: "nat res \<times> db \<Rightarrow> unit res \<times> db" where
  "one_row x = (case x of
       (Inl y, d) \<Rightarrow> (Inl y, d)
     | (Inr n, d) \<Rightarrow> (if n = 1 then Inr () else Inl NoRows, d))"

definition SetEnabledForDiscordMember :: "pgenv \<Rightarrow> string \<Rightarrow> string \<Rightarrow> bool \<Rightarrow> db \<Rightarrow> unit res \<times> db" where
  "SetEnabledForDiscordMember e serverID discordUserID enabled d = one_row (exec_pool e (\<lambda>d.
     uuid_arg e serverID (\<lambda>u.
       let hit = (\<lambda>s. sv_id s = u \<and> may_manage d discordUserID (sv_id s)) in
       Inr (length (filter hit (servers d)), d\<lparr>servers := map (\<lambda>s. if hit s
         then s\<lparr>sv_enabled := enabled, sv_updated_at := pg_now e\<rparr> else s) (servers d)\<rparr>))) d)"

text \<open>\<open>SELECT s.id ... WHERE s.id = $1 AND EXISTS ...\<close>: at most one row, \<open>id\<close> being the key.\<close>

definition managed_ids :: "db \<Rightarrow> string \<Rightarrow> uuid \<Rightarrow> uuid list" where
  "managed_ids d user u = map sv_id (filter (\<lambda>s. sv_id s = u \<and> may_manage d user (sv_id s)) (servers d))"

text \<open>
  \<open>ON CONFLICT (server_id) DO UPDATE\<close> replaces the server's channel; a channel of another
  server violates the unique key.
\<close>

definition upsert_channel :: "uuid \<Rightarrow> string \<Rightarrow> db \<Rightarrow> db res" where
  "upsert_channel u channel d =
     (if list_ex (\<lambda>c. ch_channel c = channel \<and> ch_server c \<noteq> u) (channels d) then Inl Unique
      else if list_ex (\<lambda>c. ch_server c = u) (channels d) then
        Inr (d\<lparr>channels := map (\<lambda>c. if ch_server c = u
          then c\<lparr>ch_channel := channel, ch_enabled := True\<rparr> else c) (channels d)\<rparr>)
      else Inr (d\<lparr>channels := channels d @
        [\<lparr>ch_server = u, ch_channel = channel, ch_enabled = True\<rparr>]\<rparr>))"

definition SetNotificationChannelForDiscordMember ::
  "pgenv \<Rightarrow> string \<Rightarrow> string \<Rightarrow> string \<Rightarrow> db \<Rightarrow> unit res \<times> db" where
  "SetNotificationChannelForDiscordMember e serverID discordUserID channelID d = one_row (exec_pool e (\<lambda>d.
     uuid_arg e serverID (\<lambda>u.
       case managed_ids d discordUserID u of
         [] \<Rightarrow> Inr (0, d)
       | i # _ \<Rightarrow> (case upsert_channel i channelID d of Inl x \<Rightarrow> Inl x | Inr d' \<Rightarrow> Inr (1, d')))) d)"

definition ScheduleMaintenanceForDiscordMember ::
  "pgenv \<Rightarrow> string \<Rightarrow> string \<Rightarrow> instant \<Rightarrow> instant \<Rightarrow> db \<Rightarrow> unit res \<times> db" where
  "ScheduleMaintenanceForDiscordMember e serverID discordUserID startsAt endsAt d = one_row (exec_pool e (\<lambda>d.
     uuid_arg e serverID (\<lambda>u.
       case managed_ids d discordUserID u of
         [] \<Rightarrow> Inr (0, d)
       | i # _ \<Rightarrow>
           if \<not> startsAt < endsAt then Inl CheckFailed
           else if pg_fresh e \<in> set (map mw_id (windows d)) then Inl Unique
           else Inr (1, d\<lparr>windows := windows d @ [\<lparr>mw_id = pg_fresh e, mw_server = i,
             mw_starts = startsAt, mw_ends = endsAt, mw_by = discordUserID\<rparr>]\<rparr>))) d)"

end
