(* ===== verification/ServerFacts.thy ===== *)
theory ServerFacts imports Servers RetentionFacts ReportFacts begin

text \<open>
  What the listing and settings operations do: each keeps the invariant of the store, a
  setting is refused to everyone but the server's owners and managers, an import leaves the data
  Monitor owns alone and installs exactly the imported members, uptime is a percentage.
\<close>

section \<open>Imports\<close>

definition monitor_part :: "server_row \<Rightarrow> uuid \<times> string \<times> string \<times> PublicStatus \<times> bool \<times> instant \<times> instant" where
  "monitor_part s = (sv_id s, sv_source s, sv_extid s, sv_status s, sv_enabled s, sv_changed_at s, sv_created_at s)"

text \<open>Nothing but listings and members changes; servers may be added, with status unknown.\<close>

definition listing_only :: "db \<Rightarrow> db \<Rightarrow> bool" where
  "listing_only d d' \<longleftrightarrow>
     checks d' = checks d \<and> incidents d' = incidents d \<and> windows d' = windows d
     \<and> channels d' = channels d \<and> reports d' = reports d \<and> notifs d' = notifs d
     \<and> (\<exists>new. map monitor_part (servers d') = map monitor_part (servers d) @ map monitor_part new
          \<and> list_all (\<lambda>s. sv_status s = Unknown) new)"

lemma listing_only_refl: "listing_only d d"
  unfolding listing_only_def by (auto intro: exI [of _ "[]"])

lemma relist_simps [simp]:
  "sv_id (relist e i s) = sv_id s"
  "sv_source (relist e i s) = sv_source s"
  "sv_extid (relist e i s) = sv_extid s"
  "sv_status (relist e i s) = sv_status s"
  "sv_port (relist e i s) = imp_Port i"
  "sv_transport (relist e i s) = imp_Transport i"
  "monitor_part (relist e i s) = monitor_part s"
  by (simp_all add: relist_def monitor_part_def)

lemma upsert_server_InrE:
  assumes "upsert_server e i d = Inr (sv, d')"
  obtains (known) s where "s \<in> set (servers d)" and "is_listing (imp_ExternalID i) s"
      and "sv = to_Server (sv_status s) (relist e i s)"
      and "d' = d\<lparr>servers := map (\<lambda>s. if is_listing (imp_ExternalID i) s then relist e i s else s) (servers d)\<rparr>"
      and "1 \<le> imp_Port i" and "imp_Port i \<le> 65535" and "imp_Transport i \<in> set transport_kinds"
    | (fresh) "\<And>s. s \<in> set (servers d) \<Longrightarrow> \<not> is_listing (imp_ExternalID i) s"
      and "sv = to_Server Unknown (new_server e i)" and "\<not> has_server d (pg_fresh e)"
      and "d' = d\<lparr>servers := servers d @ [new_server e i]\<rparr>"
      and "1 \<le> imp_Port i" and "imp_Port i \<le> 65535" and "imp_Transport i \<in> set transport_kinds"
proof (cases "find (is_listing (imp_ExternalID i)) (servers d)")
  case None
  then have "\<And>s. s \<in> set (servers d) \<Longrightarrow> \<not> is_listing (imp_ExternalID i) s"
    by (simp add: find_None_iff)
  with None assms show ?thesis
    by (intro fresh) (auto simp: upsert_server_def split: if_splits)
next
  case (Some s)
  then have "s \<in> set (servers d)" and "is_listing (imp_ExternalID i) s"
    by (auto simp: find_Some_iff)
  with Some assms show ?thesis
    by (intro known [of s]) (auto simp: upsert_server_def split: if_splits)
qed

lemma upsert_server_listing_only:
  assumes "listing_only d0 d" and "upsert_server e i d = Inr (sv, d')"
  shows "listing_only d0 d'"
  using assms(2)
proof (cases rule: upsert_server_InrE)
  case (known s)
  have "monitor_part \<circ> (\<lambda>s. if is_listing (imp_ExternalID i) s then relist e i s else s) = monitor_part"
    by (rule ext) simp
  with assms(1) known show ?thesis by (simp add: listing_only_def)
next
  case fresh
  from assms(1) obtain new where
    n: "map monitor_part (servers d) = map monitor_part (servers d0) @ map monitor_part new"
      "list_all (\<lambda>s. sv_status s = Unknown) new" by (auto simp: listing_only_def)
  have "\<exists>new'. map monitor_part (servers d') = map monitor_part (servers d0) @ map monitor_part new'
      \<and> list_all (\<lambda>s. sv_status s = Unknown) new'"
    using n fresh by (intro exI [of _ "new @ [new_server e i]"]) (simp add: new_server_def)
  with assms(1) fresh show ?thesis by (simp add: listing_only_def)
qed

lemma insert_member_InrE:
  assumes "insert_member u m d = Inr (x, d')"
  obtains "mem_Role m \<in> set member_roles" and "has_server d u"
    and "\<And>r. r \<in> set (members d) \<Longrightarrow> mb_server r = u \<Longrightarrow> mb_user r \<noteq> mem_DiscordUserID m"
    and "d' = d\<lparr>members := members d @ [\<lparr>mb_server = u, mb_user = mem_DiscordUserID m,
        mb_role = mem_Role m, mb_source = ''voxellink''\<rparr>]\<rparr>"
  using assms by (auto simp: insert_member_def list_ex_iff split: if_splits)

lemma insert_member_frame:
  "insert_member u m d = Inr (x, d') \<Longrightarrow> \<exists>ms. d' = d\<lparr>members := ms\<rparr>"
  by (auto simp: insert_member_def split: if_splits)

lemma insert_members_keeps:
  assumes "\<And>d u m d'. m \<in> set ms \<Longrightarrow> P d \<Longrightarrow> insert_member u m d = Inr ((), d') \<Longrightarrow> P d'"
  shows "tx_keeps P (insert_members e k sid ms)"
  using assms
proof (induction ms arbitrary: k)
  case Nil
  then show ?case by (simp add: keeps_intros)
next
  case (Cons m ms)
  have h: "tx_keeps P (statement e k (\<lambda>d. uuid_arg e sid (\<lambda>u. insert_member u m d)))"
    by (rule tx_keeps_statement)
      (use Cons.prems [of m] in \<open>auto simp: uuid_arg_def split: option.splits\<close>)
  have t: "tx_keeps P (insert_members e k' sid ms)" for k'
    by (rule Cons.IH) (use Cons.prems in auto)
  show ?case by (simp add: tx_keeps_bind [OF tx_keeps_wrap [OF h] t])
qed

lemma UpsertVoxelLinkServer_keeps:
  assumes "\<And>d sv d'. P d \<Longrightarrow> upsert_server e i d = Inr (sv, d') \<Longrightarrow> P d'"
    and "\<And>d u. P d \<Longrightarrow> P (clear_members u d)"
    and "\<And>d u m d'. P d \<Longrightarrow> insert_member u m d = Inr ((), d') \<Longrightarrow> P d'"
    and "P d"
  shows "P (snd (UpsertVoxelLinkServer e i d))"
  unfolding UpsertVoxelLinkServer_def
proof (rule transact_keeps [where P = P, OF _ \<open>P d\<close>])
  show "tx_keeps P (UpsertVoxelLinkServer_tx e i)"
    unfolding UpsertVoxelLinkServer_tx_def
  proof (intro keeps_intros insert_members_keeps)
    fix d sv d' assume "P d" and "upsert_server e i d = Inr (sv, d')"
    then show "P d'" by (rule assms(1))
  next
    fix sv d x d' assume "P d" and "uuid_arg e (srv_ID sv) (\<lambda>u. Inr ((), clear_members u d)) = Inr (x, d')"
    then show "P d'" using assms(2) by (auto simp: uuid_arg_def split: option.splits)
  next
    fix d u m d' assume "P d" and "insert_member u m d = Inr ((), d')"
    then show "P d'" by (rule assms(3))
  qed
qed

lemma Upsert_listing_only: "listing_only d (snd (UpsertVoxelLinkServer e i d))"
proof (rule UpsertVoxelLinkServer_keeps [where P = "listing_only d"])
  fix d1 sv d' assume "listing_only d d1" and "upsert_server e i d1 = Inr (sv, d')"
  then show "listing_only d d'" by (rule upsert_server_listing_only)
next
  fix d1 u assume "listing_only d d1"
  then show "listing_only d (clear_members u d1)" by (simp add: listing_only_def clear_members_def)
next
  fix d1 u m d' assume "listing_only d d1" and "insert_member u m d1 = Inr ((), d')"
  then show "listing_only d d'" by (auto simp: listing_only_def dest!: insert_member_frame)
qed (rule listing_only_refl)

lemma servers_append_ok:
  assumes "servers_ok d" and "\<not> has_server d (sv_id s)"
    and "\<And>r. r \<in> set (servers d) \<Longrightarrow> (sv_source r, sv_extid r) \<noteq> (sv_source s, sv_extid s)"
    and "1 \<le> sv_port s" and "sv_port s \<le> 65535" and "sv_transport s \<in> set transport_kinds"
  shows "servers_ok (d\<lparr>servers := servers d @ [s]\<rparr>)"
proof -
  have "(sv_source s, sv_extid s) \<notin> (\<lambda>s. (sv_source s, sv_extid s)) ` set (servers d)"
    using assms(3) by (metis (no_types, lifting) imageE)
  then show ?thesis using assms(1,2,4-6) by (simp add: servers_ok_def has_server_def)
qed

lemma servers_update_db_ok:
  "db_ok d \<Longrightarrow> servers_ok (d\<lparr>servers := ss\<rparr>) \<Longrightarrow>
     set (map sv_id (servers d)) \<subseteq> set (map sv_id ss) \<Longrightarrow> db_ok (d\<lparr>servers := ss\<rparr>)"
  by (auto simp: db_ok_def checks_ok_def incidents_ok_def members_ok_def channels_ok_def
      windows_ok_def reports_ok_def notifs_ok_def list_all_iff has_server_def)

lemma upsert_server_store_inv:
  assumes inv: "store_inv d" and up: "upsert_server e i d = Inr (sv, d')"
  shows "store_inv d'"
  using up
proof (cases rule: upsert_server_InrE)
  case (known s)
  let ?f = "\<lambda>s. if is_listing (imp_ExternalID i) s then relist e i s else s"
  have f: "map sv_id (map ?f xs) = map sv_id xs"
    "map (\<lambda>s. (sv_source s, sv_extid s)) (map ?f xs) = map (\<lambda>s. (sv_source s, sv_extid s)) xs" for xs
    by simp_all
  have "servers_ok d'"
    using inv known f [of "servers d"]
    by (auto simp: store_inv_def db_ok_def servers_ok_def list_all_iff simp del: map_map)
  then have "db_ok d'"
    unfolding known(4) by (intro servers_update_db_ok store_inv_db_ok [OF inv]) (simp_all only: f)
  then show ?thesis using inv by (auto simp: store_inv_def statuses_stored_def list_all_iff known(4))
next
  case fresh
  have "servers_ok d'"
    unfolding fresh(4)
    by (rule servers_append_ok)
      (use inv fresh in \<open>auto simp: store_inv_def db_ok_def new_server_def is_listing_def\<close>)
  then have "db_ok d'"
    unfolding fresh(4) by (intro servers_update_db_ok store_inv_db_ok [OF inv]) auto
  then show ?thesis using inv by (simp add: store_inv_def statuses_stored_def new_server_def fresh(4))
qed

lemma clear_members_store_inv: "store_inv d \<Longrightarrow> store_inv (clear_members u d)"
  by (auto simp: store_inv_def db_ok_def table_ok_defs has_server_def clear_members_def
      statuses_stored_def list_all_iff intro: distinct_map_filter_key)

lemma insert_member_store_inv:
  "store_inv d \<Longrightarrow> insert_member u m d = Inr ((), d') \<Longrightarrow> store_inv d'"
proof (erule insert_member_InrE)
  assume inv: "store_inv d" and r: "mem_Role m \<in> set member_roles" and hs: "has_server d u"
    and new: "\<And>r. r \<in> set (members d) \<Longrightarrow> mb_server r = u \<Longrightarrow> mb_user r \<noteq> mem_DiscordUserID m"
    and d': "d' = d\<lparr>members := members d @ [\<lparr>mb_server = u, mb_user = mem_DiscordUserID m,
        mb_role = mem_Role m, mb_source = ''voxellink''\<rparr>]\<rparr>"
  have "(u, mem_DiscordUserID m) \<notin> (\<lambda>m. (mb_server m, mb_user m)) ` set (members d)"
  proof
    assume "(u, mem_DiscordUserID m) \<in> (\<lambda>m. (mb_server m, mb_user m)) ` set (members d)"
    then obtain r where "r \<in> set (members d)" "mb_server r = u" "mb_user r = mem_DiscordUserID m" by auto
    with new show False by blast
  qed
  then have "members_ok d'"
    using inv r hs by (simp add: d' store_inv_def db_ok_def members_ok_def has_server_def)
  then show "store_inv d'"
    using inv by (simp add: d' store_inv_def db_ok_def servers_ok_def checks_ok_def incidents_ok_def
        channels_ok_def windows_ok_def reports_ok_def notifs_ok_def has_server_def statuses_stored_def)
qed

lemma Upsert_store_inv: "store_inv d \<Longrightarrow> store_inv (snd (UpsertVoxelLinkServer e i d))"
  by (rule UpsertVoxelLinkServer_keeps [where P = store_inv])
    (rule upsert_server_store_inv clear_members_store_inv insert_member_store_inv; assumption)+

lemma Upsert_error:
  "fst (UpsertVoxelLinkServer e i d) = Inl x \<Longrightarrow> snd (UpsertVoxelLinkServer e i d) = d"
  unfolding UpsertVoxelLinkServer_def by (rule transact_error)

section \<open>Members after an import\<close>

definition listed_members :: "db \<Rightarrow> uuid \<Rightarrow> ServerMember list" where
  "listed_members d u = map (\<lambda>m. \<lparr>mem_DiscordUserID = mb_user m, mem_Role = mb_role m\<rparr>)
     (filter (\<lambda>m. mb_server m = u \<and> mb_source m = ''voxellink'') (members d))"

lemma insert_members_listed:
  assumes "insert_members e k sid ms s = (Inr (), s')" and "pg_uuid_in e sid = Some u"
  shows "listed_members (tx_db s') u = listed_members (tx_db s) u @ ms"
  using assms(1)
proof (induction ms arbitrary: k s)
  case Nil
  then show ?case by (simp add: tx_return_def)
next
  case (Cons m ms)
  from Cons.prems obtain s1 where
    a: "statement e k (\<lambda>d. uuid_arg e sid (\<lambda>u. insert_member u m d)) s = (Inr (), s1)"
    and b: "insert_members e (k + 1) sid ms s1 = (Inr (), s')"
    by (auto elim!: tx_bind_InrE dest!: tx_wrap_InrE)
  have "listed_members (tx_db s1) u = listed_members (tx_db s) u @ [m]"
    using a assms(2)
    by (auto elim!: statement_InrE insert_member_InrE simp: uuid_arg_def listed_members_def)
  with Cons.IH [OF b] show ?case by simp
qed

lemma Upsert_members:
  assumes "UpsertVoxelLinkServer e i d = (Inr sv, d')" and u: "pg_uuid_in e (srv_ID sv) = Some u"
  shows "listed_members d' u = imp_Members i"
proof -
  from assms(1) obtain s where s: "UpsertVoxelLinkServer_tx e i \<lparr>tx_db = d, tx_aborted = False\<rparr> = (Inr sv, s)"
    and d': "tx_db s = d'"
    unfolding UpsertVoxelLinkServer_def by (blast dest: transact_ok)
  from s obtain s1 s2 where
    a: "statement e 2 (\<lambda>d. uuid_arg e (srv_ID sv) (\<lambda>u. Inr ((), clear_members u d))) s1 = (Inr (), s2)"
    and b: "insert_members e 3 (srv_ID sv) (imp_Members i) s2 = (Inr (), s)"
    unfolding UpsertVoxelLinkServer_tx_def
    by (auto elim!: tx_bind_InrE simp: tx_return_def)
  have "listed_members (tx_db s2) u = []"
    using a u by (auto elim!: statement_InrE simp: uuid_arg_def listed_members_def clear_members_def filter_empty_conv)
  with insert_members_listed [OF b u] d' show ?thesis by simp
qed

lemma Upsert_returns:
  assumes "UpsertVoxelLinkServer e i d = (Inr sv, d')"
  shows "srv_Name sv = imp_Name i \<and> srv_Hostname sv = imp_Hostname i \<and> srv_Port sv = imp_Port i
    \<and> srv_Transport sv = imp_Transport i"
proof -
  from assms obtain s where "UpsertVoxelLinkServer_tx e i \<lparr>tx_db = d, tx_aborted = False\<rparr> = (Inr sv, s)"
    unfolding UpsertVoxelLinkServer_def by (blast dest: transact_ok)
  then obtain s1 where "statement e 1 (upsert_server e i) \<lparr>tx_db = d, tx_aborted = False\<rparr> = (Inr sv, s1)"
    unfolding UpsertVoxelLinkServer_tx_def
    by (auto elim!: tx_bind_InrE dest!: tx_wrap_InrE simp: tx_return_def)
  then show ?thesis
    by (auto elim!: statement_InrE upsert_server_InrE simp: to_Server_def relist_def new_server_def)
qed

section \<open>Settings\<close>

lemma setting_keeps:
  assumes "\<And>n d'. q d = Inr (n, d') \<Longrightarrow> P d'" and "P d"
  shows "P (snd (one_row (exec_pool e q d)))"
  using assms by (auto simp: one_row_def exec_pool_def split: option.splits sum.splits prod.splits)

lemma setting_refused:
  assumes "\<And>n d'. q d = Inr (n, d') \<Longrightarrow> n = 0 \<and> d' = d"
  shows "(\<exists>x. fst (one_row (exec_pool e q d)) = Inl x) \<and> snd (one_row (exec_pool e q d)) = d"
  using assms by (auto simp: one_row_def exec_pool_def split: option.splits sum.splits prod.splits)

lemma set_enabled_refused:
  "\<not> may_manage d user u \<Longrightarrow> pg_uuid_in e sid = Some u \<Longrightarrow>
     (\<exists>x. fst (SetEnabledForDiscordMember e sid user b d) = Inl x)
     \<and> snd (SetEnabledForDiscordMember e sid user b d) = d"
  unfolding SetEnabledForDiscordMember_def
proof (rule setting_refused)
  fix n d' assume m: "\<not> may_manage d user u" and u: "pg_uuid_in e sid = Some u"
    and r: "uuid_arg e sid (\<lambda>u.
       let hit = (\<lambda>s. sv_id s = u \<and> may_manage d user (sv_id s)) in
       Inr (length (filter hit (servers d)), d\<lparr>servers := map (\<lambda>s. if hit s
         then s\<lparr>sv_enabled := b, sv_updated_at := pg_now e\<rparr> else s) (servers d)\<rparr>)) = Inr (n, d')"
  have no: "sv_id s = u \<and> may_manage d user (sv_id s) \<longleftrightarrow> False" for s using m by auto
  from r u show "n = 0 \<and> d' = d" by (simp add: uuid_arg_def Let_def no)
qed

lemma managed_ids_refused: "\<not> may_manage d user u \<Longrightarrow> managed_ids d user u = []"
  by (auto simp: managed_ids_def filter_empty_conv)

lemma managed_ids_Cons: "managed_ids d user u = i # rest \<Longrightarrow> i = u \<and> has_server d u \<and> may_manage d user u"
proof -
  assume m: "managed_ids d user u = i # rest"
  then have "i \<in> set (managed_ids d user u)" by simp
  then show ?thesis by (auto simp: managed_ids_def has_server_def)
qed

lemma set_channel_refused:
  "\<not> may_manage d user u \<Longrightarrow> pg_uuid_in e sid = Some u \<Longrightarrow>
     (\<exists>x. fst (SetNotificationChannelForDiscordMember e sid user ch d) = Inl x)
     \<and> snd (SetNotificationChannelForDiscordMember e sid user ch d) = d"
  unfolding SetNotificationChannelForDiscordMember_def
  by (rule setting_refused) (auto simp: uuid_arg_def managed_ids_refused)

lemma schedule_refused:
  "\<not> may_manage d user u \<Longrightarrow> pg_uuid_in e sid = Some u \<Longrightarrow>
     (\<exists>x. fst (ScheduleMaintenanceForDiscordMember e sid user a b d) = Inl x)
     \<and> snd (ScheduleMaintenanceForDiscordMember e sid user a b d) = d"
  unfolding ScheduleMaintenanceForDiscordMember_def
  by (rule setting_refused) (auto simp: uuid_arg_def managed_ids_refused)

lemma SetEnabled_store_inv: "store_inv d \<Longrightarrow> store_inv (snd (SetEnabledForDiscordMember e sid user b d))"
  unfolding SetEnabledForDiscordMember_def
proof (rule setting_keeps)
  fix n d'
  let ?f = "\<lambda>u s. if sv_id s = u \<and> may_manage d user (sv_id s)
      then s\<lparr>sv_enabled := b, sv_updated_at := pg_now e\<rparr> else s"
  assume inv: "store_inv d" and "uuid_arg e sid (\<lambda>u.
       let hit = (\<lambda>s. sv_id s = u \<and> may_manage d user (sv_id s)) in
       Inr (length (filter hit (servers d)), d\<lparr>servers := map (\<lambda>s. if hit s
         then s\<lparr>sv_enabled := b, sv_updated_at := pg_now e\<rparr> else s) (servers d)\<rparr>)) = Inr (n, d')"
  then obtain u where d': "d' = d\<lparr>servers := map (?f u) (servers d)\<rparr>"
    by (auto simp: uuid_arg_def Let_def split: option.splits)
  have f: "map sv_id (map (?f u) xs) = map sv_id xs"
    "map (\<lambda>s. (sv_source s, sv_extid s)) (map (?f u) xs) = map (\<lambda>s. (sv_source s, sv_extid s)) xs" for xs
    by simp_all
  have "servers_ok d'"
    using inv f [of "servers d"]
    by (auto simp: d' store_inv_def db_ok_def servers_ok_def list_all_iff simp del: map_map)
  then have "db_ok d'"
    unfolding d' by (intro servers_update_db_ok store_inv_db_ok [OF inv]) (simp_all only: f)
  then show "store_inv d'" using inv by (auto simp: store_inv_def statuses_stored_def list_all_iff d')
qed (assumption)

lemma upsert_channel_store_inv:
  "store_inv d \<Longrightarrow> has_server d u \<Longrightarrow> upsert_channel u ch d = Inr d' \<Longrightarrow> store_inv d'"
proof -
  assume inv: "store_inv d" and hs: "has_server d u" and up: "upsert_channel u ch d = Inr d'"
  then have fresh: "c \<in> set (channels d) \<Longrightarrow> ch_channel c = ch \<Longrightarrow> ch_server c = u" for c
    by (auto simp: upsert_channel_def list_ex_iff split: if_splits)
  let ?f = "\<lambda>c. if ch_server c = u then c\<lparr>ch_channel := ch, ch_enabled := True\<rparr> else c"
  have map_ok: "distinct (map ch_server xs) \<Longrightarrow> distinct (map ch_channel xs) \<Longrightarrow>
      (\<And>c. c \<in> set xs \<Longrightarrow> ch_channel c = ch \<Longrightarrow> ch_server c = u) \<Longrightarrow>
      distinct (map ch_channel (map ?f xs))" for xs
    by (induction xs) (auto simp: image_iff)
  have ids: "map ch_server (map ?f xs) = map ch_server xs" for xs by simp
  have "channels_ok d'"
  proof (cases "list_ex (\<lambda>c. ch_server c = u) (channels d)")
    case True
    with up have d': "channels d' = map ?f (channels d)" "servers d' = servers d"
      by (auto simp: upsert_channel_def split: if_splits)
    have "list_all (\<lambda>c. has_server d' (ch_server c)) (channels d')"
      using inv hs d' by (auto simp: store_inv_def db_ok_def channels_ok_def list_all_iff has_server_def)
    moreover have "distinct (map ch_server (map ?f (channels d)))"
      using inv by (simp only: ids) (simp add: store_inv_def db_ok_def channels_ok_def)
    moreover have "distinct (map ch_channel (map ?f (channels d)))"
      using inv by (intro map_ok fresh) (simp_all add: store_inv_def db_ok_def channels_ok_def)
    ultimately show ?thesis using d' by (simp only: channels_ok_def simp_thms)
  next
    case False
    with up have d': "channels d' = channels d @ [\<lparr>ch_server = u, ch_channel = ch, ch_enabled = True\<rparr>]"
      "servers d' = servers d"
      by (auto simp: upsert_channel_def split: if_splits)
    then show ?thesis
      using inv hs False fresh
      by (fastforce simp: store_inv_def db_ok_def channels_ok_def list_all_iff list_ex_iff has_server_def)
  qed
  moreover have "\<exists>cs. d' = d\<lparr>channels := cs\<rparr>"
    using up by (auto simp: upsert_channel_def split: if_splits)
  ultimately show ?thesis
    using inv by (auto simp: store_inv_def db_ok_def servers_ok_def checks_ok_def incidents_ok_def
        members_ok_def windows_ok_def reports_ok_def notifs_ok_def statuses_stored_def has_server_def)
qed

lemma SetChannel_store_inv:
  "store_inv d \<Longrightarrow> store_inv (snd (SetNotificationChannelForDiscordMember e sid user ch d))"
  unfolding SetNotificationChannelForDiscordMember_def
  by (rule setting_keeps)
    (auto simp: uuid_arg_def split: option.splits list.splits sum.splits
      dest!: managed_ids_Cons intro: upsert_channel_store_inv)

lemma Schedule_store_inv:
  "store_inv d \<Longrightarrow> store_inv (snd (ScheduleMaintenanceForDiscordMember e sid user a b d))"
  unfolding ScheduleMaintenanceForDiscordMember_def
proof (rule setting_keeps)
  fix n d' assume inv: "store_inv d" and "uuid_arg e sid (\<lambda>u.
       case managed_ids d user u of
         [] \<Rightarrow> Inr (0, d)
       | i # _ \<Rightarrow>
           if \<not> a < b then Inl CheckFailed
           else if pg_fresh e \<in> set (map mw_id (windows d)) then Inl Unique
           else Inr (1, d\<lparr>windows := windows d @ [\<lparr>mw_id = pg_fresh e, mw_server = i,
             mw_starts = a, mw_ends = b, mw_by = user\<rparr>]\<rparr>)) = Inr (n, d')"
  then obtain u where u: "(case managed_ids d user u of
         [] \<Rightarrow> Inr (0, d)
       | i # _ \<Rightarrow>
           if \<not> a < b then Inl CheckFailed
           else if pg_fresh e \<in> set (map mw_id (windows d)) then Inl Unique
           else Inr (1, d\<lparr>windows := windows d @ [\<lparr>mw_id = pg_fresh e, mw_server = i,
             mw_starts = a, mw_ends = b, mw_by = user\<rparr>]\<rparr>)) = Inr (n, d')"
    by (auto simp: uuid_arg_def split: option.splits)
  show "store_inv d'"
  proof (cases "managed_ids d user u")
    case Nil
    with u inv show ?thesis by simp
  next
    case (Cons i rest)
    then have "has_server d i" using managed_ids_Cons by blast
    moreover from u Cons have "a < b" "pg_fresh e \<notin> mw_id ` set (windows d)"
      "d' = d\<lparr>windows := windows d @ [\<lparr>mw_id = pg_fresh e, mw_server = i,
             mw_starts = a, mw_ends = b, mw_by = user\<rparr>]\<rparr>"
      by (simp_all split: if_splits)
    ultimately show ?thesis using inv
      by (auto simp: store_inv_def db_ok_def table_ok_defs has_server_def statuses_stored_def list_all_iff)
  qed
qed (assumption)

section \<open>Uptime\<close>

lemma good_le_counted: "length (recent_good d u now) \<le> length (recent_counted d u now)"
proof -
  have "recent_good d u now = filter (\<lambda>c. ck_outcome c = Success) (recent_counted d u now)"
    by (auto simp: recent_good_def recent_counted_def intro!: filter_cong)
  then show ?thesis by simp
qed

lemma Uptime24h_percent: "Uptime24h e sid d = Inr p \<Longrightarrow> 0 \<le> p \<and> p \<le> 100"
proof -
  assume a: "Uptime24h e sid d = Inr p"
  then obtain u where p: "p = (if length (recent_counted d u (pg_now e)) = 0 then 0
      else 100 * of_nat (length (recent_good d u (pg_now e))) / of_nat (length (recent_counted d u (pg_now e))))"
    by (auto simp: Uptime24h_def query_pool_def uuid_arg_def Let_def split: option.splits)
  have "(of_nat (length (recent_good d u (pg_now e))) :: rat) \<le> of_nat (length (recent_counted d u (pg_now e)))"
    using good_le_counted by (simp only: of_nat_le_iff)
  then show ?thesis by (simp add: p divide_le_eq)
qed

end
