(* ===== verification/Bytes.thy ===== *)
theory Bytes imports Domain begin

unbundle bit_operations_syntax

text \<open>
  Bytes and Go's \<open>int\<close> at its width of 64 bits, with the facts on masks and shifts that
  the VarInt routines and the handshake need.
\<close>

type_synonym byte = "8 word"
type_synonym goint = "64 word"

definition bytes_of :: "string \<Rightarrow> byte list" where
  "bytes_of s = map of_char s"

definition string_of :: "byte list \<Rightarrow> string" where
  "string_of bs = map (\<lambda>b. char_of (unat b)) bs"

lemma unat_of_char: "unat (of_char c :: byte) = of_char c"
proof -
  have "(of_char c :: byte) = of_nat (of_char c)" by (simp only: of_nat_of_char)
  moreover have "of_char c < (256 :: nat)" by simp
  ultimately show ?thesis by (simp add: unat_of_nat)
qed

lemma string_of_bytes_of [simp]: "string_of (bytes_of s) = s"
  by (simp add: string_of_def bytes_of_def unat_of_char o_def)

lemma length_bytes_of [simp]: "length (bytes_of s) = length s"
  by (simp add: bytes_of_def)

lemma or_shift_add:
  fixes a b :: nat
  assumes "a < 2 ^ k"
  shows "a OR push_bit k b = a + 2 ^ k * b"
proof -
  have "\<not> bit a n \<or> \<not> bit (push_bit k b) n" for n
  proof (cases "n < k")
    case True
    then show ?thesis by (simp add: bit_push_bit_iff)
  next
    case False
    then have "a < 2 ^ n" using assms by (meson le_less_trans less_le_trans not_less power_increasing one_le_numeral)
    then show ?thesis by (simp add: bit_iff_odd)
  qed
  then have "a AND push_bit k b = 0" by (auto simp: bit_eq_iff bit_and_iff)
  then have "a OR push_bit k b = a + push_bit k b" by (simp add: disjunctive_add_eq_or)
  then show ?thesis by (simp add: push_bit_eq_mult mult.commute)
qed

lemma unat_low7: "unat (b AND 127) = unat b mod 128" for b :: byte
proof -
  have "b AND 127 = take_bit 7 b" by (simp add: take_bit_eq_mask mask_eq_exp_minus_1)
  then have "unat (b AND 127) = take_bit 7 (unat b)" by (simp only: unsigned_take_bit_eq)
  then show ?thesis by (simp add: take_bit_eq_mod)
qed

lemma high_bit_clear: "b AND 128 = 0 \<longleftrightarrow> unat b < 128" for b :: byte
proof -
  have "b AND 128 = b AND 2 ^ 7" by simp
  then have "b AND 128 = 0 \<longleftrightarrow> \<not> bit b 7" by (simp only: and_exp_eq_0_iff_not_bit)
  also have "bit b 7 \<longleftrightarrow> bit (unat b) 7" by (simp add: bit_unsigned_iff)
  also have "\<dots> \<longleftrightarrow> odd (unat b div 128)" by (simp add: bit_iff_odd)
  also have "\<dots> \<longleftrightarrow> \<not> unat b < 128"
  proof (cases "unat b < 128")
    case False
    moreover have "unat b < 256" using unsigned_less [of b, where ?'a = nat] by simp
    ultimately have "unat b div 128 = 1" by (auto simp: div_if)
    with False show ?thesis by simp
  qed simp
  finally show ?thesis by simp
qed

end
