(* ===== verification/VarInt.thy ===== *)
theory VarInt imports Bytes begin

text \<open>
  \<open>varInt\<close> and \<open>readVarInt\<close> of \<open>internal/minecraft/java.go\<close>. Go's \<open>int\<close>
  is a 64-bit word with arithmetic shift, so \<open>varInt\<close> of a negative number does not
  return; \<open>readVarInt\<close> reads any \<open>io.ByteReader\<close>, and the locale
  \<open>byte_reader\<close> is that interface.
\<close>

section \<open>Writing\<close>

partial_function (option) varInt_loop :: "goint \<Rightarrow> byte list \<Rightarrow> byte list option" where
  "varInt_loop v b =
     (let x = ucast (v AND 127);
          v' = signed_drop_bit 7 v;
          x' = (if v' \<noteq> 0 then x OR 128 else x);
          b' = b @ [x']
      in if v' = 0 then Some b' else varInt_loop v' b')"

definition varInt :: "goint \<Rightarrow> byte list option" where
  "varInt v = varInt_loop v []"

text \<open>The reference: little-endian groups of seven bits, all but the last with the high bit set.\<close>

fun leb :: "nat \<Rightarrow> byte list" where
  "leb n = (if n < 128 then [of_nat n] else of_nat (n mod 128 + 128) # leb (n div 128))"

declare leb.simps [simp del]

section \<open>Reading\<close>

function readVarInt_loop ::
  "('r \<Rightarrow> byte res \<times> 'r) \<Rightarrow> nat \<Rightarrow> goint \<Rightarrow> 'r \<Rightarrow> goint res \<times> 'r" where
  "readVarInt_loop readByte i n r =
     (if i < 5 then
        (case readByte r of
           (Inl e, r') \<Rightarrow> (Inl e, r')
         | (Inr b, r') \<Rightarrow>
             (let n' = n OR push_bit (7 * i) (ucast (b AND 127)) in
              if b AND 128 = 0 then (Inr n', r') else readVarInt_loop readByte (i + 1) n' r'))
      else (Inl (Msg ''varint too long''), r))"
  by pat_completeness auto
termination
  by (relation "measure (\<lambda>(f, i, n, r). 5 - i)") auto

declare readVarInt_loop.simps [simp del]

definition readVarInt :: "('r \<Rightarrow> byte res \<times> 'r) \<Rightarrow> 'r \<Rightarrow> goint res \<times> 'r" where
  "readVarInt readByte r = readVarInt_loop readByte 0 0 r"

section \<open>varInt returns on the non-negative numbers, and only there\<close>

lemma sint_eq_unat: "0 \<le> sint v \<Longrightarrow> sint v = int (unat v)" for v :: goint
proof -
  assume "0 \<le> sint v"
  moreover have "sint v < 2 ^ 63" using sint_less [of v] by simp
  ultimately have "take_bit 64 (sint v) = sint v" by (simp add: take_bit_int_eq_self_iff)
  then show ?thesis using uint_sint [of v] by simp
qed

lemma shift7:
  assumes "0 \<le> sint (v :: goint)"
  shows "unat (signed_drop_bit 7 v) = unat v div 128" and "0 \<le> sint (signed_drop_bit 7 v)"
proof -
  have s: "sint (signed_drop_bit 7 v) = sint v div 128"
    by (simp add: sint_signed_drop_bit_eq drop_bit_eq_div)
  with assms show n: "0 \<le> sint (signed_drop_bit 7 v)" by simp
  have "int (unat (signed_drop_bit 7 v)) = int (unat v div 128)"
    using s sint_eq_unat [OF assms] sint_eq_unat [OF n] by (simp add: zdiv_int)
  then show "unat (signed_drop_bit 7 v) = unat v div 128" by (simp only: of_nat_eq_iff)
qed

lemma low7_of_nat: "(ucast (v AND 127) :: byte) = of_nat (unat v mod 128)" for v :: goint
proof -
  have "v AND 127 = take_bit 7 v" by (simp add: take_bit_eq_mask mask_eq_exp_minus_1)
  then have "unat (v AND 127) = unat v mod 128"
    by (simp only: unsigned_take_bit_eq) (simp add: take_bit_eq_mod)
  moreover have "(ucast (v AND 127) :: byte) = of_nat (unat (v AND 127))" by simp
  ultimately show ?thesis by simp
qed

lemma set_high: "m < 128 \<Longrightarrow> (of_nat m :: byte) OR 128 = of_nat (m + 128)"
proof -
  assume m: "m < 128"
  have "unat ((of_nat m :: byte) OR 128) = m OR push_bit 7 1"
    using m by (simp add: unsigned_or_eq unat_of_nat push_bit_eq_mult)
  also have "\<dots> = m + 128" using m or_shift_add [of m 7 1] by simp
  also have "\<dots> = unat (of_nat (m + 128) :: byte)" using m by (simp only: unat_of_nat) simp
  finally show ?thesis by (simp only: word_unat_eq_iff)
qed

lemma varInt_loop_leb:
  "0 \<le> sint v \<Longrightarrow> varInt_loop v b = Some (b @ leb (unat v))"
proof (induction "unat v" arbitrary: v b rule: less_induct)
  case less
  note sh = shift7 [OF less.prems]
  have z: "signed_drop_bit 7 v = 0 \<longleftrightarrow> unat v < 128"
    by (metis sh(1) div_less div_greater_zero_iff gr0I not_less unat_0 unat_eq_zero zero_less_numeral)
  show ?case
  proof (cases "unat v < 128")
    case True
    then show ?thesis
      using z by (subst varInt_loop.simps, subst leb.simps) (simp add: Let_def low7_of_nat)
  next
    case False
    have "unat (signed_drop_bit 7 v) < unat v" using sh(1) False by simp
    from less.hyps [OF this sh(2)] have
      IH: "varInt_loop (signed_drop_bit 7 v) b' = Some (b' @ leb (unat v div 128))" for b'
      by (simp add: sh(1))
    show ?thesis
      using z False
      by (subst varInt_loop.simps, subst leb.simps) (simp add: Let_def low7_of_nat set_high IH)
  qed
qed

lemma varInt_loop_returns: "varInt_loop v b = Some r \<Longrightarrow> 0 \<le> sint v"
proof (rule varInt_loop.raw_induct [where P = "\<lambda>v b r. 0 \<le> sint v"])
  fix f v b r
  assume IH: "\<And>v b r. f v b = Some r \<Longrightarrow> 0 \<le> sint v"
    and eq: "(let x = ucast (v AND 127); v' = signed_drop_bit 7 v;
      x' = (if v' \<noteq> 0 then x OR 128 else x); b' = b @ [x']
      in if v' = 0 then Some b' else f v' b') = Some r"
  have s: "sint (signed_drop_bit 7 v) = sint v div 128"
    by (simp add: sint_signed_drop_bit_eq drop_bit_eq_div)
  show "0 \<le> sint v"
  proof (cases "signed_drop_bit 7 v = 0")
    case True
    with s have "sint v div 128 = 0" by simp
    then show ?thesis by presburger
  next
    case False
    with eq have "0 \<le> sint (signed_drop_bit 7 v)" using IH by (auto simp: Let_def)
    with s show ?thesis by presburger
  qed
qed

lemma varInt_leb: "0 \<le> sint v \<Longrightarrow> varInt v = Some (leb (unat v))"
  by (simp add: varInt_def varInt_loop_leb)

lemma varInt_returns_iff: "varInt v \<noteq> None \<longleftrightarrow> 0 \<le> sint v"
  using varInt_leb varInt_loop_returns unfolding varInt_def by fastforce

lemma leb_length: "n < 128 ^ Suc k \<Longrightarrow> length (leb n) \<le> Suc k"
proof (induction k arbitrary: n)
  case 0
  then show ?case by (subst leb.simps) simp
next
  case (Suc k)
  then have "n div 128 < 128 ^ Suc k" by (simp add: less_mult_imp_div_less mult.commute)
  from Suc.IH [OF this] show ?case by (subst leb.simps) simp
qed

section \<open>One step of the decoder\<close>

lemma accumulate:
  fixes n :: goint and b :: byte
  assumes "i < 5" and n: "unat n < 2 ^ (7 * i)"
  shows "unat (n OR push_bit (7 * i) (ucast (b AND 127))) = unat n + 2 ^ (7 * i) * (unat b mod 128)"
    and "unat (n OR push_bit (7 * i) (ucast (b AND 127))) < 2 ^ (7 * (i + 1))"
proof -
  let ?m = "unat b mod 128"
  have "(2::nat) ^ (7 * i) \<le> 2 ^ 28" using assms(1) by (intro power_increasing) auto
  then have le: "2 ^ (7 * i) * ?m < 2 ^ 64"
    by (rule le_less_trans [OF mult_le_mono [of _ "2 ^ 28" _ 128]]) simp_all
  have "unat (ucast (b AND 127) :: goint) = ?m"
    by (simp add: unsigned_ucast_eq unat_low7 take_bit_nat_eq_self_iff)
  then have "unat (push_bit (7 * i) (ucast (b AND 127)) :: goint) = take_bit 64 (push_bit (7 * i) ?m)"
    by (simp add: unsigned_push_bit_eq)
  also have "\<dots> = push_bit (7 * i) ?m"
    using le by (simp add: take_bit_nat_eq_self_iff push_bit_eq_mult mult.commute)
  finally have "unat (n OR push_bit (7 * i) (ucast (b AND 127))) = unat n OR push_bit (7 * i) ?m"
    by (simp add: unsigned_or_eq)
  also have "\<dots> = unat n + 2 ^ (7 * i) * ?m" by (rule or_shift_add [OF n])
  finally show eq: "unat (n OR push_bit (7 * i) (ucast (b AND 127))) = unat n + 2 ^ (7 * i) * ?m" .
  have "2 ^ (7 * i) * ?m \<le> 2 ^ (7 * i) * 127" by (intro mult_le_mono2) simp
  moreover have "(2::nat) ^ (7 * (i + 1)) = 2 ^ (7 * i) * 127 + 2 ^ (7 * i)" by (simp add: power_add)
  ultimately show "unat (n OR push_bit (7 * i) (ucast (b AND 127))) < 2 ^ (7 * (i + 1))"
    using n eq by linarith
qed

section \<open>The byte-reader interface\<close>

text \<open>
  What \<open>io.ByteReader\<close> promises to a decoder: the bytes come in order, and when there is
  none left the call is an error that takes nothing.
\<close>

locale byte_reader =
  fixes readByte :: "'r \<Rightarrow> byte res \<times> 'r"
    and content :: "'r \<Rightarrow> byte list"
  assumes read_Cons: "content r = b # bs \<Longrightarrow> \<exists>r'. readByte r = (Inr b, r') \<and> content r' = bs"
    and read_Nil: "content r = [] \<Longrightarrow> \<exists>e. readByte r = (Inl e, r)"
begin

lemma read_Inr: "readByte r = (Inr b, r') \<Longrightarrow> content r = b # content r'"
proof (cases "content r")
  case Nil
  then obtain e where "readByte r = (Inl e, r)" using read_Nil by blast
  moreover assume "readByte r = (Inr b, r')"
  ultimately show ?thesis by simp
next
  case (Cons b' bs)
  then obtain r'' where "readByte r = (Inr b', r'')" "content r'' = bs" using read_Cons by blast
  moreover assume "readByte r = (Inr b, r')"
  ultimately show ?thesis using Cons by simp
qed

lemma loop_reads:
  "i < 5 \<Longrightarrow> content r = b # bs \<Longrightarrow> \<exists>r'. content r' = bs \<and>
     readVarInt_loop readByte i n r =
       (let n' = n OR push_bit (7 * i) (ucast (b AND 127)) in
        if b AND 128 = 0 then (Inr n', r') else readVarInt_loop readByte (i + 1) n' r')"
  using read_Cons [of r b bs] by (subst readVarInt_loop.simps) (auto simp: Let_def)

lemma loop_decodes:
  "i < 5 \<Longrightarrow> unat n < 2 ^ (7 * i) \<Longrightarrow> m < 2 ^ (7 * (5 - i)) \<Longrightarrow> content r = leb m @ rest \<Longrightarrow>
     \<exists>r'. readVarInt_loop readByte i n r = (Inr (of_nat (unat n + 2 ^ (7 * i) * m)), r')
       \<and> content r' = rest"
proof (induction m arbitrary: i n r rule: leb.induct)
  case (1 m)
  show ?case
  proof (cases "m < 128")
    case True
    with 1 have "content r = of_nat m # rest" by (subst (asm) leb.simps) simp
    from loop_reads [OF "1.prems"(1) this, of n] obtain r' where r': "content r' = rest"
      "readVarInt_loop readByte i n r =
         (Inr (n OR push_bit (7 * i) (ucast ((of_nat m :: byte) AND 127))), r')"
      using True by (auto simp: Let_def high_bit_clear unat_of_nat)
    have "unat (n OR push_bit (7 * i) (ucast ((of_nat m :: byte) AND 127))) = unat n + 2 ^ (7 * i) * m"
      using accumulate [OF "1.prems"(1,2), of "of_nat m"] True by (simp add: unat_of_nat)
    then show ?thesis using r' by (metis of_nat_unat ucast_id)
  next
    case False
    let ?b = "of_nat (m mod 128 + 128) :: byte"
    have b: "unat ?b = m mod 128 + 128" by (simp only: unat_of_nat) simp
    with 1 False have "content r = ?b # leb (m div 128) @ rest" by (subst (asm) leb.simps) simp
    from loop_reads [OF "1.prems"(1) this, of n] obtain r' n' where r': "content r' = leb (m div 128) @ rest"
      and n': "n' = n OR push_bit (7 * i) (ucast (?b AND 127))"
      and eq: "readVarInt_loop readByte i n r = readVarInt_loop readByte (i + 1) n' r'"
      using b by (auto simp: Let_def high_bit_clear)
    have acc: "unat n' = unat n + 2 ^ (7 * i) * (m mod 128)" "unat n' < 2 ^ (7 * (i + 1))"
      using accumulate [OF "1.prems"(1,2), of ?b] b unfolding n' by simp_all
    have "i \<noteq> 4" using False "1.prems"(3) by auto
    with "1.prems"(1) have i: "i + 1 < 5" by simp
    then have "7 * (5 - i) = 7 + 7 * (5 - (i + 1))" by simp
    then have "m < 128 * 2 ^ (7 * (5 - (i + 1)))" using "1.prems"(3) by (simp add: power_add)
    then have m: "m div 128 < 2 ^ (7 * (5 - (i + 1)))" by (simp add: less_mult_imp_div_less mult.commute)
    have val: "unat n' + 2 ^ (7 * (i + 1)) * (m div 128) = unat n + 2 ^ (7 * i) * m"
    proof -
      have "2 ^ (7 * (i + 1)) * (m div 128) = 2 ^ (7 * i) * (128 * (m div 128))"
        by (simp add: power_add)
      moreover have "2 ^ (7 * i) * (m mod 128) + 2 ^ (7 * i) * (128 * (m div 128)) = 2 ^ (7 * i) * m"
        by (simp only: distrib_left [symmetric] mod_mult_div_eq)
      ultimately show ?thesis using acc(1) by linarith
    qed
    from "1.IH" [OF False i acc(2) m r'] show ?thesis by (simp only: eq val)
  qed
qed

lemma loop_consumes:
  "readVarInt_loop readByte i n r = (Inr v, r') \<Longrightarrow>
     \<exists>bs. content r = bs @ content r' \<and> bs \<noteq> [] \<and> length bs + i \<le> 5"
proof (induction "5 - i" arbitrary: i n r)
  case 0
  then show ?case by (subst (asm) readVarInt_loop.simps) simp
next
  case (Suc k)
  then have i: "i < 5" by simp
  show ?case
  proof (cases "content r")
    case Nil
    with read_Nil [OF this] i Suc.prems show ?thesis by (subst (asm) readVarInt_loop.simps) auto
  next
    case (Cons b bs)
    from loop_reads [OF i this, of n] obtain r1 where r1: "content r1 = bs"
      and eq: "readVarInt_loop readByte i n r =
         (let n' = n OR push_bit (7 * i) (ucast (b AND 127)) in
          if b AND 128 = 0 then (Inr n', r1) else readVarInt_loop readByte (i + 1) n' r1)" by blast
    show ?thesis
    proof (cases "b AND 128 = 0")
      case True
      with eq Suc.prems r1 Cons i show ?thesis by (intro exI [of _ "[b]"]) (auto simp: Let_def)
    next
      case False
      with eq Suc.prems have "readVarInt_loop readByte (i + 1)
          (n OR push_bit (7 * i) (ucast (b AND 127))) r1 = (Inr v, r')" by (simp add: Let_def)
      moreover have "k = 5 - (i + 1)" using Suc.hyps(2) by simp
      ultimately obtain bs' where
        "content r1 = bs' @ content r'" "length bs' + (i + 1) \<le> 5" using Suc.hyps(1) by blast
      then show ?thesis using Cons r1 by (intro exI [of _ "b # bs'"]) auto
    qed
  qed
qed

lemma readVarInt_leb:
  assumes "content r = leb m @ rest" and "m < 2 ^ 35"
  shows "\<exists>r'. readVarInt readByte r = (Inr (of_nat m), r') \<and> content r' = rest"
  using loop_decodes [of 0 0 m r rest] assms by (simp add: readVarInt_def)

text \<open>Five groups are not enough for a number of 36 bits or more.\<close>

lemma loop_refuses:
  "i \<le> 5 \<Longrightarrow> 2 ^ (7 * (5 - i)) \<le> m \<Longrightarrow> content r = leb m @ rest \<Longrightarrow>
     fst (readVarInt_loop readByte i n r) = Inl (Msg ''varint too long'')"
proof (induction m arbitrary: i n r rule: leb.induct)
  case (1 m)
  show ?case
  proof (cases "i = 5")
    case True
    then show ?thesis by (subst readVarInt_loop.simps) simp
  next
    case False
    with "1.prems"(1) have i: "i < 5" by simp
    then have e: "7 * (5 - i) = 7 + 7 * (5 - (i + 1))" by simp
    then have le: "128 * 2 ^ (7 * (5 - (i + 1))) \<le> m" using "1.prems"(2) by (simp add: power_add)
    moreover have "(1::nat) \<le> 2 ^ (7 * (5 - (i + 1)))" by simp
    ultimately have big: "\<not> m < 128" by linarith
    from le have m: "2 ^ (7 * (5 - (i + 1))) \<le> m div 128" by (simp add: less_eq_div_iff_mult_less_eq mult.commute)
    let ?b = "of_nat (m mod 128 + 128) :: byte"
    have b: "unat ?b = m mod 128 + 128" by (simp only: unat_of_nat) simp
    from big "1.prems"(3) have "content r = ?b # leb (m div 128) @ rest" by (subst (asm) leb.simps) simp
    from loop_reads [OF i this, of n] obtain r' where "content r' = leb (m div 128) @ rest"
      and "readVarInt_loop readByte i n r =
         readVarInt_loop readByte (i + 1) (n OR push_bit (7 * i) (ucast (?b AND 127))) r'"
      using b by (auto simp: Let_def high_bit_clear)
    with "1.IH" [OF big _ m] i show ?thesis by simp
  qed
qed

lemma readVarInt_refuses:
  "content r = leb m @ rest \<Longrightarrow> 2 ^ 35 \<le> m \<Longrightarrow> fst (readVarInt readByte r) = Inl (Msg ''varint too long'')"
  using loop_refuses [of 0 m r rest 0] by (simp add: readVarInt_def)

lemma readVarInt_consumes:
  "readVarInt readByte r = (Inr v, r') \<Longrightarrow>
     \<exists>bs. content r = bs @ content r' \<and> 1 \<le> length bs \<and> length bs \<le> 5"
  unfolding readVarInt_def by (drule loop_consumes) (auto simp: Suc_le_eq)

end

section \<open>Bounds of the decoded value\<close>

lemma readVarInt_loop_bound:
  "readVarInt_loop readByte i n r = (Inr v, r') \<Longrightarrow> unat n < 2 ^ (7 * i) \<Longrightarrow> unat v < 2 ^ 35"
proof (induction "5 - i" arbitrary: i n r)
  case 0
  then show ?case by (subst (asm) readVarInt_loop.simps) simp
next
  case (Suc k)
  then have i: "i < 5" by simp
  with Suc.prems(1) obtain b r1 where rb: "readByte r = (Inr b, r1)"
    by (subst (asm) readVarInt_loop.simps) (auto split: prod.splits sum.splits)
  let ?n = "n OR push_bit (7 * i) (ucast (b AND 127))"
  have acc: "unat ?n < 2 ^ (7 * (i + 1))" using accumulate(2) [OF i Suc.prems(2)] .
  show ?case
  proof (cases "b AND 128 = 0")
    case True
    with Suc.prems(1) rb i have "v = ?n" by (subst (asm) readVarInt_loop.simps) (simp add: Let_def)
    moreover have "(2::nat) ^ (7 * (i + 1)) \<le> 2 ^ 35" using i by (intro power_increasing) auto
    ultimately show ?thesis using acc by simp
  next
    case False
    with Suc.prems(1) rb i have "readVarInt_loop readByte (i + 1) ?n r1 = (Inr v, r')"
      by (subst (asm) readVarInt_loop.simps) (simp add: Let_def)
    from Suc.hyps(1) [OF _ this acc] Suc.hyps(2) show ?thesis by simp
  qed
qed

lemma readVarInt_bound: "readVarInt readByte r = (Inr v, r') \<Longrightarrow> unat v < 2 ^ 35"
  unfolding readVarInt_def by (drule readVarInt_loop_bound) simp_all

end
