(* ===== verification/Minecraft.thy ===== *)
theory Minecraft imports VarInt GoText "HOL-Library.Monad_Syntax" begin

text \<open>
  The Server List Ping of \<open>internal/minecraft/java.go\<close>. The network is a function from
  the dialled address to what happens on the connection (\<open>Conn\<close>): the error of each call
  or none, the bytes the server sends and the error after the last of them (end of file or the
  deadline). \<open>encoding/json\<close> is the argument \<open>json\<close>: the bytes of the body to the
  two player counts or an error. The result carries the writes the probe made, and is
  \<open>None\<close> only if \<open>varInt\<close> did not return.
\<close>

section \<open>The connection\<close>

record Conn =
  cn_dial :: "string option"
  cn_write1 :: "string option"
  cn_write2 :: "string option"
  cn_in :: "byte list"
  cn_end :: string
  cn_start :: instant
  cn_elapsed :: duration

type_synonym net = "string \<Rightarrow> Conn"
type_synonym json_status = "byte list \<Rightarrow> (int \<times> int) res"

record Reader =
  rd_bytes :: "byte list"
  rd_err :: err

fun ReadByte :: "Reader \<Rightarrow> byte res \<times> Reader" where
  "ReadByte r = (case rd_bytes r of
       [] \<Rightarrow> (Inl (rd_err r), r)
     | b # bs \<Rightarrow> (Inr b, r\<lparr>rd_bytes := bs\<rparr>))"

text \<open>\<open>io.ReadFull\<close>: an end of file after some bytes is an unexpected one.\<close>

definition ReadFull :: "nat \<Rightarrow> Reader \<Rightarrow> byte list res" where
  "ReadFull n r =
     (if n \<le> length (rd_bytes r) then Inr (take n (rd_bytes r))
      else if rd_err r = Fault ''EOF'' \<and> rd_bytes r \<noteq> [] then Inl (Fault ''unexpected EOF'')
      else Inl (rd_err r))"

interpretation reader: byte_reader ReadByte rd_bytes
  by unfold_locales auto

section \<open>The probe\<close>

definition failed :: "instant \<Rightarrow> Outcome \<Rightarrow> string \<Rightarrow> CheckResult" where
  "failed now x detail = \<lparr>cr_Outcome = x, cr_Latency = 0, cr_PlayersOnline = 0,
     cr_PlayersMax = 0, cr_Detail = detail, cr_At = now\<rparr>"

text \<open>\<open>uint16(port)\<close> in network byte order.\<close>

definition put_uint16 :: "int \<Rightarrow> byte list" where
  "put_uint16 port = (let p = (of_int port :: 16 word) in [ucast (drop_bit 8 p), ucast p])"

definition go_len :: "'a list \<Rightarrow> goint" where
  "go_len xs = of_nat (length xs)"

definition handshake :: "string \<Rightarrow> int \<Rightarrow> byte list option" where
  "handshake handshakeHost handshakePort =
     (let hostBytes = bytes_of handshakeHost in do {
        protocol \<leftarrow> varInt 765;
        hostLen \<leftarrow> varInt (go_len hostBytes);
        let packet = [0] @ protocol @ hostLen @ hostBytes @ put_uint16 handshakePort @ [1];
        packetLen \<leftarrow> varInt (go_len packet);
        Some (packetLen @ packet)
      })"

definition status_request :: "byte list" where
  "status_request = [1, 0]"

definition read_response :: "json_status \<Rightarrow> instant \<Rightarrow> duration \<Rightarrow> Reader \<Rightarrow> CheckResult" where
  "read_response json now elapsed r =
     (case readVarInt ReadByte r of
        (Inl e, _) \<Rightarrow> failed now StatusTimeout (err_text e)
      | (Inr _, r) \<Rightarrow>
          (case ReadByte r of
             (Inl _, _) \<Rightarrow> failed now InvalidStatusResponse []
           | (Inr _, r) \<Rightarrow>
               (case readVarInt ReadByte r of
                  (Inl _, _) \<Rightarrow> failed now InvalidStatusResponse []
                | (Inr sz, r) \<Rightarrow>
                    if sint sz < 1 \<or> 2 ^ 20 < sint sz then failed now InvalidStatusResponse []
                    else (case ReadFull (nat (sint sz)) r of
                        Inl e \<Rightarrow> failed now InvalidStatusResponse (err_text e)
                      | Inr body \<Rightarrow>
                          (case json body of
                             Inl e \<Rightarrow> failed now InvalidStatusResponse (err_text e)
                           | Inr (online, max_players) \<Rightarrow>
                               \<lparr>cr_Outcome = Success, cr_Latency = elapsed,
                                cr_PlayersOnline = online, cr_PlayersMax = max_players,
                                cr_Detail = [], cr_At = now\<rparr>)))))"

definition PingJavaEndpoint ::
  "json_status \<Rightarrow> net \<Rightarrow> string \<Rightarrow> int \<Rightarrow> string \<Rightarrow> int \<Rightarrow> (CheckResult \<times> byte list list) option" where
  "PingJavaEndpoint json net endpointHost endpointPort handshakeHost handshakePort =
     (let c = net (join_host_port endpointHost (itoa endpointPort)); now = cn_start c in
      case cn_dial c of
        Some e \<Rightarrow> Some (failed now ConnectTimeout e, [])
      | None \<Rightarrow> do {
          hello \<leftarrow> handshake handshakeHost handshakePort;
          (case cn_write1 c of
             Some e \<Rightarrow> Some (failed now ConnectionReset e, [hello])
           | None \<Rightarrow>
               (case cn_write2 c of
                  Some e \<Rightarrow> Some (failed now ConnectionReset e, [hello, status_request])
                | None \<Rightarrow> Some (read_response json now (cn_elapsed c)
                    \<lparr>rd_bytes = cn_in c, rd_err = Fault (cn_end c)\<rparr>, [hello, status_request])))
        })"

definition PingJava :: "json_status \<Rightarrow> net \<Rightarrow> string \<Rightarrow> int \<Rightarrow> (CheckResult \<times> byte list list) option" where
  "PingJava json net host port = PingJavaEndpoint json net host port host port"

section \<open>The handshake\<close>

lemma sint_of_small:
  "n < 2 ^ 63 \<Longrightarrow> sint (of_nat n :: goint) = int n \<and> unat (of_nat n :: goint) = n"
proof -
  assume n: "n < 2 ^ 63"
  then have u: "unat (of_nat n :: goint) = n" by (simp add: unat_of_nat)
  have "sint (of_nat n :: goint) = signed_take_bit 63 (int n)" by (simp add: signed_of_nat)
  also have "\<dots> = int n" using n by (simp add: signed_take_bit_int_eq_self_iff)
  finally show ?thesis using u by simp
qed

lemma varInt_of_nat: "n < 2 ^ 63 \<Longrightarrow> varInt (of_nat n) = Some (leb n)"
  using sint_of_small [of n] by (simp add: varInt_leb)

definition handshake_body :: "string \<Rightarrow> int \<Rightarrow> byte list" where
  "handshake_body host port =
     [0] @ leb 765 @ leb (length host) @ bytes_of host @ put_uint16 port @ [1]"

lemma leb_le10: "n < 2 ^ 63 \<Longrightarrow> length (leb n) \<le> 9"
  using leb_length [of n 8] by simp

lemma handshake_body_length: "length host < 2 ^ 31 \<Longrightarrow> length (handshake_body host port) < 2 ^ 32"
  using leb_le10 [of 765] leb_le10 [of "length host"]
  by (simp add: handshake_body_def put_uint16_def Let_def)

lemma handshake_eq:
  "length host < 2 ^ 31 \<Longrightarrow>
     handshake host port = Some (leb (length (handshake_body host port)) @ handshake_body host port)"
proof -
  assume h: "length host < 2 ^ 31"
  have p: "varInt 765 = Some (leb 765)" using varInt_of_nat [of 765] by simp
  have l: "varInt (go_len (bytes_of host)) = Some (leb (length host))"
    using h varInt_of_nat [of "length host"] by (simp add: go_len_def)
  have "varInt (go_len (handshake_body host port)) = Some (leb (length (handshake_body host port)))"
    using handshake_body_length [OF h, of port] varInt_of_nat by (simp add: go_len_def)
  then show ?thesis by (simp add: handshake_def p l handshake_body_def)
qed

text \<open>
  The server's side, as \<open>java_test.go\<close> reads it: the frame's length, the packet id, the
  protocol version, the host, the port, the next state.
\<close>

definition parse_handshake :: "byte list \<Rightarrow> (byte \<times> goint \<times> string \<times> nat \<times> byte) option" where
  "parse_handshake frame =
     (case readVarInt ReadByte \<lparr>rd_bytes = frame, rd_err = Fault ''EOF''\<rparr> of
        (Inr len, r) \<Rightarrow>
          if unat len \<noteq> length (rd_bytes r) then None
          else (case ReadByte r of
            (Inr pid, r) \<Rightarrow>
              (case readVarInt ReadByte r of
                 (Inr protocol, r) \<Rightarrow>
                   (case readVarInt ReadByte r of
                      (Inr n, r) \<Rightarrow>
                        (case drop (unat n) (rd_bytes r) of
                           [hi, lo, nxt] \<Rightarrow> Some (pid, protocol, string_of (take (unat n) (rd_bytes r)),
                             256 * unat hi + unat lo, nxt)
                         | _ \<Rightarrow> None)
                    | _ \<Rightarrow> None)
               | _ \<Rightarrow> None)
          | _ \<Rightarrow> None)
      | _ \<Rightarrow> None)"

lemma put_uint16_value:
  "0 \<le> port \<Longrightarrow> port < 65536 \<Longrightarrow>
     \<exists>hi lo. put_uint16 port = [hi, lo] \<and> 256 * unat hi + unat lo = nat port"
proof -
  assume p: "0 \<le> port" "port < 65536"
  then obtain n where n: "port = int n" "n < 65536" by (metis nat_0_le nat_less_iff of_nat_numeral)
  let ?p = "of_nat n :: 16 word"
  have u: "unat ?p = n" using n(2) by (simp add: unat_of_nat)
  have hi: "unat (ucast (drop_bit 8 ?p) :: byte) = n div 256"
  proof -
    have "unat (drop_bit 8 ?p) = n div 256"
      using n(2) by (simp only: unsigned_drop_bit_eq u) (simp add: drop_bit_eq_div take_bit_eq_mod)
    moreover have "n div 256 < 256" using n(2) by (simp add: less_mult_imp_div_less)
    ultimately show ?thesis by (simp only: unsigned_ucast_eq) (simp add: take_bit_eq_mod)
  qed
  have lo: "unat (ucast ?p :: byte) = n mod 256"
    using u by (simp add: unsigned_ucast_eq take_bit_eq_mod)
  have "256 * unat (ucast (drop_bit 8 ?p) :: byte) + unat (ucast ?p :: byte) = n" by (simp only: hi lo) simp
  moreover have "put_uint16 port = [ucast (drop_bit 8 ?p), ucast ?p]"
    by (simp only: put_uint16_def Let_def n(1) of_int_of_nat_eq)
  ultimately show ?thesis
    by (intro exI [of _ "ucast (drop_bit 8 ?p)"] exI [of _ "ucast ?p"] conjI) (simp_all only: n(1) nat_int)
qed

lemma parse_handshake_handshake:
  assumes h: "length host < 2 ^ 31" and p: "0 \<le> port" "port < 65536"
  shows "map_option parse_handshake (handshake host port) = Some (Some (0, 765, host, nat port, 1))"
proof -
  let ?B = "handshake_body host port"
  let ?R = "\<lambda>bs. \<lparr>rd_bytes = bs, rd_err = Fault ''EOF''\<rparr>"
  have len: "length ?B < 2 ^ 32" by (rule handshake_body_length [OF h])
  obtain hi lo where w: "put_uint16 port = [hi, lo]" "256 * unat hi + unat lo = nat port"
    using put_uint16_value [OF p] by blast
  obtain r1 where r1: "readVarInt ReadByte (?R (leb (length ?B) @ ?B)) = (Inr (of_nat (length ?B)), r1)"
    "rd_bytes r1 = ?B"
    using reader.readVarInt_leb [of "?R (leb (length ?B) @ ?B)" "length ?B" ?B] len by auto
  let ?r2 = "r1\<lparr>rd_bytes := leb 765 @ leb (length host) @ bytes_of host @ [hi, lo, 1]\<rparr>"
  have r2: "ReadByte r1 = (Inr 0, ?r2)" using r1(2) by (simp add: handshake_body_def w(1))
  obtain r3 where r3: "readVarInt ReadByte ?r2 = (Inr (of_nat 765), r3)"
    "rd_bytes r3 = leb (length host) @ bytes_of host @ [hi, lo, 1]"
    using reader.readVarInt_leb [of ?r2 765] by auto
  obtain r4 where r4: "readVarInt ReadByte r3 = (Inr (of_nat (length host)), r4)"
    "rd_bytes r4 = bytes_of host @ [hi, lo, 1]"
    using reader.readVarInt_leb [OF r3(2)] h by auto
  have u: "unat (of_nat (length ?B) :: goint) = length ?B" "unat (of_nat (length host) :: goint) = length host"
    using sint_of_small [of "length ?B"] sint_of_small [of "length host"] len h by simp_all
  have "parse_handshake (leb (length ?B) @ ?B) = Some (0, 765, host, nat port, 1)"
    unfolding parse_handshake_def
    by (simp only: r1 r2 r3 r4 u prod.case sum.case) (simp add: w(2) r4(2))
  then show ?thesis by (simp add: handshake_eq [OF h])
qed

section \<open>The outcome of a probe\<close>

lemma PingJavaEndpoint_returns:
  "length hh < 2 ^ 31 \<Longrightarrow> \<exists>res ws. PingJavaEndpoint json net eh ep hh hp = Some (res, ws)"
  by (auto simp: PingJavaEndpoint_def handshake_eq Let_def split: option.splits)

lemma read_response_outcome:
  "cr_Outcome (read_response json now el r) \<in> {Success, StatusTimeout, InvalidStatusResponse}"
  by (auto simp: read_response_def failed_def split: prod.splits sum.splits)

lemma PingJavaEndpoint_outcome:
  "PingJavaEndpoint json net eh ep hh hp = Some (res, ws) \<Longrightarrow>
     cr_Outcome res \<in> {Success, ConnectTimeout, ConnectionReset, StatusTimeout, InvalidStatusResponse}"
  using read_response_outcome
  by (fastforce simp: PingJavaEndpoint_def failed_def Let_def
      split: option.splits Option.bind_splits)

text \<open>A success rests on a whole, well-framed response: an open port is not enough.\<close>

lemma read_response_Success:
  assumes "cr_Outcome (read_response json now el r) = Success"
  shows "\<exists>frame pid sz body rest. rd_bytes r = frame @ [pid] @ sz @ body @ rest
    \<and> 1 \<le> length frame \<and> length frame \<le> 5 \<and> 1 \<le> length sz \<and> length sz \<le> 5
    \<and> 1 \<le> length body \<and> length body \<le> 2 ^ 20
    \<and> json body = Inr (cr_PlayersOnline (read_response json now el r),
                       cr_PlayersMax (read_response json now el r))"
proof -
  from assms obtain v1 r1 pid r2 v2 r3 body on mx where
    1: "readVarInt ReadByte r = (Inr v1, r1)" and 2: "ReadByte r1 = (Inr pid, r2)"
    and 3: "readVarInt ReadByte r2 = (Inr v2, r3)" and 4: "1 \<le> sint v2" "sint v2 \<le> 2 ^ 20"
    and 5: "ReadFull (nat (sint v2)) r3 = Inr body" and 6: "json body = Inr (on, mx)"
    and 7: "read_response json now el r = \<lparr>cr_Outcome = Success, cr_Latency = el,
       cr_PlayersOnline = on, cr_PlayersMax = mx, cr_Detail = [], cr_At = now\<rparr>"
    unfolding read_response_def failed_def
    by (auto split: prod.splits sum.splits if_splits)
  obtain frame where f: "rd_bytes r = frame @ rd_bytes r1" "1 \<le> length frame" "length frame \<le> 5"
    using reader.readVarInt_consumes [OF 1] by blast
  obtain sz where s: "rd_bytes r2 = sz @ rd_bytes r3" "1 \<le> length sz" "length sz \<le> 5"
    using reader.readVarInt_consumes [OF 3] by blast
  have p: "rd_bytes r1 = pid # rd_bytes r2" by (rule reader.read_Inr [OF 2])
  from 5 4 have b: "body = take (nat (sint v2)) (rd_bytes r3)" "length body = nat (sint v2)"
    by (auto simp: ReadFull_def split: if_splits)
  show ?thesis
    using f s p b 4 6 7
    by (intro exI [of _ frame] exI [of _ pid] exI [of _ sz] exI [of _ body]
        exI [of _ "drop (nat (sint v2)) (rd_bytes r3)"]) auto
qed

text \<open>A server that answers with a well-formed frame is reported as up, with its players.\<close>

definition status_response :: "byte list \<Rightarrow> byte list" where
  "status_response body =
     (let response = [0] @ leb (length body) @ body in leb (length response) @ response)"

lemma read_response_answers:
  assumes "rd_bytes r = status_response body @ rest" and b: "1 \<le> length body" "length body \<le> 2 ^ 20"
    and "json body = Inr (on, mx)"
  shows "read_response json now el r = \<lparr>cr_Outcome = Success, cr_Latency = el,
     cr_PlayersOnline = on, cr_PlayersMax = mx, cr_Detail = [], cr_At = now\<rparr>"
proof -
  let ?resp = "[0] @ leb (length body) @ body"
  have n: "length body < 2 ^ 35" using b by simp
  have "length (leb (length body)) \<le> 9" using b by (intro leb_le10) simp
  then have m: "length ?resp < 2 ^ 35" using b by simp
  obtain r1 where r1: "readVarInt ReadByte r = (Inr (of_nat (length ?resp)), r1)"
    "rd_bytes r1 = ?resp @ rest"
    using reader.readVarInt_leb [of r "length ?resp" "?resp @ rest"] assms(1) m
    by (auto simp: status_response_def Let_def)
  let ?r2 = "r1\<lparr>rd_bytes := leb (length body) @ body @ rest\<rparr>"
  have r2: "ReadByte r1 = (Inr 0, ?r2)" using r1(2) by simp
  obtain r3 where r3: "readVarInt ReadByte ?r2 = (Inr (of_nat (length body)), r3)"
    "rd_bytes r3 = body @ rest"
    using reader.readVarInt_leb [of ?r2 "length body" "body @ rest"] n by auto
  have s: "sint (of_nat (length body) :: goint) = int (length body)"
    using sint_of_small [of "length body"] b by simp
  have rf: "ReadFull (nat (sint (of_nat (length body) :: goint))) r3 = Inr body"
    using r3(2) by (simp add: ReadFull_def s)
  show ?thesis
    unfolding read_response_def
    using b assms(4) by (simp only: r1 r2 r3 rf prod.case sum.case) (auto simp: s)
qed

end
