(* ===== verification/Tunnel.thy ===== *)
theory Tunnel imports Minecraft begin

text \<open>
  \<open>internal/transport/tunnel.go\<close>: a short-lived \<open>cloudflared\<close> process that offers
  the tunnelled server on a local port. What the operating system does in one call is a
  \<open>TunnelRun\<close>: the address it gives the listener, the outcome of the start, and for every
  round of \<open>waitForListener\<close> whether the dial succeeded and what \<open>select\<close> received.
\<close>

record AccessTunnel =
  at_binary :: string
  at_startupTimeout :: duration

definition NewAccessTunnel :: "string \<Rightarrow> duration \<Rightarrow> AccessTunnel" where
  "NewAccessTunnel binary startupTimeout =
     \<lparr>at_binary = (if binary = [] then ''cloudflared'' else binary), at_startupTimeout = startupTimeout\<rparr>"

datatype wait_event = CtxDone err | Deadline | TickerFired

record TunnelRun =
  tr_listen :: "string res"
  tr_start :: "err option"
  tr_rounds :: "(bool \<times> wait_event) list"
  tr_now :: instant

datatype process_action = Spawn "string list" | KillAndWait

text \<open>\<open>None\<close>: the loop has not returned after the given rounds.\<close>

fun waitForListener :: "(bool \<times> wait_event) list \<Rightarrow> unit res option" where
  "waitForListener [] = None"
| "waitForListener ((dialled, ev) # rounds) =
     (if dialled then Some (Inr ())
      else case ev of
        CtxDone e \<Rightarrow> Some (Inl e)
      | Deadline \<Rightarrow> Some (Inl (Msg ''listener did not become ready''))
      | TickerFired \<Rightarrow> waitForListener rounds)"

definition probeError :: "instant \<Rightarrow> err \<Rightarrow> CheckResult" where
  "probeError now e = failed now ProbeError (err_text e)"

definition local_port :: "string \<Rightarrow> int res" where
  "local_port localAddress =
     sscan_int (case SplitHostPort localAddress of None \<Rightarrow> [] | Some (_, p) \<Rightarrow> p)"

definition command_line :: "AccessTunnel \<Rightarrow> string \<Rightarrow> string \<Rightarrow> string list" where
  "command_line t hostname localAddress =
     [at_binary t, ''access'', ''tcp'', ''--hostname'', hostname, ''--url'', localAddress]"

definition Ping ::
  "json_status \<Rightarrow> net \<Rightarrow> TunnelRun \<Rightarrow> AccessTunnel \<Rightarrow> string \<Rightarrow> int
     \<Rightarrow> (CheckResult \<times> process_action list) option" where
  "Ping json net run t hostname port =
     (case tr_listen run of
        Inl e \<Rightarrow> Some (probeError (tr_now run) e, [])
      | Inr localAddress \<Rightarrow>
          (case tr_start run of
             Some e \<Rightarrow> Some (probeError (tr_now run) (Wrap ''start cloudflared: '' e), [])
           | None \<Rightarrow>
               let trace = [Spawn (command_line t hostname localAddress), KillAndWait] in
               (case waitForListener (tr_rounds run) of
                  None \<Rightarrow> None
                | Some (Inl e) \<Rightarrow>
                    Some (probeError (tr_now run) (Wrap ''cloudflared unavailable: '' e), trace)
                | Some (Inr _) \<Rightarrow>
                    (case local_port localAddress of
                       Inl e \<Rightarrow> Some (probeError (tr_now run) e, trace)
                     | Inr localPort \<Rightarrow>
                         map_option (\<lambda>x. (fst x, trace))
                           (PingJavaEndpoint json net ''127.0.0.1'' localPort hostname port)))))"

section \<open>Facts\<close>

text \<open>The wait ends once a dial succeeds or the deadline or the context fires.\<close>

definition decisive :: "bool \<times> wait_event \<Rightarrow> bool" where
  "decisive r \<longleftrightarrow> fst r \<or> snd r \<noteq> TickerFired"

lemma waitForListener_returns_iff: "waitForListener rs \<noteq> None \<longleftrightarrow> list_ex decisive rs"
  by (induction rs rule: waitForListener.induct) (auto simp: decisive_def split: wait_event.splits)

lemma waitForListener_ready:
  "waitForListener rs = Some (Inr ()) \<Longrightarrow> \<exists>r \<in> set rs. fst r"
  by (induction rs rule: waitForListener.induct) (auto split: if_splits wait_event.splits)

text \<open>A started process is always killed, and one process at most is started.\<close>

lemma Ping_trace:
  "Ping json net run t h p = Some (r, trace) \<Longrightarrow>
     trace = [] \<or> (\<exists>a. trace = [Spawn (command_line t h a), KillAndWait])"
  by (auto simp: Ping_def Let_def split: sum.splits option.splits)

text \<open>
  A failure of the tunnel itself is a probe error; an outcome that speaks of the server comes from
  a ping through a tunnel that was ready.
\<close>

lemma Ping_outcome:
  assumes "Ping json net run t h p = Some (r, trace)" and "cr_Outcome r \<noteq> ProbeError"
  shows "\<exists>a lp w. tr_listen run = Inr a \<and> tr_start run = None \<and> (\<exists>x \<in> set (tr_rounds run). fst x)
    \<and> local_port a = Inr lp \<and> PingJavaEndpoint json net ''127.0.0.1'' lp h p = Some (r, w)"
  using assms
  by (auto simp: Ping_def probeError_def failed_def Let_def dest!: waitForListener_ready
      split: sum.splits option.splits)

end
