(* ===== verification/Http.thy ===== *)
theory Http imports GoText begin

text \<open>
  HTTP as the program uses it: requests and responses as records, \<open>http.Client\<close> as an
  operation on the world, and the escaping of \<open>net/url\<close> (\<open>PathEscape\<close>,
  \<open>QueryEscape\<close>, \<open>Values.Encode\<close>).
\<close>

record Request =
  rq_method :: string
  rq_url :: string
  rq_headers :: "(string \<times> string) list"
  rq_body :: string

record Response =
  rs_code :: int
  rs_status :: string
  rs_body :: string

text \<open>
  \<open>http.NewRequestWithContext\<close> refuses a malformed URL, \<open>Client.Do\<close> answers or
  fails.
\<close>

record 'w HttpClient =
  ht_malformed :: "string \<Rightarrow> err option"
  ht_do :: "Request \<Rightarrow> 'w \<Rightarrow> Response res \<times> 'w"

section \<open>Escaping\<close>

definition code :: "char \<Rightarrow> nat" where
  "code c = of_char c"

definition is_alnum :: "char \<Rightarrow> bool" where
  "is_alnum c \<longleftrightarrow> is_digit c \<or> (65 \<le> code c \<and> code c \<le> 90) \<or> (97 \<le> code c \<and> code c \<le> 122)"

definition unreserved :: "char \<Rightarrow> bool" where
  "unreserved c \<longleftrightarrow> is_alnum c \<or> c \<in> set ''-_.~''"

definition hex_digit :: "nat \<Rightarrow> char" where
  "hex_digit k = ''0123456789ABCDEF'' ! k"

definition percent :: "char \<Rightarrow> string" where
  "percent c = [CHR ''%'', hex_digit (code c div 16), hex_digit (code c mod 16)]"

definition PathEscape :: "string \<Rightarrow> string" where
  "PathEscape s = concat (map (\<lambda>c.
     if unreserved c \<or> c \<in> set ''$&+=:@'' then [c] else percent c) s)"

definition QueryEscape :: "string \<Rightarrow> string" where
  "QueryEscape s = concat (map (\<lambda>c.
     if unreserved c then [c] else if c = CHR '' '' then ''+'' else percent c) s)"

text \<open>\<open>Values.Encode\<close>, of values listed in the order of their keys.\<close>

definition Encode :: "(string \<times> string) list \<Rightarrow> string" where
  "Encode kvs = join ''&'' (map (\<lambda>(k, v). QueryEscape k @ ''='' @ QueryEscape v) kvs)"

text \<open>What a server reads back from an escaped segment.\<close>

definition hex_val :: "char \<Rightarrow> nat" where
  "hex_val c = (if is_digit c then code c - 48 else code c - 55)"

fun unescape :: "string \<Rightarrow> string" where
  "unescape (p # a # b # s) = (if p = CHR ''%'' then char_of (16 * hex_val a + hex_val b) # unescape s
     else p # unescape (a # b # s))"
| "unescape (p # s) = p # unescape s"
| "unescape [] = []"

lemma hex_val_digit: "k < 16 \<Longrightarrow> hex_val (hex_digit k) = k"
proof -
  assume "k < 16"
  then have "k \<in> set [0..<16]" by simp
  moreover have "list_all (\<lambda>k. hex_val (hex_digit k) = k) [0..<16]" by code_simp
  ultimately show ?thesis by (simp only: list_all_iff)
qed

lemma code_less: "code c < 256"
  by (simp add: code_def)

lemma unescape_percent: "unescape (percent c @ s) = c # unescape s"
proof -
  have a: "hex_val (hex_digit (code c div 16)) = code c div 16"
    using code_less [of c] by (intro hex_val_digit) (simp add: less_mult_imp_div_less)
  have b: "hex_val (hex_digit (code c mod 16)) = code c mod 16"
    by (intro hex_val_digit) simp
  have "16 * (code c div 16) + code c mod 16 = code c" by simp
  then have "char_of (16 * (code c div 16) + code c mod 16) = c" by (simp add: code_def)
  then show ?thesis by (simp add: percent_def a b)
qed

lemma unescape_plain: "c \<noteq> CHR ''%'' \<Longrightarrow> unescape (c # s) = c # unescape s"
  by (cases s rule: unescape.cases) auto

lemma unescape_PathEscape: "unescape (PathEscape s) = s"
proof (induction s)
  case (Cons c s)
  show ?case
  proof (cases "unreserved c \<or> c \<in> set ''$&+=:@''")
    case True
    then have "c \<noteq> CHR ''%''" by (auto simp: unreserved_def is_alnum_def is_digit_def code_def)
    with True Cons show ?thesis by (simp add: PathEscape_def unescape_plain)
  next
    case False
    with Cons show ?thesis by (simp add: PathEscape_def unescape_percent)
  qed
qed (simp add: PathEscape_def)

text \<open>An escaped text is one path segment: no slash, query or fragment begins in it.\<close>

lemma hex_digit_alnum: "k < 16 \<Longrightarrow> is_alnum (hex_digit k)"
proof -
  assume "k < 16"
  then have "k \<in> set [0..<16]" by simp
  moreover have "list_all (\<lambda>k. is_alnum (hex_digit k)) [0..<16]" by code_simp
  ultimately show ?thesis by (simp only: list_all_iff)
qed

lemma PathEscape_chars:
  "c \<in> set (PathEscape s) \<Longrightarrow> unreserved c \<or> c \<in> set ''$&+=:@%''"
proof (induction s)
  case (Cons a s)
  have "is_alnum (hex_digit (code a div 16))" "is_alnum (hex_digit (code a mod 16))"
    using code_less [of a] by (auto intro!: hex_digit_alnum simp: less_mult_imp_div_less)
  with Cons show ?case
    by (auto simp: PathEscape_def percent_def unreserved_def split: if_splits)
qed (simp add: PathEscape_def)

lemma PathEscape_segment: "CHR ''/'' \<notin> set (PathEscape s) \<and> CHR ''?'' \<notin> set (PathEscape s) \<and> CHR ''#'' \<notin> set (PathEscape s)"
  using PathEscape_chars [of "CHR ''/''" s] PathEscape_chars [of "CHR ''?''" s]
    PathEscape_chars [of "CHR ''#''" s]
  by (auto simp: unreserved_def is_alnum_def is_digit_def code_def)

end
