(* ===== verification/Integration.thy ===== *)
theory Integration imports Http Domain begin

text \<open>
  The VoxelLink boundary: the client of \<open>internal/integration/voxellink/client.go\<close>, the
  importer and the synchroniser of \<open>internal/integration\<close>. \<open>url.Parse\<close> and
  \<open>encoding/json\<close> are arguments. The locale \<open>import_world\<close> is the interface the
  synchroniser needs of its provider and repository.
\<close>

section \<open>The client\<close>

record Client =
  cl_baseURL :: string
  cl_token :: string

record Payload =
  pl_ID :: string
  pl_Name :: string
  pl_Hostname :: string
  pl_Port :: int
  pl_Transport :: string
  pl_Members :: "ServerMember list"

text \<open>\<open>parse\<close> is \<open>url.Parse\<close>: the scheme and the host, or an error.\<close>

definition NewClient :: "(string \<Rightarrow> (string \<times> string) res) \<Rightarrow> string \<Rightarrow> string \<Rightarrow> Client res" where
  "NewClient parse baseURL token =
     (if baseURL = [] \<or> token = [] then
        Inl (Msg ''VOXELLINK_API_BASE_URL and VOXELLINK_API_TOKEN must be set'')
      else case parse baseURL of
        Inl _ \<Rightarrow> Inl (Msg ''invalid VoxelLink API base URL'')
      | Inr (scheme, host) \<Rightarrow>
          if scheme = [] \<or> host = [] then Inl (Msg ''invalid VoxelLink API base URL'')
          else Inr \<lparr>cl_baseURL = trim_right (CHR ''/'') baseURL, cl_token = token\<rparr>)"

definition kept_member :: "ServerMember \<Rightarrow> bool" where
  "kept_member m \<longleftrightarrow> mem_DiscordUserID m \<noteq> [] \<and>
     (mem_Role m = ''owner'' \<or> mem_Role m = ''manager'' \<or> mem_Role m = ''viewer'')"

definition validate :: "(string \<Rightarrow> string) \<Rightarrow> Payload \<Rightarrow> ImportedServer res" where
  "validate quote p =
     (if pl_ID p = [] \<or> pl_Name p = [] \<or> pl_Hostname p = [] \<or> pl_Port p < 1 \<or> 65535 < pl_Port p then
        Inl (Msg ''VoxelLink returned invalid monitor server data'')
      else
        let transport = (if pl_Transport p = [] then ''DIRECT'' else pl_Transport p) in
        if transport \<noteq> ''DIRECT'' \<and> transport \<noteq> ''CLOUDFLARE_SPECTRUM'' \<and> transport \<noteq> ''CLOUDFLARE_TUNNEL'' then
          Inl (Msg (''unsupported transport '' @ quote transport))
        else Inr \<lparr>imp_ExternalID = pl_ID p, imp_Name = pl_Name p, imp_Hostname = pl_Hostname p,
          imp_Port = pl_Port p, imp_Transport = transport,
          imp_Members = filter kept_member (pl_Members p)\<rparr>)"

definition server_request :: "Client \<Rightarrow> string \<Rightarrow> Request" where
  "server_request c externalID = \<lparr>rq_method = ''GET'',
     rq_url = cl_baseURL c @ ''/api/v1/monitor/servers/'' @ PathEscape externalID,
     rq_headers = [(''Authorization'', ''Bearer '' @ cl_token c)], rq_body = []\<rparr>"

definition FetchServer ::
  "'w HttpClient \<Rightarrow> (string \<Rightarrow> Payload res) \<Rightarrow> (string \<Rightarrow> string) \<Rightarrow> Client \<Rightarrow> string \<Rightarrow> 'w
     \<Rightarrow> ImportedServer res \<times> 'w" where
  "FetchServer http json quote c externalID w =
     (let request = server_request c externalID in
      case ht_malformed http (rq_url request) of
        Some e \<Rightarrow> (Inl e, w)
      | None \<Rightarrow> (case ht_do http request w of
          (Inl e, w) \<Rightarrow> (Inl (Wrap ''request VoxelLink: '' e), w)
        | (Inr response, w) \<Rightarrow>
            if rs_code response \<noteq> 200 then
              (Inl (Msg (''VoxelLink returned '' @ rs_status response)), w)
            else (case json (rs_body response) of
              Inl e \<Rightarrow> (Inl (Wrap ''decode VoxelLink response: '' e), w)
            | Inr payload \<Rightarrow> (validate quote payload, w))))"

section \<open>Import and synchronisation\<close>

type_synonym 'w Provider = "string \<Rightarrow> 'w \<Rightarrow> ImportedServer res \<times> 'w"
type_synonym 'w ImportRepository = "ImportedServer \<Rightarrow> 'w \<Rightarrow> Server res \<times> 'w"
type_synonym 'w ExternalIDRepository = "'w \<Rightarrow> string list res \<times> 'w"

definition Import :: "'w Provider \<Rightarrow> 'w ImportRepository \<Rightarrow> string \<Rightarrow> 'w \<Rightarrow> Server res \<times> 'w" where
  "Import provider repository externalID w =
     (if externalID = [] then (Inl (Msg ''external server ID is required''), w)
      else case provider externalID w of
        (Inl e, w) \<Rightarrow> (Inl e, w)
      | (Inr imported, w) \<Rightarrow> repository imported w)"

fun sync_ids :: "'w Provider \<Rightarrow> 'w ImportRepository \<Rightarrow> string list \<Rightarrow> 'w \<Rightarrow> unit res \<times> 'w" where
  "sync_ids p r [] w = (Inr (), w)"
| "sync_ids p r (i # is) w = (case Import p r i w of
     (Inl e, w) \<Rightarrow> (Inl (Wrap (''refresh '' @ i @ '': '') e), w)
   | (Inr _, w) \<Rightarrow> sync_ids p r is w)"

definition Sync :: "'w Provider \<Rightarrow> 'w ImportRepository \<Rightarrow> 'w ExternalIDRepository \<Rightarrow> 'w \<Rightarrow> unit res \<times> 'w" where
  "Sync p r ids w = (case ids w of
     (Inl e, w) \<Rightarrow> (Inl e, w)
   | (Inr is, w) \<Rightarrow> sync_ids p r is w)"

section \<open>What the boundary guarantees\<close>

text \<open>A listing the store can take: see \<open>upsert_server\<close>.\<close>

definition valid_listing :: "ImportedServer \<Rightarrow> bool" where
  "valid_listing i \<longleftrightarrow> imp_ExternalID i \<noteq> [] \<and> imp_Name i \<noteq> [] \<and> imp_Hostname i \<noteq> []
     \<and> 1 \<le> imp_Port i \<and> imp_Port i \<le> 65535
     \<and> imp_Transport i \<in> set [''DIRECT'', ''CLOUDFLARE_TUNNEL'', ''CLOUDFLARE_SPECTRUM'']
     \<and> list_all (\<lambda>m. mem_DiscordUserID m \<noteq> [] \<and> mem_Role m \<in> set [''owner'', ''manager'', ''viewer'']) (imp_Members i)"

lemma validate_valid: "validate quote p = Inr i \<Longrightarrow> valid_listing i"
  by (auto simp: validate_def valid_listing_def kept_member_def list_all_iff Let_def split: if_splits)

lemma FetchServer_valid: "fst (FetchServer http json quote c x w) = Inr i \<Longrightarrow> valid_listing i"
  by (auto simp: FetchServer_def Let_def split: option.splits prod.splits sum.splits if_splits
      dest: validate_valid)

locale import_world =
  fixes provider :: "'w Provider" and repository :: "'w ImportRepository"
    and ids :: "'w ExternalIDRepository" and I :: "'w \<Rightarrow> bool" and G :: "'w \<Rightarrow> 'w \<Rightarrow> bool"
  assumes G_refl: "G w w"
    and G_trans: "G a b \<Longrightarrow> G b c \<Longrightarrow> G a c"
    and provider_I: "I w \<Longrightarrow> I (snd (provider x w)) \<and> G w (snd (provider x w))"
    and repository_I: "I w \<Longrightarrow> I (snd (repository i w)) \<and> G w (snd (repository i w))"
    and ids_I: "I w \<Longrightarrow> I (snd (ids w)) \<and> G w (snd (ids w))"
begin

lemma Import_I: "I w \<Longrightarrow> I (snd (Import provider repository x w)) \<and> G w (snd (Import provider repository x w))"
proof -
  assume w: "I w"
  obtain r w1 where p: "provider x w = (r, w1)" by (cases "provider x w")
  have w1: "I w1" "G w w1" using provider_I [OF w, of x] p by simp_all
  show ?thesis
  proof (cases r)
    case Inl
    with p w w1 G_refl show ?thesis by (simp add: Import_def)
  next
    case (Inr i)
    have "I (snd (repository i w1))" "G w (snd (repository i w1))"
      using repository_I [OF w1(1), of i] G_trans [OF w1(2)] by simp_all
    with p Inr w G_refl show ?thesis by (simp add: Import_def)
  qed
qed

lemma sync_ids_I: "I w \<Longrightarrow> I (snd (sync_ids provider repository is w)) \<and> G w (snd (sync_ids provider repository is w))"
proof (induction "is" arbitrary: w)
  case (Cons i "is")
  obtain r w1 where m: "Import provider repository i w = (r, w1)" by (cases "Import provider repository i w")
  have w1: "I w1" "G w w1" using Import_I [OF Cons.prems, of i] m by simp_all
  from Cons.IH [OF w1(1)] m w1 show ?case
    by (auto split: sum.splits intro: G_trans)
qed (simp add: G_refl)

lemma Sync_I: "I w \<Longrightarrow> I (snd (Sync provider repository ids w)) \<and> G w (snd (Sync provider repository ids w))"
proof -
  assume w: "I w"
  obtain r w1 where m: "ids w = (r, w1)" by (cases "ids w")
  have w1: "I w1" "G w w1" using ids_I [OF w] m by simp_all
  then show ?thesis
    using sync_ids_I [OF w1(1)] m by (auto simp: Sync_def split: sum.splits intro: G_trans)
qed

end

text \<open>A synchronisation that succeeds has imported every id; the first failure ends it.\<close>

lemma sync_ids_ok:
  "sync_ids p r is w = (Inr (), w') \<Longrightarrow> list_all (\<lambda>i. i \<noteq> []) is"
  by (induction "is" arbitrary: w) (auto simp: Import_def split: prod.splits sum.splits if_splits)

lemma sync_ids_append:
  "sync_ids p r (xs @ ys) w = (case sync_ids p r xs w of
     (Inl e, w) \<Rightarrow> (Inl e, w) | (Inr _, w) \<Rightarrow> sync_ids p r ys w)"
  by (induction xs arbitrary: w) (auto split: prod.splits sum.splits)

lemma sync_ids_stops:
  assumes "sync_ids p r xs w = (Inr (), w1)" and "Import p r x w1 = (Inl e, w2)"
  shows "sync_ids p r (xs @ x # ys) w = (Inl (Wrap (''refresh '' @ x @ '': '') e), w2)"
  using assms by (simp add: sync_ids_append)

end
