(* ===== verification/Worker.thy ===== *)
theory Worker imports Minecraft begin

text \<open>
  The scheduler of \<open>internal/monitor/worker.go\<close>. Its interfaces (\<open>Repository\<close>,
  \<open>Notifier\<close>, \<open>TunnelProber\<close>, \<open>Synchronizer\<close>) are records of operations on
  a world \<open>'w\<close>, as Go passes them; \<open>Runtime\<close> is what the process itself offers (the
  network, the clock, the sleep that a cancelled context cuts short). Logging is not modelled.
  The locale \<open>monitor_world\<close> states what the worker relies on, in terms of an invariant
  of the world.
\<close>

record 'w Repository =
  rp_EnabledServers :: "'w \<Rightarrow> Server list res \<times> 'w"
  rp_RecordCheck :: "Server \<Rightarrow> CheckResult \<Rightarrow> 'w \<Rightarrow> (bool \<times> PublicStatus) res \<times> 'w"
  rp_PendingStateNotifications :: "nat \<Rightarrow> 'w \<Rightarrow> PendingStateNotification list res \<times> 'w"
  rp_MarkStateNotificationDelivered :: "nat \<Rightarrow> 'w \<Rightarrow> unit res \<times> 'w"
  rp_RunRetention :: "('w \<Rightarrow> RetentionStats res \<times> 'w) option"

type_synonym 'w Notifier = "Server \<Rightarrow> PublicStatus \<Rightarrow> CheckResult \<Rightarrow> 'w \<Rightarrow> unit res \<times> 'w"
type_synonym 'w TunnelProber = "string \<Rightarrow> int \<Rightarrow> 'w \<Rightarrow> CheckResult \<times> 'w"

record 'w Worker =
  wk_repository :: "'w Repository"
  wk_notifier :: "'w Notifier"
  wk_tunnel :: "'w TunnelProber"
  wk_synchronizer :: "('w \<Rightarrow> unit res \<times> 'w) option"

record 'w Runtime =
  rt_ping :: "string \<Rightarrow> int \<Rightarrow> 'w \<Rightarrow> CheckResult \<times> 'w"
  rt_now :: "'w \<Rightarrow> instant \<times> 'w"
  rt_sleep :: "'w \<Rightarrow> bool \<times> 'w"
  rt_quote :: "string \<Rightarrow> string"

definition NoopNotifier :: "'w Notifier" where
  "NoopNotifier server state result w = (Inr (), w)"

text \<open>A nil notifier or prober is replaced by the default one.\<close>

definition NewWorker ::
  "'w Repository \<Rightarrow> 'w Notifier option \<Rightarrow> 'w TunnelProber \<Rightarrow> 'w TunnelProber option
     \<Rightarrow> ('w \<Rightarrow> unit res \<times> 'w) option \<Rightarrow> 'w Worker" where
  "NewWorker repository notifier defaultTunnel tunnel synchronizer =
     \<lparr>wk_repository = repository,
      wk_notifier = (case notifier of None \<Rightarrow> NoopNotifier | Some n \<Rightarrow> n),
      wk_tunnel = (case tunnel of None \<Rightarrow> defaultTunnel | Some t \<Rightarrow> t),
      wk_synchronizer = synchronizer\<rparr>"

section \<open>Probing and checking\<close>

definition probe :: "'w Runtime \<Rightarrow> 'w Worker \<Rightarrow> Server \<Rightarrow> 'w \<Rightarrow> CheckResult \<times> 'w" where
  "probe rt wk server w =
     (if srv_Transport server = ''DIRECT'' \<or> srv_Transport server = ''CLOUDFLARE_SPECTRUM'' then
        rt_ping rt (srv_Hostname server) (srv_Port server) w
      else if srv_Transport server = ''CLOUDFLARE_TUNNEL'' then
        wk_tunnel wk (srv_Hostname server) (srv_Port server) w
      else (case rt_now rt w of (now, w) \<Rightarrow>
        (failed now ProbeError (''unsupported transport '' @ rt_quote rt (srv_Transport server)), w)))"

text \<open>The loop of \<open>check\<close>; \<open>attempt\<close> counts from 0.\<close>

function check_loop :: "'w Runtime \<Rightarrow> 'w Worker \<Rightarrow> nat \<Rightarrow> Server \<Rightarrow> 'w \<Rightarrow> 'w" where
  "check_loop rt wk attempt server w =
     (if attempt < 3 then
        (let (result, w) = probe rt wk server w;
             (recorded, w) = rp_RecordCheck (wk_repository wk) server result w
         in case recorded of
              Inl e \<Rightarrow> w
            | Inr (changed, state) \<Rightarrow>
                (let w = (if changed then snd (wk_notifier wk server state result w) else w) in
                 if state = Maintenance then w
                 else
                   (let previousState = srv_Status server;
                        server = server\<lparr>srv_Status := state\<rparr>
                    in if cr_Outcome result = ProbeError
                          \<or> (cr_Outcome result = Success \<and> previousState \<noteq> Outage) then w
                       else if cr_Outcome result = Success \<and> previousState = Outage \<and> attempt = 1 then w
                       else if attempt = 2 then w
                       else (let (woke, w) = rt_sleep rt w in
                             if \<not> woke then w
                             else check_loop rt wk (attempt + 1) server w))))
      else w)"
  by pat_completeness auto
termination
  by (relation "measure (\<lambda>(rt, wk, attempt, server, w). 3 - attempt)") auto

declare check_loop.simps [simp del]

definition check :: "'w Runtime \<Rightarrow> 'w Worker \<Rightarrow> Server \<Rightarrow> 'w \<Rightarrow> 'w" where
  "check rt wk server w = check_loop rt wk 0 server w"

fun check_all :: "'w Runtime \<Rightarrow> 'w Worker \<Rightarrow> Server list \<Rightarrow> 'w \<Rightarrow> 'w" where
  "check_all rt wk [] w = w"
| "check_all rt wk (s # ss) w = check_all rt wk ss (check rt wk s w)"

definition RunOnce :: "'w Runtime \<Rightarrow> 'w Worker \<Rightarrow> 'w \<Rightarrow> unit res \<times> 'w" where
  "RunOnce rt wk w =
     (case rp_EnabledServers (wk_repository wk) w of
        (Inl e, w) \<Rightarrow> (Inl e, w)
      | (Inr servers, w) \<Rightarrow> (Inr (), check_all rt wk servers w))"

section \<open>Notifications, synchronisation, retention\<close>

definition dispatch_one :: "'w Worker \<Rightarrow> PendingStateNotification \<Rightarrow> 'w \<Rightarrow> 'w" where
  "dispatch_one wk item w =
     (case wk_notifier wk (pn_Server item) (pn_State item) (pn_Result item) w of
        (Inl e, w) \<Rightarrow> w
      | (Inr _, w) \<Rightarrow> snd (rp_MarkStateNotificationDelivered (wk_repository wk) (pn_ID item) w))"

fun dispatch_all :: "'w Worker \<Rightarrow> PendingStateNotification list \<Rightarrow> 'w \<Rightarrow> 'w" where
  "dispatch_all wk [] w = w"
| "dispatch_all wk (x # xs) w = dispatch_all wk xs (dispatch_one wk x w)"

definition dispatchPendingNotifications :: "'w Worker \<Rightarrow> 'w \<Rightarrow> 'w" where
  "dispatchPendingNotifications wk w =
     (case rp_PendingStateNotifications (wk_repository wk) 100 w of
        (Inl e, w) \<Rightarrow> w
      | (Inr pending, w) \<Rightarrow> dispatch_all wk pending w)"

definition syncVoxelLink :: "'w Worker \<Rightarrow> 'w \<Rightarrow> 'w" where
  "syncVoxelLink wk w = (case wk_synchronizer wk of None \<Rightarrow> w | Some sync \<Rightarrow> snd (sync w))"

definition runRetention :: "'w Worker \<Rightarrow> 'w \<Rightarrow> 'w" where
  "runRetention wk w =
     (case rp_RunRetention (wk_repository wk) of None \<Rightarrow> w | Some f \<Rightarrow> snd (f w))"

section \<open>The main loop\<close>

text \<open>
  What \<open>select\<close> can receive. Which ready channel it picks is not determined, so a run is a
  relation: \<open>worker_step\<close> is one round, \<open>worker_reaches\<close> its closure from the start.
\<close>

datatype signal = Done | Tick | RetentionTick | SyncTick

definition pass :: "'w Runtime \<Rightarrow> 'w Worker \<Rightarrow> 'w \<Rightarrow> 'w" where
  "pass rt wk w = dispatchPendingNotifications wk (snd (RunOnce rt wk w))"

definition startup :: "'w Runtime \<Rightarrow> 'w Worker \<Rightarrow> 'w \<Rightarrow> 'w" where
  "startup rt wk w = pass rt wk (syncVoxelLink wk (runRetention wk w))"

inductive worker_step :: "'w Runtime \<Rightarrow> 'w Worker \<Rightarrow> 'w \<Rightarrow> 'w \<Rightarrow> bool" for rt wk where
  tick: "worker_step rt wk w (pass rt wk w)"
| retention: "worker_step rt wk w (runRetention wk w)"
| sync: "worker_step rt wk w (syncVoxelLink wk w)"

inductive worker_reaches :: "'w Runtime \<Rightarrow> 'w Worker \<Rightarrow> 'w \<Rightarrow> 'w \<Rightarrow> bool" for rt wk w0 where
  start: "worker_reaches rt wk w0 (startup rt wk w0)"
| step: "worker_reaches rt wk w0 w \<Longrightarrow> worker_step rt wk w w' \<Longrightarrow> worker_reaches rt wk w0 w'"

text \<open>The executable loop over a given sequence of signals; \<open>Done\<close> ends it.\<close>

fun run_signals :: "'w Runtime \<Rightarrow> 'w Worker \<Rightarrow> signal list \<Rightarrow> 'w \<Rightarrow> 'w" where
  "run_signals rt wk [] w = w"
| "run_signals rt wk (Done # _) w = w"
| "run_signals rt wk (Tick # xs) w = run_signals rt wk xs (pass rt wk w)"
| "run_signals rt wk (RetentionTick # xs) w = run_signals rt wk xs (runRetention wk w)"
| "run_signals rt wk (SyncTick # xs) w = run_signals rt wk xs (syncVoxelLink wk w)"

definition Run :: "'w Runtime \<Rightarrow> 'w Worker \<Rightarrow> signal list \<Rightarrow> 'w \<Rightarrow> 'w" where
  "Run rt wk signals w = run_signals rt wk signals (startup rt wk w)"

inductive_cases worker_stepE: "worker_step rt wk w w'"

lemma run_signals_reaches:
  "worker_reaches rt wk w0 w \<Longrightarrow> worker_reaches rt wk w0 (run_signals rt wk xs w)"
  by (induction rt wk xs w rule: run_signals.induct)
    (auto intro: worker_reaches.step worker_step.intros)

lemma Run_reaches: "worker_reaches rt wk w0 (Run rt wk xs w0)"
  unfolding Run_def by (intro run_signals_reaches worker_reaches.start)

section \<open>What the worker keeps of the world\<close>

locale monitor_world =
  fixes rt :: "'w Runtime" and wk :: "'w Worker" and I :: "'w \<Rightarrow> bool"
  assumes ping_I: "I w \<Longrightarrow> I (snd (rt_ping rt h p w))"
    and now_I: "I w \<Longrightarrow> I (snd (rt_now rt w))"
    and sleep_I: "I w \<Longrightarrow> I (snd (rt_sleep rt w))"
    and tunnel_I: "I w \<Longrightarrow> I (snd (wk_tunnel wk h p w))"
    and notifier_I: "I w \<Longrightarrow> I (snd (wk_notifier wk s q r w))"
    and sync_I: "I w \<Longrightarrow> wk_synchronizer wk = Some f \<Longrightarrow> I (snd (f w))"
    and enabled_I: "I w \<Longrightarrow> I (snd (rp_EnabledServers (wk_repository wk) w))"
    and record_I: "I w \<Longrightarrow> I (snd (rp_RecordCheck (wk_repository wk) s r w))"
    and pending_I: "I w \<Longrightarrow> I (snd (rp_PendingStateNotifications (wk_repository wk) n w))"
    and mark_I: "I w \<Longrightarrow> I (snd (rp_MarkStateNotificationDelivered (wk_repository wk) i w))"
    and retention_I: "I w \<Longrightarrow> rp_RunRetention (wk_repository wk) = Some g \<Longrightarrow> I (snd (g w))"
begin

lemma probe_I: "I w \<Longrightarrow> I (snd (probe rt wk s w))"
  using ping_I tunnel_I now_I by (auto simp: probe_def split: prod.splits) (metis snd_conv)

lemma check_loop_I: "I w \<Longrightarrow> I (check_loop rt wk n s w)"
proof (induction "3 - n" arbitrary: n s w)
  case 0
  then show ?case by (subst check_loop.simps) simp
next
  case (Suc k)
  then have n: "n < 3" by simp
  obtain r w1 where p: "probe rt wk s w = (r, w1)" by (cases "probe rt wk s w")
  obtain rec w2 where rc: "rp_RecordCheck (wk_repository wk) s r w1 = (rec, w2)"
    by (cases "rp_RecordCheck (wk_repository wk) s r w1")
  have w1: "I w1" using probe_I [OF Suc.prems, of s] p by simp
  have w2: "I w2" using record_I [OF w1, of s r] rc by simp
  show ?case
  proof (cases rec)
    case Inl
    with n p rc w2 show ?thesis by (subst check_loop.simps) simp
  next
    case (Inr cq)
    obtain c q where cq: "cq = (c, q)" by (cases cq)
    define w3 where "w3 = (if c then snd (wk_notifier wk s q r w2) else w2)"
    have w3: "I w3" using notifier_I w2 by (simp add: w3_def)
    obtain woke w4 where sl: "rt_sleep rt w3 = (woke, w4)" by (cases "rt_sleep rt w3")
    have w4: "I w4" using sleep_I [OF w3] sl by simp
    have "I (check_loop rt wk (n + 1) s' w4)" for s'
      using Suc.hyps(1) [OF _ w4] Suc.hyps(2) by simp
    with w3 w4 n p rc sl show ?thesis
      by (subst check_loop.simps) (simp add: Inr cq Let_def w3_def [symmetric])
  qed
qed

lemma check_all_I: "I w \<Longrightarrow> I (check_all rt wk ss w)"
  by (induction ss arbitrary: w) (simp_all add: check_def check_loop_I)

lemma RunOnce_I: "I w \<Longrightarrow> I (snd (RunOnce rt wk w))"
  using enabled_I [of w] by (auto simp: RunOnce_def check_all_I split: prod.splits sum.splits)

lemma dispatch_all_I: "I w \<Longrightarrow> I (dispatch_all wk xs w)"
proof (induction xs arbitrary: w)
  case (Cons x xs)
  have "I (dispatch_one wk x w)"
    using notifier_I [OF Cons.prems, of "pn_Server x" "pn_State x" "pn_Result x"] mark_I
    by (auto simp: dispatch_one_def split: prod.splits sum.splits)
  with Cons.IH show ?case by simp
qed simp

lemma pass_I: "I w \<Longrightarrow> I (pass rt wk w)"
  using pending_I [OF RunOnce_I, of w 100]
  by (auto simp: pass_def dispatchPendingNotifications_def RunOnce_I dispatch_all_I
      split: prod.splits sum.splits)

lemma runRetention_I: "I w \<Longrightarrow> I (runRetention wk w)"
  using retention_I by (auto simp: runRetention_def split: option.splits)

lemma syncVoxelLink_I: "I w \<Longrightarrow> I (syncVoxelLink wk w)"
  using sync_I by (auto simp: syncVoxelLink_def split: option.splits)

lemma worker_reaches_I: "worker_reaches rt wk w0 w \<Longrightarrow> I w0 \<Longrightarrow> I w"
proof (induction rule: worker_reaches.induct)
  case start
  then show ?case by (simp add: startup_def pass_I syncVoxelLink_I runRetention_I)
next
  case (step w w')
  then show ?case by (auto elim!: worker_stepE intro: pass_I runRetention_I syncVoxelLink_I)
qed

end

end
