(* ===== verification/DiscordTexts.thy ===== *)
theory DiscordTexts imports Domain begin

text \<open>
  The Japanese texts of \<open>internal/discord/discord.go\<close>, as the UTF-8 bytes that are sent.
\<close>

definition msg_outage_tail :: string where
  "msg_outage_tail =
     ''** '' @ [CHR 0xE3, CHR 0x81, CHR 0xAB, CHR 0xE7, CHR 0x8F, CHR 0xBE, CHR 0xE5, CHR 0x9C,
     CHR 0xA8, CHR 0xE6, CHR 0x8E, CHR 0xA5, CHR 0xE7, CHR 0xB6, CHR 0x9A, CHR 0xE3, CHR 0x81,
     CHR 0xA7, CHR 0xE3, CHR 0x81, CHR 0x8D, CHR 0xE3, CHR 0x81, CHR 0xBE, CHR 0xE3, CHR 0x81,
     CHR 0x9B, CHR 0xE3, CHR 0x82, CHR 0x93, CHR 0x0A] @ ''VoxelLink Monitor'' @ [CHR 0xE3, CHR 0x81,
     CHR 0x8C, CHR 0xE6, CHR 0xAD, CHR 0xA3, CHR 0xE5, CHR 0xB8, CHR 0xB8, CHR 0xE3, CHR 0x81,
     CHR 0xAA] @ ''Minecraft'' @ [CHR 0xE5, CHR 0xBF, CHR 0x9C, CHR 0xE7, CHR 0xAD, CHR 0x94,
     CHR 0xE3, CHR 0x82, CHR 0x92, CHR 0xE7, CHR 0xA2, CHR 0xBA, CHR 0xE8, CHR 0xAA, CHR 0x8D,
     CHR 0xE3, CHR 0x81, CHR 0xA7, CHR 0xE3, CHR 0x81, CHR 0x8D, CHR 0xE3, CHR 0x81, CHR 0xA6,
     CHR 0xE3, CHR 0x81, CHR 0x84, CHR 0xE3, CHR 0x81, CHR 0xBE, CHR 0xE3, CHR 0x81, CHR 0x9B,
     CHR 0xE3, CHR 0x82, CHR 0x93, CHR 0xE3, CHR 0x80, CHR 0x82]"

definition msg_operational_tail :: string where
  "msg_operational_tail =
     ''** '' @ [CHR 0xE3, CHR 0x81, CHR 0x8C, CHR 0xE5, CHR 0xBE, CHR 0xA9, CHR 0xE6, CHR 0x97,
     CHR 0xA7, CHR 0xE3, CHR 0x81, CHR 0x97, CHR 0xE3, CHR 0x81, CHR 0xBE, CHR 0xE3, CHR 0x81,
     CHR 0x97, CHR 0xE3, CHR 0x81, CHR 0x9F, CHR 0x0A, CHR 0xE7, CHR 0x8F, CHR 0xBE, CHR 0xE5,
     CHR 0x9C, CHR 0xA8, CHR 0xE3, CHR 0x81, CHR 0xAF, CHR 0xE6, CHR 0xAD, CHR 0xA3, CHR 0xE5,
     CHR 0xB8, CHR 0xB8, CHR 0xE3, CHR 0x81, CHR 0xAB, CHR 0xE6, CHR 0x8E, CHR 0xA5, CHR 0xE7,
     CHR 0xB6, CHR 0x9A, CHR 0xE3, CHR 0x81, CHR 0xA7, CHR 0xE3, CHR 0x81, CHR 0x8D, CHR 0xE3,
     CHR 0x81, CHR 0xBE, CHR 0xE3, CHR 0x81, CHR 0x99, CHR 0xE3, CHR 0x80, CHR 0x82]"

definition msg_unknown_tail :: string where
  "msg_unknown_tail =
     ''** '' @ [CHR 0xE3, CHR 0x81, CHR 0xAE, CHR 0xE7, CHR 0x8A, CHR 0xB6, CHR 0xE6, CHR 0x85,
     CHR 0x8B, CHR 0xE3, CHR 0x82, CHR 0x92, CHR 0xE7, CHR 0xA2, CHR 0xBA, CHR 0xE8, CHR 0xAA,
     CHR 0x8D, CHR 0xE3, CHR 0x81, CHR 0xA7, CHR 0xE3, CHR 0x81, CHR 0x8D, CHR 0xE3, CHR 0x81,
     CHR 0xBE, CHR 0xE3, CHR 0x81, CHR 0x9B, CHR 0xE3, CHR 0x82, CHR 0x93, CHR 0x0A] @ ''Monitor'' @
     [CHR 0xE5, CHR 0x81, CHR 0xB4, CHR 0xE3, CHR 0x81, CHR 0xAE, CHR 0xE5, CHR 0x95, CHR 0x8F,
     CHR 0xE9, CHR 0xA1, CHR 0x8C, CHR 0xE3, CHR 0x81, CHR 0xAE, CHR 0xE5, CHR 0x8F, CHR 0xAF,
     CHR 0xE8, CHR 0x83, CHR 0xBD, CHR 0xE6, CHR 0x80, CHR 0xA7, CHR 0xE3, CHR 0x81, CHR 0x8C,
     CHR 0xE3, CHR 0x81, CHR 0x82, CHR 0xE3, CHR 0x82, CHR 0x8A, CHR 0xE3, CHR 0x80, CHR 0x81,
     CHR 0xE3, CHR 0x82, CHR 0xB5, CHR 0xE3, CHR 0x83, CHR 0xBC, CHR 0xE3, CHR 0x83, CHR 0x90,
     CHR 0xE3, CHR 0x83, CHR 0xBC, CHR 0xE9, CHR 0x9A, CHR 0x9C, CHR 0xE5, CHR 0xAE, CHR 0xB3,
     CHR 0xE3, CHR 0x81, CHR 0xA8, CHR 0xE3, CHR 0x81, CHR 0xAF, CHR 0xE5, CHR 0x88, CHR 0xA4,
     CHR 0xE5, CHR 0xAE, CHR 0x9A, CHR 0xE3, CHR 0x81, CHR 0x97, CHR 0xE3, CHR 0x81, CHR 0xA6,
     CHR 0xE3, CHR 0x81, CHR 0x84, CHR 0xE3, CHR 0x81, CHR 0xBE, CHR 0xE3, CHR 0x81, CHR 0x9B,
     CHR 0xE3, CHR 0x82, CHR 0x93, CHR 0xE3, CHR 0x80, CHR 0x82]"

definition msg_maintenance_tail :: string where
  "msg_maintenance_tail =
     ''** '' @ [CHR 0xE3, CHR 0x81, CHR 0xAF, CHR 0xE3, CHR 0x83, CHR 0xA1, CHR 0xE3, CHR 0x83,
     CHR 0xB3, CHR 0xE3, CHR 0x83, CHR 0x86, CHR 0xE3, CHR 0x83, CHR 0x8A, CHR 0xE3, CHR 0x83,
     CHR 0xB3, CHR 0xE3, CHR 0x82, CHR 0xB9, CHR 0xE4, CHR 0xB8, CHR 0xAD, CHR 0xE3, CHR 0x81,
     CHR 0xA7, CHR 0xE3, CHR 0x81, CHR 0x99, CHR 0xE3, CHR 0x80, CHR 0x82]"

definition msg_degraded_tail :: string where
  "msg_degraded_tail =
     ''** '' @ [CHR 0xE3, CHR 0x81, CHR 0xAF, CHR 0xE6, CHR 0xAD, CHR 0xA3, CHR 0xE5, CHR 0xB8,
     CHR 0xB8, CHR 0xE5, CHR 0xBF, CHR 0x9C, CHR 0xE7, CHR 0xAD, CHR 0x94, CHR 0xE3, CHR 0x81,
     CHR 0x97, CHR 0xE3, CHR 0x81, CHR 0xA6, CHR 0xE3, CHR 0x81, CHR 0x84, CHR 0xE3, CHR 0x81,
     CHR 0xBE, CHR 0xE3, CHR 0x81, CHR 0x99, CHR 0xE3, CHR 0x81, CHR 0x8C, CHR 0xE3, CHR 0x80,
     CHR 0x81, CHR 0xE7, CHR 0x8A, CHR 0xB6, CHR 0xE6, CHR 0x85, CHR 0x8B, CHR 0xE3, CHR 0x82,
     CHR 0x92, CHR 0xE7, CHR 0xA2, CHR 0xBA, CHR 0xE8, CHR 0xAA, CHR 0x8D, CHR 0xE3, CHR 0x81,
     CHR 0x97, CHR 0xE3, CHR 0x81, CHR 0xA6, CHR 0xE3, CHR 0x81, CHR 0x8F, CHR 0xE3, CHR 0x81,
     CHR 0xA0, CHR 0xE3, CHR 0x81, CHR 0x95, CHR 0xE3, CHR 0x81, CHR 0x84, CHR 0xE3, CHR 0x80,
     CHR 0x82]"

definition icon_red :: string where
  "icon_red =
     [CHR 0xF0, CHR 0x9F, CHR 0x94, CHR 0xB4]"

definition icon_green :: string where
  "icon_green =
     [CHR 0xF0, CHR 0x9F, CHR 0x9F, CHR 0xA2]"

definition icon_white :: string where
  "icon_white =
     [CHR 0xE2, CHR 0x9A, CHR 0xAA]"

definition icon_blue :: string where
  "icon_blue =
     [CHR 0xF0, CHR 0x9F, CHR 0x94, CHR 0xB5]"

definition icon_yellow :: string where
  "icon_yellow =
     [CHR 0xF0, CHR 0x9F, CHR 0x9F, CHR 0xA1]"

definition msg_last_checked :: string where
  "msg_last_checked =
     [CHR 0xE6, CHR 0x9C, CHR 0x80, CHR 0xE7, CHR 0xB5, CHR 0x82, CHR 0xE7, CHR 0xA2, CHR 0xBA,
     CHR 0xE8, CHR 0xAA, CHR 0x8D] @ '': ''"

definition msg_no_incidents :: string where
  "msg_no_incidents =
     ''**'' @ [CHR 0x0A, CHR 0xE6, CHR 0x9C, CHR 0x80, CHR 0xE8, CHR 0xBF, CHR 0x91, CHR 0xE3,
     CHR 0x81, CHR 0xAE] @ ''Incident'' @ [CHR 0xE3, CHR 0x81, CHR 0xAF, CHR 0xE3, CHR 0x81,
     CHR 0x82, CHR 0xE3, CHR 0x82, CHR 0x8A, CHR 0xE3, CHR 0x81, CHR 0xBE, CHR 0xE3, CHR 0x81,
     CHR 0x9B, CHR 0xE3, CHR 0x82, CHR 0x93, CHR 0xE3, CHR 0x80, CHR 0x82]"

definition msg_incidents_head :: string where
  "msg_incidents_head =
     ''** '' @ [CHR 0xE3, CHR 0x81, CHR 0xAE, CHR 0xE6, CHR 0x9C, CHR 0x80, CHR 0xE8, CHR 0xBF,
     CHR 0x91, CHR 0xE3, CHR 0x81, CHR 0xAE] @ ''Incident''"

definition msg_ongoing :: string where
  "msg_ongoing =
     [CHR 0xE7, CHR 0xB6, CHR 0x99, CHR 0xE7, CHR 0xB6, CHR 0x9A, CHR 0xE4, CHR 0xB8, CHR 0xAD]"

definition msg_resolved :: string where
  "msg_resolved =
     [CHR 0xE8, CHR 0xA7, CHR 0xA3, CHR 0xE6, CHR 0xB1, CHR 0xBA, CHR 0xE6, CHR 0xB8, CHR 0x88,
     CHR 0xE3, CHR 0x81, CHR 0xBF]"

definition dash :: string where
  "dash =
     '' '' @ [CHR 0xE2, CHR 0x80, CHR 0x94] @ '' ''"

definition paren_open :: string where
  "paren_open =
     [CHR 0xEF, CHR 0xBC, CHR 0x88]"

definition paren_close :: string where
  "paren_close =
     [CHR 0xEF, CHR 0xBC, CHR 0x89]"

definition reply_not_found :: string where
  "reply_not_found =
     [CHR 0xE3, CHR 0x81, CHR 0x9D, CHR 0xE3, CHR 0x81, CHR 0xAE] @ ''VoxelLink'' @ [CHR 0xE6,
     CHR 0x8E, CHR 0xB2, CHR 0xE8, CHR 0xBC, CHR 0x89, CHR 0xE3, CHR 0x82, CHR 0xB5, CHR 0xE3,
     CHR 0x83, CHR 0xBC, CHR 0xE3, CHR 0x83, CHR 0x90, CHR 0xE3, CHR 0x83, CHR 0xBC, CHR 0xE3,
     CHR 0x81, CHR 0xAF, CHR 0xE8, CHR 0xA6, CHR 0x8B, CHR 0xE3, CHR 0x81, CHR 0xA4, CHR 0xE3,
     CHR 0x81, CHR 0x8B, CHR 0xE3, CHR 0x82, CHR 0x8A, CHR 0xE3, CHR 0x81, CHR 0xBE, CHR 0xE3,
     CHR 0x81, CHR 0x9B, CHR 0xE3, CHR 0x82, CHR 0x93, CHR 0xE3, CHR 0x80, CHR 0x82]"

definition reply_no_reporter :: string where
  "reply_no_reporter =
     [CHR 0xE5, CHR 0xA0, CHR 0xB1, CHR 0xE5, CHR 0x91, CHR 0x8A, CHR 0xE8, CHR 0x80, CHR 0x85,
     CHR 0xE3, CHR 0x82, CHR 0x92, CHR 0xE7, CHR 0xA2, CHR 0xBA, CHR 0xE8, CHR 0xAA, CHR 0x8D,
     CHR 0xE3, CHR 0x81, CHR 0xA7, CHR 0xE3, CHR 0x81, CHR 0x8D, CHR 0xE3, CHR 0x81, CHR 0xBE,
     CHR 0xE3, CHR 0x81, CHR 0x9B, CHR 0xE3, CHR 0x82, CHR 0x93, CHR 0xE3, CHR 0x81, CHR 0xA7,
     CHR 0xE3, CHR 0x81, CHR 0x97, CHR 0xE3, CHR 0x81, CHR 0x9F, CHR 0xE3, CHR 0x80, CHR 0x82]"

definition reply_bad_type :: string where
  "reply_bad_type =
     [CHR 0xE5, CHR 0xA0, CHR 0xB1, CHR 0xE5, CHR 0x91, CHR 0x8A, CHR 0xE7, CHR 0xA8, CHR 0xAE,
     CHR 0xE5, CHR 0x88, CHR 0xA5, CHR 0xE3, CHR 0x81, CHR 0x8C, CHR 0xE4, CHR 0xB8, CHR 0x8D,
     CHR 0xE6, CHR 0xAD, CHR 0xA3, CHR 0xE3, CHR 0x81, CHR 0xA7, CHR 0xE3, CHR 0x81, CHR 0x99,
     CHR 0xE3, CHR 0x80, CHR 0x82]"

definition reply_not_saved :: string where
  "reply_not_saved =
     [CHR 0xE5, CHR 0xA0, CHR 0xB1, CHR 0xE5, CHR 0x91, CHR 0x8A, CHR 0xE3, CHR 0x82, CHR 0x92,
     CHR 0xE4, CHR 0xBF, CHR 0x9D, CHR 0xE5, CHR 0xAD, CHR 0x98, CHR 0xE3, CHR 0x81, CHR 0xA7,
     CHR 0xE3, CHR 0x81, CHR 0x8D, CHR 0xE3, CHR 0x81, CHR 0xBE, CHR 0xE3, CHR 0x81, CHR 0x9B,
     CHR 0xE3, CHR 0x82, CHR 0x93, CHR 0xE3, CHR 0x81, CHR 0xA7, CHR 0xE3, CHR 0x81, CHR 0x97,
     CHR 0xE3, CHR 0x81, CHR 0x9F, CHR 0xE3, CHR 0x80, CHR 0x82]"

definition reply_thanks :: string where
  "reply_thanks =
     [CHR 0xE5, CHR 0xA0, CHR 0xB1, CHR 0xE5, CHR 0x91, CHR 0x8A, CHR 0xE3, CHR 0x81, CHR 0x82,
     CHR 0xE3, CHR 0x82, CHR 0x8A, CHR 0xE3, CHR 0x81, CHR 0x8C, CHR 0xE3, CHR 0x81, CHR 0xA8,
     CHR 0xE3, CHR 0x81, CHR 0x86, CHR 0xE3, CHR 0x80, CHR 0x82, CHR 0xE5, CHR 0x8C, CHR 0xBF,
     CHR 0xE5, CHR 0x90, CHR 0x8D, CHR 0xE3, CHR 0x81, CHR 0xA7, CHR 0xE9, CHR 0x9B, CHR 0x86,
     CHR 0xE8, CHR 0xA8, CHR 0x88, CHR 0xE3, CHR 0x81, CHR 0x97, CHR 0xE3, CHR 0x81, CHR 0xBE,
     CHR 0xE3, CHR 0x81, CHR 0x97, CHR 0xE3, CHR 0x81, CHR 0x9F, CHR 0xE3, CHR 0x80, CHR 0x82]"

definition reply_rising :: string where
  "reply_rising =
     '' '' @ [CHR 0xE5, CHR 0x90, CHR 0x8C, CHR 0xE6, CHR 0xA7, CHR 0x98, CHR 0xE3, CHR 0x81,
     CHR 0xAE, CHR 0xE5, CHR 0xA0, CHR 0xB1, CHR 0xE5, CHR 0x91, CHR 0x8A, CHR 0xE3, CHR 0x81,
     CHR 0x8C, CHR 0xE5, CHR 0xA2, CHR 0x97, CHR 0xE3, CHR 0x81, CHR 0x88, CHR 0xE3, CHR 0x81,
     CHR 0xA6, CHR 0xE3, CHR 0x81, CHR 0x84, CHR 0xE3, CHR 0x82, CHR 0x8B, CHR 0xE3, CHR 0x81,
     CHR 0x9F, CHR 0xE3, CHR 0x82, CHR 0x81, CHR 0xE3, CHR 0x80, CHR 0x81, CHR 0xE7, CHR 0x8A,
     CHR 0xB6, CHR 0xE6, CHR 0x85, CHR 0x8B, CHR 0xE3, CHR 0x82, CHR 0x92, CHR 0xE7, CHR 0xA2,
     CHR 0xBA, CHR 0xE8, CHR 0xAA, CHR 0x8D, CHR 0xE4, CHR 0xB8, CHR 0xAD, CHR 0xE3, CHR 0x81,
     CHR 0xA7, CHR 0xE3, CHR 0x81, CHR 0x99, CHR 0xE3, CHR 0x80, CHR 0x82]"

definition reply_no_uptime :: string where
  "reply_no_uptime =
     [CHR 0xE7, CHR 0xA8, CHR 0xBC, CHR 0xE5, CHR 0x83, CHR 0x8D, CHR 0xE7, CHR 0x8E, CHR 0x87,
     CHR 0xE3, CHR 0x82, CHR 0x92, CHR 0xE5, CHR 0x8F, CHR 0x96, CHR 0xE5, CHR 0xBE, CHR 0x97,
     CHR 0xE3, CHR 0x81, CHR 0xA7, CHR 0xE3, CHR 0x81, CHR 0x8D, CHR 0xE3, CHR 0x81, CHR 0xBE,
     CHR 0xE3, CHR 0x81, CHR 0x9B, CHR 0xE3, CHR 0x82, CHR 0x93, CHR 0xE3, CHR 0x81, CHR 0xA7,
     CHR 0xE3, CHR 0x81, CHR 0x97, CHR 0xE3, CHR 0x81, CHR 0x9F, CHR 0xE3, CHR 0x80, CHR 0x82]"

definition reply_uptime_head :: string where
  "reply_uptime_head =
     ''**'' @ [CHR 0x0A, CHR 0xE7, CHR 0x9B, CHR 0xB4, CHR 0xE8, CHR 0xBF, CHR 0x91] @ ''24'' @
     [CHR 0xE6, CHR 0x99, CHR 0x82, CHR 0xE9, CHR 0x96, CHR 0x93, CHR 0xE3, CHR 0x81, CHR 0xAE,
     CHR 0xE7, CHR 0xA8, CHR 0xBC, CHR 0xE5, CHR 0x83, CHR 0x8D, CHR 0xE7, CHR 0x8E, CHR 0x87] @ '':
     **''"

definition reply_no_incidents :: string where
  "reply_no_incidents =
     ''Incident'' @ [CHR 0xE5, CHR 0xB1, CHR 0xA5, CHR 0xE6, CHR 0xAD, CHR 0xB4, CHR 0xE3, CHR 0x82,
     CHR 0x92, CHR 0xE5, CHR 0x8F, CHR 0x96, CHR 0xE5, CHR 0xBE, CHR 0x97, CHR 0xE3, CHR 0x81,
     CHR 0xA7, CHR 0xE3, CHR 0x81, CHR 0x8D, CHR 0xE3, CHR 0x81, CHR 0xBE, CHR 0xE3, CHR 0x81,
     CHR 0x9B, CHR 0xE3, CHR 0x82, CHR 0x93, CHR 0xE3, CHR 0x81, CHR 0xA7, CHR 0xE3, CHR 0x81,
     CHR 0x97, CHR 0xE3, CHR 0x81, CHR 0x9F, CHR 0xE3, CHR 0x80, CHR 0x82]"

definition reply_no_console :: string where
  "reply_no_console =
     [CHR 0xE7, CHR 0xAE, CHR 0xA1, CHR 0xE7, CHR 0x90, CHR 0x86, CHR 0xE7, CHR 0x94, CHR 0xBB,
     CHR 0xE9, CHR 0x9D, CHR 0xA2] @ ''URL'' @ [CHR 0xE3, CHR 0x81, CHR 0x8C, CHR 0xE8, CHR 0xA8,
     CHR 0xAD, CHR 0xE5, CHR 0xAE, CHR 0x9A, CHR 0xE3, CHR 0x81, CHR 0x95, CHR 0xE3, CHR 0x82,
     CHR 0x8C, CHR 0xE3, CHR 0x81, CHR 0xA6, CHR 0xE3, CHR 0x81, CHR 0x84, CHR 0xE3, CHR 0x81,
     CHR 0xBE, CHR 0xE3, CHR 0x81, CHR 0x9B, CHR 0xE3, CHR 0x82, CHR 0x93, CHR 0xE3, CHR 0x80,
     CHR 0x82]"

definition reply_console :: string where
  "reply_console =
     [CHR 0xE7, CHR 0x9B, CHR 0xA3, CHR 0xE8, CHR 0xA6, CHR 0x96, CHR 0xE8, CHR 0xA8, CHR 0xAD,
     CHR 0xE5, CHR 0xAE, CHR 0x9A, CHR 0xE3, CHR 0x81, CHR 0xAF] @ ''Web'' @ [CHR 0xE7, CHR 0xAE,
     CHR 0xA1, CHR 0xE7, CHR 0x90, CHR 0x86, CHR 0xE7, CHR 0x94, CHR 0xBB, CHR 0xE9, CHR 0x9D,
     CHR 0xA2, CHR 0xE3, CHR 0x81, CHR 0x8B, CHR 0xE3, CHR 0x82, CHR 0x89, CHR 0xE5, CHR 0xA4,
     CHR 0x89, CHR 0xE6, CHR 0x9B, CHR 0xB4, CHR 0xE3, CHR 0x81, CHR 0xA7, CHR 0xE3, CHR 0x81,
     CHR 0x8D, CHR 0xE3, CHR 0x81, CHR 0xBE, CHR 0xE3, CHR 0x81, CHR 0x99, CHR 0xE3, CHR 0x80,
     CHR 0x82]"

end
