(* ===== verification/Discord.thy ===== *)
theory Discord imports DiscordTexts Calendar begin

text \<open>
  \<open>internal/discord/discord.go\<close>: the notifier of state changes, the bot's answers to
  commands, and the texts both send. discordgo is an argument: \<open>send\<close> posts a message to
  a channel, an interaction is the data it delivers, an answer is what the handler responds
  with. SHA-256 (\<open>sha256\<close>, the digest as bytes) and \<open>%.2f\<close> of a percentage
  (\<open>percent2\<close>) are arguments.
\<close>

section \<open>Messages\<close>

definition statusMessage :: "Server \<Rightarrow> PublicStatus \<Rightarrow> string" where
  "statusMessage server state = (case state of
       Outage \<Rightarrow> icon_red @ '' **'' @ srv_Name server @ msg_outage_tail
     | Operational \<Rightarrow> icon_green @ '' **'' @ srv_Name server @ msg_operational_tail
     | Unknown \<Rightarrow> icon_white @ '' **'' @ srv_Name server @ msg_unknown_tail
     | Maintenance \<Rightarrow> icon_blue @ '' **'' @ srv_Name server @ msg_maintenance_tail
     | Degraded \<Rightarrow> icon_yellow @ '' **'' @ srv_Name server @ msg_degraded_tail)"

definition status_icon :: "PublicStatus \<Rightarrow> string" where
  "status_icon q = (case q of Operational \<Rightarrow> icon_green | Degraded \<Rightarrow> icon_yellow
     | Outage \<Rightarrow> icon_red | Maintenance \<Rightarrow> icon_blue | Unknown \<Rightarrow> icon_white)"

definition newline :: string where
  "newline = [CHR 0x0A]"

definition snapshotMessage :: "ServerSnapshot \<Rightarrow> string" where
  "snapshotMessage s =
     (let srv = snap_Server s;
          parts = [status_icon (srv_Status srv) @ '' **'' @ srv_Name srv @ ''**'', status_text (srv_Status srv)];
          checked = (case snap_LastCheckedAt s of None \<Rightarrow> [] | Some t \<Rightarrow> format_minute t);
          latency = (case snap_Latency s of None \<Rightarrow> 0 | Some n \<Rightarrow> n);
          details = msg_last_checked @ checked @
            (if 0 < latency then '' / '' @ itoa (go_quot latency 1000000) @ '' ms'' else [])
      in join newline (if snap_LastOutcome s \<noteq> None then parts @ [details] else parts))"

definition incident_line :: "Incident \<Rightarrow> string" where
  "incident_line i = ''- '' @ format_minute (inc_StartedAt i) @ dash @
     (if inc_ResolvedAt i \<noteq> None then msg_resolved else msg_ongoing) @
     paren_open @ outcome_text (inc_Reason i) @ paren_close"

definition incidentsMessage :: "string \<Rightarrow> Incident list \<Rightarrow> string" where
  "incidentsMessage name is =
     (if is = [] then ''**'' @ name @ msg_no_incidents
      else join newline ((''**'' @ name @ msg_incidents_head) # map incident_line is))"

section \<open>The notifier\<close>

fun send_all :: "(string \<Rightarrow> string \<Rightarrow> 'w \<Rightarrow> unit res \<times> 'w) \<Rightarrow> string \<Rightarrow> string list \<Rightarrow> 'w \<Rightarrow> unit res \<times> 'w" where
  "send_all send msg [] w = (Inr (), w)"
| "send_all send msg (c # cs) w = (case send c msg w of
     (Inl e, w) \<Rightarrow> (Inl (Wrap (''send channel '' @ c @ '': '') e), w)
   | (Inr _, w) \<Rightarrow> send_all send msg cs w)"

definition StateChanged ::
  "(string \<Rightarrow> 'w \<Rightarrow> string list res \<times> 'w) \<Rightarrow> (string \<Rightarrow> string \<Rightarrow> 'w \<Rightarrow> unit res \<times> 'w)
     \<Rightarrow> Server \<Rightarrow> PublicStatus \<Rightarrow> CheckResult \<Rightarrow> 'w \<Rightarrow> unit res \<times> 'w" where
  "StateChanged channelIDs send server state result w =
     (case channelIDs (srv_ID server) w of
        (Inl e, w) \<Rightarrow> (Inl e, w)
      | (Inr ids, w) \<Rightarrow> send_all send (statusMessage server state) ids w)"

section \<open>The bot\<close>

text \<open>\<open>QueryRepository\<close>.\<close>

record 'w QueryRepository =
  qr_SnapshotByExternalID :: "string \<Rightarrow> 'w \<Rightarrow> ServerSnapshot res \<times> 'w"
  qr_SnapshotByDiscordChannel :: "string \<Rightarrow> 'w \<Rightarrow> ServerSnapshot res \<times> 'w"
  qr_Uptime24h :: "string \<Rightarrow> 'w \<Rightarrow> rat res \<times> 'w"
  qr_RecentIncidents :: "string \<Rightarrow> nat \<Rightarrow> 'w \<Rightarrow> Incident list res \<times> 'w"
  qr_RecordUserReport :: "UserReport \<Rightarrow> 'w \<Rightarrow> CrowdSignal res \<times> 'w"

record Interaction =
  ia_command :: bool
  ia_name :: string
  ia_options :: "(string \<times> string) list"
  ia_channel :: string
  ia_user :: "string option"

datatype Answer = Respond string bool | LinkButton string string

record Platform =
  pf_sha256 :: "string \<Rightarrow> string"
  pf_percent2 :: "rat \<Rightarrow> string"

definition hex_char :: "nat \<Rightarrow> char" where
  "hex_char k = ''0123456789abcdef'' ! k"

text \<open>\<open>hex.EncodeToString\<close>.\<close>

definition hex_encode :: "string \<Rightarrow> string" where
  "hex_encode s = concat (map (\<lambda>c. let n = (of_char c :: nat) in [hex_char (n div 16), hex_char (n mod 16)]) s)"

definition validReportType :: "UserReportType \<Rightarrow> bool" where
  "validReportType kind \<longleftrightarrow> kind = ''CONNECTION'' \<or> kind = ''LOGIN'' \<or> kind = ''TIMEOUT''
     \<or> kind = ''LAG'' \<or> kind = ''OTHER''"

definition discordReporterHash :: "Platform \<Rightarrow> string \<Rightarrow> string \<Rightarrow> string" where
  "discordReporterHash pf userID serverID =
     hex_encode (pf_sha256 pf (''discord|'' @ userID @ ''|'' @ serverID))"

text \<open>The options as the loop reads them: the last of a name wins, an absent one is empty.\<close>

definition option_value :: "string \<Rightarrow> (string \<times> string) list \<Rightarrow> string" where
  "option_value name options = foldl (\<lambda>v (n, x). if n = name then x else v) [] options"

definition monitorLink :: "string \<Rightarrow> Answer" where
  "monitorLink consoleURL =
     (if consoleURL = [] then Respond reply_no_console True
      else LinkButton reply_console (consoleURL @ ''/console''))"

definition handle_report ::
  "Platform \<Rightarrow> 'w QueryRepository \<Rightarrow> instant \<Rightarrow> Interaction \<Rightarrow> ServerSnapshot \<Rightarrow> string \<Rightarrow> 'w \<Rightarrow> Answer \<times> 'w" where
  "handle_report pf q now ia snapshot kind w =
     (case ia_user ia of
        None \<Rightarrow> (Respond reply_no_reporter True, w)
      | Some user \<Rightarrow>
          if \<not> validReportType kind then (Respond reply_bad_type True, w)
          else
            (let sid = srv_ID (snap_Server snapshot);
                 (recorded, w) = qr_RecordUserReport q \<lparr>rep_ServerID = sid,
                   rep_ReporterHash = discordReporterHash pf user sid, rep_Detail = [],
                   rep_Type = kind, rep_At = now\<rparr> w
             in case recorded of
                  Inl _ \<Rightarrow> (Respond reply_not_saved True, w)
                | Inr signal \<Rightarrow> (Respond (reply_thanks @
                    (if sig_Anomalous signal then reply_rising else [])) True, w)))"

definition handle_query ::
  "Platform \<Rightarrow> 'w QueryRepository \<Rightarrow> Interaction \<Rightarrow> ServerSnapshot \<Rightarrow> 'w \<Rightarrow> Answer option \<times> 'w" where
  "handle_query pf q ia snapshot w =
     (let srv = snap_Server snapshot in
      if ia_name ia = ''status'' then (Some (Respond (snapshotMessage snapshot) False), w)
      else if ia_name ia = ''uptime'' then
        (case qr_Uptime24h q (srv_ID srv) w of
           (Inl _, w) \<Rightarrow> (Some (Respond reply_no_uptime True), w)
         | (Inr p, w) \<Rightarrow> (Some (Respond (''**'' @ srv_Name srv @ reply_uptime_head
             @ pf_percent2 pf p @ ''%**'') False), w))
      else if ia_name ia = ''incidents'' then
        (case qr_RecentIncidents q (srv_ID srv) 5 w of
           (Inl _, w) \<Rightarrow> (Some (Respond reply_no_incidents True), w)
         | (Inr is, w) \<Rightarrow> (Some (Respond (incidentsMessage (srv_Name srv) is) False), w))
      else (None, w))"

definition handleInteraction ::
  "Platform \<Rightarrow> 'w QueryRepository \<Rightarrow> string \<Rightarrow> instant \<Rightarrow> Interaction \<Rightarrow> 'w \<Rightarrow> Answer option \<times> 'w" where
  "handleInteraction pf q consoleURL now ia w =
     (if \<not> ia_command ia then (None, w)
      else if ia_name ia = ''monitor'' then (Some (monitorLink consoleURL), w)
      else
        (let serverExternalID = option_value ''server'' (ia_options ia);
             (snapshot, w) = (if serverExternalID \<noteq> [] then qr_SnapshotByExternalID q serverExternalID w
               else qr_SnapshotByDiscordChannel q (ia_channel ia) w)
         in case snapshot of
              Inl _ \<Rightarrow> (Some (Respond reply_not_found True), w)
            | Inr snapshot \<Rightarrow>
                if ia_name ia = ''report'' then
                  (case handle_report pf q now ia snapshot (option_value ''type'' (ia_options ia)) w of
                     (a, w) \<Rightarrow> (Some a, w))
                else handle_query pf q ia snapshot w))"

section \<open>Facts\<close>

lemma validReportType_iff: "validReportType kind \<longleftrightarrow> kind \<in> set report_types"
  by (auto simp: validReportType_def report_types_def)

lemma hex_encode_length: "length (hex_encode s) = 2 * length s"
  by (induction s) (simp_all add: hex_encode_def Let_def)

text \<open>The interactions that can lead to a report.\<close>

definition reports_with :: "Interaction \<Rightarrow> bool" where
  "reports_with ia \<longleftrightarrow> ia_command ia \<and> ia_name ia = ''report'' \<and> ia_user ia \<noteq> None
     \<and> validReportType (option_value ''type'' (ia_options ia))"

text \<open>
  What the bot needs of its repository, and what follows: a command that is not a report with a
  reporter and a valid type never reaches \<open>RecordUserReport\<close>.
\<close>

locale bot_world =
  fixes q :: "'w QueryRepository" and I :: "'w \<Rightarrow> bool" and same :: "'w \<Rightarrow> 'w \<Rightarrow> bool"
  assumes same_refl: "same w w"
    and same_trans: "same a b \<Longrightarrow> same b c \<Longrightarrow> same a c"
    and same_I: "same w w' \<Longrightarrow> I w \<Longrightarrow> I w'"
    and ext_same: "same w (snd (qr_SnapshotByExternalID q x w))"
    and channel_same: "same w (snd (qr_SnapshotByDiscordChannel q x w))"
    and uptime_same: "same w (snd (qr_Uptime24h q x w))"
    and incidents_same: "same w (snd (qr_RecentIncidents q x n w))"
    and report_I: "I w \<Longrightarrow> I (snd (qr_RecordUserReport q r w))"
begin

lemma handle_query_same: "same w (snd (handle_query pf q ia s w))"
  using uptime_same [of w "srv_ID (snap_Server s)"] incidents_same [of w "srv_ID (snap_Server s)" 5]
    same_refl
  by (auto simp: handle_query_def Let_def split: prod.splits sum.splits)

lemma handle_report_cases:
  "same w (snd (handle_report pf q now ia s k w)) \<or>
   (ia_user ia \<noteq> None \<and> validReportType k \<and> (\<exists>r. snd (handle_report pf q now ia s k w) = snd (qr_RecordUserReport q r w)))"
  using same_refl
  by (auto simp: handle_report_def Let_def split: option.splits prod.splits sum.splits) (metis snd_conv)+

lemma handleInteraction_same:
  assumes "\<not> reports_with ia"
  shows "same w (snd (handleInteraction pf q url now ia w))"
proof -
  define sid where "sid = option_value ''server'' (ia_options ia)"
  define look where "look = (if sid \<noteq> [] then qr_SnapshotByExternalID q sid w
               else qr_SnapshotByDiscordChannel q (ia_channel ia) w)"
  obtain r w1 where look: "look = (r, w1)" by (cases look)
  have w1: "same w w1"
    using ext_same [of w sid] channel_same [of w "ia_channel ia"] look by (auto simp: look_def split: if_splits)
  have hq: "same w (snd (handle_query pf q ia s w1))" for s
    by (rule same_trans [OF w1 handle_query_same])
  have hr: "ia_command ia \<Longrightarrow> ia_name ia = ''report'' \<Longrightarrow>
      same w (snd (handle_report pf q now ia s (option_value ''type'' (ia_options ia)) w1))" for s
    using handle_report_cases [of w1 pf now ia s "option_value ''type'' (ia_options ia)"] assms
      same_trans [OF w1] by (auto simp: reports_with_def)
  show ?thesis
    using hq hr w1 same_refl look
    by (auto simp: handleInteraction_def sid_def [symmetric] look_def [symmetric] Let_def
        split: sum.splits prod.splits) (metis snd_conv)+
qed

lemma handleInteraction_I:
  assumes "I w"
  shows "I (snd (handleInteraction pf q url now ia w))"
proof -
  define sid where "sid = option_value ''server'' (ia_options ia)"
  define look where "look = (if sid \<noteq> [] then qr_SnapshotByExternalID q sid w
               else qr_SnapshotByDiscordChannel q (ia_channel ia) w)"
  obtain r w1 where look: "look = (r, w1)" by (cases look)
  have "same w w1"
    using ext_same [of w sid] channel_same [of w "ia_channel ia"] look by (auto simp: look_def split: if_splits)
  then have w1: "I w1" using same_I assms by blast
  have hq: "I (snd (handle_query pf q ia s w1))" for s
    using same_I [OF handle_query_same w1] .
  have hr: "I (snd (handle_report pf q now ia s k w1))" for s k
    using handle_report_cases [of w1 pf now ia s k] same_I [OF _ w1] report_I [OF w1] by metis
  show ?thesis
    using hq hr w1 assms look
    by (auto simp: handleInteraction_def sid_def [symmetric] look_def [symmetric] Let_def
        split: sum.splits prod.splits) (metis snd_conv)+
qed

end

end
