(* ===== verification/DiscordBot.thy ===== *)
theory DiscordBot imports Discord begin

text \<open>
  The sessions of \<open>internal/discord/discord.go\<close>: the commands the bot registers, the
  constructors of the notifier and the bot, and the life of the bot's process. discordgo is an
  argument: \<open>discordgo.New\<close> and the gateway's operations on a world (\<open>Gateway\<close>).
  Every option of every command is of discordgo's string type.
\<close>

section \<open>The commands\<close>

record CommandOption =
  co_name :: string
  co_description :: string
  co_required :: bool
  co_choices :: "(string \<times> string) list"

record Command =
  cm_name :: string
  cm_description :: string
  cm_options :: "CommandOption list"

definition cmd_server_description :: string where
  "cmd_server_description =
     ''VoxelLink server ID'' @ [CHR 0xEF, CHR 0xBC, CHR 0x88, CHR 0xE3, CHR 0x82, CHR 0xB9, CHR 0xE3,
     CHR 0x83, CHR 0x86, CHR 0xE3, CHR 0x83, CHR 0xBC, CHR 0xE3, CHR 0x82, CHR 0xBF, CHR 0xE3,
     CHR 0x82, CHR 0xB9, CHR 0xE3, CHR 0x83, CHR 0x81, CHR 0xE3, CHR 0x83, CHR 0xA3, CHR 0xE3,
     CHR 0x83, CHR 0xB3, CHR 0xE3, CHR 0x83, CHR 0x8D, CHR 0xE3, CHR 0x83, CHR 0xAB, CHR 0xE5,
     CHR 0x86, CHR 0x85, CHR 0xE3, CHR 0x81, CHR 0xA7, CHR 0xE3, CHR 0x81, CHR 0xAF, CHR 0xE4,
     CHR 0xB8, CHR 0x8D, CHR 0xE8, CHR 0xA6, CHR 0x81, CHR 0xEF, CHR 0xBC, CHR 0x89]"

definition cmd_type_description :: string where
  "cmd_type_description =
     [CHR 0xE7, CHR 0x99, CHR 0xBA, CHR 0xE7, CHR 0x94, CHR 0x9F, CHR 0xE3, CHR 0x81, CHR 0x97,
     CHR 0xE3, CHR 0x81, CHR 0xA6, CHR 0xE3, CHR 0x81, CHR 0x84, CHR 0xE3, CHR 0x82, CHR 0x8B,
     CHR 0xE5, CHR 0x95, CHR 0x8F, CHR 0xE9, CHR 0xA1, CHR 0x8C]"

definition cmd_report_description :: string where
  "cmd_report_description =
     [CHR 0xE6, CHR 0x8E, CHR 0xA5, CHR 0xE7, CHR 0xB6, CHR 0x9A, CHR 0xE3, CHR 0x83, CHR 0x88,
     CHR 0xE3, CHR 0x83, CHR 0xA9, CHR 0xE3, CHR 0x83, CHR 0x96, CHR 0xE3, CHR 0x83, CHR 0xAB,
     CHR 0xE3, CHR 0x82, CHR 0x92, CHR 0xE5, CHR 0x8C, CHR 0xBF, CHR 0xE5, CHR 0x90, CHR 0x8D,
     CHR 0xE3, CHR 0x81, CHR 0xA7, CHR 0xE5, CHR 0xA0, CHR 0xB1, CHR 0xE5, CHR 0x91, CHR 0x8A,
     CHR 0xE3, CHR 0x81, CHR 0x99, CHR 0xE3, CHR 0x82, CHR 0x8B]"

definition choice_connection :: string where
  "choice_connection =
     [CHR 0xE6, CHR 0x8E, CHR 0xA5, CHR 0xE7, CHR 0xB6, CHR 0x9A, CHR 0xE3, CHR 0x81, CHR 0xA7,
     CHR 0xE3, CHR 0x81, CHR 0x8D, CHR 0xE3, CHR 0x81, CHR 0xAA, CHR 0xE3, CHR 0x81, CHR 0x84]"

definition choice_login :: string where
  "choice_login =
     [CHR 0xE3, CHR 0x83, CHR 0xAD, CHR 0xE3, CHR 0x82, CHR 0xB0, CHR 0xE3, CHR 0x82, CHR 0xA4,
     CHR 0xE3, CHR 0x83, CHR 0xB3, CHR 0xE3, CHR 0x81, CHR 0xA7, CHR 0xE3, CHR 0x81, CHR 0x8D,
     CHR 0xE3, CHR 0x81, CHR 0xAA, CHR 0xE3, CHR 0x81, CHR 0x84]"

definition choice_timeout :: string where
  "choice_timeout =
     [CHR 0xE3, CHR 0x82, CHR 0xBF, CHR 0xE3, CHR 0x82, CHR 0xA4, CHR 0xE3, CHR 0x83, CHR 0xA0,
     CHR 0xE3, CHR 0x82, CHR 0xA2, CHR 0xE3, CHR 0x82, CHR 0xA6, CHR 0xE3, CHR 0x83, CHR 0x88]"

definition choice_lag :: string where
  "choice_lag =
     [CHR 0xE3, CHR 0x83, CHR 0xA9, CHR 0xE3, CHR 0x82, CHR 0xB0, CHR 0xE3, CHR 0x83, CHR 0xBB,
     CHR 0xE9, CHR 0x81, CHR 0x85, CHR 0xE5, CHR 0xBB, CHR 0xB6]"

definition choice_other :: string where
  "choice_other =
     [CHR 0xE3, CHR 0x81, CHR 0x9D, CHR 0xE3, CHR 0x81, CHR 0xAE, CHR 0xE4, CHR 0xBB, CHR 0x96]"

definition serverOption :: CommandOption where
  "serverOption = \<lparr>co_name = ''server'', co_description = cmd_server_description, co_required = False,
     co_choices = []\<rparr>"

definition reportType :: CommandOption where
  "reportType = \<lparr>co_name = ''type'', co_description = cmd_type_description, co_required = True,
     co_choices = [(choice_connection, ''CONNECTION''), (choice_login, ''LOGIN''),
       (choice_timeout, ''TIMEOUT''), (choice_lag, ''LAG''), (choice_other, ''OTHER'')]\<rparr>"

definition commands :: "Command list" where
  "commands =
     [\<lparr>cm_name = ''status'', cm_description = ''Show the current player-facing server status'',
        cm_options = [serverOption]\<rparr>,
      \<lparr>cm_name = ''uptime'', cm_description = ''Show availability over the last 24 hours'',
        cm_options = [serverOption]\<rparr>,
      \<lparr>cm_name = ''incidents'', cm_description = ''Show recent incidents'', cm_options = [serverOption]\<rparr>,
      \<lparr>cm_name = ''report'', cm_description = cmd_report_description, cm_options = [reportType, serverOption]\<rparr>,
      \<lparr>cm_name = ''monitor'', cm_description = ''Open the server owner console'', cm_options = []\<rparr>]"

section \<open>Construction\<close>

record ('s, 'c) DiscordNotifier =
  dn_session :: 's
  dn_channels :: 'c

definition NewNotifier :: "(string \<Rightarrow> 's res) \<Rightarrow> string \<Rightarrow> 'c \<Rightarrow> ('s, 'c) DiscordNotifier res" where
  "NewNotifier discordgo_New token channels =
     (case discordgo_New (''Bot '' @ token) of
        Inl e \<Rightarrow> Inl e
      | Inr session \<Rightarrow> Inr \<lparr>dn_session = session, dn_channels = channels\<rparr>)"

record ('s, 'q) Bot =
  bt_session :: 's
  bt_queries :: 'q
  bt_consoleURL :: string

definition NewBot :: "(string \<Rightarrow> 's res) \<Rightarrow> string \<Rightarrow> 'q \<Rightarrow> string \<Rightarrow> ('s, 'q) Bot res" where
  "NewBot discordgo_New token queries consoleURL =
     (case discordgo_New (''Bot '' @ token) of
        Inl e \<Rightarrow> Inl e
      | Inr session \<Rightarrow> Inr \<lparr>bt_session = session, bt_queries = queries, bt_consoleURL = consoleURL\<rparr>)"

section \<open>The process\<close>

record 'w Gateway =
  gw_Open :: "'w \<Rightarrow> unit res \<times> 'w"
  gw_Close :: "'w \<Rightarrow> 'w"
  gw_applicationID :: "'w \<Rightarrow> string"
  gw_Register :: "string \<Rightarrow> Command list \<Rightarrow> 'w \<Rightarrow> unit res \<times> 'w"
  gw_Respond :: "Interaction \<Rightarrow> Answer \<Rightarrow> 'w \<Rightarrow> 'w"

text \<open>
  An interaction is delivered with the time at which it is handled; the error of the response,
  which the code drops, is part of the world.
\<close>

definition deliver ::
  "Platform \<Rightarrow> ('w Gateway, 'w QueryRepository) Bot \<Rightarrow> instant \<times> Interaction \<Rightarrow> 'w \<Rightarrow> 'w" where
  "deliver pf b x w =
     (case handleInteraction pf (bt_queries b) (bt_consoleURL b) (fst x) (snd x) w of
        (None, w) \<Rightarrow> w
      | (Some a, w) \<Rightarrow> gw_Respond (bt_session b) (snd x) a w)"

fun deliver_all ::
  "Platform \<Rightarrow> ('w Gateway, 'w QueryRepository) Bot \<Rightarrow> (instant \<times> Interaction) list \<Rightarrow> 'w \<Rightarrow> 'w" where
  "deliver_all pf b [] w = w"
| "deliver_all pf b (x # xs) w = deliver_all pf b xs (deliver pf b x w)"

text \<open>
  \<open>Run\<close> of the bot. The handler is added before the gateway opens, so interactions come in
  before the commands are registered too (\<open>early\<close>); \<open>late\<close> are those until the
  context ends. The bot is closed once it has been open.
\<close>

definition BotRun ::
  "Platform \<Rightarrow> ('w Gateway, 'w QueryRepository) Bot \<Rightarrow> (instant \<times> Interaction) list
     \<Rightarrow> (instant \<times> Interaction) list \<Rightarrow> err \<Rightarrow> 'w \<Rightarrow> unit res \<times> 'w" where
  "BotRun pf b early late ended w =
     (case gw_Open (bt_session b) w of
        (Inl e, w) \<Rightarrow> (Inl (Wrap ''open Discord gateway: '' e), w)
      | (Inr _, w) \<Rightarrow>
          (let w = deliver_all pf b early w in
           case gw_Register (bt_session b) (gw_applicationID (bt_session b) w) commands w of
             (Inl e, w) \<Rightarrow> (Inl (Wrap ''register application commands: '' e), gw_Close (bt_session b) w)
           | (Inr _, w) \<Rightarrow> (Inl ended, gw_Close (bt_session b) (deliver_all pf b late w))))"

section \<open>Facts\<close>

text \<open>The choices of \<open>/report\<close> are the types the handler takes, each of them once.\<close>

lemma reportType_choices: "map snd (co_choices reportType) = report_types"
  by (simp add: reportType_def report_types_def)

lemma commands_distinct: "distinct (map cm_name commands)"
  by (simp add: commands_def)

text \<open>Every registered command is answered, whatever its options are and however it ends.\<close>

lemma commands_answered:
  assumes "ia_command ia" and "ia_name ia \<in> set (map cm_name commands)"
  obtains a w' where "handleInteraction pf q url now ia w = (Some a, w')"
proof -
  have n: "ia_name ia = ''status'' \<or> ia_name ia = ''uptime'' \<or> ia_name ia = ''incidents''
      \<or> ia_name ia = ''report'' \<or> ia_name ia = ''monitor''"
    using assms(2) by (auto simp: commands_def)
  have "fst (handle_query pf q ia s v) \<noteq> None" if "ia_name ia \<noteq> ''report''" "ia_name ia \<noteq> ''monitor''" for s v
    using n that by (auto simp: handle_query_def Let_def split: prod.splits sum.splits)
  then have "fst (handleInteraction pf q url now ia w) \<noteq> None"
    using assms(1) by (auto simp: handleInteraction_def Let_def split: prod.splits sum.splits)
  with that show ?thesis by (cases "handleInteraction pf q url now ia w") auto
qed

text \<open>What the bot keeps of its world, beyond its repository's contract.\<close>

locale bot_process = bot_world +
  fixes gw :: "'a Gateway"
  assumes open_I: "I w \<Longrightarrow> I (snd (gw_Open gw w))"
    and close_I: "I w \<Longrightarrow> I (gw_Close gw w)"
    and register_I: "I w \<Longrightarrow> I (snd (gw_Register gw app cs w))"
    and respond_I: "I w \<Longrightarrow> I (gw_Respond gw ia a w)"
begin

lemma deliver_I:
  assumes b: "bt_session b = gw" "bt_queries b = q" and "I w"
  shows "I (deliver pf b x w)"
proof (cases "handleInteraction pf q (bt_consoleURL b) (fst x) (snd x) w")
  case (Pair a w1)
  with handleInteraction_I [OF assms(3), of pf "bt_consoleURL b" "fst x" "snd x"] have "I w1" by simp
  with Pair show ?thesis by (simp add: deliver_def b respond_I split: option.splits)
qed

lemma deliver_all_I: "bt_session b = gw \<Longrightarrow> bt_queries b = q \<Longrightarrow> I w \<Longrightarrow> I (deliver_all pf b xs w)"
  by (induction xs arbitrary: w) (simp_all add: deliver_I)

lemma BotRun_I:
  assumes b: "bt_session b = gw" "bt_queries b = q" and w: "I w"
  shows "I (snd (BotRun pf b early late ended w))"
proof (cases "gw_Open gw w")
  case (Pair r w1)
  with open_I [OF w] have w1: "I w1" by simp
  define w2 where "w2 = deliver_all pf b early w1"
  have w2: "I w2" unfolding w2_def by (rule deliver_all_I [OF b w1])
  obtain r' w3 where g: "gw_Register gw (gw_applicationID gw w2) commands w2 = (r', w3)"
    by (cases "gw_Register gw (gw_applicationID gw w2) commands w2")
  with register_I [OF w2, of "gw_applicationID gw w2" commands] have w3: "I w3" by simp
  show ?thesis
    using Pair w1 g w3
    by (simp add: BotRun_def Let_def w2_def [symmetric] b close_I deliver_all_I [OF b] split: sum.splits)
qed

end

end
