(* ===== verification/Base64.thy ===== *)
theory Base64 imports Domain begin

text \<open>
  \<open>base64.RawURLEncoding\<close>: the URL alphabet without padding. Decoding skips line breaks
  and ignores the unused low bits of the last group, as Go's non-strict decoder does.
\<close>

fun sextets :: "nat list \<Rightarrow> nat list" where
  "sextets (a # b # c # r) =
     [a div 4, a mod 4 * 16 + b div 16, b mod 16 * 4 + c div 64, c mod 64] @ sextets r"
| "sextets [a, b] = [a div 4, a mod 4 * 16 + b div 16, b mod 16 * 4]"
| "sextets [a] = [a div 4, a mod 4 * 16]"
| "sextets [] = []"

fun octets :: "nat list \<Rightarrow> nat list option" where
  "octets (w # x # y # z # r) = map_option (\<lambda>s.
     [w * 4 + x div 16, x mod 16 * 16 + y div 4, y mod 4 * 64 + z] @ s) (octets r)"
| "octets [w, x, y] = Some [w * 4 + x div 16, x mod 16 * 16 + y div 4]"
| "octets [w, x] = Some [w * 4 + x div 16]"
| "octets [w] = None"
| "octets [] = Some []"

definition b64_alphabet :: string where
  "b64_alphabet = ''ABCDEFGHIJKLMNOPQRSTUVWXYZabcdefghijklmnopqrstuvwxyz0123456789-_''"

definition b64_char :: "nat \<Rightarrow> char" where
  "b64_char k = b64_alphabet ! k"

definition b64_val :: "char \<Rightarrow> nat option" where
  "b64_val c = (case filter (\<lambda>k. b64_char k = c) [0..<64] of [] \<Rightarrow> None | k # _ \<Rightarrow> Some k)"

definition b64_encode :: "string \<Rightarrow> string" where
  "b64_encode s = map b64_char (sextets (map of_char s))"

fun all_some :: "'a option list \<Rightarrow> 'a list option" where
  "all_some [] = Some []"
| "all_some (None # xs) = None"
| "all_some (Some x # xs) = map_option ((#) x) (all_some xs)"

definition b64_decode :: "string \<Rightarrow> string option" where
  "b64_decode s =
     (case all_some (map b64_val (filter (\<lambda>c. c \<noteq> CHR 0x0A \<and> c \<noteq> CHR 0x0D) s)) of
        None \<Rightarrow> None
      | Some ks \<Rightarrow> map_option (map char_of) (octets ks))"

lemma b64_val_char: "k < 64 \<Longrightarrow> b64_val (b64_char k) = Some k"
proof -
  assume "k < 64"
  then have "k \<in> set [0..<64]" by simp
  moreover have "list_all (\<lambda>k. b64_val (b64_char k) = Some k) [0..<64]" by code_simp
  ultimately show ?thesis by (simp only: list_all_iff)
qed

lemma b64_char_set: "k < 64 \<Longrightarrow> b64_char k \<in> set b64_alphabet"
  unfolding b64_char_def by (rule nth_mem) (simp add: b64_alphabet_def)

lemma sextets_bound: "list_all (\<lambda>a. a < 256) xs \<Longrightarrow> list_all (\<lambda>k. k < 64) (sextets xs)"
  by (induction xs rule: sextets.induct) (auto simp: less_mult_imp_div_less)

lemma octets_sextets: "list_all (\<lambda>a. a < 256) xs \<Longrightarrow> octets (sextets xs) = Some xs"
proof (induction xs rule: sextets.induct)
  case (1 a b c r)
  have "a div 4 * 4 + (a mod 4 * 16 + b div 16) div 16 = a"
    "(a mod 4 * 16 + b div 16) mod 16 * 16 + (b mod 16 * 4 + c div 64) div 4 = b"
    "(b mod 16 * 4 + c div 64) mod 4 * 64 + c mod 64 = c"
    using 1 by (simp_all add: less_mult_imp_div_less)
  with 1 show ?case by simp
qed (simp_all add: less_mult_imp_div_less)

lemma all_some_map_Some: "(\<And>x. x \<in> set xs \<Longrightarrow> f (g x) = Some x) \<Longrightarrow> all_some (map f (map g xs)) = Some xs"
  by (induction xs) auto

lemma of_char_bound: "list_all (\<lambda>a. a < 256) (map of_char s :: nat list)"
  by (simp add: list_all_iff)

theorem b64_decode_encode: "b64_decode (b64_encode s) = Some s"
proof -
  let ?ks = "sextets (map of_char s)"
  have b: "k \<in> set ?ks \<Longrightarrow> k < 64" for k
    using sextets_bound [OF of_char_bound [of s]] by (simp add: list_all_iff)
  have "c \<in> set (b64_encode s) \<Longrightarrow> c \<noteq> CHR 0x0A \<and> c \<noteq> CHR 0x0D" for c
  proof -
    assume "c \<in> set (b64_encode s)"
    then have "c \<in> set b64_alphabet" using b b64_char_set by (auto simp: b64_encode_def)
    then show ?thesis by (auto simp: b64_alphabet_def)
  qed
  then have "filter (\<lambda>c. c \<noteq> CHR 0x0A \<and> c \<noteq> CHR 0x0D) (b64_encode s) = b64_encode s" by simp
  moreover have "all_some (map b64_val (b64_encode s)) = Some ?ks"
    unfolding b64_encode_def by (rule all_some_map_Some) (simp add: b b64_val_char)
  moreover have "octets ?ks = Some (map of_char s)" by (rule octets_sextets) (rule of_char_bound)
  ultimately show ?thesis by (simp add: b64_decode_def o_def)
qed

lemma b64_encode_chars: "c \<in> set (b64_encode s) \<Longrightarrow> c \<in> set b64_alphabet"
  using sextets_bound [OF of_char_bound [of s]] b64_char_set by (auto simp: b64_encode_def list_all_iff)

end
