(* ===== verification/WebAuth.thy ===== *)
theory WebAuth imports Base64 Http Calendar begin

text \<open>
  Authentication in \<open>internal/web/app.go\<close>: the configuration check, the one-shot login
  states, the signed session cookie and the integration's bearer token. HMAC-SHA-256 is the
  argument \<open>mac\<close>.
\<close>

record Config =
  cf_ClientID :: string
  cf_ClientSecret :: string
  cf_PublicBaseURL :: string
  cf_SessionSecret :: string
  cf_IntegrationToken :: string

record App =
  ap_config :: Config
  ap_states :: "string \<Rightarrow> instant option"

definition NewApp :: "Config \<Rightarrow> App res" where
  "NewApp c =
     (if cf_ClientID c = [] \<or> cf_ClientSecret c = [] \<or> cf_PublicBaseURL c = []
         \<or> length (cf_SessionSecret c) < 24 \<or> length (cf_IntegrationToken c) < 16
      then Inl (Msg ''Discord OAuth and session configuration must be set'')
      else Inr \<lparr>ap_config = c, ap_states = (\<lambda>_. None)\<rparr>)"

section \<open>Login states\<close>

definition add_state :: "string \<Rightarrow> instant \<Rightarrow> App \<Rightarrow> App" where
  "add_state s now a = a\<lparr>ap_states := (ap_states a)(s := Some (now + 10 * minute_us))\<rparr>"

definition consumeState :: "string \<Rightarrow> instant \<Rightarrow> App \<Rightarrow> bool \<times> App" where
  "consumeState s now a =
     ((case ap_states a s of None \<Rightarrow> False | Some expires \<Rightarrow> now < expires),
      a\<lparr>ap_states := (ap_states a)(s := None)\<rparr>)"

text \<open>The two handlers, seen from the states: a login stores one, a callback consumes one.\<close>

datatype state_event = Login string instant | Callback string instant

fun state_step :: "state_event \<Rightarrow> App \<Rightarrow> bool \<times> App" where
  "state_step (Login s t) a = (False, add_state s t a)"
| "state_step (Callback s t) a = consumeState s t a"

fun state_run :: "state_event list \<Rightarrow> App \<Rightarrow> (state_event \<times> bool) list \<times> App" where
  "state_run [] a = ([], a)"
| "state_run (x # xs) a = (let (ok, a') = state_step x a; (oks, a'') = state_run xs a' in ((x, ok) # oks, a''))"

definition logins :: "string \<Rightarrow> state_event list \<Rightarrow> nat" where
  "logins s xs = length (filter (\<lambda>x. case x of Login s' t \<Rightarrow> s' = s | Callback _ _ \<Rightarrow> False) xs)"

definition accepted :: "string \<Rightarrow> (state_event \<times> bool) list \<Rightarrow> nat" where
  "accepted s xs = length (filter (\<lambda>(x, ok). ok \<and> (case x of Login _ _ \<Rightarrow> False | Callback s' t \<Rightarrow> s' = s)) xs)"

lemma consume_twice: "fst (consumeState s t' (snd (consumeState s t a))) = False"
  by (simp add: consumeState_def)

lemma accepted_le:
  "accepted s (fst (state_run xs a)) \<le> logins s xs + (if ap_states a s = None then 0 else 1)"
proof (induction xs arbitrary: a)
  case (Cons x xs)
  obtain ok a' where st: "state_step x a = (ok, a')" by (cases "state_step x a")
  from Cons [of a'] st show ?case
    by (cases x) (auto simp: accepted_def logins_def add_state_def consumeState_def Let_def
        split: prod.splits option.splits if_splits)
qed (simp add: accepted_def logins_def)

section \<open>Sessions\<close>

definition unix_seconds :: "instant \<Rightarrow> int" where
  "unix_seconds t = t div second_us + 946684800"

text \<open>
  \<open>time.Unix(n, 0)\<close>: the seconds since the year 1, which it stores, are an \<open>int64\<close> that wraps around.
\<close>

definition from_unix :: "int \<Rightarrow> instant" where
  "from_unix n = (sint (word_of_int (n + 62135596800) :: 64 word) - 63082281600) * second_us"

lemma from_unix_floor:
  assumes "- (2 ^ 63) \<le> unix_seconds t" and "unix_seconds t < 2 ^ 63 - 62135596800"
  shows "from_unix (unix_seconds t) = second_us * (t div second_us)"
proof -
  have "sint (word_of_int (unix_seconds t + 62135596800) :: 64 word) = unix_seconds t + 62135596800"
    unfolding sint_sbintrunc' by (rule signed_take_bit_int_eq_self) (use assms in simp_all)
  then show ?thesis by (simp add: from_unix_def unix_seconds_def)
qed

definition signSession :: "(string \<Rightarrow> string \<Rightarrow> string) \<Rightarrow> Config \<Rightarrow> string \<Rightarrow> instant \<Rightarrow> string" where
  "signSession mac c user expires =
     (let payload = b64_encode (user @ ''.'' @ itoa (unix_seconds expires))
      in payload @ ''.'' @ b64_encode (mac (cf_SessionSecret c) payload))"

definition session_user :: "(string \<Rightarrow> string \<Rightarrow> string) \<Rightarrow> Config \<Rightarrow> instant \<Rightarrow> string option \<Rightarrow> string option" where
  "session_user mac c now cookie =
     (case cookie of
        None \<Rightarrow> None
      | Some v \<Rightarrow> (case split_on (CHR ''.'') v of
          [p, s] \<Rightarrow> (case b64_decode s of
              None \<Rightarrow> None
            | Some signature \<Rightarrow>
                if signature \<noteq> mac (cf_SessionSecret c) p then None
                else (case b64_decode p of
                    None \<Rightarrow> None
                  | Some payload \<Rightarrow> (case split_on (CHR ''.'') payload of
                      [u, f] \<Rightarrow> (case sscan_int f of
                          Inl _ \<Rightarrow> None
                        | Inr expiry \<Rightarrow> if from_unix expiry < now then None else Some u)
                    | _ \<Rightarrow> None)))
        | _ \<Rightarrow> None))"

lemma b64_no_dot: "CHR ''.'' \<notin> set (b64_encode s)"
proof
  assume "CHR ''.'' \<in> set (b64_encode s)"
  then have "CHR ''.'' \<in> set b64_alphabet" by (rule b64_encode_chars)
  then show False by (simp add: b64_alphabet_def)
qed

lemma split_pair: "c \<notin> set a \<Longrightarrow> c \<notin> set b \<Longrightarrow> split_on c (a @ c # b) = [a, b]"
  by (simp add: split_on_append_sep split_on_no_sep)

lemma session_user_accepts:
  "session_user mac c now cookie = Some u \<Longrightarrow>
     \<exists>p s f n. cookie = Some (p @ ''.'' @ s) \<and> b64_decode s = Some (mac (cf_SessionSecret c) p)
       \<and> b64_decode p = Some (u @ ''.'' @ f) \<and> sscan_int f = Inr n \<and> now \<le> from_unix n"
proof -
  assume a: "session_user mac c now cookie = Some u"
  then obtain v p s where v: "cookie = Some v" and vs: "split_on (CHR ''.'') v = [p, s]"
    by (auto simp: session_user_def split: option.splits list.splits)
  from a v vs obtain payload f n where pl: "b64_decode s = Some (mac (cf_SessionSecret c) p)"
      "b64_decode p = Some payload" and ps: "split_on (CHR ''.'') payload = [u, f]"
    and f: "sscan_int f = Inr n" "\<not> from_unix n < now"
    by (auto simp: session_user_def split: option.splits list.splits sum.splits if_splits)
  have "v = p @ ''.'' @ s" using split_on_join [of "CHR ''.''" v] vs by simp
  moreover have "payload = u @ ''.'' @ f" using split_on_join [of "CHR ''.''" payload] ps by simp
  ultimately show ?thesis using v pl f by fastforce
qed

lemma session_user_signSession:
  assumes "CHR ''.'' \<notin> set user" and "- (2 ^ 63) \<le> unix_seconds expires" and "unix_seconds expires < 2 ^ 63"
  shows "session_user mac c now (Some (signSession mac c user expires)) =
    (if from_unix (unix_seconds expires) < now then None else Some user)"
proof -
  define p where "p = b64_encode (user @ ''.'' @ itoa (unix_seconds expires))"
  define s where "s = b64_encode (mac (cf_SessionSecret c) p)"
  have nd: "CHR ''.'' \<notin> set (dec n)" for n
  proof
    assume "CHR ''.'' \<in> set (dec n)"
    then have "is_digit (CHR ''.'')" using dec_digits [of n] by (simp add: list_all_iff)
    then show False by (simp add: is_digit_def)
  qed
  have "CHR ''.'' \<notin> set (itoa n)" for n
    by (simp add: itoa_def nd)
  then have f: "split_on (CHR ''.'') (user @ ''.'' @ itoa (unix_seconds expires)) = [user, itoa (unix_seconds expires)]"
    using split_pair [OF assms(1)] by simp
  have "split_on (CHR ''.'') (p @ ''.'' @ s) = [p, s]"
    using split_pair [of "CHR ''.''" p s] by (simp add: p_def s_def b64_no_dot)
  moreover have "signSession mac c user expires = p @ ''.'' @ s"
    by (simp add: signSession_def Let_def p_def s_def)
  moreover have "b64_decode s = Some (mac (cf_SessionSecret c) p)"
    and "b64_decode p = Some (user @ ''.'' @ itoa (unix_seconds expires))"
    by (simp_all only: p_def s_def b64_decode_encode)
  ultimately show ?thesis
    using f sscan_itoa [OF assms(2,3)] by (simp add: session_user_def)
qed

section \<open>Bearer token\<close>

definition bearerMatches :: "string \<Rightarrow> string \<Rightarrow> bool" where
  "bearerMatches authorization token =
     (let v = trim_prefix ''Bearer '' authorization in length v = length token \<and> v = token)"

definition randomToken :: "string res \<Rightarrow> string res" where
  "randomToken random = (case random of Inl e \<Rightarrow> Inl e | Inr b \<Rightarrow> Inr (b64_encode b))"

end
