(* ===== verification/Web.thy ===== *)
theory Web imports WebAuth begin

text \<open>
  The handlers of \<open>internal/web/app.go\<close>, each with its guards in the order of the
  code. A handler takes the request, the application's state and the world its repository and
  importer work on, and returns the reply with both. The network, SHA-256, HMAC, the random
  source, JSON and the clock (\<open>wp_clock k\<close> is the \<open>k\<close>-th reading in the
  handler) are arguments; the pages are the data given to their templates.
\<close>

record HttpRequest =
  hq_method :: string
  hq_path :: string
  hq_header :: "string \<Rightarrow> string"
  hq_remote :: string
  hq_query :: "string \<Rightarrow> string"
  hq_form :: "(string \<Rightarrow> string) res"
  hq_cookie :: "string option"
  hq_body :: string

record ConsoleServer =
  cs_Snapshot :: ServerSnapshot
  cs_Uptime24h :: rat
  cs_Incidents :: "Incident list"

datatype Reply =
    NoContent
  | NotFound
  | ErrorPage string int
  | RedirectTo string int
  | SessionCookie string bool
  | HomePage "(ServerSnapshot \<times> CrowdSignal) list"
  | ConsolePage "ConsoleServer list"
  | Created Server
  | NoReply

record 'w WebRepository =
  wr_ServersForDiscordMember :: "string \<Rightarrow> 'w \<Rightarrow> Server list res \<times> 'w"
  wr_SnapshotByID :: "string \<Rightarrow> 'w \<Rightarrow> ServerSnapshot res \<times> 'w"
  wr_PublicSnapshots :: "'w \<Rightarrow> ServerSnapshot list res \<times> 'w"
  wr_Uptime24h :: "string \<Rightarrow> 'w \<Rightarrow> rat res \<times> 'w"
  wr_RecentIncidents :: "string \<Rightarrow> nat \<Rightarrow> 'w \<Rightarrow> Incident list res \<times> 'w"
  wr_RecordUserReport :: "UserReport \<Rightarrow> 'w \<Rightarrow> CrowdSignal res \<times> 'w"
  wr_CrowdSignal :: "string \<Rightarrow> 'w \<Rightarrow> CrowdSignal res \<times> 'w"
  wr_SetEnabled :: "string \<Rightarrow> string \<Rightarrow> bool \<Rightarrow> 'w \<Rightarrow> unit res \<times> 'w"
  wr_SetNotificationChannel :: "string \<Rightarrow> string \<Rightarrow> string \<Rightarrow> 'w \<Rightarrow> unit res \<times> 'w"
  wr_ScheduleMaintenance :: "string \<Rightarrow> string \<Rightarrow> instant \<Rightarrow> instant \<Rightarrow> 'w \<Rightarrow> unit res \<times> 'w"

record 'w WebPlatform =
  wp_sha256_hex :: "string \<Rightarrow> string"
  wp_hmac :: "string \<Rightarrow> string \<Rightarrow> string"
  wp_random :: "string res"
  wp_clock :: "nat \<Rightarrow> instant"
  wp_http :: "'w HttpClient"
  wp_token_json :: "string \<Rightarrow> string res"
  wp_user_json :: "string \<Rightarrow> string res"
  wp_import_json :: "string \<Rightarrow> string res"

definition health :: Reply where
  "health = NoContent"

section \<open>The public page and the reports\<close>

fun crowd_view :: "'w WebRepository \<Rightarrow> ServerSnapshot list \<Rightarrow> 'w \<Rightarrow> (ServerSnapshot \<times> CrowdSignal) list res \<times> 'w" where
  "crowd_view r [] w = (Inr [], w)"
| "crowd_view r (s # ss) w = (case wr_CrowdSignal r (srv_ID (snap_Server s)) w of
     (Inl e, w) \<Rightarrow> (Inl e, w)
   | (Inr signal, w) \<Rightarrow> (case crowd_view r ss w of
       (Inl e, w) \<Rightarrow> (Inl e, w)
     | (Inr view, w) \<Rightarrow> (Inr ((s, signal) # view), w)))"

definition home :: "'w WebRepository \<Rightarrow> HttpRequest \<Rightarrow> 'w \<Rightarrow> Reply \<times> 'w" where
  "home r q w =
     (if hq_path q \<noteq> ''/'' then (NotFound, w)
      else case wr_PublicSnapshots r w of
        (Inl _, w) \<Rightarrow> (ErrorPage ''could not load status'' 500, w)
      | (Inr servers, w) \<Rightarrow> (case crowd_view r servers w of
          (Inl _, w) \<Rightarrow> (ErrorPage ''could not load crowd signal'' 500, w)
        | (Inr view, w) \<Rightarrow> (HomePage view, w)))"

definition clientAddress :: "HttpRequest \<Rightarrow> string" where
  "clientAddress q =
     (let cf = TrimSpace (hq_header q ''CF-Connecting-IP'') in
      if cf \<noteq> [] then cf
      else let fwd = TrimSpace (hd (split_on (CHR '','') (hq_header q ''X-Forwarded-For''))) in
      if fwd \<noteq> [] then fwd
      else case SplitHostPort (hq_remote q) of Some (host, _) \<Rightarrow> host | None \<Rightarrow> hq_remote q)"

definition reporterHash :: "'w WebPlatform \<Rightarrow> Config \<Rightarrow> instant \<Rightarrow> HttpRequest \<Rightarrow> string \<Rightarrow> string" where
  "reporterHash p c now q serverID =
     wp_sha256_hex p (join ''|'' [cf_SessionSecret c, clientAddress q, hq_header q ''User-Agent'',
       serverID, format_date now])"

definition report :: "'w WebPlatform \<Rightarrow> 'w WebRepository \<Rightarrow> Config \<Rightarrow> HttpRequest \<Rightarrow> 'w \<Rightarrow> Reply \<times> 'w" where
  "report p r c q w =
     (case split_on (CHR ''/'') (trim_prefix ''/servers/'' (hq_path q)) of
        [serverID, action] \<Rightarrow>
          if serverID = [] \<or> action \<noteq> ''reports'' then (NotFound, w)
          else if hq_method q \<noteq> ''POST'' then (ErrorPage ''method not allowed'' 405, w)
          else (case hq_form q of
            Inl _ \<Rightarrow> (ErrorPage ''invalid form'' 400, w)
          | Inr form \<Rightarrow>
              let kind = form ''report_type'' in
              if kind \<notin> set report_types then (ErrorPage ''invalid report type'' 400, w)
              else let detail = TrimSpace (form ''detail'') in
              if 280 < length detail then (ErrorPage ''report is too long'' 400, w)
              else (case wr_RecordUserReport r \<lparr>rep_ServerID = serverID,
                  rep_ReporterHash = reporterHash p c (wp_clock p 0) q serverID, rep_Detail = detail,
                  rep_Type = kind, rep_At = wp_clock p 1\<rparr> w of
                (Inl _, w) \<Rightarrow> (ErrorPage ''could not save report'' 500, w)
              | (Inr _, w) \<Rightarrow> (RedirectTo ''/'' 303, w)))
      | _ \<Rightarrow> (NotFound, w))"

section \<open>Login\<close>

definition login :: "'w WebPlatform \<Rightarrow> App \<Rightarrow> Reply \<times> App" where
  "login p a =
     (case randomToken (wp_random p) of
        Inl _ \<Rightarrow> (ErrorPage ''could not start login'' 500, a)
      | Inr state \<Rightarrow>
          (RedirectTo (''https://discord.com/oauth2/authorize?'' @ Encode
             [(''client_id'', cf_ClientID (ap_config a)),
              (''redirect_uri'', cf_PublicBaseURL (ap_config a) @ ''/oauth/discord/callback''),
              (''response_type'', ''code''), (''scope'', ''identify''), (''state'', state)]) 302,
           add_state state (wp_clock p 0) a))"

definition token_request :: "Config \<Rightarrow> string \<Rightarrow> Request" where
  "token_request c oauthCode = \<lparr>rq_method = ''POST'', rq_url = ''https://discord.com/api/oauth2/token'',
     rq_headers = [(''Content-Type'', ''application/x-www-form-urlencoded'')],
     rq_body = Encode [(''client_id'', cf_ClientID c), (''client_secret'', cf_ClientSecret c),
       (''code'', oauthCode), (''grant_type'', ''authorization_code''),
       (''redirect_uri'', cf_PublicBaseURL c @ ''/oauth/discord/callback'')]\<rparr>"

definition identity_request :: "string \<Rightarrow> Request" where
  "identity_request token = \<lparr>rq_method = ''GET'', rq_url = ''https://discord.com/api/users/@me'',
     rq_headers = [(''Authorization'', ''Bearer '' @ token)], rq_body = []\<rparr>"

definition fetch_identity :: "'w WebPlatform \<Rightarrow> string \<Rightarrow> 'w \<Rightarrow> string res \<times> 'w" where
  "fetch_identity p token w = (case ht_do (wp_http p) (identity_request token) w of
     (Inl e, w) \<Rightarrow> (Inl e, w)
   | (Inr response, w) \<Rightarrow>
       if rs_code response \<noteq> 200 then (Inl (Msg (''Discord identity: '' @ rs_status response)), w)
       else (case wp_user_json p (rs_body response) of
         Inl e \<Rightarrow> (Inl e, w)
       | Inr user \<Rightarrow> (if user = [] then Inl (Msg ''Discord identity missing ID'') else Inr user, w)))"

definition discordUserID :: "'w WebPlatform \<Rightarrow> Config \<Rightarrow> string \<Rightarrow> 'w \<Rightarrow> string res \<times> 'w" where
  "discordUserID p c oauthCode w = (case ht_do (wp_http p) (token_request c oauthCode) w of
     (Inl e, w) \<Rightarrow> (Inl e, w)
   | (Inr response, w) \<Rightarrow>
       if rs_code response \<noteq> 200 then (Inl (Msg (''token exchange: '' @ rs_status response)), w)
       else (case wp_token_json p (rs_body response) of
         Inl e \<Rightarrow> (Inl e, w)
       | Inr token \<Rightarrow> fetch_identity p token w))"

definition callback :: "'w WebPlatform \<Rightarrow> App \<Rightarrow> HttpRequest \<Rightarrow> 'w \<Rightarrow> Reply \<times> App \<times> 'w" where
  "callback p a q w =
     (case consumeState (hq_query q ''state'') (wp_clock p 0) a of (ok, a) \<Rightarrow>
        if \<not> ok then (ErrorPage ''login session expired; try again'' 400, a, w)
        else if hq_query q ''code'' = [] then (ErrorPage ''Discord did not return a code'' 400, a, w)
        else (case discordUserID p (ap_config a) (hq_query q ''code'') w of
          (Inl _, w) \<Rightarrow> (ErrorPage ''Discord login failed'' 502, a, w)
        | (Inr user, w) \<Rightarrow>
            (SessionCookie (signSession (wp_hmac p) (ap_config a) user (wp_clock p 1 + day_us))
               (has_prefix ''https://'' (cf_PublicBaseURL (ap_config a))), a, w)))"

section \<open>The console\<close>

text \<open>\<open>user\<close>: the member a valid session cookie names.\<close>

definition user :: "'w WebPlatform \<Rightarrow> Config \<Rightarrow> HttpRequest \<Rightarrow> string option" where
  "user p c q = session_user (wp_hmac p) c (wp_clock p 0) (hq_cookie q)"

fun console_view :: "'w WebRepository \<Rightarrow> Server list \<Rightarrow> 'w \<Rightarrow> (string + ConsoleServer list) \<times> 'w" where
  "console_view r [] w = (Inr [], w)"
| "console_view r (s # ss) w = (case wr_SnapshotByID r (srv_ID s) w of
     (Inl _, w) \<Rightarrow> (Inl ''could not load server details'', w)
   | (Inr snap, w) \<Rightarrow> (case wr_Uptime24h r (srv_ID s) w of
       (Inl _, w) \<Rightarrow> (Inl ''could not load uptime'', w)
     | (Inr uptime, w) \<Rightarrow> (case wr_RecentIncidents r (srv_ID s) 3 w of
         (Inl _, w) \<Rightarrow> (Inl ''could not load incidents'', w)
       | (Inr is, w) \<Rightarrow> (case console_view r ss w of
           (Inl m, w) \<Rightarrow> (Inl m, w)
         | (Inr view, w) \<Rightarrow>
             (Inr (\<lparr>cs_Snapshot = snap, cs_Uptime24h = uptime, cs_Incidents = is\<rparr> # view), w)))))"

definition console :: "'w WebPlatform \<Rightarrow> 'w WebRepository \<Rightarrow> Config \<Rightarrow> HttpRequest \<Rightarrow> 'w \<Rightarrow> Reply \<times> 'w" where
  "console p r c q w =
     (case user p c q of
        None \<Rightarrow> (RedirectTo ''/login'' 302, w)
      | Some userID \<Rightarrow> (case wr_ServersForDiscordMember r userID w of
          (Inl _, w) \<Rightarrow> (ErrorPage ''could not load servers'' 500, w)
        | (Inr servers, w) \<Rightarrow> (case console_view r servers w of
            (Inl m, w) \<Rightarrow> (ErrorPage m 500, w)
          | (Inr view, w) \<Rightarrow> (ConsolePage view, w))))"

definition invalid_window :: string where
  "invalid_window =
     [CHR 0xE6, CHR 0x9C, CHR 0x89, CHR 0xE5, CHR 0x8A, CHR 0xB9, CHR 0xE3, CHR 0x81, CHR 0xAA,
     CHR 0xE9, CHR 0x96, CHR 0x8B, CHR 0xE5, CHR 0xA7, CHR 0x8B, CHR 0xE3, CHR 0x83, CHR 0xBB,
     CHR 0xE7, CHR 0xB5, CHR 0x82, CHR 0xE4, CHR 0xBA, CHR 0x86, CHR 0xE6, CHR 0x99, CHR 0x82,
     CHR 0xE5, CHR 0x88, CHR 0xBB, CHR 0xE3, CHR 0x82, CHR 0x92] @ ''JST'' @ [CHR 0xE3, CHR 0x81,
     CHR 0xA7, CHR 0xE6, CHR 0x8C, CHR 0x87, CHR 0xE5, CHR 0xAE, CHR 0x9A, CHR 0xE3, CHR 0x81,
     CHR 0x97, CHR 0xE3, CHR 0x81, CHR 0xA6, CHR 0xE3, CHR 0x81, CHR 0x8F, CHR 0xE3, CHR 0x81,
     CHR 0xA0, CHR 0xE3, CHR 0x81, CHR 0x95, CHR 0xE3, CHR 0x81, CHR 0x84]"

text \<open>The form's times are in Japan's standard time, nine hours ahead of UTC.\<close>

definition parse_jst :: "string \<Rightarrow> instant option" where
  "parse_jst s = map_option (\<lambda>t. t - 9 * hour_us) (parse_minute s)"

definition saved :: "unit res \<times> 'w \<Rightarrow> Reply \<times> 'w" where
  "saved x = (case x of
     (Inl e, w) \<Rightarrow> (if is_canceled e then NoReply else ErrorPage ''could not save setting'' 403, w)
   | (Inr _, w) \<Rightarrow> (RedirectTo ''/console'' 303, w))"

definition apply_setting ::
  "'w WebRepository \<Rightarrow> string \<Rightarrow> (string \<Rightarrow> string) \<Rightarrow> string \<Rightarrow> string \<Rightarrow> 'w \<Rightarrow> Reply \<times> 'w" where
  "apply_setting r userID form serverID action w =
     (if action = ''enabled'' then saved (wr_SetEnabled r serverID userID (form ''enabled'' = ''true'') w)
      else if action = ''channel'' then
        (let channel = TrimSpace (form ''channel_id'') in
         if channel = [] then (ErrorPage ''channel ID is required'' 400, w)
         else saved (wr_SetNotificationChannel r serverID userID channel w))
      else if action = ''maintenance'' then
        (case (parse_jst (form ''starts_at''), parse_jst (form ''ends_at'')) of
           (Some start, Some end_) \<Rightarrow>
             if \<not> start < end_ then (ErrorPage invalid_window 400, w)
             else saved (wr_ScheduleMaintenance r serverID userID start end_ w)
         | _ \<Rightarrow> (ErrorPage invalid_window 400, w))
      else (NotFound, w))"

definition updateServer :: "'w WebPlatform \<Rightarrow> 'w WebRepository \<Rightarrow> Config \<Rightarrow> HttpRequest \<Rightarrow> 'w \<Rightarrow> Reply \<times> 'w" where
  "updateServer p r c q w =
     (case user p c q of
        None \<Rightarrow> (ErrorPage ''login required'' 401, w)
      | Some userID \<Rightarrow>
          if hq_method q \<noteq> ''POST'' then (ErrorPage ''method not allowed'' 405, w)
          else (case split_on (CHR ''/'') (trim_prefix ''/console/servers/'' (hq_path q)) of
            [serverID, action] \<Rightarrow>
              if serverID = [] then (NotFound, w)
              else (case hq_form q of
                Inl _ \<Rightarrow> (ErrorPage ''invalid form'' 400, w)
              | Inr form \<Rightarrow> apply_setting r userID form serverID action w)
          | _ \<Rightarrow> (NotFound, w)))"

section \<open>The integration's import\<close>

definition importServer ::
  "'w WebPlatform \<Rightarrow> (string \<Rightarrow> 'w \<Rightarrow> Server res \<times> 'w) \<Rightarrow> Config \<Rightarrow> HttpRequest \<Rightarrow> 'w \<Rightarrow> Reply \<times> 'w" where
  "importServer p importer c q w =
     (if hq_method q \<noteq> ''POST'' then (ErrorPage ''method not allowed'' 405, w)
      else if \<not> bearerMatches (hq_header q ''Authorization'') (cf_IntegrationToken c) then
        (ErrorPage ''unauthorized'' 401, w)
      else (case wp_import_json p (hq_body q) of
        Inl _ \<Rightarrow> (ErrorPage ''invalid JSON'' 400, w)
      | Inr externalServerID \<Rightarrow> (case importer externalServerID w of
          (Inl _, w) \<Rightarrow> (ErrorPage ''VoxelLink import failed'' 502, w)
        | (Inr server, w) \<Rightarrow> (Created server, w))))"

section \<open>The routes\<close>

text \<open>
  \<open>ServeMux\<close> for a clean path: the exact patterns, the longest subtree pattern, and the
  redirect of a subtree's path without its final slash.
\<close>

definition Handler ::
  "'w WebPlatform \<Rightarrow> 'w WebRepository \<Rightarrow> (string \<Rightarrow> 'w \<Rightarrow> Server res \<times> 'w) \<Rightarrow> HttpRequest \<Rightarrow> App \<times> 'w
     \<Rightarrow> Reply \<times> App \<times> 'w" where
  "Handler p r importer q aw =
     (let a = fst aw; w = snd aw; c = ap_config a; path = hq_path q;
          keep = (\<lambda>(x, w). (x, a, w))
      in if path = ''/healthz'' then (health, a, w)
         else if path = ''/login'' then (case login p a of (x, a) \<Rightarrow> (x, a, w))
         else if path = ''/oauth/discord/callback'' then callback p a q w
         else if path = ''/console'' then keep (console p r c q w)
         else if path = ''/api/v1/integrations/voxellink/import'' then keep (importServer p importer c q w)
         else if has_prefix ''/console/servers/'' path then keep (updateServer p r c q w)
         else if has_prefix ''/servers/'' path then keep (report p r c q w)
         else if path = ''/servers'' \<or> path = ''/console/servers'' then (RedirectTo (path @ ''/'') 301, a, w)
         else keep (home r q w))"

end
