(* ===== verification/WebFacts.thy ===== *)
theory WebFacts imports Web begin

text \<open>
  What the web handlers can do to the world they share with the worker. The locale
  \<open>web_world\<close> states the laws of the repository and the importer in terms of an
  invariant \<open>I\<close> and of a relation \<open>same\<close> that queries keep; from it follow the
  invariant of every request, that only POST requests change anything, and that the console's
  settings and the import need a session and the bearer token.
\<close>

lemma saved_world [simp]: "snd (saved x) = snd x"
  by (simp add: saved_def split: prod.splits sum.splits)

section \<open>Which call a request can make\<close>

text \<open>A setting is only ever applied for the member whose signed session came with the request.\<close>

lemma updateServer_cases:
  "snd (updateServer p r c q w) = w \<or>
   (\<exists>u sid. user p c q = Some u \<and> hq_method q = ''POST'' \<and> sid \<noteq> [] \<and>
     ((\<exists>b. snd (updateServer p r c q w) = snd (wr_SetEnabled r sid u b w)) \<or>
      (\<exists>ch. ch \<noteq> [] \<and> snd (updateServer p r c q w) = snd (wr_SetNotificationChannel r sid u ch w)) \<or>
      (\<exists>x y. x < y \<and> snd (updateServer p r c q w) = snd (wr_ScheduleMaintenance r sid u x y w))))"
proof (cases "user p c q")
  case (Some u)
  show ?thesis
  proof (cases "hq_method q = ''POST''")
    case True
    show ?thesis
    proof (cases "\<exists>sid action form. split_on (CHR ''/'') (trim_prefix ''/console/servers/'' (hq_path q)) = [sid, action]
        \<and> sid \<noteq> [] \<and> hq_form q = Inr form")
      case True
      then obtain sid action form where
        s: "split_on (CHR ''/'') (trim_prefix ''/console/servers/'' (hq_path q)) = [sid, action]"
          "sid \<noteq> []" "hq_form q = Inr form" by blast
      have e: "snd (updateServer p r c q w) = snd (apply_setting r u form sid action w)"
        using Some \<open>hq_method q = ''POST''\<close> s by (simp add: updateServer_def)
      consider "snd (apply_setting r u form sid action w) = w"
        | b where "snd (apply_setting r u form sid action w) = snd (wr_SetEnabled r sid u b w)"
        | ch where "ch \<noteq> []" "snd (apply_setting r u form sid action w) = snd (wr_SetNotificationChannel r sid u ch w)"
        | x y where "x < y" "snd (apply_setting r u form sid action w) = snd (wr_ScheduleMaintenance r sid u x y w)"
        by (fastforce simp: apply_setting_def Let_def split: option.splits if_splits)
      then show ?thesis
        unfolding e using Some \<open>hq_method q = ''POST''\<close> s(2) by cases blast+
    next
      case False
      then show ?thesis using Some
        by (auto simp: updateServer_def split: list.splits sum.splits)
    qed
  qed (use Some in \<open>simp add: updateServer_def\<close>)
qed (simp add: updateServer_def)

lemma report_cases:
  "snd (report p r c q w) = w \<or>
   (\<exists>rep. hq_method q = ''POST'' \<and> rep_ServerID rep \<noteq> [] \<and> rep_Type rep \<in> set report_types
     \<and> length (rep_Detail rep) \<le> 280
     \<and> rep_ReporterHash rep = reporterHash p c (wp_clock p 0) q (rep_ServerID rep)
     \<and> snd (report p r c q w) = snd (wr_RecordUserReport r rep w))"
proof (cases "\<exists>sid form. split_on (CHR ''/'') (trim_prefix ''/servers/'' (hq_path q)) = [sid, ''reports'']
    \<and> sid \<noteq> [] \<and> hq_method q = ''POST'' \<and> hq_form q = Inr form \<and> form ''report_type'' \<in> set report_types
    \<and> length (TrimSpace (form ''detail'')) \<le> 280")
  case True
  then obtain sid form where s: "split_on (CHR ''/'') (trim_prefix ''/servers/'' (hq_path q)) = [sid, ''reports'']"
    "sid \<noteq> []" "hq_method q = ''POST''" "hq_form q = Inr form" "form ''report_type'' \<in> set report_types"
    "length (TrimSpace (form ''detail'')) \<le> 280" by blast
  let ?rep = "\<lparr>rep_ServerID = sid, rep_ReporterHash = reporterHash p c (wp_clock p 0) q sid,
    rep_Detail = TrimSpace (form ''detail''), rep_Type = form ''report_type'', rep_At = wp_clock p 1\<rparr>"
  have "snd (report p r c q w) = snd (wr_RecordUserReport r ?rep w)"
    using s by (simp add: report_def Let_def split: prod.splits sum.splits)
  with s show ?thesis by (intro disjI2 exI [of _ ?rep]) simp
next
  case False
  then show ?thesis
    by (auto simp: report_def Let_def not_less split: list.splits sum.splits if_splits)
qed

lemma importServer_cases:
  "snd (importServer p importer c q w) = w \<or>
   (\<exists>x. hq_method q = ''POST'' \<and> bearerMatches (hq_header q ''Authorization'') (cf_IntegrationToken c)
     \<and> snd (importServer p importer c q w) = snd (importer x w))"
  by (auto simp: importServer_def split: sum.splits prod.splits) (metis snd_conv)+

lemma callback_unknown:
  "ap_states a (hq_query q ''state'') = None \<Longrightarrow> callback p a q w =
     (ErrorPage ''login session expired; try again'' 400, snd (consumeState (hq_query q ''state'') (wp_clock p 0) a), w)"
  by (simp add: callback_def consumeState_def)

text \<open>The world after a request is the one its route leaves.\<close>

lemma Handler_world:
  "snd (snd (Handler p r importer q (a, w))) \<in> {w, snd (home r q w), snd (console p r (ap_config a) q w),
     snd (snd (callback p a q w)), snd (updateServer p r (ap_config a) q w),
     snd (importServer p importer (ap_config a) q w), snd (report p r (ap_config a) q w)}"
  by (simp add: Handler_def Let_def case_prod_beta)

section \<open>The interface of the repository\<close>

locale web_world =
  fixes p :: "'w WebPlatform" and r :: "'w WebRepository"
    and importer :: "string \<Rightarrow> 'w \<Rightarrow> Server res \<times> 'w"
    and I :: "'w \<Rightarrow> bool" and same :: "'w \<Rightarrow> 'w \<Rightarrow> bool"
  assumes same_refl: "same w w"
    and same_trans: "same a b \<Longrightarrow> same b c \<Longrightarrow> same a c"
    and same_I: "same w w' \<Longrightarrow> I w \<Longrightarrow> I w'"
    and servers_same: "same w (snd (wr_ServersForDiscordMember r u w))"
    and snapshot_same: "same w (snd (wr_SnapshotByID r u w))"
    and public_same: "same w (snd (wr_PublicSnapshots r w))"
    and uptime_same: "same w (snd (wr_Uptime24h r u w))"
    and incidents_same: "same w (snd (wr_RecentIncidents r u n w))"
    and signal_same: "same w (snd (wr_CrowdSignal r u w))"
    and http_same: "same w (snd (ht_do (wp_http p) rq w))"
    and report_I: "I w \<Longrightarrow> I (snd (wr_RecordUserReport r rep w))"
    and enabled_I: "I w \<Longrightarrow> I (snd (wr_SetEnabled r sid u flag w))"
    and channel_I: "I w \<Longrightarrow> I (snd (wr_SetNotificationChannel r sid u ch w))"
    and maintenance_I: "I w \<Longrightarrow> I (snd (wr_ScheduleMaintenance r sid u t1 t2 w))"
    and import_I: "I w \<Longrightarrow> I (snd (importer x w))"
begin

lemma same_step: "f w = (x, w') \<Longrightarrow> same w (snd (f w)) \<Longrightarrow> same w0 w \<Longrightarrow> same w0 w'"
  using same_trans by (metis snd_conv)

lemma crowd_view_same: "same w (snd (crowd_view r ss w))"
proof (induction ss arbitrary: w)
  case (Cons s ss)
  obtain x w1 where s: "wr_CrowdSignal r (srv_ID (snap_Server s)) w = (x, w1)"
    by (cases "wr_CrowdSignal r (srv_ID (snap_Server s)) w")
  have w1: "same w w1" using signal_same [of w "srv_ID (snap_Server s)"] s by simp
  then show ?case
    using s same_trans [OF w1 Cons.IH [of w1]] by (auto split: sum.splits prod.splits)
qed (simp add: same_refl)

lemma home_same: "same w (snd (home r q w))"
proof -
  obtain x w1 where s: "wr_PublicSnapshots r w = (x, w1)" by (cases "wr_PublicSnapshots r w")
  have w1: "same w w1" using public_same [of w] s by simp
  then show ?thesis
    using s same_refl same_trans [OF w1 crowd_view_same] by (auto simp: home_def split: sum.splits prod.splits) (metis snd_conv)+
qed

lemma console_view_same: "same w (snd (console_view r ss w))"
proof (induction ss arbitrary: w)
  case (Cons s ss)
  obtain x1 w1 where s1: "wr_SnapshotByID r (srv_ID s) w = (x1, w1)" by (cases "wr_SnapshotByID r (srv_ID s) w")
  obtain x2 w2 where s2: "wr_Uptime24h r (srv_ID s) w1 = (x2, w2)" by (cases "wr_Uptime24h r (srv_ID s) w1")
  obtain x3 w3 where s3: "wr_RecentIncidents r (srv_ID s) 3 w2 = (x3, w3)"
    by (cases "wr_RecentIncidents r (srv_ID s) 3 w2")
  have w1: "same w w1" using snapshot_same [of w "srv_ID s"] s1 by simp
  have w2: "same w w2" using same_trans [OF w1] uptime_same [of w1 "srv_ID s"] s2 by simp
  have w3: "same w w3" using same_trans [OF w2] incidents_same [of w2 "srv_ID s" 3] s3 by simp
  have "same w (snd (console_view r ss w3))" by (rule same_trans [OF w3 Cons.IH])
  with s1 s2 s3 w1 w2 w3 show ?case by (auto split: sum.splits prod.splits)
qed (simp add: same_refl)

lemma console_same: "same w (snd (console p r c q w))"
proof (cases "user p c q")
  case (Some u)
  obtain x w1 where s: "wr_ServersForDiscordMember r u w = (x, w1)" by (cases "wr_ServersForDiscordMember r u w")
  have w1: "same w w1" using servers_same [of w u] s by simp
  have "same w (snd (console_view r ss w1))" for ss by (rule same_trans [OF w1 console_view_same])
  with Some s w1 show ?thesis by (auto simp: console_def split: sum.splits prod.splits) (metis snd_conv)+
qed (simp add: console_def same_refl)

lemma discordUserID_same: "same w (snd (discordUserID p c x w))"
proof -
  obtain a w1 where s1: "ht_do (wp_http p) (token_request c x) w = (a, w1)"
    by (cases "ht_do (wp_http p) (token_request c x) w")
  have w1: "same w w1" using http_same [of w "token_request c x"] s1 by simp
  have "same w (snd (fetch_identity p t w1))" for t
  proof -
    obtain b w2 where s2: "ht_do (wp_http p) (identity_request t) w1 = (b, w2)"
      by (cases "ht_do (wp_http p) (identity_request t) w1")
    have "same w w2" using same_trans [OF w1] http_same [of w1 "identity_request t"] s2 by simp
    then show ?thesis using s2 by (auto simp: fetch_identity_def split: sum.splits)
  qed
  with s1 w1 show ?thesis by (auto simp: discordUserID_def split: sum.splits)
qed

lemma callback_same: "same w (snd (snd (callback p a q w)))"
proof -
  obtain ok a1 where c: "consumeState (hq_query q ''state'') (wp_clock p 0) a = (ok, a1)"
    by (cases "consumeState (hq_query q ''state'') (wp_clock p 0) a")
  obtain x w1 where d: "discordUserID p (ap_config a1) (hq_query q ''code'') w = (x, w1)"
    by (cases "discordUserID p (ap_config a1) (hq_query q ''code'') w")
  have "same w w1" using discordUserID_same [of w "ap_config a1" "hq_query q ''code''"] d by simp
  then show ?thesis using c d same_refl by (auto simp: callback_def split: sum.splits)
qed

lemma updateServer_I: "I w \<Longrightarrow> I (snd (updateServer p r c q w))"
  using updateServer_cases [of p r c q w] enabled_I channel_I maintenance_I by metis

lemma importServer_I: "I w \<Longrightarrow> I (snd (importServer p importer c q w))"
  using importServer_cases [of p importer c q w] import_I by metis

lemma report_handler_I: "I w \<Longrightarrow> I (snd (report p r c q w))"
  using report_cases [of p r c q w] report_I by metis

lemma Handler_I:
  assumes "I w"
  shows "I (snd (snd (Handler p r importer q (a, w))))"
proof -
  have "I (snd (home r q w))" "I (snd (console p r (ap_config a) q w))" "I (snd (snd (callback p a q w)))"
    by (rule same_I [OF home_same assms] same_I [OF console_same assms] same_I [OF callback_same assms])+
  with updateServer_I [OF assms] importServer_I [OF assms] report_handler_I [OF assms] assms
  show ?thesis using Handler_world [of p r importer q a w] by (elim insertE emptyE) simp_all
qed

text \<open>Only POST requests change what \<open>same\<close> compares.\<close>

lemma Handler_get_same:
  assumes "hq_method q \<noteq> ''POST''"
  shows "same w (snd (snd (Handler p r importer q (a, w))))"
proof -
  have u: "snd (updateServer p r c q w) = w" for c using updateServer_cases [of p r c q w] assms by blast
  have i: "snd (importServer p importer c q w) = w" for c using importServer_cases [of p importer c q w] assms by blast
  have rp: "snd (report p r c q w) = w" for c using report_cases [of p r c q w] assms by blast
  show ?thesis
    using Handler_world [of p r importer q a w] unfolding u i rp
    by (elim insertE emptyE) (simp_all add: home_same console_same callback_same same_refl)
qed

text \<open>Without a session and the bearer token a request can only add a report.\<close>

lemma Handler_anonymous:
  assumes "user p (ap_config a) q = None"
    and "\<not> bearerMatches (hq_header q ''Authorization'') (cf_IntegrationToken (ap_config a))"
  shows "same w (snd (snd (Handler p r importer q (a, w)))) \<or>
    (\<exists>rep. rep_Type rep \<in> set report_types \<and>
       snd (snd (Handler p r importer q (a, w))) = snd (wr_RecordUserReport r rep w))"
proof -
  have u: "snd (updateServer p r (ap_config a) q w) = w"
    using updateServer_cases [of p r "ap_config a" q w] assms by auto
  have i: "snd (importServer p importer (ap_config a) q w) = w"
    using importServer_cases [of p importer "ap_config a" q w] assms by auto
  have rp: "snd (report p r (ap_config a) q w) = w \<or> (\<exists>rep. rep_Type rep \<in> set report_types \<and>
      snd (report p r (ap_config a) q w) = snd (wr_RecordUserReport r rep w))"
    using report_cases [of p r "ap_config a" q w] by blast
  show ?thesis
    using Handler_world [of p r importer q a w] rp unfolding u i
    by (elim insertE emptyE) (auto simp: home_same console_same callback_same same_refl)
qed

end

end
