(* ===== verification/System.thy ===== *)
theory System imports ServerFacts Worker Tunnel Integration Discord WebFacts begin

text \<open>
  The processes of \<open>cmd/monitor/main.go\<close> on the database: a world is the database, a
  counter of the calls made so far and the messages sent; a script says what the environment does
  in each call (the transaction's environment, the network, the tunnel, Discord, VoxelLink, the
  clock, the sleep). The worker, the importer, the bot and the API get the store's operations as
  their repositories, as \<open>main\<close> wires them, and interpret the interfaces they are written
  against. \<open>db_step\<close> is one call of any process on the shared database; since every
  operation is a transaction of its own, \<open>db_reaches\<close> covers every order of calls of
  concurrently running processes.
\<close>

section \<open>The world\<close>

record script =
  sc_env :: "nat \<Rightarrow> pgenv"
  sc_net :: "nat \<Rightarrow> net"
  sc_json :: json_status
  sc_tunnel :: "nat \<Rightarrow> TunnelRun"
  sc_send :: "nat \<Rightarrow> err option"
  sc_sleep :: "nat \<Rightarrow> bool"
  sc_clock :: "nat \<Rightarrow> instant"
  sc_malformed :: "string \<Rightarrow> err option"
  sc_http :: "nat \<Rightarrow> Request \<Rightarrow> Response res"
  sc_payload :: "string \<Rightarrow> Payload res"
  sc_quote :: "string \<Rightarrow> string"

record pgworld =
  pw_db :: db
  pw_tick :: nat
  pw_sent :: "(string \<times> string) list"

definition ticked :: "pgworld \<Rightarrow> pgworld" where
  "ticked w = w\<lparr>pw_tick := pw_tick w + 1\<rparr>"

definition pg_op :: "script \<Rightarrow> (pgenv \<Rightarrow> db \<Rightarrow> 'a res \<times> db) \<Rightarrow> pgworld \<Rightarrow> 'a res \<times> pgworld" where
  "pg_op sc f w = (case f (sc_env sc (pw_tick w)) (pw_db w) of (r, d) \<Rightarrow> (r, ticked (w\<lparr>pw_db := d\<rparr>)))"

definition pg_query :: "script \<Rightarrow> (pgenv \<Rightarrow> db \<Rightarrow> 'a res) \<Rightarrow> pgworld \<Rightarrow> 'a res \<times> pgworld" where
  "pg_query sc f w = (f (sc_env sc (pw_tick w)) (pw_db w), ticked w)"

definition pg_send :: "script \<Rightarrow> string \<Rightarrow> string \<Rightarrow> pgworld \<Rightarrow> unit res \<times> pgworld" where
  "pg_send sc channel msg w = (case sc_send sc (pw_tick w) of
     Some e \<Rightarrow> (Inl e, ticked w)
   | None \<Rightarrow> (Inr (), ticked (w\<lparr>pw_sent := pw_sent w @ [(channel, msg)]\<rparr>)))"

definition pg_http :: "script \<Rightarrow> pgworld HttpClient" where
  "pg_http sc = \<lparr>ht_malformed = sc_malformed sc, ht_do = (\<lambda>rq w. (sc_http sc (pw_tick w) rq, ticked w))\<rparr>"

text \<open>
  The pings return for every host shorter than \<open>2 ^ 31\<close> bytes
  (\<open>PingJavaEndpoint_returns\<close>) and every tunnel whose wait ends
  (\<open>waitForListener_returns_iff\<close>).
\<close>

definition pg_ping :: "script \<Rightarrow> string \<Rightarrow> int \<Rightarrow> pgworld \<Rightarrow> CheckResult \<times> pgworld" where
  "pg_ping sc host port w = (fst (the (PingJava (sc_json sc) (sc_net sc (pw_tick w)) host port)), ticked w)"

definition pg_tunnel :: "script \<Rightarrow> AccessTunnel \<Rightarrow> pgworld TunnelProber" where
  "pg_tunnel sc t host port w = (fst (the (Ping (sc_json sc) (sc_net sc (pw_tick w))
     (sc_tunnel sc (pw_tick w)) t host port)), ticked w)"

section \<open>The worker process\<close>

definition pg_repository :: "script \<Rightarrow> pgworld Repository" where
  "pg_repository sc = \<lparr>rp_EnabledServers = pg_query sc EnabledServers,
     rp_RecordCheck = (\<lambda>s r. pg_op sc (\<lambda>e. RecordCheck e s r)),
     rp_PendingStateNotifications = (\<lambda>n. pg_query sc (\<lambda>e. PendingStateNotifications e n)),
     rp_MarkStateNotificationDelivered = (\<lambda>i. pg_op sc (\<lambda>e. MarkStateNotificationDelivered e i)),
     rp_RunRetention = Some (pg_op sc RunRetention)\<rparr>"

definition pg_notifier :: "script \<Rightarrow> pgworld Notifier" where
  "pg_notifier sc = StateChanged (\<lambda>sid. pg_query sc (\<lambda>e. NotificationChannelIDs e sid)) (pg_send sc)"

definition pg_provider :: "script \<Rightarrow> Client \<Rightarrow> pgworld Provider" where
  "pg_provider sc client = FetchServer (pg_http sc) (sc_payload sc) (sc_quote sc) client"

definition pg_upsert :: "script \<Rightarrow> pgworld ImportRepository" where
  "pg_upsert sc i = pg_op sc (\<lambda>e. UpsertVoxelLinkServer e i)"

definition pg_sync :: "script \<Rightarrow> Client \<Rightarrow> pgworld \<Rightarrow> unit res \<times> pgworld" where
  "pg_sync sc client = Sync (pg_provider sc client) (pg_upsert sc) (pg_query sc VoxelLinkExternalServerIDs)"

definition pg_worker :: "script \<Rightarrow> bool \<Rightarrow> AccessTunnel \<Rightarrow> Client option \<Rightarrow> pgworld Worker" where
  "pg_worker sc discord tunnel client =
     NewWorker (pg_repository sc) (if discord then Some (pg_notifier sc) else None)
       (pg_tunnel sc (NewAccessTunnel [] 5000000000)) (Some (pg_tunnel sc tunnel))
       (map_option (pg_sync sc) client)"

definition pg_runtime :: "script \<Rightarrow> pgworld Runtime" where
  "pg_runtime sc = \<lparr>rt_ping = pg_ping sc, rt_now = (\<lambda>w. (sc_clock sc (pw_tick w), ticked w)),
     rt_sleep = (\<lambda>w. (sc_sleep sc (pw_tick w), ticked w)), rt_quote = sc_quote sc\<rparr>"

section \<open>The bot and the API\<close>

definition pg_queries :: "script \<Rightarrow> pgworld QueryRepository" where
  "pg_queries sc = \<lparr>qr_SnapshotByExternalID = (\<lambda>x. pg_query sc (\<lambda>e. SnapshotByExternalID e x)),
     qr_SnapshotByDiscordChannel = (\<lambda>x. pg_query sc (\<lambda>e. SnapshotByDiscordChannel e x)),
     qr_Uptime24h = (\<lambda>x. pg_query sc (\<lambda>e. Uptime24h e x)),
     qr_RecentIncidents = (\<lambda>x n. pg_query sc (\<lambda>e. RecentIncidents e x n)),
     qr_RecordUserReport = (\<lambda>r. pg_op sc (\<lambda>e. RecordUserReport e r))\<rparr>"

definition pg_web :: "script \<Rightarrow> pgworld WebRepository" where
  "pg_web sc = \<lparr>wr_ServersForDiscordMember = (\<lambda>u. pg_query sc (\<lambda>e. ServersForDiscordMember e u)),
     wr_SnapshotByID = (\<lambda>x. pg_query sc (\<lambda>e. SnapshotByID e x)),
     wr_PublicSnapshots = pg_query sc PublicSnapshots,
     wr_Uptime24h = (\<lambda>x. pg_query sc (\<lambda>e. Uptime24h e x)),
     wr_RecentIncidents = (\<lambda>x n. pg_query sc (\<lambda>e. RecentIncidents e x n)),
     wr_RecordUserReport = (\<lambda>r. pg_op sc (\<lambda>e. RecordUserReport e r)),
     wr_CrowdSignal = (\<lambda>x w. pg_query sc (\<lambda>e. CrowdSignal_op e x (sc_clock sc (pw_tick w))) w),
     wr_SetEnabled = (\<lambda>s u b. pg_op sc (\<lambda>e. SetEnabledForDiscordMember e s u b)),
     wr_SetNotificationChannel = (\<lambda>s u c. pg_op sc (\<lambda>e. SetNotificationChannelForDiscordMember e s u c)),
     wr_ScheduleMaintenance = (\<lambda>s u x y. pg_op sc (\<lambda>e. ScheduleMaintenanceForDiscordMember e s u x y))\<rparr>"

definition pg_importer :: "script \<Rightarrow> Client \<Rightarrow> string \<Rightarrow> pgworld \<Rightarrow> Server res \<times> pgworld" where
  "pg_importer sc client = Import (pg_provider sc client) (pg_upsert sc)"

definition pg_platform ::
  "script \<Rightarrow> (string \<Rightarrow> string) \<Rightarrow> (string \<Rightarrow> string \<Rightarrow> string) \<Rightarrow> string res \<Rightarrow> (nat \<Rightarrow> instant)
     \<Rightarrow> (string \<Rightarrow> string res) \<Rightarrow> (string \<Rightarrow> string res) \<Rightarrow> (string \<Rightarrow> string res) \<Rightarrow> pgworld WebPlatform" where
  "pg_platform sc sha mac random clock token_json user_json import_json =
     \<lparr>wp_sha256_hex = sha, wp_hmac = mac, wp_random = random, wp_clock = clock, wp_http = pg_http sc,
      wp_token_json = token_json, wp_user_json = user_json, wp_import_json = import_json\<rparr>"

section \<open>Calls on the shared database\<close>

inductive db_step :: "db \<Rightarrow> db \<Rightarrow> bool" where
  check: "db_step d (snd (RecordCheck e sv r d))"
| report: "db_step d (snd (RecordUserReport e rep d))"
| mark: "db_step d (snd (MarkStateNotificationDelivered e i d))"
| retention: "db_step d (snd (RunRetention e d))"
| upsert: "db_step d (snd (UpsertVoxelLinkServer e i d))"
| enabled: "db_step d (snd (SetEnabledForDiscordMember e sid u flag d))"
| channel: "db_step d (snd (SetNotificationChannelForDiscordMember e sid u ch d))"
| maintenance: "db_step d (snd (ScheduleMaintenanceForDiscordMember e sid u a b d))"

inductive db_reaches :: "db \<Rightarrow> db \<Rightarrow> bool" for d0 where
  start: "db_reaches d0 d0"
| step: "db_reaches d0 d \<Longrightarrow> db_step d d' \<Longrightarrow> db_reaches d0 d'"

inductive_cases db_stepE: "db_step d d'"

lemma db_step_store_inv: "db_step d d' \<Longrightarrow> store_inv d \<Longrightarrow> store_inv d'"
  by (erule db_stepE) (simp_all add: RecordCheck_store_inv RecordUserReport_store_inv
      MarkStateNotificationDelivered_store_inv RunRetention_store_inv Upsert_store_inv
      SetEnabled_store_inv SetChannel_store_inv Schedule_store_inv)

lemma db_reaches_store_inv: "db_reaches d0 d \<Longrightarrow> store_inv d0 \<Longrightarrow> store_inv d"
  by (induction rule: db_reaches.induct) (auto intro: db_step_store_inv)

lemma db_reaches_trans: "db_reaches d1 d2 \<Longrightarrow> db_reaches d0 d1 \<Longrightarrow> db_reaches d0 d2"
  by (induction rule: db_reaches.induct) (auto intro: db_reaches.step)

section \<open>The interfaces on the database\<close>

lemma pg_db [simp]:
  "pw_db (ticked w) = pw_db w"
  "pw_db (snd (pg_query sc f w)) = pw_db w"
  "pw_db (snd (pg_op sc g w)) = snd (g (sc_env sc (pw_tick w)) (pw_db w))"
  "pw_db (snd (pg_send sc c m w)) = pw_db w"
  "pw_db (snd (ht_do (pg_http sc) rq w)) = pw_db w"
  "pw_db (snd (pg_ping sc h p w)) = pw_db w"
  "pw_db (snd (pg_tunnel sc t h p w)) = pw_db w"
  by (simp_all add: ticked_def pg_query_def pg_op_def pg_send_def pg_http_def pg_ping_def pg_tunnel_def
      split: prod.splits option.splits)

lemma pg_provider_db [simp]: "pw_db (snd (pg_provider sc client x w)) = pw_db w"
proof -
  obtain r w1 where a: "ht_do (pg_http sc) (server_request client x) w = (r, w1)"
    by (cases "ht_do (pg_http sc) (server_request client x) w")
  have "pw_db w1 = pw_db w" using pg_db(5) [of sc "server_request client x" w] a by simp
  with a show ?thesis
    by (auto simp: pg_provider_def FetchServer_def Let_def split: option.splits sum.splits)
qed

lemma send_all_db: "pw_db (snd (send_all (pg_send sc) m cs w)) = pw_db w"
proof (induction cs arbitrary: w)
  case (Cons c cs)
  obtain r w1 where s: "pg_send sc c m w = (r, w1)" by (cases "pg_send sc c m w")
  have "pw_db w1 = pw_db w" using pg_db(4) [of sc c m w] s by simp
  with Cons s show ?case by (auto split: sum.splits)
qed simp

lemma pg_notifier_db [simp]: "pw_db (snd (pg_notifier sc s q r w)) = pw_db w"
  by (auto simp: pg_notifier_def StateChanged_def pg_query_def send_all_db split: prod.splits sum.splits)

lemma listing_only_trans: "listing_only a b \<Longrightarrow> listing_only b c \<Longrightarrow> listing_only a c"
proof -
  assume ab: "listing_only a b" and bc: "listing_only b c"
  from ab obtain n1 where n1: "map monitor_part (servers b) = map monitor_part (servers a) @ map monitor_part n1"
    "list_all (\<lambda>s. sv_status s = Unknown) n1" by (auto simp: listing_only_def)
  from bc obtain n2 where n2: "map monitor_part (servers c) = map monitor_part (servers b) @ map monitor_part n2"
    "list_all (\<lambda>s. sv_status s = Unknown) n2" by (auto simp: listing_only_def)
  have "map monitor_part (servers c) = map monitor_part (servers a) @ map monitor_part (n1 @ n2)"
    "list_all (\<lambda>s. sv_status s = Unknown) (n1 @ n2)" using n1 n2 by simp_all
  then have "\<exists>new. map monitor_part (servers c) = map monitor_part (servers a) @ map monitor_part new
      \<and> list_all (\<lambda>s. sv_status s = Unknown) new" by blast
  with ab bc show ?thesis by (simp add: listing_only_def)
qed

interpretation import_listing: import_world "pg_provider sc client" "pg_upsert sc"
  "pg_query sc VoxelLinkExternalServerIDs" "\<lambda>w. True" "\<lambda>w w'. listing_only (pw_db w) (pw_db w')" for sc client
proof unfold_locales
  fix a b c :: pgworld
  show "listing_only (pw_db a) (pw_db b) \<Longrightarrow> listing_only (pw_db b) (pw_db c) \<Longrightarrow> listing_only (pw_db a) (pw_db c)"
    by (rule listing_only_trans)
qed (simp_all add: listing_only_refl pg_upsert_def Upsert_listing_only)

interpretation import_calls: import_world "pg_provider sc client" "pg_upsert sc"
  "pg_query sc VoxelLinkExternalServerIDs" "\<lambda>w. db_reaches d0 (pw_db w)" "\<lambda>w w'. True" for sc client d0
  by unfold_locales (auto simp: pg_upsert_def intro: db_reaches.step db_step.intros)

lemma pg_sync_calls: "db_reaches d0 (pw_db w) \<Longrightarrow> db_reaches d0 (pw_db (snd (pg_sync sc client w)))"
  unfolding pg_sync_def using import_calls.Sync_I by blast

interpretation worker_pg: monitor_world "pg_runtime sc" "pg_worker sc discord tunnel client"
  "\<lambda>w. db_reaches d0 (pw_db w)" for sc discord tunnel client d0
proof unfold_locales
  fix w :: pgworld and f assume "db_reaches d0 (pw_db w)" and "wk_synchronizer (pg_worker sc discord tunnel client) = Some f"
  then show "db_reaches d0 (pw_db (snd (f w)))"
    by (auto simp: pg_worker_def NewWorker_def pg_sync_calls)
qed (auto simp: pg_worker_def NewWorker_def pg_runtime_def pg_repository_def NoopNotifier_def
    intro: db_reaches.step db_step.intros db_reaches.step [OF _ db_step.retention])

interpretation bot_pg: bot_world "pg_queries sc" "\<lambda>w. db_reaches d0 (pw_db w)" "\<lambda>w w'. pw_db w' = pw_db w" for sc d0
  by unfold_locales (auto simp: pg_queries_def intro: db_reaches.step db_step.intros)

interpretation web_pg: web_world "pg_platform sc sha mac random clock tj uj ij" "pg_web sc" "pg_importer sc client"
  "\<lambda>w. db_reaches d0 (pw_db w)" "\<lambda>w w'. pw_db w' = pw_db w" for sc sha mac random clock tj uj ij client d0
proof unfold_locales
  fix w :: pgworld and x assume "db_reaches d0 (pw_db w)"
  then show "db_reaches d0 (pw_db (snd (pg_importer sc client x w)))"
    unfolding pg_importer_def using import_calls.Import_I by blast
qed (auto simp: pg_web_def pg_platform_def intro: db_reaches.step db_step.intros)

end
