(* ===== verification/Delivery.thy ===== *)
theory Delivery imports System begin

text \<open>
  The delivery of queued notifications on the database: sending a message to every channel of a
  server, marking the note, and what a pass over the pending notes leaves.
\<close>

section \<open>Sending\<close>

lemma pg_send_cases:
  "(\<exists>e. pg_send sc c m w = (Inl e, ticked w)) \<or>
   pg_send sc c m w = (Inr (), ticked (w\<lparr>pw_sent := pw_sent w @ [(c, m)]\<rparr>))"
  by (simp add: pg_send_def split: option.splits)

lemma send_all_sent:
  fixes w :: pgworld
  assumes "send_all (pg_send sc) m cs w = (r, w')"
  shows "pw_db w' = pw_db w \<and> set (pw_sent w) \<subseteq> set (pw_sent w') \<and>
    (r = Inr () \<longrightarrow> (\<forall>c \<in> set cs. (c, m) \<in> set (pw_sent w')))"
  using assms
proof (induction cs arbitrary: w)
  case (Cons c cs)
  from pg_send_cases [of sc c m w] consider e where "pg_send sc c m w = (Inl e, ticked w)"
    | "pg_send sc c m w = (Inr (), ticked (w\<lparr>pw_sent := pw_sent w @ [(c, m)]\<rparr>))" by blast
  then show ?case
  proof cases
    case 1
    with Cons.prems show ?thesis by (auto simp: ticked_def)
  next
    case 2
    with Cons.prems Cons.IH [of "ticked (w\<lparr>pw_sent := pw_sent w @ [(c, m)]\<rparr>)"] show ?thesis
      by (auto simp: ticked_def)
  qed
qed simp

text \<open>The channels a note has to reach, and that it has reached them.\<close>

definition announced :: "db \<Rightarrow> (string \<times> string) list \<Rightarrow> note_row \<Rightarrow> bool" where
  "announced d sent n \<longleftrightarrow> (\<exists>s \<in> set (servers d). sv_id s = nt_server n \<and>
     (\<forall>c \<in> set (channels d). ch_server c = nt_server n \<and> ch_enabled c \<longrightarrow>
        (ch_channel c, statusMessage (to_Server (sv_status s) s) (nt_state n)) \<in> set sent))"

lemma announced_mono: "announced d sent n \<Longrightarrow> set sent \<subseteq> set sent' \<Longrightarrow> announced d sent' n"
  unfolding announced_def by blast

definition delivery_inv :: "db \<Rightarrow> pgworld \<Rightarrow> bool" where
  "delivery_inv d0 w \<longleftrightarrow> servers (pw_db w) = servers d0 \<and> channels (pw_db w) = channels d0 \<and>
     (\<forall>n \<in> set (notifs (pw_db w)). \<exists>m \<in> set (notifs d0). nt_id n = nt_id m \<and> nt_server n = nt_server m
        \<and> nt_state n = nt_state m \<and> (n = m \<or> announced d0 (pw_sent w) m))"

lemma delivery_inv_mono:
  "delivery_inv d0 w \<Longrightarrow> pw_db w' = pw_db w \<Longrightarrow> set (pw_sent w) \<subseteq> set (pw_sent w') \<Longrightarrow> delivery_inv d0 w'"
  unfolding delivery_inv_def by (metis announced_mono)

lemma pg_notifier_sent:
  assumes "pg_notifier sc s q r w = (res, w')" and "\<And>k. pg_uuid_in (sc_env sc k) = Some"
  shows "pw_db w' = pw_db w \<and> set (pw_sent w) \<subseteq> set (pw_sent w') \<and>
    (res = Inr () \<longrightarrow> (\<forall>c \<in> set (channels (pw_db w)). ch_server c = srv_ID s \<and> ch_enabled c \<longrightarrow>
       (ch_channel c, statusMessage s q) \<in> set (pw_sent w')))"
proof (cases "NotificationChannelIDs (sc_env sc (pw_tick w)) (srv_ID s) (pw_db w)")
  case (Inl e)
  with assms(1) show ?thesis by (auto simp: pg_notifier_def StateChanged_def pg_query_def ticked_def)
next
  case (Inr ids)
  then have ids: "ids = map ch_channel (filter (\<lambda>c. ch_server c = srv_ID s \<and> ch_enabled c) (channels (pw_db w)))"
    by (auto simp: NotificationChannelIDs_def query_pool_def uuid_arg_def assms(2) split: option.splits)
  from Inr assms(1) have "send_all (pg_send sc) (statusMessage s q) ids (ticked w) = (res, w')"
    by (simp add: pg_notifier_def StateChanged_def pg_query_def)
  from send_all_sent [OF this] ids show ?thesis by (auto simp: ticked_def)
qed

section \<open>Dispatching\<close>

lemma mark_notifs: "n' \<in> set (notifs (mark_delivered i t d)) \<Longrightarrow>
    n' \<in> set (notifs d) \<or> (\<exists>n \<in> set (notifs d). nt_id n = i \<and> n' = n\<lparr>nt_delivered := Some t\<rparr>)"
  by (auto simp: mark_delivered_def split: if_splits)

lemma mark_frame [simp]:
  "servers (mark_delivered i t d) = servers d" "channels (mark_delivered i t d) = channels d"
  by (simp_all add: mark_delivered_def)

lemma MarkStateNotificationDelivered_cases:
  "snd (MarkStateNotificationDelivered e i d) = d \<or>
   snd (MarkStateNotificationDelivered e i d) = mark_delivered i (pg_now e) d"
  by (simp add: MarkStateNotificationDelivered_def exec_pool_def split: option.splits)

lemma dispatch_one_eq:
  "dispatch_one (pg_worker sc True t c) x w =
     (case pg_notifier sc (pn_Server x) (pn_State x) (pn_Result x) w of
        (Inl e, w) \<Rightarrow> w
      | (Inr _, w) \<Rightarrow> snd (pg_op sc (\<lambda>e. MarkStateNotificationDelivered e (pn_ID x)) w))"
  by (simp add: dispatch_one_def pg_worker_def NewWorker_def pg_repository_def split: prod.splits sum.splits)

lemma pg_op_sent [simp]: "pw_sent (snd (pg_op sc f w)) = pw_sent w"
  by (simp add: pg_op_def ticked_def split: prod.splits)

lemma delivery_inv_mark:
  assumes inv: "delivery_inv d0 w" and m0: "m0 \<in> set (notifs d0)" and a: "announced d0 (pw_sent w) m0"
    and ids: "distinct (map nt_id (notifs d0))" and d': "pw_db w' = mark_delivered (nt_id m0) k (pw_db w)"
    and s': "pw_sent w' = pw_sent w"
  shows "delivery_inv d0 w'"
  unfolding delivery_inv_def
proof (intro conjI ballI)
  fix n' assume "n' \<in> set (notifs (pw_db w'))"
  then consider "n' \<in> set (notifs (pw_db w))"
    | n where "n \<in> set (notifs (pw_db w))" "nt_id n = nt_id m0" "n' = n\<lparr>nt_delivered := Some k\<rparr>"
    using mark_notifs d' by metis
  then show "\<exists>m \<in> set (notifs d0). nt_id n' = nt_id m \<and> nt_server n' = nt_server m
      \<and> nt_state n' = nt_state m \<and> (n' = m \<or> announced d0 (pw_sent w') m)"
  proof cases
    case 1
    with inv s' show ?thesis by (simp add: delivery_inv_def)
  next
    case 2
    with inv obtain m where m: "m \<in> set (notifs d0)" "nt_id n = nt_id m" "nt_server n = nt_server m"
      "nt_state n = nt_state m" unfolding delivery_inv_def by blast
    with 2(2) m0 ids have "m = m0" by (auto simp: distinct_map dest: inj_onD)
    with m 2(3) a s' show ?thesis by (intro bexI [of _ m]) simp_all
  qed
qed (use inv d' in \<open>simp_all add: delivery_inv_def\<close>)

lemma dispatch_one_inv:
  assumes inv: "delivery_inv d0 w" and x: "x = to_pending s m0" "m0 \<in> set (notifs d0)" "s \<in> set (servers d0)"
    "sv_id s = nt_server m0"
    and ids: "distinct (map nt_id (notifs d0))" and u: "\<And>k. pg_uuid_in (sc_env sc k) = Some"
  shows "delivery_inv d0 (dispatch_one (pg_worker sc True t c) x w)"
proof -
  obtain res w1 where n: "pg_notifier sc (pn_Server x) (pn_State x) (pn_Result x) w = (res, w1)"
    by (cases "pg_notifier sc (pn_Server x) (pn_State x) (pn_Result x) w")
  note sent = pg_notifier_sent [OF n u]
  have inv1: "delivery_inv d0 w1" using delivery_inv_mono [OF inv] sent by blast
  show ?thesis
  proof (cases res)
    case Inl
    with n inv1 show ?thesis by (simp add: dispatch_one_eq)
  next
    case (Inr v)
    have "channels (pw_db w) = channels d0" using inv by (simp add: delivery_inv_def)
    with sent Inr x have a: "announced d0 (pw_sent w1) m0"
      by (auto simp: announced_def to_pending_def to_Server_def intro!: bexI [of _ s])
    let ?w2 = "snd (pg_op sc (\<lambda>e. MarkStateNotificationDelivered e (pn_ID x)) w1)"
    have "pw_db ?w2 = pw_db w1 \<or> (\<exists>k. pw_db ?w2 = mark_delivered (nt_id m0) k (pw_db w1))"
      using MarkStateNotificationDelivered_cases [of "sc_env sc (pw_tick w1)" "nt_id m0" "pw_db w1"] x(1)
      by (auto simp: to_pending_def)
    then have "delivery_inv d0 ?w2"
      using delivery_inv_mono [OF inv1, of ?w2] delivery_inv_mark [OF inv1 x(2) a ids, of ?w2] by auto
    with n Inr show ?thesis by (simp add: dispatch_one_eq)
  qed
qed

lemma dispatch_all_inv:
  assumes "delivery_inv d0 w"
    and "\<forall>x \<in> set xs. \<exists>s m. x = to_pending s m \<and> m \<in> set (notifs d0) \<and> s \<in> set (servers d0) \<and> sv_id s = nt_server m"
    and "distinct (map nt_id (notifs d0))" and "\<And>k. pg_uuid_in (sc_env sc k) = Some"
  shows "delivery_inv d0 (dispatch_all (pg_worker sc True t c) xs w)"
  using assms(1,2)
proof (induction xs arbitrary: w)
  case (Cons x xs)
  then obtain s m where "x = to_pending s m" "m \<in> set (notifs d0)" "s \<in> set (servers d0)" "sv_id s = nt_server m"
    by auto
  then have "delivery_inv d0 (dispatch_one (pg_worker sc True t c) x w)"
    using dispatch_one_inv [OF Cons.prems(1) _ _ _ _ assms(3,4)] by blast
  with Cons show ?case by simp
qed simp

lemma PendingStateNotifications_items:
  assumes "PendingStateNotifications e k d = Inr xs" and "x \<in> set xs"
  shows "\<exists>s m. x = to_pending s m \<and> m \<in> set (notifs d) \<and> s \<in> set (servers d) \<and> sv_id s = nt_server m"
proof -
  have "x \<in> set (concat (map (\<lambda>n. map (\<lambda>s. to_pending s n)
      (filter (\<lambda>s. sv_id s = nt_server n) (servers d))) (pending_rows d)))"
    using assms by (auto simp: PendingStateNotifications_def query_pool_def split: option.splits dest: in_set_takeD)
  then show ?thesis by (auto simp: pending_rows_def)
qed

lemma delivery_inv_start: "delivery_inv (pw_db w) w"
  unfolding delivery_inv_def by blast

lemma dispatch_delivery:
  assumes "distinct (map nt_id (notifs (pw_db w)))" and "\<And>k. pg_uuid_in (sc_env sc k) = Some"
  shows "delivery_inv (pw_db w) (dispatchPendingNotifications (pg_worker sc True t c) w)"
proof (cases "PendingStateNotifications (sc_env sc (pw_tick w)) 100 (pw_db w)")
  case Inl
  then show ?thesis
    using delivery_inv_mono [OF delivery_inv_start, of "ticked w" w]
    by (simp add: dispatchPendingNotifications_def pg_worker_def NewWorker_def pg_repository_def pg_query_def ticked_def)
next
  case (Inr xs)
  have "delivery_inv (pw_db w) (dispatch_all (pg_worker sc True t c) xs (ticked w))"
    by (rule dispatch_all_inv [OF delivery_inv_mono [OF delivery_inv_start] _ assms])
      (use PendingStateNotifications_items [OF Inr] in \<open>auto simp: ticked_def\<close>)
  then show ?thesis
    using Inr by (simp add: dispatchPendingNotifications_def pg_worker_def NewWorker_def pg_repository_def pg_query_def)
qed

section \<open>Everything is delivered when nothing fails\<close>

lemma send_all_quiet:
  fixes w :: pgworld
  shows "(\<And>k. sc_send sc k = None) \<Longrightarrow> fst (send_all (pg_send sc) m cs w) = Inr ()"
  by (induction cs arbitrary: w) (simp_all add: pg_send_def)

lemma dispatch_one_quiet:
  assumes "\<And>k. sc_send sc k = None" and "\<And>k. quiet (sc_env sc k)" and "\<And>k. pg_uuid_in (sc_env sc k) = Some"
  shows "\<exists>k. pw_db (dispatch_one (pg_worker sc True t c) x w) = mark_delivered (pn_ID x) k (pw_db w)"
proof -
  obtain ids where "NotificationChannelIDs (sc_env sc (pw_tick w)) (srv_ID (pn_Server x)) (pw_db w) = Inr ids"
    using assms(2) [of "pw_tick w"] by (simp add: NotificationChannelIDs_def query_pool_def quiet_def uuid_arg_def assms(3))
  then have "pg_notifier sc (pn_Server x) (pn_State x) (pn_Result x) w
      = send_all (pg_send sc) (statusMessage (pn_Server x) (pn_State x)) ids (ticked w)"
    by (simp add: pg_notifier_def StateChanged_def pg_query_def)
  then obtain w1 where n: "pg_notifier sc (pn_Server x) (pn_State x) (pn_Result x) w = (Inr (), w1)"
    using send_all_quiet [OF assms(1)] by (metis prod.collapse)
  have "pw_db w1 = pw_db w" using pg_notifier_sent [OF n assms(3)] by blast
  then show ?thesis
    using n assms(2) by (auto simp: dispatch_one_eq MarkStateNotificationDelivered_def exec_pool_def quiet_def)
qed

lemma dispatch_all_quiet:
  assumes "\<And>k. sc_send sc k = None" and "\<And>k. quiet (sc_env sc k)" and "\<And>k. pg_uuid_in (sc_env sc k) = Some"
  shows "map nt_id (pending_rows (pw_db (dispatch_all (pg_worker sc True t c) xs w)))
    = filter (\<lambda>i. i \<notin> set (map pn_ID xs)) (map nt_id (pending_rows (pw_db w)))"
proof (induction xs arbitrary: w)
  case (Cons x xs)
  obtain k where k: "pw_db (dispatch_one (pg_worker sc True t c) x w) = mark_delivered (pn_ID x) k (pw_db w)"
    using dispatch_one_quiet [OF assms] by blast
  show ?case
    by (simp only: dispatch_all.simps Cons.IH k mark_delivered_pending filter_filter)
      (rule filter_cong, auto)
qed simp

lemma filter_not_take:
  assumes "distinct xs" shows "filter (\<lambda>x. x \<notin> set (take n xs)) xs = drop n xs"
proof -
  have "distinct (take n xs @ drop n xs)" using assms by simp
  then have "set (take n xs) \<inter> set (drop n xs) = {}" by (simp del: append_take_drop_id)
  then have "filter (\<lambda>x. x \<notin> set (take n xs)) (take n xs @ drop n xs) = drop n xs"
    by (simp del: append_take_drop_id add: filter_empty_conv) (auto intro: filter_True)
  then show ?thesis by simp
qed

lemma dispatch_drains:
  assumes "\<And>k. sc_send sc k = None" and "\<And>k. quiet (sc_env sc k)" and "\<And>k. pg_uuid_in (sc_env sc k) = Some"
    and "db_ok (pw_db w)"
  shows "map nt_id (pending_rows (pw_db (dispatchPendingNotifications (pg_worker sc True t c) w)))
    = drop 100 (map nt_id (pending_rows (pw_db w)))"
proof -
  let ?ids = "map nt_id (pending_rows (pw_db w))"
  obtain xs where xs: "PendingStateNotifications (sc_env sc (pw_tick w)) 100 (pw_db w) = Inr xs"
    "map pn_ID xs = take 100 ?ids"
    using PendingStateNotifications_ids [OF assms(4,2)] by blast
  have "distinct (map nt_id (notifs (pw_db w)))" using assms(4) by (simp add: db_ok_def notifs_ok_def)
  then have "distinct ?ids" by (simp add: pending_rows_def distinct_map distinct_filter inj_on_def)
  then have "filter (\<lambda>i. i \<notin> set (take 100 ?ids)) ?ids = drop 100 ?ids" by (rule filter_not_take)
  moreover have "pw_db (dispatchPendingNotifications (pg_worker sc True t c) w)
      = pw_db (dispatch_all (pg_worker sc True t c) xs (ticked w))"
    using xs(1) by (simp add: dispatchPendingNotifications_def pg_worker_def NewWorker_def pg_repository_def pg_query_def)
  ultimately show ?thesis
    using dispatch_all_quiet [OF assms(1-3), of t c xs "ticked w"] by (simp only: xs(2) pg_db)
qed

end
