(* ===== verification/Migrate.thy ===== *)
theory Migrate imports Http "HOL-Library.Char_ord" "HOL-Library.List_Lexorder" begin

text \<open>
  \<open>internal/migrate/migrate.go\<close>: the embedded migrations applied in the order of their
  names, each in a transaction with its row in \<open>schema_migrations\<close>. A schema is a value of
  any type \<open>'s\<close>; what a source does to it, and whether it has the two tables the baseline
  asks for, are arguments (\<open>Sql\<close>). \<open>mg_fault k\<close> fails the \<open>k\<close>-th call.
\<close>

record 's Sql =
  sq_run :: "string \<Rightarrow> 's \<Rightarrow> 's res"
  sq_has_servers :: "'s \<Rightarrow> bool"
  sq_has_rollups :: "'s \<Rightarrow> bool"

record 's MigDB =
  mg_schema :: 's
  mg_versions :: "int list option"
  mg_calls :: nat

record MigFile =
  mf_name :: string
  mf_dir :: bool
  mf_source :: string

type_synonym ('s, 'a) mig = "'s MigDB \<Rightarrow> 'a res \<times> 's MigDB"

definition mig_bind :: "('s, 'a) mig \<Rightarrow> ('a \<Rightarrow> ('s, 'b) mig) \<Rightarrow> ('s, 'b) mig" where
  "mig_bind m f d = (case m d of (Inl e, d) \<Rightarrow> (Inl e, d) | (Inr x, d) \<Rightarrow> f x d)"

definition mig_wrap :: "string \<Rightarrow> ('s, 'a) mig \<Rightarrow> ('s, 'a) mig" where
  "mig_wrap t m d = (case m d of (r, d) \<Rightarrow> (wrap_err t r, d))"

definition mig_call :: "(nat \<Rightarrow> err option) \<Rightarrow> ('s MigDB \<Rightarrow> ('a \<times> 's MigDB) res) \<Rightarrow> ('s, 'a) mig" where
  "mig_call fault q d = (case fault (mg_calls d) of
     Some e \<Rightarrow> (Inl e, d\<lparr>mg_calls := mg_calls d + 1\<rparr>)
   | None \<Rightarrow> (case q d of
       Inl e \<Rightarrow> (Inl e, d\<lparr>mg_calls := mg_calls d + 1\<rparr>)
     | Inr (x, d') \<Rightarrow> (Inr x, d'\<lparr>mg_calls := mg_calls d + 1\<rparr>)))"

definition applied_versions :: "'s MigDB \<Rightarrow> int list" where
  "applied_versions d = (case mg_versions d of None \<Rightarrow> [] | Some vs \<Rightarrow> vs)"

definition insert_version :: "int \<Rightarrow> 's MigDB \<Rightarrow> (unit \<times> 's MigDB) res" where
  "insert_version v d =
     (if \<not> int4 v then Inl OutOfRange
      else if v \<in> set (applied_versions d) then Inl Unique
      else Inr ((), d\<lparr>mg_versions := Some (applied_versions d @ [v])\<rparr>))"

section \<open>Versions\<close>

text \<open>\<open>strconv.Atoi\<close>.\<close>

definition atoi :: "string \<Rightarrow> int option" where
  "atoi s =
     (let neg = (take 1 s = ''-''); t = (if take 1 s = ''-'' \<or> take 1 s = ''+'' then drop 1 s else s);
          z = (if neg then - int (undec t) else int (undec t))
      in if t \<noteq> [] \<and> list_all is_digit t \<and> - (2 ^ 63) \<le> z \<and> z < 2 ^ 63 then Some z else None)"

definition versionOf :: "(string \<Rightarrow> string) \<Rightarrow> string \<Rightarrow> int res" where
  "versionOf quote name =
     (if CHR ''_'' \<notin> set name then Inl (Msg (''invalid migration name '' @ quote name))
      else case atoi (takeWhile (\<lambda>c. c \<noteq> CHR ''_'') name) of
        None \<Rightarrow> Inl (Msg (''invalid migration version '' @ quote name))
      | Some version \<Rightarrow>
          if version < 1 then Inl (Msg (''invalid migration version '' @ quote name)) else Inr version)"

section \<open>Applying\<close>

definition baseline :: "(nat \<Rightarrow> err option) \<Rightarrow> 's Sql \<Rightarrow> ('s, unit) mig" where
  "baseline fault sql =
     mig_bind (mig_call fault (\<lambda>d. Inr (sq_has_servers sql (mg_schema d), d))) (\<lambda>existing.
       if \<not> existing then (\<lambda>d. (Inr (), d))
       else mig_bind (mig_wrap ''baseline existing schema: '' (mig_call fault (insert_version 1))) (\<lambda>_.
         mig_bind (mig_call fault (\<lambda>d. Inr (sq_has_rollups sql (mg_schema d), d))) (\<lambda>hasRollups.
           if hasRollups then mig_wrap ''baseline retention schema: '' (mig_call fault (insert_version 2))
           else (\<lambda>d. (Inr (), d)))))"

text \<open>
  The transaction of one file: begin, the source, its version, commit; the database is the one
  before unless all four succeed.
\<close>

definition apply_file :: "(nat \<Rightarrow> err option) \<Rightarrow> 's Sql \<Rightarrow> MigFile \<Rightarrow> int \<Rightarrow> ('s, unit) mig" where
  "apply_file fault sql f version d =
     (let k = mg_calls d; undone = (\<lambda>n e. (Inl e, d\<lparr>mg_calls := k + n\<rparr>)) in
      case fault k of Some e \<Rightarrow> undone 1 e
      | None \<Rightarrow> (case (case fault (k + 1) of Some e \<Rightarrow> Inl e | None \<Rightarrow> sq_run sql (mf_source f) (mg_schema d)) of
          Inl e \<Rightarrow> undone 2 (Wrap (''apply '' @ mf_name f @ '': '') e)
        | Inr s \<Rightarrow> (case (case fault (k + 2) of Some e \<Rightarrow> Inl e | None \<Rightarrow> insert_version version d) of
            Inl e \<Rightarrow> undone 3 (Wrap (''apply '' @ mf_name f @ '': '') e)
          | Inr (_, d') \<Rightarrow> (case fault (k + 3) of
              Some e \<Rightarrow> undone 4 e
            | None \<Rightarrow> (Inr (), d'\<lparr>mg_schema := s, mg_calls := k + 4\<rparr>)))))"

fun apply_files :: "(nat \<Rightarrow> err option) \<Rightarrow> 's Sql \<Rightarrow> (string \<Rightarrow> string) \<Rightarrow> MigFile list \<Rightarrow> ('s, unit) mig" where
  "apply_files fault sql quote [] d = (Inr (), d)"
| "apply_files fault sql quote (f # fs) d =
     (if mf_dir f \<or> \<not> has_suffix ''.sql'' (mf_name f) then apply_files fault sql quote fs d
      else case versionOf quote (mf_name f) of
        Inl e \<Rightarrow> (Inl e, d)
      | Inr version \<Rightarrow>
          mig_bind (mig_call fault (\<lambda>d. if int4 version then Inr (version \<in> set (applied_versions d), d)
            else Inl OutOfRange)) (\<lambda>applied.
              if applied then apply_files fault sql quote fs
              else mig_bind (apply_file fault sql f version) (\<lambda>_. apply_files fault sql quote fs)) d)"

definition ApplyMigrations ::
  "(nat \<Rightarrow> err option) \<Rightarrow> 's Sql \<Rightarrow> (string \<Rightarrow> string) \<Rightarrow> MigFile list \<Rightarrow> ('s, unit) mig" where
  "ApplyMigrations fault sql quote files =
     mig_bind (mig_wrap ''create migration table: '' (mig_call fault (\<lambda>d.
       Inr ((), d\<lparr>mg_versions := Some (applied_versions d)\<rparr>)))) (\<lambda>_.
     mig_bind (mig_call fault (\<lambda>d. Inr (length (applied_versions d), d))) (\<lambda>count.
     mig_bind (if count = 0 then baseline fault sql else (\<lambda>d. (Inr (), d))) (\<lambda>_.
       apply_files fault sql quote (sort_key mf_name files))))"

section \<open>Facts\<close>

definition wanted :: "(string \<Rightarrow> string) \<Rightarrow> MigFile list \<Rightarrow> int list" where
  "wanted quote files = concat (map (\<lambda>f. case versionOf quote (mf_name f) of Inl _ \<Rightarrow> [] | Inr v \<Rightarrow> [v])
     (filter (\<lambda>f. \<not> mf_dir f \<and> has_suffix ''.sql'' (mf_name f)) files))"

lemma mig_bind_InrE:
  assumes "mig_bind m f d = (Inr y, d')"
  obtains x d1 where "m d = (Inr x, d1)" and "f x d1 = (Inr y, d')"
  using assms by (auto simp: mig_bind_def split: prod.splits sum.splits)

lemma mig_call_InrE:
  assumes "mig_call fault q d = (Inr x, d')"
  obtains d1 where "q d = Inr (x, d1)" and "d' = d1\<lparr>mg_calls := mg_calls d + 1\<rparr>"
  using assms by (auto simp: mig_call_def split: option.splits sum.splits)

lemma applied_versions_calls [simp]: "applied_versions (d\<lparr>mg_calls := n\<rparr>) = applied_versions d"
  by (simp add: applied_versions_def)

lemma insert_version_InrE:
  assumes "insert_version v d = Inr (x, d')"
  obtains "int4 v" and "v \<notin> set (applied_versions d)" and "d' = d\<lparr>mg_versions := Some (applied_versions d @ [v])\<rparr>"
  using assms by (auto simp: insert_version_def split: if_splits)

lemma apply_file_InrE:
  assumes "apply_file fault sql f v d = (Inr x, d')"
  obtains s where "sq_run sql (mf_source f) (mg_schema d) = Inr s" and "mg_schema d' = s"
    and "v \<notin> set (applied_versions d)" and "int4 v"
    and "mg_versions d' = Some (applied_versions d @ [v])"
  using assms
  by (auto simp: apply_file_def Let_def split: option.splits sum.splits elim!: insert_version_InrE)

text \<open>A failed file leaves the schema and the versions as they were.\<close>

lemma apply_file_error:
  "apply_file fault sql f v d = (Inl e, d') \<Longrightarrow> mg_schema d' = mg_schema d \<and> mg_versions d' = mg_versions d"
  by (auto simp: apply_file_def Let_def split: option.splits sum.splits)

text \<open>A successful run has every version, keeps the old ones and records none twice.\<close>

lemma apply_files_ok:
  "apply_files fault sql quote fs d = (Inr (), d') \<Longrightarrow> distinct (applied_versions d) \<Longrightarrow>
     distinct (applied_versions d') \<and> set (applied_versions d') = set (applied_versions d) \<union> set (wanted quote fs)"
proof (induction fs arbitrary: d)
  case Nil
  then show ?case by (simp add: wanted_def)
next
  case (Cons f fs)
  show ?case
  proof (cases "mf_dir f \<or> \<not> has_suffix ''.sql'' (mf_name f)")
    case True
    with Cons show ?thesis by (auto simp: wanted_def)
  next
    case False
    with Cons.prems obtain v where v: "versionOf quote (mf_name f) = Inr v" by (auto split: sum.splits)
    from False v Cons.prems(1) obtain ap d1 where
      c: "mig_call fault (\<lambda>d. if int4 v then Inr (v \<in> set (applied_versions d), d) else Inl OutOfRange) d = (Inr ap, d1)"
      and rest: "(if ap then apply_files fault sql quote fs
          else mig_bind (apply_file fault sql f v) (\<lambda>_. apply_files fault sql quote fs)) d1 = (Inr (), d')"
      by (auto elim!: mig_bind_InrE)
    from c have ap: "ap \<longleftrightarrow> v \<in> set (applied_versions d)" and d1: "applied_versions d1 = applied_versions d"
      by (auto elim!: mig_call_InrE split: if_splits)
    have w: "set (wanted quote (f # fs)) = insert v (set (wanted quote fs))"
      using False v by (simp add: wanted_def)
    show ?thesis
    proof (cases ap)
      case True
      with Cons.IH [of d1] rest d1 Cons.prems(2) ap w show ?thesis by auto
    next
      case F: False
      with rest obtain d2 where a: "apply_file fault sql f v d1 = (Inr (), d2)"
        and b: "apply_files fault sql quote fs d2 = (Inr (), d')" by (auto elim!: mig_bind_InrE)
      from a have "mg_versions d2 = Some (applied_versions d1 @ [v])" by (rule apply_file_InrE)
      then have "applied_versions d2 = applied_versions d @ [v]" using d1 by (simp add: applied_versions_def)
      with Cons.IH [OF b] F ap Cons.prems(2) w show ?thesis by auto
    qed
  qed
qed

text \<open>With every version recorded, a run without faults changes nothing.\<close>

lemma apply_files_done:
  assumes "list_all (\<lambda>f. mf_dir f \<or> \<not> has_suffix ''.sql'' (mf_name f) \<or>
      (\<exists>v. versionOf quote (mf_name f) = Inr v \<and> int4 v \<and> v \<in> set (applied_versions d))) fs"
  shows "fst (apply_files (\<lambda>_. None) sql quote fs d) = Inr ()
    \<and> mg_schema (snd (apply_files (\<lambda>_. None) sql quote fs d)) = mg_schema d
    \<and> mg_versions (snd (apply_files (\<lambda>_. None) sql quote fs d)) = mg_versions d"
  using assms
proof (induction fs arbitrary: d)
  case (Cons f fs)
  let ?d = "d\<lparr>mg_calls := mg_calls d + 1\<rparr>"
  have "list_all (\<lambda>f. mf_dir f \<or> \<not> has_suffix ''.sql'' (mf_name f) \<or>
      (\<exists>v. versionOf quote (mf_name f) = Inr v \<and> int4 v \<and> v \<in> set (applied_versions ?d))) fs"
    using Cons.prems by simp
  note ih = Cons.IH [OF this]
  show ?case
  proof (cases "mf_dir f \<or> \<not> has_suffix ''.sql'' (mf_name f)")
    case True
    with Cons show ?thesis by simp
  next
    case False
    with Cons.prems obtain v where "versionOf quote (mf_name f) = Inr v" "int4 v" "v \<in> set (applied_versions d)"
      by auto
    with False ih show ?thesis by (simp add: mig_bind_def mig_call_def)
  qed
qed simp

end
