(* ===== verification/Main_Process.thy ===== *)
theory Main_Process imports System DiscordBot begin

text \<open>
  \<open>cmd/monitor/main.go\<close>: the choice of the role, the configuration each process reads
  from its environment (\<open>getenv\<close>; an unset variable is empty), and the processes from their
  start to their end on the database of \<open>System\<close>. \<open>Inl\<close> is \<open>log.Fatal\<close>,
  which ends the process without its deferred calls. \<open>time.ParseDuration\<close> (nanoseconds),
  \<open>url.Parse\<close>, \<open>%q\<close>, the connection pool (\<open>Pool\<close>) and discordgo are arguments.
\<close>

section \<open>Configuration\<close>

datatype Role = Api | WorkerRole | BotRole | MigrateRole

definition role_of :: "(string \<Rightarrow> string) \<Rightarrow> string list \<Rightarrow> Role res" where
  "role_of quote args =
     (let role = (case args of [] \<Rightarrow> ''api'' | [_] \<Rightarrow> ''api'' | _ # r # _ \<Rightarrow> r) in
      if role = ''api'' then Inr Api
      else if role = ''worker'' then Inr WorkerRole
      else if role = ''bot'' then Inr BotRole
      else if role = ''migrate'' then Inr MigrateRole
      else Inl (Msg (''unknown role '' @ quote role)))"

definition env_or :: "(string \<Rightarrow> string) \<Rightarrow> string \<Rightarrow> string \<Rightarrow> string" where
  "env_or getenv key fallback = (if getenv key \<noteq> [] then getenv key else fallback)"

definition requiredEnv :: "(string \<Rightarrow> string) \<Rightarrow> string \<Rightarrow> string res" where
  "requiredEnv getenv key = (if getenv key = [] then Inl (Msg (key @ '' must be set'')) else Inr (getenv key))"

definition durationEnv :: "(string \<Rightarrow> duration res) \<Rightarrow> (string \<Rightarrow> string) \<Rightarrow> string \<Rightarrow> duration \<Rightarrow> duration res" where
  "durationEnv parse getenv key fallback =
     (if getenv key = [] then Inr fallback
      else case parse (getenv key) of
        Inl e \<Rightarrow> Inl (Wrap (''invalid '' @ key @ '': '') e)
      | Inr n \<Rightarrow> Inr n)"

definition andthen :: "'a res \<Rightarrow> ('a \<Rightarrow> 'b res) \<Rightarrow> 'b res" where
  "andthen m f = (case m of Inl e \<Rightarrow> Inl e | Inr x \<Rightarrow> f x)"

record ('s, 'c) WorkerConfig =
  wc_notifier :: "('s, 'c) DiscordNotifier option"
  wc_tunnel :: AccessTunnel
  wc_client :: "Client option"
  wc_interval :: duration
  wc_timeout :: duration
  wc_retry :: duration

text \<open>\<open>worker()\<close> between \<open>store.Connect\<close> and \<open>Run\<close>.\<close>

definition worker_config ::
  "(string \<Rightarrow> duration res) \<Rightarrow> (string \<Rightarrow> (string \<times> string) res) \<Rightarrow> (string \<Rightarrow> 's res) \<Rightarrow> 'c
     \<Rightarrow> (string \<Rightarrow> string) \<Rightarrow> ('s, 'c) WorkerConfig res" where
  "worker_config parse url discordgo_New repository getenv =
     andthen (if getenv ''DISCORD_BOT_TOKEN'' \<noteq> [] then
          andthen (NewNotifier discordgo_New (getenv ''DISCORD_BOT_TOKEN'') repository) (\<lambda>n. Inr (Some n))
        else Inr None) (\<lambda>notifier.
     andthen (durationEnv parse getenv ''CLOUDFLARED_STARTUP_TIMEOUT'' 10000000000) (\<lambda>startup.
     andthen (if getenv ''VOXELLINK_API_BASE_URL'' \<noteq> [] \<and> getenv ''VOXELLINK_API_TOKEN'' \<noteq> [] then
          andthen (NewClient url (getenv ''VOXELLINK_API_BASE_URL'') (getenv ''VOXELLINK_API_TOKEN'')) (\<lambda>c. Inr (Some c))
        else Inr None) (\<lambda>client.
     andthen (durationEnv parse getenv ''MONITOR_INTERVAL'' 60000000000) (\<lambda>interval.
     andthen (durationEnv parse getenv ''STATUS_TIMEOUT'' 5000000000) (\<lambda>timeout.
     andthen (durationEnv parse getenv ''FAILURE_RETRY_INTERVAL'' 10000000000) (\<lambda>retry.
     Inr \<lparr>wc_notifier = notifier,
       wc_tunnel = NewAccessTunnel (env_or getenv ''CLOUDFLARED_BIN'' ''/usr/local/bin/cloudflared'') startup,
       wc_client = client, wc_interval = interval, wc_timeout = timeout, wc_retry = retry\<rparr>))))))"

text \<open>\<open>api()\<close> after \<open>store.Connect\<close>: the address, the importer's client, the application.\<close>

definition api_config ::
  "(string \<Rightarrow> (string \<times> string) res) \<Rightarrow> (string \<Rightarrow> string) \<Rightarrow> (string \<times> Client \<times> App) res" where
  "api_config url getenv =
     andthen (requiredEnv getenv ''VOXELLINK_API_BASE_URL'') (\<lambda>base.
     andthen (requiredEnv getenv ''VOXELLINK_API_TOKEN'') (\<lambda>token.
     andthen (NewClient url base token) (\<lambda>client.
     andthen (requiredEnv getenv ''DISCORD_CLIENT_ID'') (\<lambda>clientID.
     andthen (requiredEnv getenv ''DISCORD_CLIENT_SECRET'') (\<lambda>secret.
     andthen (requiredEnv getenv ''PUBLIC_BASE_URL'') (\<lambda>public.
     andthen (requiredEnv getenv ''SESSION_SECRET'') (\<lambda>session.
     andthen (requiredEnv getenv ''INTEGRATION_SYNC_TOKEN'') (\<lambda>sync.
     andthen (NewApp \<lparr>cf_ClientID = clientID, cf_ClientSecret = secret, cf_PublicBaseURL = public,
         cf_SessionSecret = session, cf_IntegrationToken = sync\<rparr>) (\<lambda>app.
     Inr (env_or getenv ''HTTP_ADDR'' '':8080'', client, app))))))))))"

text \<open>\<open>bot()\<close> after \<open>store.Connect\<close>.\<close>

definition bot_config ::
  "(string \<Rightarrow> 's res) \<Rightarrow> 'q \<Rightarrow> (string \<Rightarrow> string) \<Rightarrow> ('s, 'q) Bot res" where
  "bot_config discordgo_New queries getenv =
     andthen (requiredEnv getenv ''DISCORD_BOT_TOKEN'') (\<lambda>token.
     NewBot discordgo_New token queries (env_or getenv ''PUBLIC_BASE_URL'' []))"

section \<open>Processes\<close>

text \<open>The connection pool.\<close>

record 'w Pool =
  px_New :: "string \<Rightarrow> 'w \<Rightarrow> unit res \<times> 'w"
  px_Ping :: "'w \<Rightarrow> unit res \<times> 'w"
  px_Close :: "'w \<Rightarrow> 'w"

definition Connect :: "'w Pool \<Rightarrow> string \<Rightarrow> 'w \<Rightarrow> unit res \<times> 'w" where
  "Connect pool url w =
     (case px_New pool url w of
        (Inl e, w) \<Rightarrow> (Inl (Wrap ''create PostgreSQL pool: '' e), w)
      | (Inr _, w) \<Rightarrow> (case px_Ping pool w of
          (Inl e, w) \<Rightarrow> (Inl (Wrap ''ping PostgreSQL: '' e), px_Close pool w)
        | (Inr _, w) \<Rightarrow> (Inr (), w)))"

text \<open>
  \<open>repository, err := store.Connect(ctx, requiredEnv("DATABASE_URL"))\<close>, and the process with
  its configuration after it.
\<close>

definition connected ::
  "'w Pool \<Rightarrow> (string \<Rightarrow> string) \<Rightarrow> 'c res \<Rightarrow> ('c \<Rightarrow> 'w \<Rightarrow> unit res \<times> 'w) \<Rightarrow> 'w \<Rightarrow> unit res \<times> 'w" where
  "connected pool getenv config process w =
     (case requiredEnv getenv ''DATABASE_URL'' of
        Inl e \<Rightarrow> (Inl e, w)
      | Inr database \<Rightarrow> (case Connect pool database w of
          (Inl e, w) \<Rightarrow> (Inl e, w)
        | (Inr _, w) \<Rightarrow> (case config of
            Inl e \<Rightarrow> (Inl e, w)
          | Inr c \<Rightarrow> process c w)))"

text \<open>
  \<open>if err := Run(ctx); err != nil && err != context.Canceled { log.Fatal(err) }\<close>, and the
  deferred \<open>Close\<close> when it does not.
\<close>

definition finish :: "'w Pool \<Rightarrow> unit res \<times> 'w \<Rightarrow> unit res \<times> 'w" where
  "finish pool x =
     (case x of
        (Inl e, w) \<Rightarrow> (if e = Canceled then (Inr (), px_Close pool w) else (Inl e, w))
      | (Inr _, w) \<Rightarrow> (Inr (), px_Close pool w))"

text \<open>
  The worker's configuration on the database: a session is its \<open>ChannelMessageSend\<close>. A
  ticker's interval that is not positive is a panic of \<open>time.NewTicker\<close>, after the first pass.
\<close>

type_synonym discord_session = "string \<Rightarrow> string \<Rightarrow> pgworld \<Rightarrow> unit res \<times> pgworld"
type_synonym channel_ids = "string \<Rightarrow> pgworld \<Rightarrow> string list res \<times> pgworld"

definition configured_worker :: "script \<Rightarrow> (discord_session, channel_ids) WorkerConfig \<Rightarrow> pgworld Worker" where
  "configured_worker sc c =
     NewWorker (pg_repository sc) (map_option (\<lambda>n. StateChanged (dn_channels n) (dn_session n)) (wc_notifier c))
       (pg_tunnel sc (NewAccessTunnel [] (wc_timeout c))) (Some (pg_tunnel sc (wc_tunnel c)))
       (map_option (pg_sync sc) (wc_client c))"

definition worker_main ::
  "script \<Rightarrow> pgworld Pool \<Rightarrow> (string \<Rightarrow> duration res) \<Rightarrow> (string \<Rightarrow> (string \<times> string) res)
     \<Rightarrow> (string \<Rightarrow> discord_session res) \<Rightarrow> (string \<Rightarrow> string) \<Rightarrow> signal list \<Rightarrow> pgworld \<Rightarrow> unit res \<times> pgworld" where
  "worker_main sc pool parse url discordgo_New getenv signals =
     connected pool getenv
       (worker_config parse url discordgo_New (\<lambda>sid. pg_query sc (\<lambda>e. NotificationChannelIDs e sid)) getenv)
       (\<lambda>c w. let wk = configured_worker sc c in
          if wc_interval c \<le> 0 then
            (Inl (Msg ''non-positive interval for NewTicker''), startup (pg_runtime sc) wk w)
          else finish pool (Inl Canceled, Run (pg_runtime sc) wk signals w))"

text \<open>\<open>bot()\<close>.\<close>

definition bot_main ::
  "script \<Rightarrow> pgworld Pool \<Rightarrow> Platform \<Rightarrow> (string \<Rightarrow> pgworld Gateway res) \<Rightarrow> (string \<Rightarrow> string)
     \<Rightarrow> (instant \<times> Interaction) list \<Rightarrow> (instant \<times> Interaction) list \<Rightarrow> pgworld \<Rightarrow> unit res \<times> pgworld" where
  "bot_main sc pool pf discordgo_New getenv early late =
     connected pool getenv (bot_config discordgo_New (pg_queries sc) getenv)
       (\<lambda>b w. finish pool (BotRun pf b early late Canceled w))"

text \<open>
  \<open>api()\<close>: requests are served, each with what the environment gives it, until
  \<open>ListenAndServe\<close> returns its error.
\<close>

fun serve_all ::
  "'w WebRepository \<Rightarrow> (string \<Rightarrow> 'w \<Rightarrow> Server res \<times> 'w) \<Rightarrow> ('w WebPlatform \<times> HttpRequest) list \<Rightarrow> App \<times> 'w
     \<Rightarrow> App \<times> 'w" where
  "serve_all r importer [] aw = aw"
| "serve_all r importer (x # xs) aw =
     serve_all r importer xs (snd (Handler (fst x) r importer (snd x) aw))"

definition api_main ::
  "script \<Rightarrow> pgworld Pool \<Rightarrow> (string \<Rightarrow> (string \<times> string) res) \<Rightarrow> (string \<Rightarrow> string)
     \<Rightarrow> (pgworld WebPlatform \<times> HttpRequest) list \<Rightarrow> (string \<Rightarrow> err) \<Rightarrow> pgworld \<Rightarrow> unit res \<times> pgworld" where
  "api_main sc pool url getenv requests ended =
     connected pool getenv (api_config url getenv)
       (\<lambda>(address, client, app) w.
          (Inl (ended address), snd (serve_all (pg_web sc) (pg_importer sc client) requests (app, w))))"

text \<open>\<open>migrateDatabase\<close>; \<open>applied\<close> is \<open>migrate.Apply\<close> on the world of the pool.\<close>

definition migrateDatabase ::
  "'w Pool \<Rightarrow> ('w \<Rightarrow> unit res \<times> 'w) \<Rightarrow> (string \<Rightarrow> string) \<Rightarrow> 'w \<Rightarrow> unit res \<times> 'w" where
  "migrateDatabase pool applied getenv w =
     (case requiredEnv getenv ''DATABASE_URL'' of
        Inl e \<Rightarrow> (Inl e, w)
      | Inr database \<Rightarrow> (case px_New pool database w of
          (Inl e, w) \<Rightarrow> (Inl e, w)
        | (Inr _, w) \<Rightarrow> (case applied w of
            (Inl e, w) \<Rightarrow> (Inl e, w)
          | (Inr _, w) \<Rightarrow> (Inr (), px_Close pool w))))"

section \<open>The pool and the gateway on the database\<close>

definition pg_call :: "(nat \<Rightarrow> err option) \<Rightarrow> pgworld \<Rightarrow> unit res \<times> pgworld" where
  "pg_call fault w = (case fault (pw_tick w) of Some e \<Rightarrow> (Inl e, ticked w) | None \<Rightarrow> (Inr (), ticked w))"

definition pg_pool :: "(nat \<Rightarrow> err option) \<Rightarrow> pgworld Pool" where
  "pg_pool fault = \<lparr>px_New = (\<lambda>_. pg_call fault), px_Ping = pg_call fault, px_Close = ticked\<rparr>"

definition pg_gateway :: "(nat \<Rightarrow> err option) \<Rightarrow> string \<Rightarrow> pgworld Gateway" where
  "pg_gateway fault app = \<lparr>gw_Open = pg_call fault, gw_Close = ticked, gw_applicationID = (\<lambda>_. app),
     gw_Register = (\<lambda>_ _. pg_call fault), gw_Respond = (\<lambda>_ _. ticked)\<rparr>"

definition pg_discord :: "script \<Rightarrow> (string \<Rightarrow> err option) \<Rightarrow> string \<Rightarrow> discord_session res" where
  "pg_discord sc refused token = (case refused token of Some e \<Rightarrow> Inl e | None \<Rightarrow> Inr (pg_send sc))"

definition pg_session ::
  "(nat \<Rightarrow> err option) \<Rightarrow> string \<Rightarrow> (string \<Rightarrow> err option) \<Rightarrow> string \<Rightarrow> pgworld Gateway res" where
  "pg_session fault app refused token =
     (case refused token of Some e \<Rightarrow> Inl e | None \<Rightarrow> Inr (pg_gateway fault app))"

lemma pg_call_db [simp]: "pw_db (snd (pg_call fault w)) = pw_db w"
  by (simp add: pg_call_def split: option.splits)

interpretation bot_process_pg: bot_process "pg_queries sc" "\<lambda>w. db_reaches d0 (pw_db w)"
  "\<lambda>w w'. pw_db w' = pw_db w" "pg_gateway fault app" for sc d0 fault app
  by unfold_locales (simp_all add: pg_gateway_def)

section \<open>Facts\<close>

lemma andthen_InrE:
  assumes "andthen m f = Inr y"
  obtains x where "m = Inr x" and "f x = Inr y"
  using assms by (auto simp: andthen_def split: sum.splits)

lemma requiredEnv_Inr: "requiredEnv getenv key = Inr x \<longleftrightarrow> x = getenv key \<and> getenv key \<noteq> []"
  by (auto simp: requiredEnv_def)

lemma NewApp_Inr:
  "NewApp c = Inr a \<Longrightarrow> ap_config a = c \<and> 24 \<le> length (cf_SessionSecret c) \<and> 16 \<le> length (cf_IntegrationToken c)
     \<and> (\<forall>s. ap_states a s = None)"
  by (auto simp: NewApp_def not_less split: if_splits)

lemma NewClient_Inr: "NewClient url base token = Inr c \<Longrightarrow> cl_token c = token \<and> token \<noteq> [] \<and> base \<noteq> []"
  by (auto simp: NewClient_def split: if_splits sum.splits)

text \<open>What a process keeps if the pool and its body keep it.\<close>

lemma Connect_pg_db [simp]: "pw_db (snd (Connect (pg_pool fault) url w)) = pw_db w"
  by (auto simp: Connect_def pg_pool_def pg_call_def split: option.splits)

lemma finish_pg_db [simp]: "pw_db (snd (finish (pg_pool fault) x)) = pw_db (snd x)"
  by (simp add: finish_def pg_pool_def split: prod.splits sum.splits)

lemma connected_calls:
  assumes "db_reaches d0 (pw_db w)"
    and "\<And>c w. config = Inr c \<Longrightarrow> db_reaches d0 (pw_db w) \<Longrightarrow> db_reaches d0 (pw_db (snd (process c w)))"
  shows "db_reaches d0 (pw_db (snd (connected (pg_pool fault) getenv config process w)))"
proof (cases "requiredEnv getenv ''DATABASE_URL''")
  case (Inr url)
  obtain r w1 where c: "Connect (pg_pool fault) url w = (r, w1)" by (cases "Connect (pg_pool fault) url w")
  with assms(1) Connect_pg_db [of fault url w] have "db_reaches d0 (pw_db w1)" by simp
  with Inr c assms(2) show ?thesis by (cases config) (auto simp: connected_def split: sum.splits)
qed (simp add: connected_def assms(1))

text \<open>The worker that \<open>worker()\<close> configures is the one of \<open>System\<close>.\<close>

lemma configured_worker_pg:
  assumes "worker_config parse url (pg_discord sc refused) (\<lambda>sid. pg_query sc (\<lambda>e. NotificationChannelIDs e sid)) getenv = Inr c"
  shows "configured_worker sc c = pg_worker sc (wc_notifier c \<noteq> None) (wc_tunnel c) (wc_client c)"
proof -
  have "wc_notifier c = None \<or> wc_notifier c = Some \<lparr>dn_session = pg_send sc,
      dn_channels = (\<lambda>sid. pg_query sc (\<lambda>e. NotificationChannelIDs e sid))\<rparr>"
    using assms unfolding worker_config_def
    by (auto elim!: andthen_InrE simp: NewNotifier_def pg_discord_def split: if_splits option.splits sum.splits)
  then show ?thesis
    by (auto simp: configured_worker_def pg_worker_def NewWorker_def pg_notifier_def)
qed

lemma worker_main_calls:
  assumes "db_reaches d0 (pw_db w)"
  shows "db_reaches d0 (pw_db (snd (worker_main sc (pg_pool fault) parse url (pg_discord sc refused) getenv signals w)))"
  unfolding worker_main_def
proof (rule connected_calls [OF assms])
  fix c and w1 :: pgworld
  assume c: "worker_config parse url (pg_discord sc refused) (\<lambda>sid. pg_query sc (\<lambda>e. NotificationChannelIDs e sid)) getenv = Inr c"
    and w1: "db_reaches d0 (pw_db w1)"
  have "db_reaches d0 (pw_db (startup (pg_runtime sc) (configured_worker sc c) w1))"
    unfolding configured_worker_pg [OF c] by (rule worker_pg.worker_reaches_I [OF worker_reaches.start w1])
  moreover have "db_reaches d0 (pw_db (Run (pg_runtime sc) (configured_worker sc c) signals w1))"
    unfolding configured_worker_pg [OF c] by (rule worker_pg.worker_reaches_I [OF Run_reaches w1])
  ultimately show "db_reaches d0 (pw_db (snd (let wk = configured_worker sc c in
      if wc_interval c \<le> 0 then
        (Inl (Msg ''non-positive interval for NewTicker''), startup (pg_runtime sc) wk w1)
      else finish (pg_pool fault) (Inl Canceled, Run (pg_runtime sc) wk signals w1))))"
    by (simp add: Let_def)
qed

lemma bot_main_calls:
  assumes "db_reaches d0 (pw_db w)"
  shows "db_reaches d0 (pw_db (snd (bot_main sc (pg_pool fault) pf (pg_session fault app refused) getenv early late w)))"
  unfolding bot_main_def
proof (rule connected_calls [OF assms])
  fix b and w1 :: pgworld
  assume "bot_config (pg_session fault app refused) (pg_queries sc) getenv = Inr b" and w1: "db_reaches d0 (pw_db w1)"
  then have b: "bt_session b = pg_gateway fault app" "bt_queries b = pg_queries sc"
    by (auto simp: bot_config_def NewBot_def pg_session_def elim!: andthen_InrE split: sum.splits option.splits)
  show "db_reaches d0 (pw_db (snd (finish (pg_pool fault) (BotRun pf b early late Canceled w1))))"
    using bot_process_pg.BotRun_I [OF b w1] by simp
qed

lemma serve_all_calls:
  assumes "\<And>p q a w. (p, q) \<in> set xs \<Longrightarrow> db_reaches d0 (pw_db w)
      \<Longrightarrow> db_reaches d0 (pw_db (snd (snd (Handler p r importer q (a, w)))))"
    and "db_reaches d0 (pw_db w)"
  shows "db_reaches d0 (pw_db (snd (serve_all r importer xs (a, w))))"
  using assms
proof (induction xs arbitrary: a w)
  case (Cons x xs)
  obtain y a' w' where h: "Handler (fst x) r importer (snd x) (a, w) = (y, a', w')"
    by (cases "Handler (fst x) r importer (snd x) (a, w)")
  have "db_reaches d0 (pw_db w')"
    using Cons.prems(1) [of "fst x" "snd x" w a] Cons.prems(2) h by simp
  with Cons.IH [of w' a'] Cons.prems(1) h show ?case by simp
qed simp

lemma api_main_calls:
  assumes "\<And>p q. (p, q) \<in> set requests \<Longrightarrow>
      \<exists>sha mac random clock tj uj ij. p = pg_platform sc sha mac random clock tj uj ij"
    and "db_reaches d0 (pw_db w)"
  shows "db_reaches d0 (pw_db (snd (api_main sc (pg_pool fault) url getenv requests ended w)))"
  unfolding api_main_def
proof (rule connected_calls [OF assms(2)])
  fix c :: "string \<times> Client \<times> App" and w1 :: pgworld
  assume w1: "db_reaches d0 (pw_db w1)"
  obtain address client app where c: "c = (address, client, app)" by (cases c)
  have "db_reaches d0 (pw_db (snd (serve_all (pg_web sc) (pg_importer sc client) requests (app, w1))))"
  proof (rule serve_all_calls [OF _ w1])
    fix p q a and w :: pgworld assume "(p, q) \<in> set requests" and w: "db_reaches d0 (pw_db w)"
    with assms(1) obtain sha mac random clock tj uj ij where p: "p = pg_platform sc sha mac random clock tj uj ij" by blast
    show "db_reaches d0 (pw_db (snd (snd (Handler p (pg_web sc) (pg_importer sc client) q (a, w)))))"
      unfolding p by (rule web_pg.Handler_I [OF w])
  qed
  then show "db_reaches d0 (pw_db (snd ((\<lambda>(address, client, app) w.
      (Inl (ended address), snd (serve_all (pg_web sc) (pg_importer sc client) requests (app, w)))) c w1)))"
    by (simp add: c)
qed

end
