(* ===== verification/Example.thy ===== *)
theory Example imports System begin

text \<open>
  A small concrete deployment on which the properties are applied: one listed server, the
  environment of a call at a given time, the results of its probes.
\<close>

definition ex_server :: "PublicStatus \<Rightarrow> server_row" where
  "ex_server st = \<lparr>sv_id = ''s'', sv_source = ''voxellink'', sv_extid = ''x'', sv_name = ''Lobby'',
     sv_hostname = ''mc.example'', sv_port = 25565, sv_transport = ''DIRECT'', sv_status = st,
     sv_enabled = True, sv_changed_at = 0, sv_created_at = 0, sv_updated_at = 0\<rparr>"

definition ex_env :: "instant \<Rightarrow> uuid \<Rightarrow> pgenv" where
  "ex_env now fresh = \<lparr>pg_now = now, pg_uuid_in = Some, pg_fresh = fresh, pg_rank = (\<lambda>_. 0),
     pg_fault = (\<lambda>_. None)\<rparr>"

definition ex_result :: "Outcome \<Rightarrow> instant \<Rightarrow> CheckResult" where
  "ex_result x t = \<lparr>cr_Outcome = x, cr_Latency = 7000000, cr_PlayersOnline = 3, cr_PlayersMax = 20,
     cr_Detail = [], cr_At = t\<rparr>"

definition ex_db :: "PublicStatus \<Rightarrow> db" where
  "ex_db st = empty_db\<lparr>servers := [ex_server st]\<rparr>"

definition ex_checks :: "PublicStatus \<Rightarrow> Outcome list \<Rightarrow> db" where
  "ex_checks st xs = foldl (\<lambda>d x. add_check ''s'' (ex_result x (int (next_check d))) d) (ex_db st) xs"

definition ex_report :: "string \<Rightarrow> instant \<Rightarrow> UserReport" where
  "ex_report h t = \<lparr>rep_ServerID = ''s'', rep_ReporterHash = h, rep_Detail = [], rep_Type = ''LAG'', rep_At = t\<rparr>"

lemma ex_quiet [simp]: "quiet (ex_env t i)"
  by (simp add: quiet_def ex_env_def)

lemma ex_env_simps [simp]:
  "pg_now (ex_env t i) = t" "pg_uuid_in (ex_env t i) = Some" "pg_fresh (ex_env t i) = i"
  by (simp_all add: ex_env_def)

lemma ex_db_inv: "st \<noteq> Maintenance \<Longrightarrow> store_inv (ex_db st)"
  by (simp add: store_inv_def db_ok_def table_ok_defs statuses_stored_def ex_db_def empty_db_def ex_server_def
      transport_kinds_def)

end
