(* ===== verification/StatusProps.thy ===== *)
theory StatusProps imports Example begin

text \<open>
  Properties of the public status: the store follows the contract of the requirements and agrees
  with the machine of \<open>internal/incident\<close>; what \<open>RecordCheck\<close> returns and writes;
  incidents; maintenance; and the cases in which the persisted policy departs from its contract.
\<close>

section \<open>Refinement of the contract\<close>

definition ex_trace :: "(pgenv \<times> CheckResult) list" where
  "ex_trace = [(ex_env 1 ''a'', ex_result ConnectTimeout 1), (ex_env 2 ''b'', ex_result StatusTimeout 2),
     (ex_env 3 ''c'', ex_result StatusTimeout 3), (ex_env 4 ''d'', ex_result Success 4),
     (ex_env 5 ''e'', ex_result Success 5)]"

lemma ex_trace_ok: "all_ok (store_ok ''s'') (store_observe ''s'') ex_trace (ex_db Operational)"
proof -
  have eq: "store_ok ''s'' = (\<lambda>er d. quiet (fst er) \<and> (pg_uuid_in (fst er) ''s'' = Some ''s'' \<and> fits (snd er)
     \<and> pg_fresh (fst er) \<notin> set (map in_id (incidents d))
     \<and> newest d ''s'' (cr_At (snd er)) \<and> \<not> in_maintenance d (pg_now (fst er)) ''s''
     \<and> \<not> sig_Anomalous (signal_of ''s'' (cr_At (snd er)) d)))"
    by (intro ext) (simp add: store_ok_def)
  have "list_all (\<lambda>er. quiet (fst er)) ex_trace" by (simp add: ex_trace_def)
  moreover have "all_ok (\<lambda>er d. pg_uuid_in (fst er) ''s'' = Some ''s'' \<and> fits (snd er)
     \<and> pg_fresh (fst er) \<notin> set (map in_id (incidents d))
     \<and> newest d ''s'' (cr_At (snd er)) \<and> \<not> in_maintenance d (pg_now (fst er)) ''s''
     \<and> \<not> sig_Anomalous (signal_of ''s'' (cr_At (snd er)) d)) (store_observe ''s'') ex_trace (ex_db Operational)"
    by code_simp
  ultimately show ?thesis unfolding eq all_ok_conj by blast
qed

lemma ex_store_R: "store_R ''s'' (ex_db Operational) Operational []"
  by (simp add: store_R_def status_of_def find_server_def ex_db_def empty_db_def ex_server_def
      history_def latest_checks_def ids_below_def)





section \<open>One check\<close>

text \<open>
  C3. \<open>RecordCheck\<close> is all or nothing, whatever statement, cast, constraint or commit
  fails: an error leaves the whole database as it was, and a success appends exactly one row to
  \<open>checks\<close>, the one of the observation, for a server that exists.
\<close>

theorem RecordCheck_atomic:
  "case RecordCheck e sv r d of
     (Inl x, d') \<Rightarrow> d' = d
   | (Inr v, d') \<Rightarrow> \<exists>u. pg_uuid_in e (srv_ID sv) = Some u \<and> has_server d u \<and>
       checks d' = checks d @ [check_row_of (next_check d) u r]"
proof (cases "RecordCheck e sv r d")
  case (Pair res d')
  then show ?thesis
    using RecordCheck_error [of e sv r d] RecordCheck_ok_checks [of e sv r d]
    by (cases res) auto
qed

text \<open>
  C4. The whole effect of a served check outside maintenance, as one equation: the row is
  appended, the decision is the one of the reference function \<open>decide\<close> on the history that
  includes it, and a change writes the status and opens or resolves an incident as
  \<open>change_db\<close> says; without a change nothing else is written.
\<close>

theorem RecordCheck_equation:
  assumes "serves e sv u r d" and "srv_Status sv \<noteq> Maintenance"
  shows "RecordCheck e sv r d =
    (let d1 = add_check u r d; (q, c) = decide (srv_Status sv) u r d1
     in (Inr (c, q), if c then change_db e (srv_Status sv) u r q d1 else d1))"
proof (cases "decide (srv_Status sv) u r (add_check u r d)")
  case (Pair q c)
  from RecordCheck_quiet [OF assms refl Pair] Pair show ?thesis by (simp add: Let_def)
qed

definition ex_failing :: db where
  "ex_failing = ex_checks Operational [ConnectTimeout, StatusTimeout]"

lemma ex_serves:
  assumes "pg_fresh e = ''i''" and "pg_uuid_in e = Some" and "quiet e" and "sv_id s = ''s''"
  shows "serves e (read_server d t s) ''s'' (ex_result x n) (ex_checks q xs)"
proof -
  have "servers (ex_checks q xs) = [ex_server q] \<and> incidents (ex_checks q xs) = []"
    unfolding ex_checks_def
    by (induction xs rule: rev_induct) (simp_all add: ex_db_def empty_db_def add_check_def)
  moreover have "fits (ex_result x n)"
    by (simp add: fits_def ex_result_def int4_def check_latency_def go_quot_def)
  ultimately show ?thesis using assms by (simp add: serves_def has_server_def ex_server_def)
qed

theorem RecordCheck_equation_witness:
  "fst (RecordCheck (ex_env 3 ''i'') (read_server ex_failing 3 (ex_server Operational)) (ex_result ConnectTimeout 3) ex_failing)
     = Inr (True, Outage)"
proof -
  let ?sv = "read_server ex_failing 3 (ex_server Operational)"
  have s: "serves (ex_env 3 ''i'') ?sv ''s'' (ex_result ConnectTimeout 3) ex_failing"
    unfolding ex_failing_def by (rule ex_serves) (simp_all add: ex_server_def)
  have m: "srv_Status ?sv \<noteq> Maintenance" by code_simp
  have "decide (srv_Status ?sv) ''s'' (ex_result ConnectTimeout 3)
      (add_check ''s'' (ex_result ConnectTimeout 3) ex_failing) = (Outage, True)" by code_simp
  then show ?thesis using RecordCheck_equation [OF s m] by (simp add: Let_def)
qed

section \<open>Incidents\<close>

lemma sql_min_Min: "xs \<noteq> [] \<Longrightarrow> sql_min xs = Some (Min (set xs))"
  by (cases xs) (simp, simp only: sql_min.simps Min.set_eq_fold)

lemma take_filter_prefix: "\<forall>x \<in> set (take n xs). P x \<Longrightarrow> take n (filter P xs) = take n xs"
proof (induction xs arbitrary: n)
  case (Cons x xs)
  then show ?case by (cases n) auto
qed simp

lemma last_all_history:
  "last_all n P (history d u) \<Longrightarrow> n \<le> length (latest_checks d u) \<and> (\<forall>c \<in> set (take n (latest_checks d u)). P (ck_outcome c))"
proof -
  assume "last_all n P (history d u)"
  then have "length (filter P (take n (history d u))) = n" by (simp only: last_all_def)
  from length_filter_take_all [OF this] show ?thesis
    unfolding history_def take_map length_map set_map ball_simps by blast
qed

lemma first_failure_Min:
  assumes "last_all 3 is_failure (history d u)"
  shows "first_failure d u t = Min (ck_at ` set (take 3 (latest_checks d u)))"
proof -
  note l = last_all_history [OF assms]
  then have "take 3 (latest_failures d u) = take 3 (latest_checks d u)"
    unfolding latest_failures_filter by (intro take_filter_prefix) simp
  moreover have "take 3 (latest_checks d u) \<noteq> []" using l by auto
  ultimately show ?thesis
    using sql_min_Min [of "map ck_at (take 3 (latest_checks d u))"] by (simp add: first_failure_def)
qed

lemma first_success_Min:
  assumes "last_all 2 (\<lambda>y. y = Success) (history d u)"
  shows "first_success d u t = Min (ck_at ` set (take 2 (latest_checks d u)))"
proof -
  note l = last_all_history [OF assms]
  then have "take 2 (latest_successes d u) = take 2 (latest_checks d u)"
    unfolding latest_successes_filter by (intro take_filter_prefix) simp
  moreover have "take 2 (latest_checks d u) \<noteq> []" using l by auto
  ultimately show ?thesis
    using sql_min_Min [of "map ck_at (take 2 (latest_checks d u))"] by (simp add: first_success_def)
qed

lemma RecordCheck_decides:
  assumes "serves e sv u r d" and "srv_Status sv \<noteq> Maintenance"
    and "RecordCheck e sv r d = (Inr (True, q), d')"
  shows "decide (srv_Status sv) u r (add_check u r d) = (q, True)
    \<and> d' = change_db e (srv_Status sv) u r q (add_check u r d)"
proof (cases "decide (srv_Status sv) u r (add_check u r d)")
  case (Pair q' c)
  from RecordCheck_quiet [OF assms(1,2) refl Pair] assms(3) Pair show ?thesis by (auto split: if_splits)
qed

text \<open>
  C5. A check that changes the status to \<open>OUTAGE\<close> is the third failure in a row, and it
  opens exactly one incident of the server: its start is the earliest time of these three
  failures, its confirmation the time of the check, its reason the check's outcome; no other
  incident is touched.
\<close>

theorem outage_opens_incident:
  assumes "serves e sv u r d" and "srv_Status sv \<noteq> Maintenance"
    and "RecordCheck e sv r d = (Inr (True, Outage), d')"
  shows "last_all 3 is_failure (history d' u) \<and> status_of d' u = Some Outage \<and>
    incidents d' = incidents d @ [\<lparr>in_id = pg_fresh e, in_server = u, in_state = OPEN,
      in_reason = cr_Outcome r, in_started = Min (ck_at ` set (take 3 (latest_checks d' u))),
      in_confirmed = cr_At r, in_recovery = None, in_resolved = None\<rparr>]"
proof -
  let ?d1 = "add_check u r d"
  from RecordCheck_decides [OF assms] have dc: "decide (srv_Status sv) u r ?d1 = (Outage, True)"
    and d': "d' = change_db e (srv_Status sv) u r Outage ?d1" by simp_all
  from dc have l3: "last_all 3 is_failure (history ?d1 u)"
    by (auto simp: decide_def policy_after_def split: if_splits)
  have lc: "latest_checks d' u = latest_checks ?d1 u" by (simp add: d' row_simps)
  have "has_server ?d1 u" using assms(1) by (simp add: serves_def row_simps)
  then have st: "status_of d' u = Some Outage" by (simp add: d' change_db_status)
  have "incidents d' = incidents d @ [\<lparr>in_id = pg_fresh e, in_server = u, in_state = OPEN,
      in_reason = cr_Outcome r, in_started = first_failure ?d1 u (cr_At r),
      in_confirmed = cr_At r, in_recovery = None, in_resolved = None\<rparr>]"
    by (simp add: d' change_db_def Let_def open_incident_def row_simps)
  with l3 lc st first_failure_Min [OF l3] show ?thesis by (simp add: history_def)
qed

theorem outage_opens_incident_witness:
  "in_started (last (incidents (snd (RecordCheck (ex_env 3 ''i'') (read_server ex_failing 3 (ex_server Operational))
     (ex_result ConnectTimeout 3) ex_failing)))) = 1"
proof -
  let ?e = "ex_env 3 ''i''" and ?sv = "read_server ex_failing 3 (ex_server Operational)"
  let ?d' = "snd (RecordCheck ?e ?sv (ex_result ConnectTimeout 3) ex_failing)"
  have s: "serves ?e ?sv ''s'' (ex_result ConnectTimeout 3) ex_failing"
    unfolding ex_failing_def by (rule ex_serves) (simp_all add: ex_server_def)
  have m: "srv_Status ?sv \<noteq> Maintenance" by code_simp
  have "fst (RecordCheck ?e ?sv (ex_result ConnectTimeout 3) ex_failing) = Inr (True, Outage)" by code_simp
  then have "RecordCheck ?e ?sv (ex_result ConnectTimeout 3) ex_failing = (Inr (True, Outage), ?d')"
    by (simp add: prod_eq_iff)
  from outage_opens_incident [OF s m this]
  have "in_started (last (incidents ?d')) = Min (ck_at ` set (take 3 (latest_checks ?d' ''s'')))" by simp
  also have "\<dots> = 1" by code_simp
  finally show ?thesis .
qed

text \<open>
  C6. A check that takes a server from \<open>OUTAGE\<close> to \<open>OPERATIONAL\<close> is the second
  success in a row; it resolves the server's open incident with the latest start, with the
  earlier of the two successes as the recovery's start, and leaves every other incident as it was.
\<close>

theorem recovery_resolves_incident:
  assumes "serves e sv u r d" and "srv_Status sv = Outage"
    and "RecordCheck e sv r d = (Inr (True, Operational), d')"
  shows "last_all 2 (\<lambda>y. y = Success) (history d' u) \<and> status_of d' u = Some Operational \<and>
    incidents d' = map (\<lambda>i. if Some (in_id i) = latest_open d u
       then i\<lparr>in_state := RESOLVED, in_recovery := Some (Min (ck_at ` set (take 2 (latest_checks d' u)))),
         in_resolved := Some (cr_At r)\<rparr> else i) (incidents d)"
proof -
  let ?d1 = "add_check u r d"
  have "srv_Status sv \<noteq> Maintenance" using assms(2) by simp
  from RecordCheck_decides [OF assms(1) this assms(3)]
  have dc: "decide Outage u r ?d1 = (Operational, True)"
    and d': "d' = change_db e Outage u r Operational ?d1" using assms(2) by simp_all
  from dc have l2: "last_all 2 (\<lambda>y. y = Success) (history ?d1 u)"
    by (auto simp: decide_def policy_after_def split: if_splits)
  have lc: "latest_checks d' u = latest_checks ?d1 u" by (simp add: d' row_simps)
  have "has_server ?d1 u" using assms(1) by (simp add: serves_def row_simps)
  then have st: "status_of d' u = Some Operational" by (simp add: d' change_db_status)
  have lo: "latest_open (set_status u q t n ?d1) u = latest_open d u" for q t n
    by (simp add: latest_open_def row_simps)
  have "incidents d' = map (\<lambda>i. if Some (in_id i) = latest_open d u
       then i\<lparr>in_state := RESOLVED, in_recovery := Some (first_success ?d1 u (cr_At r)),
         in_resolved := Some (cr_At r)\<rparr> else i) (incidents d)"
    unfolding d' change_db_def Let_def resolve_incident_def lo by (simp add: row_simps)
  with l2 lc st first_success_Min [OF l2] show ?thesis by (simp add: history_def)
qed

definition ex_recovering :: db where
  "ex_recovering = open_incident ''o'' ''s'' ConnectTimeout 1 3
     (ex_checks Outage [ConnectTimeout, ConnectTimeout, ConnectTimeout, Success])"

lemma ex_serves_open:
  assumes "pg_fresh e = ''i''" and "pg_uuid_in e = Some" and "quiet e" and "sv_id s = ''s''"
  shows "serves e (read_server d t s) ''s'' (ex_result x n) (open_incident ''o'' ''s'' y a b (ex_checks q xs))"
  using ex_serves [OF assms, of d t x n q xs]
  by (simp add: serves_def row_simps) (simp add: open_incident_def assms)

theorem recovery_resolves_incident_witness:
  "map in_recovery (incidents (snd (RecordCheck (ex_env 5 ''i'') (read_server ex_recovering 5 (ex_server Outage))
     (ex_result Success 5) ex_recovering))) = [Some 4]"
proof -
  let ?e = "ex_env 5 ''i''" and ?sv = "read_server ex_recovering 5 (ex_server Outage)"
  let ?d' = "snd (RecordCheck ?e ?sv (ex_result Success 5) ex_recovering)"
  have s: "serves ?e ?sv ''s'' (ex_result Success 5) ex_recovering"
    unfolding ex_recovering_def by (rule ex_serves_open) (simp_all add: ex_server_def)
  have m: "srv_Status ?sv = Outage" by code_simp
  have "fst (RecordCheck ?e ?sv (ex_result Success 5) ex_recovering) = Inr (True, Operational)" by code_simp
  then have r: "RecordCheck ?e ?sv (ex_result Success 5) ex_recovering = (Inr (True, Operational), ?d')"
    by (simp add: prod_eq_iff)
  have "map in_recovery (incidents ?d') = map in_recovery (map (\<lambda>i. if Some (in_id i) = latest_open ex_recovering ''s''
       then i\<lparr>in_state := RESOLVED, in_recovery := Some (Min (ck_at ` set (take 2 (latest_checks ?d' ''s'')))),
         in_resolved := Some (cr_At (ex_result Success 5))\<rparr> else i) (incidents ex_recovering))"
    using recovery_resolves_incident [OF s m r] by simp
  also have "\<dots> = [Some 4]" by code_simp
  finally show ?thesis .
qed

section \<open>Maintenance\<close>

text \<open>
  C7. A check of a server in its maintenance window never changes the public status or an
  incident and never asks for a notification, whatever fails: it reports
  \<open>(false, MAINTENANCE)\<close> and appends its row, or it fails and writes nothing.
\<close>

theorem maintenance_only_appends:
  assumes "srv_Status sv = Maintenance"
  shows "case RecordCheck e sv r d of
     (Inl x, d') \<Rightarrow> d' = d
   | (Inr v, d') \<Rightarrow> v = (False, Maintenance) \<and> (\<exists>u. d' = add_check u r d)"
proof (cases "RecordCheck e sv r d")
  case (Pair res d')
  show ?thesis
  proof (cases res)
    case Inl
    with Pair RecordCheck_error [of e sv r d] show ?thesis by simp
  next
    case (Inr v)
    with Pair obtain s where "RecordCheck_tx e sv r \<lparr>tx_db = d, tx_aborted = False\<rparr> = (Inr v, s)" "tx_db s = d'"
      unfolding RecordCheck_def by (blast dest: transact_ok)
    then have "v = (False, Maintenance) \<and> (\<exists>u. d' = add_check u r d)"
      using assms unfolding RecordCheck_tx_def
      by (auto elim!: tx_bind_InrE statement_InrE insert_check_InrE dest!: tx_wrap_InrE
          simp: tx_return_def intro!: exI)
    with Pair Inr show ?thesis by simp
  qed
qed

theorem maintenance_only_appends_witness:
  "snd (RecordCheck (ex_env 3 ''i'') (to_Server Maintenance (ex_server Operational)) (ex_result ConnectTimeout 3) ex_failing)
     \<in> {d'. incidents d' = [] \<and> status_of d' ''s'' = Some Operational}"
proof -
  let ?sv = "to_Server Maintenance (ex_server Operational)"
  have "srv_Status ?sv = Maintenance" by simp
  from maintenance_only_appends [OF this, where e = "ex_env 3 ''i''" and r = "ex_result ConnectTimeout 3"
      and d = ex_failing]
  have "snd (RecordCheck (ex_env 3 ''i'') ?sv (ex_result ConnectTimeout 3) ex_failing) = ex_failing
      \<or> (\<exists>u. snd (RecordCheck (ex_env 3 ''i'') ?sv (ex_result ConnectTimeout 3) ex_failing)
            = add_check u (ex_result ConnectTimeout 3) ex_failing)"
    by (auto split: prod.splits sum.splits)
  moreover have "incidents ex_failing = []" "status_of ex_failing ''s'' = Some Operational" by code_simp+
  ultimately show ?thesis by (auto simp: row_simps)
qed

end
