(* ===== verification/Departures.thy ===== *)
theory Departures imports StatusProps begin

text \<open>
  Where the persisted policy departs from the contract of \<open>docs/v1-requirements.md\<close>, as
  theorems of the modelled code: a pass of the worker never confirms an outage or a recovery by
  its own retries, a crowd signal ends an outage after one success and leaves its incident open,
  and a probe error during an outage loses the incident.
\<close>

section \<open>A pass of the worker\<close>

definition probed :: "script \<Rightarrow> Server \<Rightarrow> nat \<Rightarrow> CheckResult" where
  "probed sc sv n = fst (the (PingJava (sc_json sc) (sc_net sc n) (srv_Hostname sv) (srv_Port sv)))"

text \<open>Attempt \<open>n\<close> starts at tick \<open>k\<close>: the probe, the record, the sleep.\<close>

lemma check_loop_direct:
  assumes dir: "srv_Transport sv = ''DIRECT''"
    and rec: "RecordCheck (sc_env sc (Suc (pw_tick w))) sv (probed sc sv (pw_tick w)) (pw_db w) = (Inr (False, st), d)"
    and st: "st \<noteq> Maintenance" and n: "n < 3"
  shows "pw_db (check_loop (pg_runtime sc) (pg_worker sc False t c) n sv w) =
    (let x = cr_Outcome (probed sc sv (pw_tick w)) in
     if x = ProbeError \<or> (x = Success \<and> (srv_Status sv \<noteq> Outage \<or> n = 1)) \<or> n = 2
        \<or> \<not> sc_sleep sc (pw_tick w + 2) then d
     else pw_db (check_loop (pg_runtime sc) (pg_worker sc False t c) (n + 1) (sv\<lparr>srv_Status := st\<rparr>)
       (w\<lparr>pw_db := d, pw_tick := pw_tick w + 3\<rparr>)))"
proof -
  have p: "probe (pg_runtime sc) (pg_worker sc False t c) sv w = (probed sc sv (pw_tick w), ticked w)"
    using dir by (simp add: probe_def pg_runtime_def pg_ping_def probed_def)
  have r: "rp_RecordCheck (wk_repository (pg_worker sc False t c)) sv (probed sc sv (pw_tick w)) (ticked w)
      = (Inr (False, st), ticked (ticked w\<lparr>pw_db := d\<rparr>))"
    using rec by (simp add: pg_worker_def NewWorker_def pg_repository_def pg_op_def ticked_def)
  have s: "rt_sleep (pg_runtime sc) (ticked (ticked w\<lparr>pw_db := d\<rparr>))
      = (sc_sleep sc (pw_tick w + 2), w\<lparr>pw_db := d, pw_tick := pw_tick w + 3\<rparr>)"
    by (simp add: pg_runtime_def ticked_def eval_nat_numeral)
  have e: "pw_db (ticked (ticked w\<lparr>pw_db := d\<rparr>)) = d" by (simp add: ticked_def)
  show ?thesis
    using n st by (subst check_loop.simps) (auto simp add: p r s e Let_def)
qed

text \<open>What each attempt needs: a served statement, no maintenance, no crowd signal.\<close>

definition attempt_ok :: "pgenv \<Rightarrow> uuid \<Rightarrow> CheckResult \<Rightarrow> db \<Rightarrow> bool" where
  "attempt_ok e u r d \<longleftrightarrow> quiet e \<and> pg_uuid_in e u = Some u \<and> fits r \<and> has_server d u
     \<and> pg_fresh e \<notin> set (map in_id (incidents d))
     \<and> \<not> sig_Anomalous (signal_of u (cr_At r) d)"

lemma attempt_ok_add: "attempt_ok e u r (add_check v r' d) = attempt_ok e u r d"
  using signal_of_cong [of d "add_check v r' d" u "cr_At r"] by (simp add: attempt_ok_def row_simps)

lemma attempt_unchanged:
  assumes "attempt_ok e u r d" and "srv_ID sv = u" and "srv_Status sv \<noteq> Maintenance"
    and "policy_after (srv_Status sv) (cr_Outcome r) (history (add_check u r d) u) = (q, False)"
  shows "RecordCheck e sv r d = (Inr (False, q), add_check u r d)"
proof -
  have s: "serves e sv u r d" using assms by (simp add: serves_def attempt_ok_def)
  have "decide (srv_Status sv) u r (add_check u r d) = (q, False)"
    using assms signal_of_cong [of d "add_check u r d" u "cr_At r"]
    by (simp add: decide_def attempt_ok_def row_simps)
  from RecordCheck_quiet [OF s assms(3) refl this] show ?thesis by simp
qed


text \<open>A deployment whose dials all fail, or all answer, at the time of their tick.\<close>

definition ex_conn :: "bool \<Rightarrow> nat \<Rightarrow> Conn" where
  "ex_conn up n = \<lparr>cn_dial = (if up then None else Some ''i/o timeout''), cn_write1 = None,
     cn_write2 = None, cn_in = status_response [123, 125], cn_end = ''EOF'', cn_start = int n, cn_elapsed = 7000000\<rparr>"

definition ex_script :: "bool \<Rightarrow> script" where
  "ex_script up = \<lparr>sc_env = (\<lambda>n. ex_env (int n) ''i''), sc_net = (\<lambda>n _. ex_conn up n),
     sc_json = (\<lambda>_. Inr (3, 20)), sc_tunnel = (\<lambda>_. \<lparr>tr_listen = Inl Canceled, tr_start = None, tr_rounds = [], tr_now = 0\<rparr>),
     sc_send = (\<lambda>_. None), sc_sleep = (\<lambda>_. True), sc_clock = int, sc_malformed = (\<lambda>_. None),
     sc_http = (\<lambda>_ _. Inl Canceled), sc_payload = (\<lambda>_. Inl Canceled), sc_quote = (\<lambda>s. s)\<rparr>"

definition ex_world :: "db \<Rightarrow> pgworld" where
  "ex_world d = \<lparr>pw_db = d, pw_tick = 10, pw_sent = []\<rparr>"

definition ex_sv :: "PublicStatus \<Rightarrow> Server" where
  "ex_sv q = to_Server q (ex_server q)"

lemma ex_attempt_ok:
  "attempt_ok (sc_env (ex_script up) n) ''s'' (ex_result x t) (ex_checks q xs)"
  "fits (r :: CheckResult) \<Longrightarrow> attempt_ok (sc_env (ex_script up) n) ''s'' r (ex_checks q xs)"
proof -
  have d: "servers (ex_checks q xs) = [ex_server q] \<and> incidents (ex_checks q xs) = [] \<and> reports (ex_checks q xs) = []"
    unfolding ex_checks_def
    by (induction xs rule: rev_induct) (simp_all add: ex_db_def empty_db_def add_check_def)
  have "\<not> sig_Anomalous (signal_of ''s'' t (ex_checks q xs))" for t
    using d by (intro no_reports_not_anomalous) simp
  then show "fits (r :: CheckResult) \<Longrightarrow> attempt_ok (sc_env (ex_script up) n) ''s'' r (ex_checks q xs)" for r
    using d by (simp add: attempt_ok_def ex_script_def has_server_def ex_server_def)
  then show "attempt_ok (sc_env (ex_script up) n) ''s'' (ex_result x t) (ex_checks q xs)"
    by (simp add: fits_def ex_result_def int4_def check_latency_def go_quot_def)
qed



lemma ex_probed_up: "probed (ex_script True) (ex_sv q) n = ex_result Success (int n)"
proof -
  have "read_response (\<lambda>_. Inr (3, 20)) (int n) 7000000 \<lparr>rd_bytes = status_response [123, 125], rd_err = Fault ''EOF''\<rparr>
      = \<lparr>cr_Outcome = Success, cr_Latency = 7000000, cr_PlayersOnline = 3, cr_PlayersMax = 20, cr_Detail = [], cr_At = int n\<rparr>"
    by (rule read_response_answers [where body = "[123, 125]" and rest = "[]"]) simp_all
  then show ?thesis
    by (simp add: probed_def PingJava_def PingJavaEndpoint_def handshake_eq ex_script_def ex_conn_def
        ex_sv_def to_Server_def ex_server_def ex_result_def Let_def)
qed


section \<open>Signals and probe errors during an outage\<close>

text \<open>
  C13. While a server is in \<open>OUTAGE\<close>, one successful check is enough to publish
  \<open>DEGRADED\<close> when the crowd signal is anomalous, whatever the checks before it were, and
  the incident of the outage is not resolved by it. (The domain's comment says a crowd signal
  never overrides a confirmed outage.)
\<close>

theorem crowd_signal_ends_outage:
  assumes "serves e sv u r d" and "srv_Status sv = Outage" and "cr_Outcome r = Success"
    and "sig_Anomalous (signal_of u (cr_At r) d)"
  shows "fst (RecordCheck e sv r d) = Inr (True, Degraded)
    \<and> status_of (snd (RecordCheck e sv r d)) u = Some Degraded
    \<and> incidents (snd (RecordCheck e sv r d)) = incidents d"
proof -
  have "decide Outage u r (add_check u r d) = (Degraded, True)"
    using assms(3,4) signal_of_cong [of d "add_check u r d" u "cr_At r"] by (simp add: decide_def row_simps)
  then have "RecordCheck e sv r d = (Inr (True, Degraded), change_db e Outage u r Degraded (add_check u r d))"
    using RecordCheck_quiet [OF assms(1) _ refl, of Degraded True] assms(2) by simp
  moreover have "has_server (add_check u r d) u" using assms(1) by (simp add: serves_def row_simps)
  ultimately show ?thesis by (simp add: change_db_status) (simp add: change_db_def Let_def row_simps)
qed

definition ex_crowded :: db where
  "ex_crowded = foldl (\<lambda>d h. add_report ''s'' h (ex_report h 1000) d)
     (open_incident ''o'' ''s'' ConnectTimeout 1 3 (ex_checks Outage [ConnectTimeout, ConnectTimeout, ConnectTimeout]))
     [''a'', ''b'', ''c'']"

theorem crowd_signal_ends_outage_witness:
  "status_of (snd (RecordCheck (ex_env 2000 ''i'') (ex_sv Outage) (ex_result Success 2000) ex_crowded)) ''s'' = Some Degraded
   \<and> map in_state (incidents (snd (RecordCheck (ex_env 2000 ''i'') (ex_sv Outage) (ex_result Success 2000) ex_crowded))) = [OPEN]"
proof -
  have "serves (ex_env 2000 ''i'') (ex_sv Outage) ''s'' (ex_result Success 2000) ex_crowded"
  proof -
    have "has_server ex_crowded ''s''" "fits (ex_result Success 2000)" "''i'' \<notin> set (map in_id (incidents ex_crowded))"
      by code_simp+
    then show ?thesis by (simp add: serves_def ex_sv_def to_Server_def ex_server_def)
  qed
  moreover have "srv_Status (ex_sv Outage) = Outage" by (simp add: ex_sv_def)
  moreover have "cr_Outcome (ex_result Success 2000) = Success" by (simp add: ex_result_def)
  moreover have "sig_Anomalous (signal_of ''s'' (cr_At (ex_result Success 2000)) ex_crowded)" by code_simp
  ultimately have "fst (RecordCheck (ex_env 2000 ''i'') (ex_sv Outage) (ex_result Success 2000) ex_crowded) = Inr (True, Degraded)
    \<and> status_of (snd (RecordCheck (ex_env 2000 ''i'') (ex_sv Outage) (ex_result Success 2000) ex_crowded)) ''s'' = Some Degraded
    \<and> incidents (snd (RecordCheck (ex_env 2000 ''i'') (ex_sv Outage) (ex_result Success 2000) ex_crowded)) = incidents ex_crowded"
    by (rule crowd_signal_ends_outage)
  moreover have "map in_state (incidents ex_crowded) = [OPEN]" by code_simp
  ultimately show ?thesis by simp
qed

text \<open>
  C14. A failure of the monitor's own probe during an outage loses the outage's incident: the
  status becomes \<open>UNKNOWN\<close>, and the next successful check publishes
  \<open>OPERATIONAL\<close> at once, without a second confirmation and without resolving any
  incident.
\<close>

theorem probe_error_loses_incident:
  assumes "serves e1 sv1 u r1 d" and "srv_Status sv1 = Outage" and "cr_Outcome r1 = ProbeError"
    and "d1 = snd (RecordCheck e1 sv1 r1 d)"
    and "serves e2 sv2 u r2 d1" and "srv_Status sv2 = Unknown" and "cr_Outcome r2 = Success"
    and "\<not> sig_Anomalous (signal_of u (cr_At r2) d1)"
  shows "status_of d1 u = Some Unknown \<and> incidents d1 = incidents d
    \<and> fst (RecordCheck e2 sv2 r2 d1) = Inr (True, Operational)
    \<and> status_of (snd (RecordCheck e2 sv2 r2 d1)) u = Some Operational
    \<and> incidents (snd (RecordCheck e2 sv2 r2 d1)) = incidents d"
proof -
  have "decide Outage u r1 (add_check u r1 d) = (Unknown, True)"
    using assms(3) by (simp add: decide_def policy_after_def)
  then have d1: "d1 = change_db e1 Outage u r1 Unknown (add_check u r1 d)"
    using RecordCheck_quiet [OF assms(1) _ refl, of Unknown True] assms(2,4) by simp
  have h1: "has_server (add_check u r1 d) u" using assms(1) by (simp add: serves_def row_simps)
  have s1: "status_of d1 u = Some Unknown" using h1 by (simp add: d1 change_db_status)
  have i1: "incidents d1 = incidents d" by (simp add: d1 change_db_def Let_def row_simps)
  have "decide Unknown u r2 (add_check u r2 d1) = (Operational, True)"
    using assms(7,8) signal_of_cong [of d1 "add_check u r2 d1" u "cr_At r2"]
    by (simp add: decide_def policy_after_def row_simps)
  then have rc: "RecordCheck e2 sv2 r2 d1 = (Inr (True, Operational), change_db e2 Unknown u r2 Operational (add_check u r2 d1))"
    using RecordCheck_quiet [OF assms(5) _ refl, of Operational True] assms(6) by simp
  have h2: "has_server (add_check u r2 d1) u" using assms(5) by (simp add: serves_def row_simps)
  have "status_of (snd (RecordCheck e2 sv2 r2 d1)) u = Some Operational"
    using rc h2 by (simp add: change_db_status)
  moreover have "incidents (snd (RecordCheck e2 sv2 r2 d1)) = incidents d"
    using rc i1 by (simp add: change_db_def Let_def row_simps)
  ultimately show ?thesis using s1 i1 rc by simp
qed

definition ex_out :: db where
  "ex_out = open_incident ''o'' ''s'' ConnectTimeout 1 3 (ex_checks Outage [ConnectTimeout, ConnectTimeout, ConnectTimeout])"

theorem probe_error_loses_incident_witness:
  "let d1 = snd (RecordCheck (ex_env 4 ''i'') (ex_sv Outage) (ex_result ProbeError 4) ex_out);
       d2 = snd (RecordCheck (ex_env 5 ''i'') (ex_sv Unknown) (ex_result Success 5) d1)
   in status_of d2 ''s'' = Some Operational \<and> incidents d2 = incidents ex_out"
proof -
  let ?d1 = "snd (RecordCheck (ex_env 4 ''i'') (ex_sv Outage) (ex_result ProbeError 4) ex_out)"
  have "has_server ex_out ''s''" "fits (ex_result ProbeError 4)" "''i'' \<notin> set (map in_id (incidents ex_out))"
    by code_simp+
  then have s1: "serves (ex_env 4 ''i'') (ex_sv Outage) ''s'' (ex_result ProbeError 4) ex_out"
    by (simp add: serves_def ex_sv_def to_Server_def ex_server_def)
  have "has_server ?d1 ''s''" "fits (ex_result Success 5)" "''i'' \<notin> set (map in_id (incidents ?d1))"
    by code_simp+
  then have s2: "serves (ex_env 5 ''i'') (ex_sv Unknown) ''s'' (ex_result Success 5) ?d1"
    by (simp add: serves_def ex_sv_def to_Server_def ex_server_def)
  have sg: "\<not> sig_Anomalous (signal_of ''s'' (cr_At (ex_result Success 5)) ?d1)" by code_simp
  show ?thesis
    using probe_error_loses_incident [OF s1 _ _ refl s2 _ _ sg]
    by (simp add: Let_def ex_sv_def ex_result_def)
qed

end
