(* ===== verification/SystemProps.thy ===== *)
theory SystemProps imports Departures Delivery Main_Process begin

text \<open>
  Properties of the running system: what every order of calls of the four processes keeps of the
  database, what the worker's main loop keeps, how incidents evolve, what a synchronisation may
  touch, and when a queued notification counts as delivered.
\<close>

section \<open>Incidents over time\<close>

text \<open>An incident keeps its identity; an open one may become resolved, a resolved one is final.\<close>

definition incident_evolves :: "incident_row \<Rightarrow> incident_row \<Rightarrow> bool" where
  "incident_evolves i j \<longleftrightarrow> in_id j = in_id i \<and> in_server j = in_server i \<and> in_reason j = in_reason i
     \<and> in_started j = in_started i \<and> in_confirmed j = in_confirmed i
     \<and> (j = i \<or> in_state i = OPEN \<and> in_state j = RESOLVED)"

definition ledger :: "db \<Rightarrow> db \<Rightarrow> bool" where
  "ledger d d' \<longleftrightarrow> length (incidents d) \<le> length (incidents d') \<and>
     (\<forall>k < length (incidents d). incident_evolves (incidents d ! k) (incidents d' ! k))"

lemma incident_evolves_trans: "incident_evolves i j \<Longrightarrow> incident_evolves j k \<Longrightarrow> incident_evolves i k"
  by (auto simp: incident_evolves_def)

lemma ledger_same: "incidents d' = incidents d \<Longrightarrow> ledger d d'"
  by (simp add: ledger_def incident_evolves_def)

lemma ledger_trans: "ledger a b \<Longrightarrow> ledger b c \<Longrightarrow> ledger a c"
  unfolding ledger_def by (meson incident_evolves_trans less_le_trans le_trans)

lemma ledger_cong: "ledger a b \<Longrightarrow> incidents c = incidents b \<Longrightarrow> ledger a c"
  by (simp add: ledger_def)

lemma latest_open_OPEN:
  "latest_open d u = Some x \<Longrightarrow> \<exists>i \<in> set (incidents d). in_id i = x \<and> in_server i = u \<and> in_state i = OPEN"
proof -
  let ?xs = "sort_key (\<lambda>i. - in_started i) (filter (\<lambda>i. in_server i = u \<and> in_state i = OPEN) (incidents d))"
  assume "latest_open d u = Some x"
  then obtain i rest where "?xs = i # rest" and x: "x = in_id i" by (auto simp: latest_open_def split: list.splits)
  then have "i \<in> set ?xs" by simp
  with x show ?thesis by auto
qed

lemma ledger_open: "ledger d (open_incident i u x a b d)"
  by (simp add: ledger_def open_incident_def incident_evolves_def nth_append)

lemma ledger_resolve:
  assumes "db_ok d" shows "ledger d (resolve_incident u a b d)"
proof -
  have "distinct (map in_id (incidents d))" using assms by (simp add: db_ok_def incidents_ok_def)
  then have "in_state i = OPEN" if "i \<in> set (incidents d)" "Some (in_id i) = latest_open d u" for i
    using that latest_open_OPEN [of d u "in_id i"] by (auto simp: distinct_map dest: inj_onD)
  then show ?thesis by (auto simp: ledger_def resolve_incident_def incident_evolves_def)
qed

lemma RecordCheck_ledger:
  assumes "db_ok d" shows "ledger d (snd (RecordCheck e sv r d))"
proof -
  have "ledger d (snd (RecordCheck e sv r d)) \<and> db_ok (snd (RecordCheck e sv r d))"
  proof (rule RecordCheck_keeps)
    show "tx_keeps (\<lambda>d'. ledger d d' \<and> db_ok d') (record_change e sv r q)" for q
      by (rule record_change_keeps)
        (auto simp: set_status_db_ok resolve_incident_db_ok row_simps
          intro: ledger_cong open_incident_db_ok ledger_trans [OF _ ledger_open] ledger_trans [OF _ ledger_resolve])
  qed (auto simp: assms ledger_same row_simps intro: ledger_cong add_check_db_ok)
  then show ?thesis ..
qed

lemma setting_incidents:
  assumes "\<And>n d'. q d = Inr (n, d') \<Longrightarrow> incidents d' = incidents d"
  shows "incidents (snd (one_row (exec_pool e q d))) = incidents d"
  using setting_keeps [of q d "\<lambda>d'. incidents d' = incidents d" e] assms by simp

lemma settings_incidents:
  "incidents (snd (SetEnabledForDiscordMember e sid u flag d)) = incidents d"
  "incidents (snd (SetNotificationChannelForDiscordMember e sid u ch d)) = incidents d"
  "incidents (snd (ScheduleMaintenanceForDiscordMember e sid u a b d)) = incidents d"
  unfolding SetEnabledForDiscordMember_def SetNotificationChannelForDiscordMember_def
    ScheduleMaintenanceForDiscordMember_def
  by (rule setting_incidents, auto simp: uuid_arg_def upsert_channel_def Let_def
      split: option.splits list.splits sum.splits if_splits)+

lemma db_step_ledger: "db_step d d' \<Longrightarrow> db_ok d \<Longrightarrow> ledger d d'"
proof (erule db_stepE)
  fix e rep assume "d' = snd (RecordUserReport e rep d)"
  moreover have "incidents (snd (RecordUserReport e rep d)) = incidents d"
    by (rule RecordUserReport_keeps) (simp_all add: row_simps)
  ultimately show "ledger d d'" by (simp add: ledger_same)
next
  fix e assume d': "d' = snd (RunRetention e d)"
  show "ledger d d'"
  proof (cases "fst (RunRetention e d)")
    case Inl
    with d' RunRetention_error show ?thesis by (metis ledger_same)
  next
    case (Inr st)
    then have "RunRetention e d = (Inr st, d')" using d' by (simp add: prod_eq_iff)
    from RunRetention_retained [OF this] show ?thesis by (simp add: retained_def ledger_same)
  qed
next
  fix e i assume "d' = snd (UpsertVoxelLinkServer e i d)"
  then show "ledger d d'" using Upsert_listing_only [of d e i] by (simp add: listing_only_def ledger_same)
qed (auto simp: RecordCheck_ledger settings_incidents MarkStateNotificationDelivered_def exec_pool_def mark_delivered_def
    intro: ledger_same split: option.splits)

lemma db_reaches_ledger: "db_reaches d0 d \<Longrightarrow> store_inv d0 \<Longrightarrow> ledger d0 d"
proof (induction rule: db_reaches.induct)
  case start
  then show ?case by (simp add: ledger_same)
next
  case (step d d')
  have "db_ok d" using db_reaches_store_inv [OF step.hyps(1) step.prems] by (simp add: store_inv_def)
  with step show ?case by (blast intro: ledger_trans db_step_ledger)
qed

section \<open>Invariants of the running system\<close>


definition ex_reached :: db where
  "ex_reached = snd (RecordUserReport (ex_env 4 ''k'') (ex_report ''a'' 4)
     (snd (RecordCheck (ex_env 3 ''i'') (ex_sv Operational) (ex_result ConnectTimeout 3) ex_failing)))"

lemma ex_failing_inv: "store_inv ex_failing"
proof -
  have "db_reaches (ex_db Operational) ex_failing"
  proof -
    have "snd (RecordCheck (ex_env 2 ''i'') (ex_sv Operational) (ex_result StatusTimeout 2)
        (snd (RecordCheck (ex_env 1 ''i'') (ex_sv Operational) (ex_result ConnectTimeout 1) (ex_db Operational)))) = ex_failing"
      by code_simp
    then show ?thesis by (metis db_reaches.intros db_step.check)
  qed
  then show ?thesis by (rule db_reaches_store_inv) (simp add: ex_db_inv)
qed

lemma ex_reached_reaches: "db_reaches ex_failing ex_reached"
  unfolding ex_reached_def
  by (rule db_reaches.step [OF db_reaches.step [OF db_reaches.start db_step.check] db_step.report])




text \<open>
  C10. The incidents of the database are a ledger: along every sequence of calls no incident
  disappears or moves, its server, reason, start and confirmation never change, an open one can
  only become resolved, and a resolved one never changes again.
\<close>

theorem incidents_append_only:
  assumes "db_reaches d0 d" and "store_inv d0" and "k < length (incidents d0)"
  shows "k < length (incidents d) \<and> incident_evolves (incidents d0 ! k) (incidents d ! k)"
  using db_reaches_ledger [OF assms(1,2)] assms(3) by (auto simp: ledger_def)

theorem incidents_append_only_witness:
  "incident_evolves (incidents ex_reached ! 0)
     (incidents (snd (RunRetention (ex_env 5 ''k'') ex_reached)) ! 0)"
proof -
  have "store_inv ex_reached" using ex_reached_reaches ex_failing_inv by (rule db_reaches_store_inv)
  moreover have "db_reaches ex_reached (snd (RunRetention (ex_env 5 ''k'') ex_reached))"
    by (intro db_reaches.step [OF db_reaches.start] db_step.intros)
  moreover have "0 < length (incidents ex_reached)" by code_simp
  ultimately show ?thesis using incidents_append_only by blast
qed

section \<open>Synchronisation and notifications\<close>

text \<open>
  C15. A synchronisation with VoxelLink, however it ends (the service down, an id refused, a
  statement failing), leaves the monitoring data alone: checks, incidents, maintenance windows,
  channels, reports, queued notifications, and of every known server its identity, public status
  and switch; servers it adds are \<open>UNKNOWN\<close>.
\<close>

theorem sync_changes_only_listings:
  "listing_only (pw_db w) (pw_db (snd (pg_sync sc client w)))"
  unfolding pg_sync_def using import_listing.Sync_I by blast


definition ex_queued :: db where
  "ex_queued = (ex_db Degraded)\<lparr>channels := [\<lparr>ch_server = ''s'', ch_channel = ''42'', ch_enabled = True\<rparr>],
     notifs := [\<lparr>nt_id = 1, nt_server = ''s'', nt_state = Degraded, nt_outcome = Success, nt_created = 1,
       nt_delivered = None\<rparr>], next_note := 2\<rparr>"

lemma ex_queued_inv: "store_inv ex_queued"
  by (simp add: store_inv_def db_ok_def table_ok_defs statuses_stored_def ex_queued_def ex_db_def empty_db_def
      ex_server_def transport_kinds_def has_server_def)




end
