(* ===== verification/WireProps.thy ===== *)
theory WireProps imports Tunnel begin

text \<open>
  Properties of the probes: the variable-length integers, the handshake, what a successful ping
  proves of the server's answer and which answers make one, and the tunnel around it.
\<close>

section \<open>Variable-length integers\<close>

text \<open>
  C20. \<open>varInt\<close> terminates exactly on the non-negative numbers: the arithmetic shift of a
  negative 64-bit integer never reaches zero. The probe only passes lengths and the protocol
  number.
\<close>

theorem varInt_terminates_iff: "varInt v \<noteq> None \<longleftrightarrow> 0 \<le> sint v"
  by (rule varInt_returns_iff)

text \<open>
  C19. What \<open>varInt\<close> writes, \<open>readVarInt\<close> reads back, with the rest of the stream
  untouched, exactly for the numbers below \<open>2 ^ 35\<close>; of a larger one the reader says that it
  is too long.
\<close>

theorem varInt_roundtrip:
  assumes "n < 2 ^ 63" and "rd_bytes r = the (varInt (of_nat n)) @ rest"
  shows "if n < 2 ^ 35 then \<exists>r'. readVarInt ReadByte r = (Inr (of_nat n), r') \<and> rd_bytes r' = rest
    else fst (readVarInt ReadByte r) = Inl (Msg ''varint too long'')"
proof -
  have b: "rd_bytes r = leb n @ rest" using assms varInt_of_nat by simp
  show ?thesis
    using reader.readVarInt_leb [OF b] reader.readVarInt_refuses [OF b] by simp
qed

theorem varInt_roundtrip_witness:
  "\<exists>r'. readVarInt ReadByte \<lparr>rd_bytes = the (varInt 765) @ [7], rd_err = Fault ''EOF''\<rparr> = (Inr 765, r') \<and> rd_bytes r' = [7]"
  using varInt_roundtrip [of 765 "\<lparr>rd_bytes = the (varInt 765) @ [7], rd_err = Fault ''EOF''\<rparr>" "[7]"] by simp

section \<open>The ping\<close>

text \<open>
  C18. The handshake round trip: for a host shorter than \<open>2 ^ 31\<close> bytes and a port, the
  packet the probe writes parses, as a Minecraft server parses it, to packet id 0, protocol 765,
  that host, that port and next state 1, with a length prefix that is the length of the rest.
\<close>

theorem handshake_roundtrip:
  assumes "length host < 2 ^ 31" and "0 \<le> port" and "port < 65536"
  shows "\<exists>frame. handshake host port = Some frame \<and> parse_handshake frame = Some (0, 765, host, nat port, 1)"
proof -
  have "map_option parse_handshake (handshake host port) = Some (Some (0, 765, host, nat port, 1))"
    by (rule parse_handshake_handshake [OF assms])
  then show ?thesis by (cases "handshake host port") simp_all
qed

theorem handshake_roundtrip_witness:
  "\<exists>frame. handshake ''mc.example'' 25565 = Some frame \<and> parse_handshake frame = Some (0, 765, ''mc.example'', 25565, 1)"
  using handshake_roundtrip [of "''mc.example''" 25565] by simp


definition ex_net :: "byte list \<Rightarrow> net" where
  "ex_net bs = (\<lambda>_. \<lparr>cn_dial = None, cn_write1 = None, cn_write2 = None, cn_in = bs, cn_end = ''EOF'',
     cn_start = 5, cn_elapsed = 7000000\<rparr>)"



lemma ex_net_up:
  "PingJavaEndpoint (\<lambda>_. Inr (3, 20)) (ex_net (status_response [123, 125])) ''mc.example'' 25565 ''mc.example'' 25565
   = Some (\<lparr>cr_Outcome = Success, cr_Latency = 7000000, cr_PlayersOnline = 3, cr_PlayersMax = 20,
       cr_Detail = [], cr_At = 5\<rparr>, [the (handshake ''mc.example'' 25565), status_request])"
proof -
  have "read_response (\<lambda>_. Inr (3, 20)) 5 7000000 \<lparr>rd_bytes = status_response [123, 125], rd_err = Fault ''EOF''\<rparr>
      = \<lparr>cr_Outcome = Success, cr_Latency = 7000000, cr_PlayersOnline = 3, cr_PlayersMax = 20, cr_Detail = [], cr_At = 5\<rparr>"
    by (rule read_response_answers [where body = "[123, 125]" and rest = "[]"]) simp_all
  then show ?thesis by (simp add: PingJavaEndpoint_def handshake_eq ex_net_def Let_def)
qed


text \<open>
  C23. Conversely a server that answers with a well-formed status frame (body of 1 to
  \<open>2 ^ 20\<close> bytes that decodes) is reported as up, with its players and the measured latency,
  whatever follows the frame.
\<close>

theorem ping_answered:
  assumes "length handshakeHost < 2 ^ 31" and "c = net (join_host_port endpointHost (itoa endpointPort))"
    and "cn_dial c = None" and "cn_write1 c = None" and "cn_write2 c = None"
    and "cn_in c = status_response body @ rest" and "1 \<le> length body" and "length body \<le> 2 ^ 20"
    and "json body = Inr (online, max_players)"
  shows "\<exists>ws. PingJavaEndpoint json net endpointHost endpointPort handshakeHost handshakePort =
    Some (\<lparr>cr_Outcome = Success, cr_Latency = cn_elapsed c, cr_PlayersOnline = online,
       cr_PlayersMax = max_players, cr_Detail = [], cr_At = cn_start c\<rparr>, ws)"
proof -
  have "read_response json (cn_start c) (cn_elapsed c) \<lparr>rd_bytes = cn_in c, rd_err = Fault (cn_end c)\<rparr>
    = \<lparr>cr_Outcome = Success, cr_Latency = cn_elapsed c, cr_PlayersOnline = online,
       cr_PlayersMax = max_players, cr_Detail = [], cr_At = cn_start c\<rparr>"
    by (rule read_response_answers [where body = body and rest = rest]) (use assms(6-9) in simp_all)
  with assms(1-5) show ?thesis by (auto simp: PingJavaEndpoint_def handshake_eq Let_def)
qed

theorem ping_answered_witness:
  "\<exists>res ws. PingJavaEndpoint (\<lambda>_. Inr (1, 2)) (ex_net (status_response [123, 125] @ [0])) ''mc.example'' 25565 ''h'' 25565
     = Some (res, ws) \<and> cr_Outcome res = Success"
  using ping_answered [of "''h''" "ex_net (status_response [123, 125] @ [0]) (join_host_port ''mc.example'' (itoa 25565))"
      "ex_net (status_response [123, 125] @ [0])" "''mc.example''" 25565 "[123, 125]" "[0]" "\<lambda>_. Inr (1, 2)" 1 2 25565]
  by (auto simp: ex_net_def)

section \<open>The tunnel\<close>

text \<open>
  C24. A ping through a tunnel starts at most one \<open>cloudflared\<close>, with the server's host
  name and the local address, and kills and reaps every one it started, on every path. An
  outcome other than \<open>PROBE_ERROR\<close> comes from a ping of the local port after a dial of the
  tunnel succeeded: failures of the tunnel are never blamed on the server.
\<close>

theorem tunnel_ping_safe:
  assumes "Ping json net run t hostname port = Some (res, trace)"
  shows "(trace = [] \<or> (\<exists>a. tr_listen run = Inr a \<and> trace = [Spawn (command_line t hostname a), KillAndWait]))
    \<and> (cr_Outcome res = ProbeError \<or> (\<exists>a lp w. tr_listen run = Inr a \<and> tr_start run = None
        \<and> (\<exists>x \<in> set (tr_rounds run). fst x) \<and> local_port a = Inr lp
        \<and> PingJavaEndpoint json net ''127.0.0.1'' lp hostname port = Some (res, w)))"
proof -
  have "trace = [] \<or> (\<exists>a. tr_listen run = Inr a \<and> trace = [Spawn (command_line t hostname a), KillAndWait])"
    using assms by (auto simp: Ping_def Let_def split: sum.splits option.splits)
  with Ping_outcome [OF assms] show ?thesis by blast
qed

definition ex_run :: TunnelRun where
  "ex_run = \<lparr>tr_listen = Inr ''127.0.0.1:4321'', tr_start = None,
     tr_rounds = [(False, TickerFired), (True, TickerFired)], tr_now = 1\<rparr>"

lemma ex_run_port: "local_port ''127.0.0.1:4321'' = Inr 4321"
  by code_simp

theorem tunnel_ping_safe_witness:
  "\<exists>res trace. Ping (\<lambda>_. Inr (3, 20)) (ex_net []) ex_run (NewAccessTunnel [] 0) ''h'' 25565 = Some (res, trace)
     \<and> trace = [Spawn [''cloudflared'', ''access'', ''tcp'', ''--hostname'', ''h'', ''--url'', ''127.0.0.1:4321''], KillAndWait]"
proof -
  have "\<exists>res ws. PingJavaEndpoint (\<lambda>_. Inr (3, 20)) (ex_net []) ''127.0.0.1'' 4321 ''h'' 25565 = Some (res, ws)"
    by (rule PingJavaEndpoint_returns) simp
  then obtain res trace where p: "Ping (\<lambda>_. Inr (3, 20)) (ex_net []) ex_run (NewAccessTunnel [] 0) ''h'' 25565 = Some (res, trace)"
    and t: "trace \<noteq> []"
    by (auto simp: Ping_def ex_run_def ex_run_port Let_def)
  from tunnel_ping_safe [OF p] t
  have "trace = [Spawn (command_line (NewAccessTunnel [] 0) ''h'' ''127.0.0.1:4321''), KillAndWait]"
    by (auto simp: ex_run_def)
  with p show ?thesis by (simp add: command_line_def NewAccessTunnel_def)
qed

end
