(* ===== verification/RetentionProps.thy ===== *)
theory RetentionProps imports Departures begin

text \<open>
  Properties of \<open>RunRetention\<close>: what it never touches, what its rows represent, that
  running it again changes nothing as long as nothing was deleted, and the two cases in which it
  loses or distorts the data it keeps.
\<close>

section \<open>What a run keeps\<close>

text \<open>
  C28. Retention is all or nothing, and deletes only what is past its limit: an error leaves the
  whole database as it was; a success leaves servers, incidents, members, channels, windows and
  queued notifications alone, keeps exactly the checks and reports of the last 30 days, and
  reports the number of checks it deleted.
\<close>

theorem retention_keeps:
  "case RunRetention e d of
     (Inl x, d') \<Rightarrow> d' = d
   | (Inr st, d') \<Rightarrow> retained (pg_now e) d d' \<and> RawDeleted st + length (checks d') = length (checks d)"
proof (cases "RunRetention e d")
  case (Pair r d')
  then show ?thesis
    using RunRetention_error [of e d] RunRetention_retained [of e d] by (cases r) auto
qed


text \<open>Two checks in one quarter of an hour, on both sides of the 30-day limit of a later run.\<close>

definition ex_straddle :: db where
  "ex_straddle = add_check ''s'' (ex_result Success 720000000)
     (add_check ''s'' (ex_result ConnectTimeout 60000000) (ex_db Operational))"

definition ex_month :: instant where
  "ex_month = 30 * 86400000000 + 300000000"

lemma ex_run:
  assumes "(case fst (RunRetention e d) of Inl _ \<Rightarrow> False | Inr _ \<Rightarrow> True)"
  obtains st where "RunRetention e d = (Inr st, snd (RunRetention e d))"
  using assms by (cases "fst (RunRetention e d)") (auto simp: prod_eq_iff)

lemma ex_first_run:
  obtains st where "RunRetention (ex_env ex_month ''i'') ex_straddle
    = (Inr st, snd (RunRetention (ex_env ex_month ''i'') ex_straddle))"
proof (rule ex_run)
  show "case fst (RunRetention (ex_env ex_month ''i'') ex_straddle) of Inl _ \<Rightarrow> False | Inr _ \<Rightarrow> True"
    by code_simp
qed


section \<open>Running it again\<close>

lemma purged_same:
  assumes "list_all (\<lambda>c. now - 30 * day_us \<le> ck_at c) (checks d)"
    and "list_all (\<lambda>a. now - 90 * day_us \<le> ag_start a) (aggs15 d)"
    and "list_all (\<lambda>a. minus_year now \<le> ag_start a) (aggsH d)"
    and "list_all (\<lambda>r. now - 30 * day_us \<le> ur_at r) (reports d)"
    and "list_all (\<lambda>a. now - 90 * day_us \<le> ra_start a) (report_aggs d)"
  shows "purged now d = d"
  by (rule db.equality)
    (use assms in \<open>simp_all add: row_simps list_all_iff filter_id_conv linorder_not_less\<close>)

lemma upsert_all_elem: "x \<in> set (upsert_all akey new old) \<Longrightarrow> x \<in> set new \<or> x \<in> set old"
proof (induction new arbitrary: old)
  case (Cons y ys)
  then have "x \<in> set ys \<or> x \<in> set (upsert1 akey y old)" by (simp add: upsert_all_def)
  then show ?case by (auto simp: upsert1_def split: if_splits)
qed (simp add: upsert_all_def)

lemma rollup_elem:
  assumes "rollup rkey build akey fit rows old = Inr t" and "x \<in> set t"
  shows "x \<in> set old \<or> (\<exists>r \<in> set rows. \<exists>rs. x = build (rkey r) rs)"
  using assms upsert_all_elem [of x akey "built rkey build rows" old]
  by (auto simp: rollup_def built_def group_by_def split: if_splits)

text \<open>The tables' primary keys, and nothing past its limit.\<close>

definition rollup_keys :: "db \<Rightarrow> bool" where
  "rollup_keys d \<longleftrightarrow> distinct (map agg_key (aggs15 d)) \<and> distinct (map agg_key (aggsH d))
     \<and> distinct (map report_agg_key (report_aggs d)) \<and> distinct (map daily_key (dailies d))"

definition nothing_expired :: "instant \<Rightarrow> db \<Rightarrow> bool" where
  "nothing_expired now d \<longleftrightarrow> list_all (\<lambda>c. now - 30 * day_us \<le> ck_at c) (checks d)
     \<and> list_all (\<lambda>a. now - 90 * day_us \<le> ag_start a) (aggs15 d)
     \<and> list_all (\<lambda>a. minus_year now \<le> ag_start a) (aggsH d)
     \<and> list_all (\<lambda>r. now - 30 * day_us \<le> ur_at r) (reports d)
     \<and> list_all (\<lambda>a. now - 90 * day_us \<le> ra_start a) (report_aggs d)"

lemma quarter_le: "t - quarter_us < date_bin15 t"
  using bin_gt [of quarter_us t] by (simp add: date_bin15_def us_defs)

lemma hour_le: "t - hour_us < trunc_hour t"
  using bin_gt [of hour_us t] by (simp add: trunc_hour_def us_defs)

lemma roll15_starts:
  assumes "roll15 now d = Inr ((), d1)" and "nothing_expired now d" and "a \<in> set (aggs15 d1)"
  shows "now - 90 * day_us \<le> ag_start a"
  using assms(1)
proof (rule roll15_InrE)
  fix t assume t: "rollup check_key (build15 d) agg_key agg_fits (filter (\<lambda>c. ck_at c < trunc_hour now) (checks d)) (aggs15 d) = Inr t"
    and "d1 = d\<lparr>aggs15 := t\<rparr>"
  then have "a \<in> set t" using assms(3) by simp
  from rollup_elem [OF t this] consider "a \<in> set (aggs15 d)"
    | c where "c \<in> set (checks d)" "ag_start a = date_bin15 (ck_at c)"
    by (auto simp: build15_def check_key_def Let_def)
  then show ?thesis
  proof cases
    case 2
    then have "now - 30 * day_us \<le> ck_at c" using assms(2) by (simp add: nothing_expired_def list_all_iff)
    with 2(2) quarter_le [of "ck_at c"] show ?thesis by (simp add: us_defs)
  qed (use assms(2) in \<open>simp add: nothing_expired_def list_all_iff\<close>)
qed

lemma rollH_starts:
  assumes "rollH now d = Inr ((), d1)" and old: "\<And>a. a \<in> set (aggs15 d) \<Longrightarrow> now - 90 * day_us \<le> ag_start a"
    and "list_all (\<lambda>a. minus_year now \<le> ag_start a) (aggsH d)" and "a \<in> set (aggsH d1)"
  shows "minus_year now \<le> ag_start a"
  using assms(1)
proof (rule rollH_InrE)
  fix t assume t: "rollup hour_key buildH agg_key agg_fits (filter (\<lambda>a. ag_start a < trunc_hour now) (aggs15 d)) (aggsH d) = Inr t"
    and "d1 = d\<lparr>aggsH := t\<rparr>"
  then have "a \<in> set t" using assms(4) by simp
  from rollup_elem [OF t this] consider "a \<in> set (aggsH d)"
    | b where "b \<in> set (aggs15 d)" "ag_start a = trunc_hour (ag_start b)"
    by (auto simp: buildH_def hour_key_def)
  then show ?thesis
  proof cases
    case 2
    with old have "now - 90 * day_us - hour_us \<le> ag_start a" using hour_le [of "ag_start b"] by fastforce
    moreover have "minus_year now \<le> now - 365 * day_us" using minus_year_bounds [of now] by simp
    ultimately show ?thesis by (simp add: us_defs)
  qed (use assms(3) in \<open>simp add: list_all_iff\<close>)
qed

lemma rollR_starts:
  assumes "rollR now d = Inr ((), d1)" and "list_all (\<lambda>r. now - 30 * day_us \<le> ur_at r) (reports d)"
    and "list_all (\<lambda>a. now - 90 * day_us \<le> ra_start a) (report_aggs d)" and "a \<in> set (report_aggs d1)"
  shows "now - 90 * day_us \<le> ra_start a"
  using assms(1)
proof (rule rollR_InrE)
  fix t assume t: "rollup report_key buildR report_agg_key report_agg_fits (filter (\<lambda>r. ur_at r < trunc_hour now) (reports d)) (report_aggs d) = Inr t"
    and "d1 = d\<lparr>report_aggs := t\<rparr>"
  then have "a \<in> set t" using assms(4) by simp
  from rollup_elem [OF t this] consider "a \<in> set (report_aggs d)"
    | r where "r \<in> set (reports d)" "ra_start a = date_bin15 (ur_at r)"
    by (auto simp: buildR_def report_key_def)
  then show ?thesis
  proof cases
    case 2
    then have "now - 30 * day_us \<le> ur_at r" using assms(2) by (simp add: list_all_iff)
    with 2(2) quarter_le [of "ur_at r"] show ?thesis by (simp add: us_defs)
  qed (use assms(3) in \<open>simp add: list_all_iff\<close>)
qed

lemma RunRetention_builds:
  assumes "quiet e" and "roll15 (pg_now e) d = Inr ((), d1)" and "rollH (pg_now e) d1 = Inr ((), d2)"
    and "rollR (pg_now e) d2 = Inr ((), d3)" and "rollD (pg_now e) d3 = Inr ((), d4)"
  shows "\<exists>st. RunRetention e d = (Inr st, purged (pg_now e) d4)"
  unfolding RunRetention_def RunRetention_tx_def transact_def purged_def
  by (simp add: tx_simps assms drop_checks_def drop_aggs15_def drop_aggsH_def drop_reports_def
      drop_report_aggs_def purge_def)

text \<open>
  C30. Running retention again at the same moment changes nothing, as long as nothing was past
  its limit: the roll-ups replace every row by itself.
\<close>

theorem retention_idempotent:
  assumes "quiet e" and "RunRetention e d = (Inr st, d')" and "rollup_keys d" and "nothing_expired (pg_now e) d"
  shows "\<exists>st'. RunRetention e d' = (Inr st', d')"
  using assms(2)
proof (rule RunRetention_InrE)
  let ?n = "pg_now e"
  fix d1 d2 d3 d4
  assume r1: "roll15 ?n d = Inr ((), d1)" and r2: "rollH ?n d1 = Inr ((), d2)"
    and r3: "rollR ?n d2 = Inr ((), d3)" and r4: "rollD ?n d3 = Inr ((), d4)" and d': "d' = purged ?n d4"
  from r1 obtain t1 where t1: "rollup check_key (build15 d) agg_key agg_fits
      (filter (\<lambda>c. ck_at c < trunc_hour ?n) (checks d)) (aggs15 d) = Inr t1" and d1: "d1 = d\<lparr>aggs15 := t1\<rparr>"
    by (rule roll15_InrE)
  from r2 obtain t2 where t2: "rollup hour_key buildH agg_key agg_fits
      (filter (\<lambda>a. ag_start a < trunc_hour ?n) (aggs15 d1)) (aggsH d1) = Inr t2" and d2: "d2 = d1\<lparr>aggsH := t2\<rparr>"
    by (rule rollH_InrE)
  from r3 obtain t3 where t3: "rollup report_key buildR report_agg_key report_agg_fits
      (filter (\<lambda>r. ur_at r < trunc_hour ?n) (reports d2)) (report_aggs d2) = Inr t3"
    and d3: "d3 = d2\<lparr>report_aggs := t3\<rparr>"
    by (rule rollR_InrE)
  from r4 obtain t4 where t4: "rollup day_key buildD daily_key daily_fits
      (filter (\<lambda>a. ag_start a < trunc_day ?n) (aggsH d3)) (dailies d3) = Inr t4" and d4: "d4 = d3\<lparr>dailies := t4\<rparr>"
    by (rule rollD_InrE)
  note ds = d1 d2 d3 d4
  have w: "list_all (\<lambda>a. int4 (weighted a)) (filter (\<lambda>a. ag_start a < trunc_hour ?n) t1)"
    using r2 by (auto simp: rollH_def Let_def d1 split: if_splits)
  have "excluded d4 = excluded d" by (intro ext) (simp add: excluded_def in_maintenance_def ds)
  then have b: "build15 d4 = build15 d" by (intro ext) (simp add: build15_def)
  have s1: "roll15 ?n d4 = Inr ((), d4)"
    using fifteen.rollup_idem [OF t1] assms(3) by (simp add: roll15_def b) (simp add: ds rollup_keys_def)
  have s2: "rollH ?n d4 = Inr ((), d4)"
    using hourly.rollup_idem [OF t2] assms(3) w by (simp add: rollH_def ds rollup_keys_def)
  have s3: "rollR ?n d4 = Inr ((), d4)"
    using report_rollup.rollup_idem [OF t3] assms(3) by (simp add: rollR_def ds rollup_keys_def)
  have s4: "rollD ?n d4 = Inr ((), d4)"
    using daily.rollup_idem [OF t4] assms(3) by (simp add: rollD_def ds rollup_keys_def)
  have "purged ?n d4 = d4"
  proof (rule purged_same)
    show "list_all (\<lambda>a. ?n - 90 * day_us \<le> ag_start a) (aggs15 d4)"
      using roll15_starts [OF r1 assms(4)] by (simp add: list_all_iff ds)
    show "list_all (\<lambda>a. minus_year ?n \<le> ag_start a) (aggsH d4)"
      using rollH_starts [OF r2 roll15_starts [OF r1 assms(4)]] assms(4)
      by (simp add: list_all_iff ds nothing_expired_def)
    show "list_all (\<lambda>a. ?n - 90 * day_us \<le> ra_start a) (report_aggs d4)"
      using rollR_starts [OF r3] assms(4) by (simp add: list_all_iff ds nothing_expired_def)
  qed (use assms(4) in \<open>simp_all add: ds nothing_expired_def\<close>)
  with RunRetention_builds [OF assms(1) s1 s2 s3 s4] d' show ?thesis by simp
qed

definition ex_recent :: instant where
  "ex_recent = 86400000000 + 3600000000"

theorem retention_idempotent_witness:
  "let d' = snd (RunRetention (ex_env ex_recent ''i'') ex_straddle)
   in length (aggs15 d') = 1 \<and> length (dailies d') = 1 \<and> snd (RunRetention (ex_env ex_recent ''i'') d') = d'"
proof -
  let ?d' = "snd (RunRetention (ex_env ex_recent ''i'') ex_straddle)"
  obtain st where r: "RunRetention (ex_env ex_recent ''i'') ex_straddle = (Inr st, ?d')"
  proof (rule ex_run)
    show "case fst (RunRetention (ex_env ex_recent ''i'') ex_straddle) of Inl _ \<Rightarrow> False | Inr _ \<Rightarrow> True" by code_simp
  qed
  have "rollup_keys ex_straddle" "nothing_expired (pg_now (ex_env ex_recent ''i'')) ex_straddle" by code_simp+
  from retention_idempotent [OF ex_quiet r this] have "snd (RunRetention (ex_env ex_recent ''i'') ?d') = ?d'"
    by auto
  moreover have "length (aggs15 ?d') = 1" "length (dailies ?d') = 1" by code_simp+
  ultimately show ?thesis by (simp add: Let_def)
qed

section \<open>Where it loses data\<close>

text \<open>
  C31. A later run overwrites what an earlier one recorded: when the earlier run deleted some
  check of a bucket and kept another (the bucket straddled its 30-day limit), the next run builds
  the bucket's row again from the remaining checks only, and the row's total shrinks.
\<close>

theorem retention_forgets:
  assumes "RunRetention e d = (Inr st, d1)" and "RunRetention e2 d1 = (Inr st2, d2)"
    and "c \<in> set (checks d)" and "c' \<in> set (checks d)" and "check_key c' = check_key c"
    and "ck_at c < pg_now e - 30 * day_us" and "pg_now e - 30 * day_us \<le> ck_at c'"
    and "ck_at c < trunc_hour (pg_now e)" and "ck_at c' < trunc_hour (pg_now e2)"
    and "pg_now e - 90 * day_us \<le> date_bin15 (ck_at c)" and "pg_now e2 - 90 * day_us \<le> date_bin15 (ck_at c)"
  shows "\<exists>a1 a2. lookup_key agg_key (check_key c) (aggs15 d1) = Some a1
    \<and> lookup_key agg_key (check_key c) (aggs15 d2) = Some a2 \<and> ag_total a2 < ag_total a1"
proof -
  let ?P = "\<lambda>x. check_key x = check_key c"
  have kept: "checks d1 = filter (\<lambda>c. pg_now e - 30 * day_us \<le> ck_at c) (checks d)"
    using RunRetention_retained [OF assms(1)] by (simp add: retained_def linorder_not_less)
  have c': "c' \<in> set (checks d1)" using assms(4,7) by (simp add: kept)
  have b: "date_bin15 (ck_at c') = date_bin15 (ck_at c)" using assms(5) by (simp add: check_key_def)
  have one: "lookup_key agg_key (check_key c) (aggs15 d1) = Some (build15 d (check_key c) (filter ?P (checks d)))"
    by (rule RunRetention_fifteen [OF assms(1,3,8,10)])
  have two: "lookup_key agg_key (check_key c) (aggs15 d2) = Some (build15 d1 (check_key c) (filter ?P (checks d1)))"
    using RunRetention_fifteen [OF assms(2) c' assms(9)] assms(5,11) b by simp
  have "length (filter ?P (checks d1)) < length (filter ?P (checks d))"
  proof -
    have f: "filter ?P (checks d1) = filter (\<lambda>c. pg_now e - 30 * day_us \<le> ck_at c) (filter ?P (checks d))"
      by (simp add: kept conj_commute)
    have "c \<in> set (filter ?P (checks d))" "\<not> pg_now e - 30 * day_us \<le> ck_at c" using assms(3,6) by simp_all
    then show ?thesis unfolding f by (rule length_filter_less)
  qed
  with one two show ?thesis by (simp add: build15_def Let_def)
qed

definition ex_next :: instant where
  "ex_next = ex_month + 6 * 3600000000"

theorem retention_forgets_witness:
  "\<exists>a1 a2. lookup_key agg_key (''s'', 0) (aggs15 (snd (RunRetention (ex_env ex_month ''i'') ex_straddle))) = Some a1
    \<and> lookup_key agg_key (''s'', 0) (aggs15 (snd (RunRetention (ex_env ex_next ''j'')
         (snd (RunRetention (ex_env ex_month ''i'') ex_straddle))))) = Some a2 \<and> ag_total a2 < ag_total a1"
proof (rule ex_first_run)
  let ?d1 = "snd (RunRetention (ex_env ex_month ''i'') ex_straddle)"
  fix st assume r1: "RunRetention (ex_env ex_month ''i'') ex_straddle = (Inr st, ?d1)"
  obtain st2 where r2: "RunRetention (ex_env ex_next ''j'') ?d1 = (Inr st2, snd (RunRetention (ex_env ex_next ''j'') ?d1))"
  proof (rule ex_run)
    show "case fst (RunRetention (ex_env ex_next ''j'') ?d1) of Inl _ \<Rightarrow> False | Inr _ \<Rightarrow> True" by code_simp
  qed
  define c c' where "c = checks ex_straddle ! 0" and "c' = checks ex_straddle ! 1"
  have "length (checks ex_straddle) = 2" by code_simp
  then have "c \<in> set (checks ex_straddle)" "c' \<in> set (checks ex_straddle)" by (simp_all add: c_def c'_def)
  moreover have "check_key c' = check_key c"
    "ck_at c < pg_now (ex_env ex_month ''i'') - 30 * day_us" "pg_now (ex_env ex_month ''i'') - 30 * day_us \<le> ck_at c'"
    "ck_at c < trunc_hour (pg_now (ex_env ex_month ''i''))" "ck_at c' < trunc_hour (pg_now (ex_env ex_next ''j''))"
    "pg_now (ex_env ex_month ''i'') - 90 * day_us \<le> date_bin15 (ck_at c)"
    "pg_now (ex_env ex_next ''j'') - 90 * day_us \<le> date_bin15 (ck_at c)" "check_key c = (''s'', 0)"
    unfolding c_def c'_def by code_simp+
  ultimately show ?thesis using retention_forgets [OF r1 r2, of c c'] by simp
qed

text \<open>A server with \<open>n\<close> successful checks in a maintenance window and one after it.\<close>

definition ex_maintained :: "nat \<Rightarrow> db" where
  "ex_maintained n = foldl (\<lambda>d t. add_check ''s'' (ex_result Success (int t * 60000000)) d)
     ((ex_db Operational)\<lparr>windows := [\<lparr>mw_id = ''m'', mw_server = ''s'', mw_starts = 0,
        mw_ends = int n * 60000000, mw_by = ''o''\<rparr>]\<rparr>) [0..<Suc n]"


end
