(* ===== verification/AccessProps.thy ===== *)
theory AccessProps imports Departures Migrate Main_Process begin

text \<open>
  Properties of who may change what: imports, settings, the web application's requests, sessions
  and login states, the request to VoxelLink, and the migrations of the schema.
\<close>

section \<open>Imports\<close>

text \<open>
  C33. An import is all or nothing and replaces only imported data: an error leaves the database
  as it was; a success returns the server with the listing's name, host, port and transport,
  leaves everything Monitor owns alone (\<open>listing_only\<close>), and the server's imported members
  are exactly those of the listing, in its order.
\<close>

theorem import_exact:
  "case UpsertVoxelLinkServer e i d of
     (Inl x, d') \<Rightarrow> d' = d
   | (Inr sv, d') \<Rightarrow> listing_only d d' \<and> srv_Name sv = imp_Name i \<and> srv_Hostname sv = imp_Hostname i
       \<and> srv_Port sv = imp_Port i \<and> srv_Transport sv = imp_Transport i
       \<and> (\<exists>u. pg_uuid_in e (srv_ID sv) = Some u \<and> listed_members d' u = imp_Members i)"
proof (cases "UpsertVoxelLinkServer e i d")
  case (Pair r d')
  show ?thesis
  proof (cases r)
    case Inl
    with Pair Upsert_error [of e i d] show ?thesis by simp
  next
    case (Inr sv)
    with Pair have up: "UpsertVoxelLinkServer e i d = (Inr sv, d')" by simp
    then obtain s where "UpsertVoxelLinkServer_tx e i \<lparr>tx_db = d, tx_aborted = False\<rparr> = (Inr sv, s)"
      unfolding UpsertVoxelLinkServer_def by (blast dest: transact_ok)
    then obtain s1 s2 x where "statement e 2 (\<lambda>d. uuid_arg e (srv_ID sv) (\<lambda>u. Inr ((), clear_members u d))) s1 = (Inr x, s2)"
      unfolding UpsertVoxelLinkServer_tx_def by (auto elim!: tx_bind_InrE simp: tx_return_def)
    then obtain u where u: "pg_uuid_in e (srv_ID sv) = Some u"
      by (auto elim!: statement_InrE simp: uuid_arg_def split: option.splits)
    have "listing_only d d'" using Upsert_listing_only [of d e i] up by simp
    with up Inr Pair Upsert_returns [OF up] Upsert_members [OF up u] u show ?thesis by simp
  qed
qed

text \<open>
  C34. What the client accepts from VoxelLink is a valid listing, obtained by one \<open>GET\<close> of
  the monitor endpoint with the service token, whose last path segment is the requested id: it
  has no \<open>/\<close>, \<open>?\<close> or \<open>#\<close> of its own and unescapes to the id, whatever the id is.
\<close>

theorem fetch_asks_for_id:
  assumes "FetchServer http json quote c externalID w = (Inr i, w')"
  shows "valid_listing i \<and> (\<exists>segment response. w' = snd (ht_do http (server_request c externalID) w)
    \<and> fst (ht_do http (server_request c externalID) w) = Inr response \<and> rs_code response = 200
    \<and> server_request c externalID = \<lparr>rq_method = ''GET'',
        rq_url = cl_baseURL c @ ''/api/v1/monitor/servers/'' @ segment,
        rq_headers = [(''Authorization'', ''Bearer '' @ cl_token c)], rq_body = []\<rparr>
    \<and> set segment \<inter> set ''/?#'' = {} \<and> unescape segment = externalID)"
proof -
  have "valid_listing i" using FetchServer_valid [of http json quote c externalID w i] assms by simp
  moreover have "\<exists>response. w' = snd (ht_do http (server_request c externalID) w)
    \<and> fst (ht_do http (server_request c externalID) w) = Inr response \<and> rs_code response = 200"
    using assms by (auto simp: FetchServer_def Let_def split: option.splits prod.splits sum.splits if_splits)
  moreover have "set (PathEscape externalID) \<inter> set ''/?#'' = {}" using PathEscape_segment [of externalID] by auto
  ultimately show ?thesis using unescape_PathEscape [of externalID] by (auto simp: server_request_def)
qed

definition ex_payload :: Payload where
  "ex_payload = \<lparr>pl_ID = ''x'', pl_Name = ''Lobby'', pl_Hostname = ''mc.example'', pl_Port = 25565, pl_Transport = [],
     pl_Members = [\<lparr>mem_DiscordUserID = ''7'', mem_Role = ''owner''\<rparr>, \<lparr>mem_DiscordUserID = ''8'', mem_Role = ''guest''\<rparr>]\<rparr>"

theorem fetch_asks_for_id_witness:
  "\<exists>i segment. fst (FetchServer \<lparr>ht_malformed = \<lambda>_. None, ht_do = \<lambda>rq w. (Inr \<lparr>rs_code = 200, rs_status = ''200 OK'', rs_body = []\<rparr>, w)\<rparr>
      (\<lambda>_. Inr ex_payload) (\<lambda>s. s) \<lparr>cl_baseURL = ''https://v'', cl_token = ''t''\<rparr> ''a/../b'' ()) = Inr i
    \<and> imp_Transport i = ''DIRECT'' \<and> set segment \<inter> set ''/?#'' = {} \<and> unescape segment = ''a/../b''"
proof -
  let ?http = "\<lparr>ht_malformed = \<lambda>_. None, ht_do = \<lambda>rq w. (Inr \<lparr>rs_code = 200, rs_status = ''200 OK'', rs_body = []\<rparr>, w)\<rparr>"
  let ?c = "\<lparr>cl_baseURL = ''https://v'', cl_token = ''t''\<rparr>"
  obtain i where f: "FetchServer ?http (\<lambda>_. Inr ex_payload) (\<lambda>s. s) ?c ''a/../b'' () = (Inr i, ())"
    and t: "imp_Transport i = ''DIRECT''"
    by (simp add: FetchServer_def ex_payload_def validate_def)
  from fetch_asks_for_id [OF f] f t show ?thesis by auto
qed

section \<open>Settings\<close>

text \<open>
  C35. A member who is neither owner nor manager of a server can change none of its settings:
  switching it, setting its channel and scheduling maintenance all fail and write nothing.
\<close>

theorem settings_need_manager:
  assumes "\<not> may_manage d member u" and "pg_uuid_in e sid = Some u"
  shows "(\<exists>x. SetEnabledForDiscordMember e sid member flag d = (Inl x, d))
    \<and> (\<exists>x. SetNotificationChannelForDiscordMember e sid member channel d = (Inl x, d))
    \<and> (\<exists>x. ScheduleMaintenanceForDiscordMember e sid member t1 t2 d = (Inl x, d))"
  using set_enabled_refused [OF assms, of flag] set_channel_refused [OF assms, of channel]
    schedule_refused [OF assms, of t1 t2] by (metis prod.collapse)

definition ex_members :: db where
  "ex_members = (ex_db Operational)\<lparr>members := [\<lparr>mb_server = ''s'', mb_user = ''7'', mb_role = ''viewer'', mb_source = ''voxellink''\<rparr>]\<rparr>"

theorem settings_need_manager_witness:
  "\<exists>x. SetEnabledForDiscordMember (ex_env 1 ''i'') ''s'' ''7'' False ex_members = (Inl x, ex_members)"
proof -
  have "\<not> may_manage ex_members ''7'' ''s''" by code_simp
  moreover have "pg_uuid_in (ex_env 1 ''i'') ''s'' = Some ''s''" by simp
  ultimately show ?thesis using settings_need_manager by blast
qed

text \<open>
  C36. A request to the web application that is not a \<open>POST\<close>, or has neither a valid
  session nor the integration's token, changes nothing in the database, except that a
  \<open>POST\<close> may record one report of a valid type.
\<close>

theorem anonymous_only_reports:
  fixes sc :: script and w :: pgworld
  assumes "p = pg_platform sc sha mac random clock token_json user_json import_json"
    and "w' = snd (snd (Handler p (pg_web sc) (pg_importer sc client) q (a, w)))"
    and "hq_method q \<noteq> ''POST'' \<or> user p (ap_config a) q = None
      \<and> \<not> bearerMatches (hq_header q ''Authorization'') (cf_IntegrationToken (ap_config a))"
  shows "pw_db w' = pw_db w \<or> hq_method q = ''POST'' \<and>
    (\<exists>e rep. rep_Type rep \<in> set report_types \<and> pw_db w' = snd (RecordUserReport e rep (pw_db w)))"
proof (cases "hq_method q = ''POST''")
  case False
  then show ?thesis unfolding assms(1,2) by (intro disjI1 web_pg.Handler_get_same)
next
  case True
  with assms(3) have "pw_db w' = pw_db w \<or> (\<exists>rep. rep_Type rep \<in> set report_types \<and>
      w' = snd (wr_RecordUserReport (pg_web sc) rep w))"
    unfolding assms(1,2) by (intro web_pg.Handler_anonymous) simp_all
  then show ?thesis
  proof (elim disjE exE conjE)
    fix rep assume "rep_Type rep \<in> set report_types" and "w' = snd (wr_RecordUserReport (pg_web sc) rep w)"
    moreover from this(2) have "pw_db w' = snd (RecordUserReport (sc_env sc (pw_tick w)) rep (pw_db w))"
      by (simp add: pg_web_def)
    ultimately show ?thesis using True by blast
  qed simp
qed

definition ex_config :: Config where
  "ex_config = \<lparr>cf_ClientID = ''id'', cf_ClientSecret = ''secret'', cf_PublicBaseURL = ''https://m'',
     cf_SessionSecret = ''0123456789012345678901234'', cf_IntegrationToken = ''01234567890123456''\<rparr>"

definition ex_request :: "string \<Rightarrow> string \<Rightarrow> string option \<Rightarrow> HttpRequest" where
  "ex_request verb path cookie = \<lparr>hq_method = verb, hq_path = path, hq_header = (\<lambda>_. []), hq_remote = [],
     hq_query = (\<lambda>_. []), hq_form = Inr (\<lambda>_. []), hq_cookie = cookie, hq_body = []\<rparr>"

theorem anonymous_only_reports_witness:
  "let w' = snd (snd (Handler (pg_platform (ex_script True) id (\<lambda>k s. k @ s) (Inr ''r'') (\<lambda>_. 0) Inr Inr Inr)
       (pg_web (ex_script True)) (pg_importer (ex_script True) \<lparr>cl_baseURL = ''https://v'', cl_token = ''t''\<rparr>)
       (ex_request ''POST'' ''/console/servers/s/enabled'' None) (\<lparr>ap_config = ex_config, ap_states = (\<lambda>_. None)\<rparr>, ex_world ex_out)))
   in pw_db w' = ex_out \<or> (\<exists>e rep. rep_Type rep \<in> set report_types \<and> pw_db w' = snd (RecordUserReport e rep ex_out))"
proof -
  let ?p = "pg_platform (ex_script True) id (\<lambda>k s. k @ s) (Inr ''r'') (\<lambda>_. 0) Inr Inr Inr"
  let ?q = "ex_request ''POST'' ''/console/servers/s/enabled'' None"
  let ?a = "\<lparr>ap_config = ex_config, ap_states = (\<lambda>_. None)\<rparr>"
  have "user ?p (ap_config ?a) ?q = None" by (simp add: user_def session_user_def ex_request_def)
  moreover have "\<not> bearerMatches (hq_header ?q ''Authorization'') (cf_IntegrationToken (ap_config ?a))"
    by code_simp
  ultimately have h: "hq_method ?q \<noteq> ''POST'' \<or> user ?p (ap_config ?a) ?q = None
      \<and> \<not> bearerMatches (hq_header ?q ''Authorization'') (cf_IntegrationToken (ap_config ?a))" by blast
  have db: "pw_db (ex_world ex_out) = ex_out" by (simp add: ex_world_def)
  show ?thesis
    unfolding Let_def using anonymous_only_reports [OF refl refl h, where w = "ex_world ex_out"] unfolding db by blast
qed

section \<open>Sessions\<close>

text \<open>
  C37. The cookie that a login sets is accepted as that member's until the start of the second it
  expires in, and never after; for every member id without a dot and every expiry that
  \<open>time.Unix\<close> can represent.
\<close>

theorem session_lifetime:
  assumes "CHR ''.'' \<notin> set member"
    and "- (2 ^ 63) \<le> unix_seconds expires" and "unix_seconds expires < 2 ^ 63 - 62135596800"
    and "hq_cookie q = Some (signSession (wp_hmac p) c member expires)"
  shows "user p c q = (if wp_clock p 0 \<le> second_us * (expires div second_us) then Some member else None)"
  using session_user_signSession [OF assms(1,2)] from_unix_floor [OF assms(2,3)] assms(3,4) by (simp add: user_def)

definition ex_platform :: "instant \<Rightarrow> unit WebPlatform" where
  "ex_platform now = \<lparr>wp_sha256_hex = (\<lambda>s. s), wp_hmac = (\<lambda>k s. k @ s), wp_random = Inr ''r'', wp_clock = (\<lambda>_. now),
     wp_http = \<lparr>ht_malformed = \<lambda>_. None, ht_do = \<lambda>rq w. (Inl Canceled, w)\<rparr>, wp_token_json = Inr, wp_user_json = Inr,
     wp_import_json = Inr\<rparr>"

theorem session_lifetime_witness:
  "user (ex_platform 5000000) ex_config (ex_request ''GET'' ''/console'' (Some (signSession (\<lambda>k s. k @ s) ex_config ''7'' 5999999))) = Some ''7''
   \<and> user (ex_platform 5000001) ex_config (ex_request ''GET'' ''/console'' (Some (signSession (\<lambda>k s. k @ s) ex_config ''7'' 5999999))) = None"
proof -
  have t: "unix_seconds 5999999 = 946684805" by code_simp
  have "CHR ''.'' \<notin> set ''7''" by simp
  from session_lifetime [OF this, of 5999999 "ex_request ''GET'' ''/console'' (Some (signSession (\<lambda>k s. k @ s) ex_config ''7'' 5999999))" "ex_platform _" ex_config]
  show ?thesis by (simp add: t ex_request_def ex_platform_def us_defs)
qed

text \<open>
  C38. A session is accepted only with a signature of the server's secret: whatever cookie a
  request brings, being taken for a member means that it decodes to that member and an expiry not
  yet passed, under the MAC of the session secret over exactly these bytes.
\<close>

theorem session_signed:
  assumes "user p c q = Some member"
  shows "\<exists>payload signature expiry n. hq_cookie q = Some (payload @ ''.'' @ signature)
    \<and> b64_decode signature = Some (wp_hmac p (cf_SessionSecret c) payload)
    \<and> b64_decode payload = Some (member @ ''.'' @ expiry) \<and> sscan_int expiry = Inr n \<and> wp_clock p 0 \<le> from_unix n"
  using session_user_accepts [of "wp_hmac p" c "wp_clock p 0" "hq_cookie q" member] assms
  unfolding user_def by blast

theorem session_signed_witness:
  "\<exists>payload signature. signSession (\<lambda>k s. k @ s) ex_config ''7'' 5999999 = payload @ ''.'' @ signature
    \<and> b64_decode signature = Some (cf_SessionSecret ex_config @ payload)"
proof -
  let ?q = "ex_request ''GET'' ''/console'' (Some (signSession (\<lambda>k s. k @ s) ex_config ''7'' 5999999))"
  have t: "unix_seconds 5999999 = 946684805" by code_simp
  have f: "from_unix 946684805 = 5000000"
    using from_unix_floor [of 5999999] by (simp add: t us_defs)
  have "user (ex_platform 0) ex_config ?q = Some ''7''"
    using session_user_signSession [of "''7''" 5999999 "\<lambda>k s. k @ s" ex_config 0]
    by (simp add: f t user_def ex_request_def ex_platform_def us_defs)
  from session_signed [OF this] show ?thesis by (auto simp: ex_request_def ex_platform_def)
qed

section \<open>Login states\<close>

definition state_of :: "state_event \<Rightarrow> string" where
  "state_of x = (case x of Login s t \<Rightarrow> s | Callback s t \<Rightarrow> s)"

text \<open>What is stored for a state depends on the last event about it.\<close>

lemma state_run_Cons: "snd (state_run (x # xs) a) = snd (state_run xs (snd (state_step x a)))"
  by (simp add: Let_def split: prod.splits)

lemma state_run_append:
  "snd (state_run (xs @ [x]) a) = snd (state_step x (snd (state_run xs a)))"
  by (induction xs arbitrary: a) (simp_all add: state_run_Cons del: state_run.simps(2))

lemma state_stored:
  assumes "ap_states a s = None"
  shows "ap_states (snd (state_run xs a)) s = Some x \<longleftrightarrow>
    (\<exists>ys zs t. xs = ys @ Login s t # zs \<and> x = t + 10 * minute_us \<and> list_all (\<lambda>z. state_of z \<noteq> s) zs)"
proof (induction xs rule: rev_induct)
  case Nil
  then show ?case using assms by simp
next
  case (snoc e xs)
  let ?R = "\<lambda>xs. \<exists>ys zs t. xs = ys @ Login s t # zs \<and> x = t + 10 * minute_us \<and> list_all (\<lambda>z. state_of z \<noteq> s) zs"
  have later: "?R (xs @ [e]) \<longleftrightarrow> ?R xs" if "state_of e \<noteq> s"
  proof
    assume "?R (xs @ [e])"
    then obtain ys zs t where r: "xs @ [e] = ys @ Login s t # zs" "x = t + 10 * minute_us" "list_all (\<lambda>z. state_of z \<noteq> s) zs"
      by blast
    with that have "zs \<noteq> []" by (auto simp: state_of_def)
    then have "xs = ys @ Login s t # butlast zs" using r(1) by (metis butlast_append butlast_snoc butlast.simps(2) list.distinct(1))
    moreover have "list_all (\<lambda>z. state_of z \<noteq> s) (butlast zs)" using r(3) by (auto simp: list_all_iff dest: in_set_butlastD)
    ultimately show "?R xs" using r(2) by blast
  next
    assume "?R xs"
    then obtain ys zs t where "xs = ys @ Login s t # zs" "x = t + 10 * minute_us" "list_all (\<lambda>z. state_of z \<noteq> s) zs" by blast
    with that show "?R (xs @ [e])" by (intro exI [of _ ys] exI [of _ "zs @ [e]"]) simp
  qed
  have here: "?R (xs @ [e]) \<longleftrightarrow> (\<exists>t. e = Login s t \<and> x = t + 10 * minute_us)" if "state_of e = s"
  proof
    assume "?R (xs @ [e])"
    then obtain ys zs t where r: "xs @ [e] = ys @ Login s t # zs" "x = t + 10 * minute_us" "list_all (\<lambda>z. state_of z \<noteq> s) zs"
      by blast
    have "zs = []"
    proof (rule ccontr)
      assume "zs \<noteq> []"
      then have "last zs = e" using r(1) by (metis last_appendR last_ConsR last_snoc list.distinct(1))
      with r(3) \<open>zs \<noteq> []\<close> that show False by (auto simp: list_all_iff)
    qed
    with r show "\<exists>t. e = Login s t \<and> x = t + 10 * minute_us" by auto
  next
    assume "\<exists>t. e = Login s t \<and> x = t + 10 * minute_us"
    then show "?R (xs @ [e])" by (elim exE, intro exI [of _ xs] exI [of _ "[]"]) auto
  qed
  show ?case
  proof (cases "state_of e = s")
    case True
    with here show ?thesis
      by (cases e) (auto simp: state_run_append add_state_def consumeState_def state_of_def)
  next
    case False
    with later snoc.IH show ?thesis
      by (cases e) (auto simp: state_run_append add_state_def consumeState_def state_of_def)
  qed
qed

text \<open>
  C39. Login states are one-shot: in any sequence of logins and callbacks of a fresh
  application, a callback is accepted exactly when a login issued its state less than ten minutes
  before and no callback (accepted or not) or login has used the state since.
\<close>

theorem login_state_one_shot:
  assumes "NewApp c = Inr a"
  shows "fst (consumeState s now (snd (state_run events a))) \<longleftrightarrow>
    (\<exists>before after t. events = before @ Login s t # after \<and> now < t + 10 * minute_us
       \<and> list_all (\<lambda>e. state_of e \<noteq> s) after)"
proof -
  have "ap_states a s = None" using NewApp_Inr [OF assms] by blast
  note stored = state_stored [OF this, of events]
  have "fst (consumeState s now (snd (state_run events a))) \<longleftrightarrow>
      (\<exists>y. ap_states (snd (state_run events a)) s = Some y \<and> now < y)"
    by (simp add: consumeState_def split: option.splits)
  also have "\<dots> \<longleftrightarrow> (\<exists>before after t. events = before @ Login s t # after \<and> now < t + 10 * minute_us
       \<and> list_all (\<lambda>e. state_of e \<noteq> s) after)"
    unfolding stored by blast
  finally show ?thesis .
qed

theorem login_state_one_shot_witness:
  "\<exists>a. NewApp ex_config = Inr a \<and> fst (consumeState ''x'' 5 (snd (state_run [Login ''x'' 1, Login ''y'' 2] a)))
    \<and> \<not> fst (consumeState ''x'' 5 (snd (state_run [Login ''x'' 1, Callback ''x'' 2] a)))"
proof -
  obtain a where a: "NewApp ex_config = Inr a" by (simp add: NewApp_def ex_config_def)
  have "fst (consumeState ''x'' 5 (snd (state_run [Login ''x'' 1, Login ''y'' 2] a)))"
    unfolding login_state_one_shot [OF a]
    by (rule exI [of _ "[]"], rule exI [of _ "[Login ''y'' 2]"], rule exI [of _ 1]) (simp add: state_of_def us_defs)
  moreover have "\<not> fst (consumeState ''x'' 5 (snd (state_run [Login ''x'' 1, Callback ''x'' 2] a)))"
    unfolding login_state_one_shot [OF a]
    by (auto simp: Cons_eq_append_conv state_of_def)
  ultimately show ?thesis using a by blast
qed

section \<open>Migrations\<close>

lemma baseline_ok:
  assumes "baseline fault sql d = (Inr (), d')" and "distinct (applied_versions d)"
  shows "distinct (applied_versions d') \<and> set (applied_versions d) \<subseteq> set (applied_versions d')"
proof -
  have ins: "distinct (applied_versions d2) \<and> set (applied_versions d1) \<subseteq> set (applied_versions d2)"
    if "mig_wrap t (mig_call fault (insert_version v)) d1 = (Inr x, d2)" "distinct (applied_versions d1)"
    for t v d1 d2 and x :: unit
  proof -
    from that(1) have "mig_call fault (insert_version v) d1 = (Inr x, d2)"
      by (auto simp: mig_wrap_def wrap_err_def split: prod.splits sum.splits)
    then obtain d3 where "insert_version v d1 = Inr (x, d3)" "d2 = d3\<lparr>mg_calls := mg_calls d1 + 1\<rparr>"
      by (rule mig_call_InrE)
    then show ?thesis using that(2) by (auto elim!: insert_version_InrE simp: applied_versions_def)
  qed
  have frame: "applied_versions d2 = applied_versions d1"
    if "mig_call fault (\<lambda>d. Inr (f d, d)) d1 = (Inr x, d2)" for f d1 d2 and x :: bool
    using that by (auto elim!: mig_call_InrE)
  from assms(1) obtain existing d1 where
    c: "mig_call fault (\<lambda>d. Inr (sq_has_servers sql (mg_schema d), d)) d = (Inr existing, d1)"
    and r: "(if \<not> existing then (\<lambda>d. (Inr (), d))
       else mig_bind (mig_wrap ''baseline existing schema: '' (mig_call fault (insert_version 1))) (\<lambda>_.
         mig_bind (mig_call fault (\<lambda>d. Inr (sq_has_rollups sql (mg_schema d), d))) (\<lambda>hasRollups.
           if hasRollups then mig_wrap ''baseline retention schema: '' (mig_call fault (insert_version 2))
           else (\<lambda>d. (Inr (), d))))) d1 = (Inr (), d')"
    unfolding baseline_def by (rule mig_bind_InrE)
  note f1 = frame [OF c]
  show ?thesis
  proof (cases existing)
    case False
    with r f1 assms(2) show ?thesis by simp
  next
    case True
    with r obtain x d2 where i1: "mig_wrap ''baseline existing schema: '' (mig_call fault (insert_version 1)) d1 = (Inr x, d2)"
      and r2: "mig_bind (mig_call fault (\<lambda>d. Inr (sq_has_rollups sql (mg_schema d), d))) (\<lambda>hasRollups.
           if hasRollups then mig_wrap ''baseline retention schema: '' (mig_call fault (insert_version 2))
           else (\<lambda>d. (Inr (), d))) d2 = (Inr (), d')"
      by (simp add: mig_bind_def split: prod.splits sum.splits)
    from r2 obtain y d3 where c2: "mig_call fault (\<lambda>d. Inr (sq_has_rollups sql (mg_schema d), d)) d2 = (Inr y, d3)"
      and r3: "(if y then mig_wrap ''baseline retention schema: '' (mig_call fault (insert_version 2))
           else (\<lambda>d. (Inr (), d))) d3 = (Inr (), d')" by (rule mig_bind_InrE)
    have k2: "distinct (applied_versions d2) \<and> set (applied_versions d) \<subseteq> set (applied_versions d2)"
      using ins [OF i1] f1 assms(2) by simp
    note f3 = frame [OF c2]
    show ?thesis
    proof (cases y)
      case True
      with r3 ins [of "''baseline retention schema: ''" 2 d3 "()" d'] f3 k2 show ?thesis by auto
    next
      case False
      with r3 f3 k2 show ?thesis by simp
    qed
  qed
qed

lemma apply_files_valid:
  "apply_files fault sql quote fs d = (Inr (), d') \<Longrightarrow>
     list_all (\<lambda>f. mf_dir f \<or> \<not> has_suffix ''.sql'' (mf_name f) \<or>
       (\<exists>v. versionOf quote (mf_name f) = Inr v \<and> int4 v)) fs"
proof (induction fs arbitrary: d)
  case (Cons f fs)
  show ?case
  proof (cases "mf_dir f \<or> \<not> has_suffix ''.sql'' (mf_name f)")
    case True
    with Cons.prems Cons.IH show ?thesis by auto
  next
    case False
    with Cons.prems obtain v where v: "versionOf quote (mf_name f) = Inr v" by (auto split: sum.splits)
    from False v Cons.prems obtain ap d1 where
      c: "mig_call fault (\<lambda>d. if int4 v then Inr (v \<in> set (applied_versions d), d) else Inl OutOfRange) d = (Inr ap, d1)"
      and rest: "(if ap then apply_files fault sql quote fs
          else mig_bind (apply_file fault sql f v) (\<lambda>_. apply_files fault sql quote fs)) d1 = (Inr (), d')"
      by (auto elim!: mig_bind_InrE)
    from c have "int4 v" by (auto elim!: mig_call_InrE split: if_splits)
    moreover obtain d2 where "apply_files fault sql quote fs d2 = (Inr (), d')"
      using rest by (cases ap) (auto elim!: mig_bind_InrE)
    ultimately show ?thesis using v Cons.IH by auto
  qed
qed simp

lemma wanted_valid:
  assumes "list_all (\<lambda>f. mf_dir f \<or> \<not> has_suffix ''.sql'' (mf_name f) \<or>
      (\<exists>v. versionOf quote (mf_name f) = Inr v \<and> int4 v)) fs" and "set (wanted quote fs) \<subseteq> V"
  shows "list_all (\<lambda>f. mf_dir f \<or> \<not> has_suffix ''.sql'' (mf_name f) \<or>
      (\<exists>v. versionOf quote (mf_name f) = Inr v \<and> int4 v \<and> v \<in> V)) fs"
  using assms by (fastforce simp: list_all_iff wanted_def split: sum.splits)

lemma wanted_sort: "set (wanted quote (sort_key k fs)) = set (wanted quote fs)"
  by (auto simp: wanted_def)

lemma ApplyMigrations_InrE:
  assumes "ApplyMigrations fault sql quote files d = (Inr (), d')"
  obtains d1 d2 and n :: nat where "applied_versions d1 = applied_versions d"
    and "(if n = 0 then baseline fault sql else (\<lambda>d. (Inr (), d))) d1 = (Inr (), d2)"
    and "apply_files fault sql quote (sort_key mf_name files) d2 = (Inr (), d')"
proof -
  from assms obtain x d0 where
    a: "mig_wrap ''create migration table: '' (mig_call fault (\<lambda>d. Inr ((), d\<lparr>mg_versions := Some (applied_versions d)\<rparr>))) d = (Inr x, d0)"
    and b: "mig_bind (mig_call fault (\<lambda>d. Inr (length (applied_versions d), d))) (\<lambda>count.
       mig_bind (if count = 0 then baseline fault sql else (\<lambda>d. (Inr (), d))) (\<lambda>_.
       apply_files fault sql quote (sort_key mf_name files))) d0 = (Inr (), d')"
    unfolding ApplyMigrations_def by (rule mig_bind_InrE)
  from b obtain n d1 where c: "mig_call fault (\<lambda>d. Inr (length (applied_versions d), d)) d0 = (Inr n, d1)"
    and e: "mig_bind (if n = 0 then baseline fault sql else (\<lambda>d. (Inr (), d))) (\<lambda>_.
       apply_files fault sql quote (sort_key mf_name files)) d1 = (Inr (), d')" by (rule mig_bind_InrE)
  from e obtain y d2 where f: "(if n = 0 then baseline fault sql else (\<lambda>d. (Inr (), d))) d1 = (Inr y, d2)"
    and g: "apply_files fault sql quote (sort_key mf_name files) d2 = (Inr (), d')" by (rule mig_bind_InrE)
  have "mig_call fault (\<lambda>d. Inr ((), d\<lparr>mg_versions := Some (applied_versions d)\<rparr>)) d = (Inr x, d0)"
    using a by (auto simp: mig_wrap_def wrap_err_def split: prod.splits sum.splits)
  then have "applied_versions d0 = applied_versions d" by (auto elim!: mig_call_InrE simp: applied_versions_def)
  moreover have "applied_versions d1 = applied_versions d0" using c by (auto elim!: mig_call_InrE)
  ultimately show ?thesis using that [of d1 n d2] f g by simp
qed

text \<open>
  C40. A successful run of the migrations has recorded every migration, once, and lost none; a
  further run without failures then does nothing: it succeeds and leaves the schema and the
  recorded versions as they are.
\<close>

theorem migrations_idempotent:
  assumes "ApplyMigrations fault sql quote files d = (Inr (), d')" and "distinct (applied_versions d)"
    and "applied_versions d' \<noteq> []"
  shows "distinct (applied_versions d') \<and> set (applied_versions d) \<union> set (wanted quote files) \<subseteq> set (applied_versions d')
    \<and> (\<exists>d''. ApplyMigrations (\<lambda>_. None) sql quote files d' = (Inr (), d'')
        \<and> mg_schema d'' = mg_schema d' \<and> applied_versions d'' = applied_versions d')"
  using assms(1)
proof (rule ApplyMigrations_InrE)
  fix d1 d2 and n :: nat assume 1: "applied_versions d1 = applied_versions d"
    and 2: "(if n = 0 then baseline fault sql else (\<lambda>d. (Inr (), d))) d1 = (Inr (), d2)"
    and 3: "apply_files fault sql quote (sort_key mf_name files) d2 = (Inr (), d')"
  have b: "distinct (applied_versions d2) \<and> set (applied_versions d) \<subseteq> set (applied_versions d2)"
    using 2 baseline_ok [of fault sql d1 d2] 1 assms(2) by (cases "n = 0") simp_all
  have v: "distinct (applied_versions d')"
    "set (applied_versions d') = set (applied_versions d2) \<union> set (wanted quote files)"
    using apply_files_ok [OF 3] b wanted_sort by auto
  let ?e = "d'\<lparr>mg_versions := Some (applied_versions d'), mg_calls := mg_calls d' + 2\<rparr>"
  have e: "applied_versions ?e = applied_versions d'" by (simp add: applied_versions_def)
  have "set (wanted quote (sort_key mf_name files)) \<subseteq> set (applied_versions ?e)" by (simp only: wanted_sort e v(2)) simp
  note again = apply_files_done [OF wanted_valid [OF apply_files_valid [OF 3] this], of sql]
  define d'' where "d'' = snd (apply_files (\<lambda>_. None) sql quote (sort_key mf_name files) ?e)"
  have r: "apply_files (\<lambda>_. None) sql quote (sort_key mf_name files) ?e = (Inr (), d'')"
    using again by (simp add: d''_def prod_eq_iff)
  have f: "mg_schema d'' = mg_schema d'" "mg_versions d'' = Some (applied_versions d')"
    using again by (simp_all add: d''_def)
  have "ApplyMigrations (\<lambda>_. None) sql quote files d' = apply_files (\<lambda>_. None) sql quote (sort_key mf_name files) ?e"
    using assms(3) by (simp add: ApplyMigrations_def mig_bind_def mig_wrap_def mig_call_def wrap_err_def applied_versions_def)
  then have "ApplyMigrations (\<lambda>_. None) sql quote files d' = (Inr (), d'')" by (simp only: r)
  moreover have "applied_versions d'' = applied_versions d'" using f(2) by (simp add: applied_versions_def)
  moreover have "set (applied_versions d) \<union> set (wanted quote files) \<subseteq> set (applied_versions d')" using v(2) b by auto
  ultimately show ?thesis using v(1) f(1) by blast
qed

definition ex_files :: "MigFile list" where
  "ex_files = [\<lparr>mf_name = ''0002_b.sql'', mf_dir = False, mf_source = ''B''\<rparr>,
     \<lparr>mf_name = ''0001_a.sql'', mf_dir = False, mf_source = ''A''\<rparr>, \<lparr>mf_name = ''embed.go'', mf_dir = False, mf_source = []\<rparr>]"

definition ex_sql :: "string Sql" where
  "ex_sql = \<lparr>sq_run = (\<lambda>t s. Inr (s @ t)), sq_has_servers = (\<lambda>s. s \<noteq> []), sq_has_rollups = (\<lambda>s. False)\<rparr>"

definition ex_fresh :: "string MigDB" where
  "ex_fresh = \<lparr>mg_schema = [], mg_versions = None, mg_calls = 0\<rparr>"

theorem migrations_idempotent_witness:
  "\<exists>d' d''. ApplyMigrations (\<lambda>_. None) ex_sql (\<lambda>s. s) ex_files ex_fresh = (Inr (), d') \<and> mg_schema d' = ''AB''
    \<and> ApplyMigrations (\<lambda>_. None) ex_sql (\<lambda>s. s) ex_files d' = (Inr (), d'') \<and> mg_schema d'' = ''AB''"
proof -
  let ?r = "ApplyMigrations (\<lambda>_. None) ex_sql (\<lambda>s. s) ex_files ex_fresh"
  have "(case fst ?r of Inl _ \<Rightarrow> False | Inr _ \<Rightarrow> True)" "mg_schema (snd ?r) = ''AB''" "applied_versions (snd ?r) = [1, 2]"
    by code_simp+
  then obtain d' where r: "?r = (Inr (), d')" and s: "mg_schema d' = ''AB''" and v: "applied_versions d' = [1, 2]"
    by (cases "fst ?r") (auto simp: prod_eq_iff)
  have "distinct (applied_versions ex_fresh)" "applied_versions d' \<noteq> []" using v by (simp_all add: ex_fresh_def applied_versions_def)
  from migrations_idempotent [OF r this] r s show ?thesis by auto
qed

end
