(* ===== verification/Spec2Isabelle.thy ===== *)
theory Spec2Isabelle
  imports Prelude Domain Policy Instants Crowd Database Signals Listing Checks CheckFacts
    Reports ReportFacts Calendar Rollup Retention RetentionFacts Servers ServerFacts
    Bytes GoText VarInt Minecraft Tunnel Http Integration Worker
    DiscordTexts Discord DiscordBot Base64 WebAuth Web WebFacts System Delivery Migrate Main_Process
    Example StatusProps Departures SystemProps WireProps ReportProps RetentionProps AccessProps
begin

text \<open>
  VoxelLink Monitor watches Minecraft servers: a \<^bold>\<open>worker\<close> pings them, derives a public
  status and incidents, rolls old data up and tells Discord; an \<^bold>\<open>API\<close> process shows the
  status page, takes anonymous reports of players and lets server members change settings; a
  Discord \<^bold>\<open>bot\<close> answers commands; a \<^bold>\<open>migrate\<close> process prepares the schema. All share
  one PostgreSQL database. This development models these four processes and that database.

  \<^bold>\<open>Modelling.\<close> Go values are records and datatypes; \<open>int\<close> is a 64-bit word where it
  can overflow (\<open>varInt\<close>) and an integer with the column's range checked where it is
  stored; a returned \<open>error\<close> is \<open>Inl\<close> of the type \<open>err\<close>. Instants are microseconds
  since 2000-01-01 UTC. An operation of \<open>internal/store/postgres.go\<close> is a function of an
  environment \<open>pgenv\<close> (time of the transaction, a fresh uuid, the parser of uuid texts, the
  collation, and which statements fail) and the database, and runs its statements in order in a
  transaction monad: any statement may fail, a failed one aborts the transaction, and only a
  commit publishes its work. The network, \<open>encoding/json\<close>, HMAC and SHA, \<open>url.Parse\<close>,
  \<open>%q\<close>, \<open>cloudflared\<close> and the Discord session are arguments, and the theorems hold
  for all of them.

  \<^bold>\<open>Theories.\<close>
  \<^item> \<open>Prelude\<close> (errors, shared lemmas), \<open>Domain\<close> (\<open>internal/domain/types.go\<close>),
    \<open>Instants\<close>, \<open>Calendar\<close> (the dates of the queries and of Go's layouts), \<open>Bytes\<close>,
    \<open>GoText\<close>, \<open>Http\<close>, \<open>Base64\<close> (what the code uses of Go's standard library).
  \<^item> \<open>Database\<close>: the tables of \<open>migrations/*.sql\<close>, their constraints, transactions.
  \<^item> \<open>Policy\<close>: the status contract of \<open>docs/v1-requirements.md\<close>, the interface
    \<open>v1_policy\<close> of anything that keeps a status by it, and \<open>internal/incident/machine.go\<close>.
  \<^item> \<open>Crowd\<close>, \<open>Signals\<close> (\<open>internal/crowd/crowd.go\<close>, \<open>crowdSignal\<close>), \<open>Listing\<close>
    (\<open>EnabledServers\<close>), \<open>Checks\<close> (\<open>RecordCheck\<close>, \<open>stateAfter\<close>), \<open>Reports\<close>
    (\<open>RecordUserReport\<close>, the notification queue), \<open>Rollup\<close> and \<open>Retention\<close>
    (\<open>RunRetention\<close>), \<open>Servers\<close> (imports, snapshots, uptime, members and settings), with
    their lemmas in \<open>CheckFacts\<close>, \<open>ReportFacts\<close>, \<open>RetentionFacts\<close>,
    \<open>ServerFacts\<close>.
  \<^item> \<open>VarInt\<close>, \<open>Minecraft\<close> (\<open>internal/minecraft/java.go\<close>), \<open>Tunnel\<close>
    (\<open>internal/transport/tunnel.go\<close>), \<open>Worker\<close> (\<open>internal/monitor/worker.go\<close>),
    \<open>Integration\<close> (\<open>internal/integration\<close>), \<open>Discord\<close> with \<open>DiscordTexts\<close>
    and \<open>DiscordBot\<close> (\<open>internal/discord/discord.go\<close>), \<open>WebAuth\<close>, \<open>Web\<close>, \<open>WebFacts\<close>
    (\<open>internal/web/app.go\<close>), \<open>Migrate\<close> (\<open>internal/migrate/migrate.go\<close>),
    \<open>Main_Process\<close> (\<open>cmd/monitor/main.go\<close>: roles, configuration, each process from its
    start to its end, and \<open>store.Connect\<close>).
  \<^item> \<open>System\<close>: the processes wired to the database as \<open>main\<close> does it, and
    \<open>db_step\<close>, one call of any of them; \<open>Delivery\<close>: what a dispatch of notifications
    does on it.

  \<^bold>\<open>Interfaces.\<close> Each Go interface the code programs against is a record of operations, and
  what its client relies on is a locale, interpreted on the database model: \<open>byte_reader\<close>
  (\<open>io.ByteReader\<close>), \<open>v1_policy\<close> (interpreted by the machine and by the store),
  \<open>rollup_law\<close> (four roll-ups), \<open>monitor_world\<close>, \<open>bot_world\<close> and its
  extension \<open>bot_process\<close>, \<open>web_world\<close>, \<open>import_world\<close> (worker, bot, API, importer).

  \<^bold>\<open>Properties.\<close> \<open>StatusProps\<close>: the store follows the contract over any sequence of
  checks and agrees with the machine; \<open>RecordCheck\<close> as one equation, all or nothing;
  incidents. \<open>Departures\<close>: where the running system departs from the contract (the
  confirmation retries of one pass confirm nothing; crowd signals and probe errors during an
  outage). \<open>SystemProps\<close>: invariants of every reachable database, incidents as a ledger,
  delivery of notifications. \<open>WireProps\<close>: round trips of the wire format, what a success
  proves, the tunnel. \<open>ReportProps\<close>, \<open>RetentionProps\<close>, \<open>AccessProps\<close>: reports,
  retention, and who may change what.

  \<^bold>\<open>Bounds.\<close> No fuel is used: loops are structural or have measures; \<open>varInt\<close>, which
  need not return, is a partial function with the theorem on which arguments it returns; the
  wait for the tunnel reads a list of rounds and is \<open>None\<close> while none of them ends it. Host
  names are assumed shorter than \<open>2 ^ 31\<close> bytes.

  \<^bold>\<open>Not modelled.\<close> HTML templates (a page is the data given to its template) and logging; \<open>ServeMux\<close>'s redirect of unclean paths; values a sequence skips; the
  truncation of Go's nanoseconds to microseconds (an instant of a check is the stored one);
  non-UTC session time zones; two transactions that overlap (each operation is one step, so
  \<open>READ COMMITTED\<close> anomalies are outside the model). The average of at most four daily counts
  is a rational instead of a \<open>float64\<close>, on which the ceiling agrees.
\<close>

end
